(* ===== verification/Prelude.thy ===== *)
theory Prelude
  imports Main "HOL-Library.Sublist" "HOL-Library.Multiset"
begin

text \<open>
  What every other theory of the development uses: the result type of a fallible Go function
  and its chaining, and the loop shapes that recur in the code (a loop that normalises each
  element and rejects a repeated one, an insertion sort for \<open>sort.Strings\<close> and
  \<open>sort.Slice\<close>), each with the facts about it that the component proofs share.
\<close>

named_theorems result_simps \<open>rewriting of chained fallible computations\<close>
named_theorems scan_intros \<open>facts about loops that normalise and reject repetitions\<close>

section \<open>Fallible computations\<close>

text \<open>
  A Go function that returns \<open>(value, error)\<close> returns \<open>Inr value\<close> when the error is nil and
  \<open>Inl error\<close> otherwise; a nil pointer is \<open>None\<close>.
\<close>

definition and_then :: "'e + 'a \<Rightarrow> ('a \<Rightarrow> 'e + 'b) \<Rightarrow> 'e + 'b" where
  "and_then r f = (case r of Inl e \<Rightarrow> Inl e | Inr x \<Rightarrow> f x)"

lemma and_then_Inl [simp, result_simps]: "and_then (Inl e) f = Inl e"
  by (simp add: and_then_def)

lemma and_then_Inr [simp, result_simps]: "and_then (Inr x) f = f x"
  by (simp add: and_then_def)

lemma and_then_eq_Inr [result_simps]:
  "and_then r f = Inr y \<longleftrightarrow> (\<exists>x. r = Inr x \<and> f x = Inr y)"
  by (cases r) simp_all

lemma and_then_eq_Inl [result_simps]:
  "and_then r f = Inl e \<longleftrightarrow> r = Inl e \<or> (\<exists>x. r = Inr x \<and> f x = Inl e)"
  by (cases r) simp_all

lemma case_Inr_exists: "(case r of Inl _ \<Rightarrow> False | Inr x \<Rightarrow> P x) \<Longrightarrow> \<exists>x. r = Inr x \<and> P x"
  by (cases r) simp_all

definition of_option :: "'e \<Rightarrow> 'a option \<Rightarrow> 'e + 'a" where
  "of_option e x = (case x of None \<Rightarrow> Inl e | Some v \<Rightarrow> Inr v)"

lemma of_option_simps [simp, result_simps]:
  "of_option e None = Inl e" "of_option e (Some v) = Inr v"
  by (simp_all add: of_option_def)

lemma of_option_eq_Inr [result_simps]: "of_option e x = Inr v \<longleftrightarrow> x = Some v"
  by (cases x) simp_all

fun map_result :: "('a \<Rightarrow> 'e + 'b) \<Rightarrow> 'a list \<Rightarrow> 'e + 'b list" where
  "map_result f [] = Inr []"
| "map_result f (x # xs) =
     and_then (f x) (\<lambda>y. and_then (map_result f xs) (\<lambda>ys. Inr (y # ys)))"

lemma map_result_Inr_list_all2:
  "map_result f xs = Inr ys \<longleftrightarrow> list_all2 (\<lambda>x y. f x = Inr y) xs ys"
proof (induction xs arbitrary: ys)
  case Nil
  show ?case by auto
next
  case (Cons x xs)
  show ?case by (cases ys) (auto simp: result_simps Cons.IH)
qed

lemma map_result_length: "map_result f xs = Inr ys \<Longrightarrow> length ys = length xs"
  by (simp add: map_result_Inr_list_all2 list_all2_lengthD)

section \<open>The loop that normalises and rejects a repeated value\<close>

text \<open>
  Several handlers run the same loop: trim the element, refuse it when it is malformed or was
  seen before, and store it. \<open>scan_unique\<close> is that loop, with the normalisation, the check and
  the error as parameters; \<open>seen\<close> is the Go set of the values stored so far.
\<close>

fun scan_unique :: "'e \<Rightarrow> ('a \<Rightarrow> 'b) \<Rightarrow> ('b \<Rightarrow> bool) \<Rightarrow> 'b list \<Rightarrow> 'a list \<Rightarrow> 'e + 'b list" where
  "scan_unique e norm ok seen [] = Inr []"
| "scan_unique e norm ok seen (x # xs) =
     (let y = norm x in
      if \<not> ok y then Inl e
      else if y \<in> set seen then Inl e
      else and_then (scan_unique e norm ok (y # seen) xs) (\<lambda>ys. Inr (y # ys)))"

lemma scan_unique_Inr_iff:
  "scan_unique e norm ok seen xs = Inr ys \<longleftrightarrow>
     ys = map norm xs \<and> distinct ys \<and> (\<forall>y\<in>set ys. ok y) \<and> set ys \<inter> set seen = {}"
proof (induction xs arbitrary: seen ys)
  case Nil
  show ?case by auto
next
  case (Cons x xs)
  show ?case
  proof (cases "\<not> ok (norm x) \<or> norm x \<in> set seen")
    case True
    then show ?thesis by (auto simp: Let_def)
  next
    case False
    then show ?thesis
      by (simp add: Let_def result_simps Cons.IH) (fastforce simp: image_iff)
  qed
qed

lemma scan_unique_map [scan_intros]: "scan_unique e norm ok seen xs = Inr ys \<Longrightarrow> ys = map norm xs"
  by (simp add: scan_unique_Inr_iff)

lemma scan_unique_distinct [scan_intros]: "scan_unique e norm ok seen xs = Inr ys \<Longrightarrow> distinct ys"
  unfolding scan_unique_Inr_iff by (elim conjE)

lemma scan_unique_ok [scan_intros]:
  "scan_unique e norm ok seen xs = Inr ys \<Longrightarrow> y \<in> set ys \<Longrightarrow> ok y"
  by (simp add: scan_unique_Inr_iff)

lemma scan_unique_error:
  "scan_unique e norm ok seen xs = Inl e' \<Longrightarrow> e' = e"
  by (induction xs arbitrary: seen) (auto simp: Let_def result_simps split: if_splits)

text \<open>Running the loop on its own output gives that output again when the normalisation is
  idempotent: a request that passed once passes unchanged the second time.\<close>

lemma scan_unique_idem:
  assumes "scan_unique e norm ok [] xs = Inr ys" and "\<And>y. norm (norm y) = norm y"
  shows "scan_unique e norm ok [] ys = Inr ys"
  using assms by (auto simp: scan_unique_Inr_iff)

section \<open>Sorting\<close>

text \<open>
  Go's \<open>sort.Strings\<close> and \<open>sort.Slice\<close> leave the slice in an order given by a comparison; where
  the keys are distinct the result is determined. Insertion sort by a key is that result.
\<close>

fun insert_by :: "('a \<Rightarrow> 'k::linorder) \<Rightarrow> 'a \<Rightarrow> 'a list \<Rightarrow> 'a list" where
  "insert_by f x [] = [x]"
| "insert_by f x (y # ys) = (if f x \<le> f y then x # y # ys else y # insert_by f x ys)"

fun sort_by :: "('a \<Rightarrow> 'k::linorder) \<Rightarrow> 'a list \<Rightarrow> 'a list" where
  "sort_by f [] = []"
| "sort_by f (x # xs) = insert_by f x (sort_by f xs)"

lemma mset_insert_by [simp]: "mset (insert_by f x ys) = add_mset x (mset ys)"
  by (induction ys) auto

lemma mset_sort_by [simp]: "mset (sort_by f xs) = mset xs"
  by (induction xs) auto

lemma set_sort_by [simp]: "set (sort_by f xs) = set xs"
  by (metis mset_sort_by set_mset_mset)

lemma length_sort_by [simp]: "length (sort_by f xs) = length xs"
  by (metis mset_sort_by size_mset)

lemma distinct_map_sort_by [simp]: "distinct (map g (sort_by f xs)) = distinct (map g xs)"
  by (rule mset_eq_imp_distinct_iff) simp

lemma set_insert_by [simp]: "set (insert_by f x ys) = insert x (set ys)"
  by (metis mset_insert_by set_mset_add_mset_insert set_mset_mset)

lemma sorted_insert_by: "sorted (map f (insert_by f x ys)) = sorted (map f ys)"
  by (induction ys) auto

lemma sorted_sort_by: "sorted (map f (sort_by f xs))"
  by (induction xs) (auto simp: sorted_insert_by)

text \<open>With distinct keys the sorted list depends on the elements only, not on their order.\<close>

lemma sorted_by_unique:
  assumes "mset xs = mset ys" "sorted (map f xs)" "sorted (map f ys)" "inj_on f (set xs)"
  shows "xs = ys"
proof -
  have "mset (map f xs) = mset (map f ys)" using assms(1) by simp
  then have "map f xs = map f ys"
    using assms(2,3) by (metis properties_for_sort sorted_sort_id)
  moreover have "set xs = set ys" using assms(1) by (rule mset_eq_setD)
  ultimately show ?thesis using assms(4) by (simp add: map_inj_on)
qed

lemma sort_by_perm:
  assumes "mset xs = mset ys" "inj_on f (set xs)"
  shows "sort_by f xs = sort_by f ys"
  by (rule sorted_by_unique) (use assms in \<open>auto simp: sorted_sort_by\<close>)

section \<open>Association lists as Go maps\<close>

text \<open>
  A Go map whose iteration order the code does not use is kept as an association list of
  distinct keys: \<open>assoc_update\<close> replaces the value at its key or appends a new pair.
\<close>

fun assoc_update :: "'k \<Rightarrow> 'v \<Rightarrow> ('k \<times> 'v) list \<Rightarrow> ('k \<times> 'v) list" where
  "assoc_update k v [] = [(k, v)]"
| "assoc_update k v ((k', v') # m) =
     (if k = k' then (k, v) # m else (k', v') # assoc_update k v m)"

lemma map_of_assoc_update [simp]: "map_of (assoc_update k v m) = (map_of m)(k \<mapsto> v)"
  by (induction m) (auto simp: fun_eq_iff)

lemma set_assoc_update: "set (assoc_update k v m) \<subseteq> insert (k, v) (set m)"
  by (induction m) (auto split: if_splits)

lemma set_map_values:
  assumes "distinct (map fst h)"
  shows "set (map (\<lambda>(_, v). f v) h) = {y. \<exists>k. map_option f (map_of h k) = Some y}"
proof -
  have "y \<in> set (map (\<lambda>(_, v). f v) h) \<longleftrightarrow> (\<exists>k v. (k, v) \<in> set h \<and> f v = y)" for y
    by (auto simp: image_iff) (metis (no_types, lifting) case_prod_conv)
  then show ?thesis
    using assms by (auto simp: map_of_eq_Some_iff)
qed

lemma keys_assoc_update [simp]: "fst ` set (assoc_update k v m) = insert k (fst ` set m)"
  by (induction m) (force split: if_splits)+

lemma distinct_assoc_update [simp]:
  "distinct (map fst m) \<Longrightarrow> distinct (map fst (assoc_update k v m))"
proof (induction m)
  case Nil
  show ?case by simp
next
  case (Cons p m)
  obtain k' v' where p: "p = (k', v')" by (cases p)
  have "set (map fst (assoc_update k v m)) = insert k (set (map fst m))"
    by simp
  with Cons p show ?case by auto
qed

section \<open>Slices\<close>

text \<open>The slices \<open>xs[start:end]\<close> of a loop with a fixed stride.\<close>

function chunksOf :: "nat \<Rightarrow> 'a list \<Rightarrow> 'a list list" where
  "chunksOf n xs = (if n = 0 \<or> xs = [] then [] else take n xs # chunksOf n (drop n xs))"
  by pat_completeness auto
termination by (relation "measure (\<lambda>(n, xs). length xs)") auto

declare chunksOf.simps [simp del]

lemma concat_chunksOf: "0 < n \<Longrightarrow> concat (chunksOf n xs) = xs"
proof (induction n xs rule: chunksOf.induct)
  case (1 n xs)
  then show ?case by (subst chunksOf.simps) simp
qed

end
