(* ===== verification/Go_Strings.thy ===== *)
theory Go_Strings
  imports Prelude "HOL-Library.Char_ord" "HOL-Library.List_Lexorder"
begin

text \<open>
  The parts of Go's \<open>strings\<close>, \<open>unicode\<close>, \<open>strconv\<close> and \<open>regexp\<close> that the program uses. A Go
  string is a sequence of bytes, and so is an Isabelle \<open>string\<close>: \<open>len\<close> is \<open>length\<close>, a
  comparison is the lexicographic order on bytes. Thai text is its UTF-8 bytes.
  \<open>to_upper\<close> and \<open>to_lower\<close> change the ASCII letters, which is what Go does to every text
  whose other code points have no case (Thai among them).
\<close>

named_theorems string_simps \<open>facts about trimmed and numeric strings\<close>

section \<open>White space\<close>

text \<open>The UTF-8 encodings of the code points that \<open>unicode.IsSpace\<close> accepts.\<close>

definition ascii_space :: "char \<Rightarrow> bool" where
  "ascii_space c \<longleftrightarrow> c = CHR '' '' \<or> c = CHR 0x09 \<or> c = CHR 0x0A \<or> c = CHR 0x0B \<or> c = CHR 0x0C
     \<or> c = CHR 0x0D"

definition wide_spaces :: "string list" where
  "wide_spaces =
     [[CHR 0xC2, CHR 0x85], [CHR 0xC2, CHR 0xA0], [CHR 0xE1, CHR 0x9A, CHR 0x80],
      [CHR 0xE2, CHR 0x80, CHR 0x80], [CHR 0xE2, CHR 0x80, CHR 0x81], [CHR 0xE2, CHR 0x80, CHR 0x82],
      [CHR 0xE2, CHR 0x80, CHR 0x83], [CHR 0xE2, CHR 0x80, CHR 0x84], [CHR 0xE2, CHR 0x80, CHR 0x85],
      [CHR 0xE2, CHR 0x80, CHR 0x86], [CHR 0xE2, CHR 0x80, CHR 0x87], [CHR 0xE2, CHR 0x80, CHR 0x88],
      [CHR 0xE2, CHR 0x80, CHR 0x89], [CHR 0xE2, CHR 0x80, CHR 0x8A], [CHR 0xE2, CHR 0x80, CHR 0xA8],
      [CHR 0xE2, CHR 0x80, CHR 0xA9], [CHR 0xE2, CHR 0x80, CHR 0xAF], [CHR 0xE2, CHR 0x81, CHR 0x9F],
      [CHR 0xE3, CHR 0x80, CHR 0x80]]"

text \<open>The bytes of the space that the text starts with, \<open>0\<close> when it starts with none; the list
  \<open>ws\<close> holds the encodings that are not a single ASCII byte.\<close>

fun space_len :: "string list \<Rightarrow> string \<Rightarrow> nat" where
  "space_len ws [] = 0"
| "space_len ws (c # s) =
     (if ascii_space c then 1
      else if of_char c < (128::nat) then 0
      else (case find (\<lambda>w. prefix w (c # s)) ws of None \<Rightarrow> 0 | Some w \<Rightarrow> length w))"

function trim_front :: "string list \<Rightarrow> string \<Rightarrow> string" where
  "trim_front ws s = (let n = space_len ws s in if n = 0 then s else trim_front ws (drop n s))"
  by pat_completeness auto
termination
proof (relation "measure (\<lambda>(ws, s). length s)", simp, goal_cases)
  case (1 ws s)
  then show ?case by (cases s) auto
qed

declare trim_front.simps [simp del]

text \<open>\<open>strings.TrimSpace\<close>: spaces are cut from the front, then from the end (the text and the
  encodings reversed).\<close>

definition trim_space :: "string \<Rightarrow> string" where
  "trim_space s =
     (let t = trim_front wide_spaces s
      in rev (trim_front (map rev wide_spaces) (rev t)))"


definition solid :: "char \<Rightarrow> bool" where
  "solid c \<longleftrightarrow> \<not> ascii_space c \<and> of_char c < (128::nat)"

lemma trim_front_id: "space_len ws s = 0 \<Longrightarrow> trim_front ws s = s"
  by (simp add: trim_front.simps)

lemma space_len_trim_front: "space_len ws (trim_front ws s) = 0"
proof (induction ws s rule: trim_front.induct)
  case (1 ws s)
  show ?case
    by (cases "space_len ws s = 0") (simp_all add: trim_front.simps [of ws s] 1)
qed

lemma suffix_trim_front: "suffix (trim_front ws s) s"
proof (induction ws s rule: trim_front.induct)
  case (1 ws s)
  show ?case
  proof (cases "space_len ws s = 0")
    case True
    then show ?thesis by (simp add: trim_front_id)
  next
    case False
    then have "suffix (trim_front ws (drop (space_len ws s) s)) (drop (space_len ws s) s)"
      by (rule 1 [OF refl])
    with False show ?thesis
      by (simp add: trim_front.simps [of ws s] suffix_order.trans [OF _ suffix_drop])
  qed
qed

text \<open>A prefix of a text that starts with no space starts with none.\<close>

lemma space_len_prefix:
  assumes "\<forall>w\<in>set ws. w \<noteq> []" "space_len ws t = 0" "prefix u t"
  shows "space_len ws u = 0"
proof (cases u)
  case Nil
  then show ?thesis by simp
next
  case (Cons c u')
  with assms(3) obtain t' where t: "t = c # t'" "prefix u' t'" by (cases t) auto
  have "\<not> ascii_space c" using assms(2) t by (simp split: if_splits)
  moreover have "find (\<lambda>w. prefix w (c # u')) ws = None" if "\<not> of_char c < (128::nat)"
  proof -
    have "find (\<lambda>w. prefix w (c # t')) ws = None"
    proof (rule ccontr)
      assume "find (\<lambda>w. prefix w (c # t')) ws \<noteq> None"
      then obtain w where w: "find (\<lambda>w. prefix w (c # t')) ws = Some w" by blast
      then have "w \<in> set ws" by (metis find_Some_iff nth_mem)
      with assms(1) have "length w \<noteq> 0" by simp
      with w assms(2) t \<open>\<not> ascii_space c\<close> that show False by simp
    qed
    then show ?thesis
      using assms(3) Cons t(1) by (metis find_None_iff prefix_order.trans)
  qed
  ultimately show ?thesis using Cons by simp
qed

lemma wide_spaces_nonempty: "\<forall>w\<in>set wide_spaces. w \<noteq> []"
  by (simp add: wide_spaces_def)

lemma prefix_trim_space: "prefix (trim_space s) (trim_front wide_spaces s)"
  using suffix_trim_front [of "map rev wide_spaces" "rev (trim_front wide_spaces s)"]
  by (simp add: trim_space_def Let_def suffix_to_prefix)

lemma space_len_trim_space: "space_len wide_spaces (trim_space s) = 0"
  by (rule space_len_prefix [OF wide_spaces_nonempty space_len_trim_front prefix_trim_space])

theorem trim_space_idem [simp, string_simps]: "trim_space (trim_space s) = trim_space s"
proof -
  let ?r = "map rev wide_spaces"
  have "trim_front wide_spaces (trim_space s) = trim_space s"
    by (rule trim_front_id) (rule space_len_trim_space)
  moreover have "trim_front ?r (rev (trim_space s)) = rev (trim_space s)"
    by (rule trim_front_id) (simp add: trim_space_def Let_def space_len_trim_front)
  ultimately show ?thesis
    unfolding trim_space_def [of "trim_space s"] Let_def by simp
qed

lemma trim_space_Nil [simp]: "trim_space [] = []"
  by (simp add: trim_space_def trim_front_id)

lemma space_len_solid: "solid c \<Longrightarrow> space_len ws (c # s) = 0"
  by (simp add: solid_def)

text \<open>A text whose first and last bytes are printing ASCII characters is left as it is.\<close>

lemma trim_space_solid:
  assumes "s \<noteq> []" "solid (hd s)" "solid (last s)"
  shows "trim_space s = s"
proof -
  have "space_len ws s = 0" for ws
    using assms by (cases s) (simp_all add: space_len_solid del: space_len.simps)
  moreover have "space_len ws (rev s) = 0" for ws
    using assms by (cases s rule: rev_cases) (simp_all add: space_len_solid del: space_len.simps)
  ultimately show ?thesis by (simp add: trim_space_def trim_front_id)
qed

lemma trim_space_all_solid: "(\<And>c. c \<in> set s \<Longrightarrow> solid c) \<Longrightarrow> trim_space s = s"
  by (cases "s = []") (simp_all add: trim_space_solid)

section \<open>Digits\<close>

definition is_digit :: "char \<Rightarrow> bool" where
  "is_digit c \<longleftrightarrow> c \<in> set ''0123456789''"

definition digit_val :: "char \<Rightarrow> nat" where
  "digit_val c = of_char c - 48"

definition digit_char :: "nat \<Rightarrow> char" where
  "digit_char d = ''0123456789'' ! d"

lemma is_digit_solid [simp]: "is_digit c \<Longrightarrow> solid c"
  by (auto simp: is_digit_def solid_def ascii_space_def)

lemma is_digit_zero [simp]: "is_digit CHR ''0''"
  by (simp add: is_digit_def)

lemma is_digit_cases: "d < 10 \<Longrightarrow> d \<in> {0, 1, 2, 3, 4, 5, 6, 7, 8, 9 :: nat}"
  by auto

lemma is_digit_digit_char [simp]: "d < 10 \<Longrightarrow> is_digit (digit_char d)"
  by (drule is_digit_cases) (auto simp: is_digit_def digit_char_def)

lemma digit_val_digit_char [simp]: "d < 10 \<Longrightarrow> digit_val (digit_char d) = d"
  by (drule is_digit_cases) (auto simp: digit_val_def digit_char_def)

lemma digit_val_less [simp]: "is_digit c \<Longrightarrow> digit_val c < 10"
  by (auto simp: is_digit_def digit_val_def)

lemma digit_char_digit_val [simp]: "is_digit c \<Longrightarrow> digit_char (digit_val c) = c"
  by (auto simp: is_digit_def digit_val_def digit_char_def)

text \<open>\<open>big.Int.String\<close> and \<open>strconv.FormatInt\<close> in base ten.\<close>

fun dec_of_nat :: "nat \<Rightarrow> string" where
  "dec_of_nat n = (if n < 10 then [digit_char n] else dec_of_nat (n div 10) @ [digit_char (n mod 10)])"

declare dec_of_nat.simps [simp del]

definition dec_of_int :: "int \<Rightarrow> string" where
  "dec_of_int i = (if i < 0 then CHR ''-'' # dec_of_nat (nat (- i)) else dec_of_nat (nat i))"

definition nat_of_dec :: "string \<Rightarrow> nat" where
  "nat_of_dec s = foldl (\<lambda>n c. 10 * n + digit_val c) 0 s"

lemma dec_of_nat_nonempty [simp]: "dec_of_nat n \<noteq> []"
  by (subst dec_of_nat.simps) simp

lemma dec_of_nat_digits: "c \<in> set (dec_of_nat n) \<Longrightarrow> is_digit c"
proof (induction n rule: dec_of_nat.induct)
  case (1 n)
  then show ?case by (cases "n < 10") (auto simp: dec_of_nat.simps [of n])
qed

lemma nat_of_dec_snoc: "nat_of_dec (s @ [c]) = 10 * nat_of_dec s + digit_val c"
  by (simp add: nat_of_dec_def)

lemma nat_of_dec_of_nat [simp]: "nat_of_dec (dec_of_nat n) = n"
proof (induction n rule: dec_of_nat.induct)
  case (1 n)
  show ?case
  proof (cases "n < 10")
    case True
    then show ?thesis by (simp add: dec_of_nat.simps [of n] nat_of_dec_def)
  next
    case False
    then show ?thesis using 1 by (simp add: dec_of_nat.simps [of n] nat_of_dec_snoc)
  qed
qed

lemma dec_of_nat_inject [simp]: "dec_of_nat m = dec_of_nat n \<longleftrightarrow> m = n"
  by (metis nat_of_dec_of_nat)

section \<open>Other string operations\<close>

definition upper_letters :: string where
  "upper_letters = ''ABCDEFGHIJKLMNOPQRSTUVWXYZ''"

definition lower_letters :: string where
  "lower_letters = ''abcdefghijklmnopqrstuvwxyz''"

definition upper_char :: "char \<Rightarrow> char" where
  "upper_char c = (case map_of (zip lower_letters upper_letters) c of None \<Rightarrow> c | Some u \<Rightarrow> u)"

definition lower_char :: "char \<Rightarrow> char" where
  "lower_char c = (case map_of (zip upper_letters lower_letters) c of None \<Rightarrow> c | Some l \<Rightarrow> l)"

definition to_upper :: "string \<Rightarrow> string" where
  "to_upper s = map upper_char s"

definition to_lower :: "string \<Rightarrow> string" where
  "to_lower s = map lower_char s"

text \<open>\<open>strings.EqualFold\<close> against an ASCII word.\<close>

definition equal_fold :: "string \<Rightarrow> string \<Rightarrow> bool" where
  "equal_fold s t \<longleftrightarrow> to_lower s = to_lower t"

text \<open>\<open>strings.TrimPrefix\<close>, \<open>strings.TrimRight\<close> with a one-byte cutset, \<open>strings.Join\<close>.\<close>

definition trim_prefix :: "string \<Rightarrow> string \<Rightarrow> string" where
  "trim_prefix s p = (if prefix p s then drop (length p) s else s)"

definition trim_right_char :: "string \<Rightarrow> char \<Rightarrow> string" where
  "trim_right_char s c = rev (dropWhile (\<lambda>x. x = c) (rev s))"

fun join :: "string list \<Rightarrow> string \<Rightarrow> string" where
  "join [] sep = []"
| "join [x] sep = x"
| "join (x # y # xs) sep = x @ sep @ join (y # xs) sep"

text \<open>The pattern \<open>^[0-9]{1,32}$\<close>.\<close>

definition numeric_id :: "string \<Rightarrow> bool" where
  "numeric_id s \<longleftrightarrow> s \<noteq> [] \<and> length s \<le> 32 \<and> list_all is_digit s"

lemma numeric_id_trim [simp, string_simps]: "numeric_id s \<Longrightarrow> trim_space s = s"
  by (rule trim_space_all_solid) (simp add: numeric_id_def list_all_iff)

lemma numeric_id_nonempty: "numeric_id s \<Longrightarrow> s \<noteq> []"
  by (simp add: numeric_id_def)

lemma nat_of_dec_append_zeros: "nat_of_dec (s @ replicate k CHR ''0'') = nat_of_dec s * 10 ^ k"
  by (induction k) (simp_all add: replicate_append_same [symmetric] nat_of_dec_snoc digit_val_def
      del: append_assoc flip: append_assoc)

lemma nat_of_dec_pad: "nat_of_dec (replicate k CHR ''0'' @ s) = nat_of_dec s"
proof -
  have "foldl (\<lambda>n c. 10 * n + digit_val c) 0 (replicate k CHR ''0'') = 0"
    by (induction k) (simp_all add: digit_val_def)
  then show ?thesis by (simp add: nat_of_dec_def)
qed

lemma nat_of_dec_append: "nat_of_dec (s @ t) = nat_of_dec s * 10 ^ length t + nat_of_dec t"
proof (induction t rule: rev_induct)
  case Nil
  show ?case by (simp add: nat_of_dec_def)
next
  case (snoc c t)
  then show ?case
    by (simp add: nat_of_dec_snoc flip: append_assoc)
qed

end
