(* ===== verification/Go_Rat.thy ===== *)
theory Go_Rat
  imports Go_Strings Complex_Main
begin

text \<open>
  The part of Go's \<open>math/big\<close> that the program computes with: \<open>Rat.SetString\<close> with its whole
  grammar (sign, base prefixes, separators, a fraction \<open>a/b\<close>, a radix point, decimal and binary
  exponents, and the bounds on the exponent), \<open>Rat.FloatString\<close> and the numerator and
  denominator. A \<open>*big.Rat\<close> is a value of type \<open>rat\<close>, a nil pointer is \<open>None\<close>. The lemmas at
  the end say what the parser does on plain decimal text.
\<close>

named_theorems rat_text \<open>what the rational parser returns on decimal text\<close>

section \<open>Scanning digits\<close>

text \<open>The character seen last: a digit (or the zero of a prefix), a separator, anything else.\<close>

datatype prev_char = PDigit | PSep | POther

definition any_digit :: "char \<Rightarrow> nat option" where
  "any_digit c =
     (if is_digit c then Some (digit_val c)
      else if lower_char c \<in> set lower_letters then Some (of_char (lower_char c) - 87)
      else None)"

record scan_state =
  sc_acc :: nat
  sc_count :: nat
  sc_dp :: "nat option"
  sc_inval :: bool
  sc_prev :: prev_char

text \<open>The loop of \<open>nat.scan\<close>: it stops at the first character that is no part of the number
  and returns the rest of the text.\<close>

fun scan_digits :: "nat \<Rightarrow> bool \<Rightarrow> scan_state \<Rightarrow> string \<Rightarrow> scan_state \<times> string" where
  "scan_digits b fracOk st [] = (st, [])"
| "scan_digits b fracOk st (c # s) =
     (if c = CHR ''.'' \<and> fracOk
      then scan_digits b False
             (st\<lparr>sc_inval := sc_inval st \<or> sc_prev st = PSep, sc_prev := POther,
                 sc_dp := Some (sc_count st)\<rparr>) s
      else if c = CHR ''_''
      then scan_digits b fracOk
             (st\<lparr>sc_inval := sc_inval st \<or> sc_prev st \<noteq> PDigit, sc_prev := PSep\<rparr>) s
      else (case any_digit c of
              None \<Rightarrow> (st, c # s)
            | Some d \<Rightarrow>
                (if b \<le> d then (st, c # s)
                 else scan_digits b fracOk
                        (st\<lparr>sc_acc := sc_acc st * b + d, sc_count := sc_count st + 1,
                            sc_prev := PDigit\<rparr>) s)))"

text \<open>The base that the prefix gives: \<open>(base, octal prefix, previous, count, rest)\<close>.\<close>

definition scan_base :: "bool \<Rightarrow> string \<Rightarrow> nat \<times> bool \<times> prev_char \<times> nat \<times> string" where
  "scan_base fracOk s =
     (case s of
        [] \<Rightarrow> (10, False, POther, 0, [])
      | c # s1 \<Rightarrow>
          if c \<noteq> CHR ''0'' then (10, False, POther, 0, s)
          else (case s1 of
                  [] \<Rightarrow> (10, False, PDigit, 1, [])
                | p # s2 \<Rightarrow>
                    if p = CHR ''b'' \<or> p = CHR ''B'' then (2, False, PDigit, 0, s2)
                    else if p = CHR ''o'' \<or> p = CHR ''O'' then (8, False, PDigit, 0, s2)
                    else if p = CHR ''x'' \<or> p = CHR ''X'' then (16, False, PDigit, 0, s2)
                    else if \<not> fracOk then (8, True, PDigit, 0, s1)
                    else (10, False, PDigit, 1, s1)))"

text \<open>\<open>nat.scan(r, 0, fracOk)\<close>: value, base, digits after the radix point, rest of the text.\<close>

definition nat_scan :: "bool \<Rightarrow> string \<Rightarrow> (nat \<times> nat \<times> nat \<times> string) option" where
  "nat_scan fracOk s =
     (case scan_base fracOk s of (b, octal, prev, cnt, s1) \<Rightarrow>
        (case scan_digits b fracOk
                \<lparr>sc_acc = 0, sc_count = cnt, sc_dp = None, sc_inval = False, sc_prev = prev\<rparr> s1 of
           (st, rest) \<Rightarrow>
             if sc_inval st \<or> sc_prev st = PSep then None
             else if sc_count st = 0 then (if octal then Some (0, 10, 0, rest) else None)
             else Some (sc_acc st, b,
                        (case sc_dp st of None \<Rightarrow> 0 | Some dp \<Rightarrow> sc_count st - dp), rest)))"

definition scan_sign :: "string \<Rightarrow> (bool \<times> string) option" where
  "scan_sign s =
     (case s of [] \<Rightarrow> None
      | c # s1 \<Rightarrow> Some (if c = CHR ''-'' then (True, s1) else if c = CHR ''+'' then (False, s1)
                        else (False, s)))"

section \<open>Exponents\<close>

fun exp_digits :: "prev_char \<Rightarrow> bool \<Rightarrow> string \<Rightarrow> string \<Rightarrow> prev_char \<times> bool \<times> string \<times> string" where
  "exp_digits prev inval ds [] = (prev, inval, ds, [])"
| "exp_digits prev inval ds (c # s) =
     (if is_digit c then exp_digits PDigit inval (ds @ [c]) s
      else if c = CHR ''_'' then exp_digits PSep (inval \<or> prev \<noteq> PDigit) ds s
      else (prev, inval, ds, c # s))"

text \<open>\<open>scanExponent(r, true, true)\<close>: exponent, its base, rest of the text. The digits must fit
  an \<open>int64\<close>.\<close>

definition scan_exponent :: "string \<Rightarrow> (int \<times> nat \<times> string) option" where
  "scan_exponent s =
     (case s of
        [] \<Rightarrow> Some (0, 10, [])
      | c # s1 \<Rightarrow>
          if c \<notin> set ''eEpP'' then Some (0, 10, s)
          else
            (let base = (if c \<in> set ''eE'' then 10 else 2);
                 neg = (case s1 of [] \<Rightarrow> False | d # _ \<Rightarrow> d = CHR ''-'');
                 s2 = (case s1 of [] \<Rightarrow> [] | d # s2 \<Rightarrow> if d = CHR ''-'' \<or> d = CHR ''+'' then s2 else s1)
             in (case exp_digits POther False [] s2 of (prev, inval, ds, rest) \<Rightarrow>
                   let e = (if neg then - int (nat_of_dec ds) else int (nat_of_dec ds))
                   in if ds = [] \<or> inval \<or> prev = PSep \<or> e < - (2 ^ 63) \<or> 2 ^ 63 - 1 < e then None
                      else Some (e, base, rest))))"

definition pow_int :: "rat \<Rightarrow> int \<Rightarrow> rat" where
  "pow_int x e = (if 0 \<le> e then x ^ nat e else 1 / x ^ nat (- e))"

section \<open>Rat.SetString\<close>

definition rat_set_fraction :: "string \<Rightarrow> string \<Rightarrow> rat option" where
  "rat_set_fraction a b =
     (case scan_sign a of None \<Rightarrow> None | Some (neg, a1) \<Rightarrow>
        (case nat_scan False a1 of None \<Rightarrow> None | Some (n, _, _, rest) \<Rightarrow>
           if rest \<noteq> [] then None
           else (case nat_scan False b of None \<Rightarrow> None | Some (d, _, _, rest') \<Rightarrow>
                   if rest' \<noteq> [] \<or> d = 0 then None
                   else Some ((if neg then -1 else 1) * of_nat n / of_nat d))))"

definition rat_set_decimal :: "string \<Rightarrow> rat option" where
  "rat_set_decimal s =
     (case scan_sign s of None \<Rightarrow> None | Some (neg, s1) \<Rightarrow>
        (case nat_scan True s1 of None \<Rightarrow> None | Some (n, base, fdigits, s2) \<Rightarrow>
           (case scan_exponent s2 of None \<Rightarrow> None | Some (e, ebase, s3) \<Rightarrow>
              if s3 \<noteq> [] then None
              else if n = 0 then Some 0
              else
                (let f = - int fdigits;
                     exp5 = (if base = 10 then f else 0) + (if ebase = 10 then e else 0);
                     exp2 = (if base = 8 then 3 * f else if base = 16 then 4 * f else f) + e
                 in if \<bar>exp5\<bar> > 1000000 \<or> \<bar>exp2\<bar> > 10000000 then None
                    else Some ((if neg then -1 else 1) * of_nat n
                               * pow_int 5 exp5 * pow_int 2 exp2)))))"

definition rat_set_string :: "string \<Rightarrow> rat option" where
  "rat_set_string s =
     (if s = [] then None
      else if CHR ''/'' \<in> set s
      then rat_set_fraction (takeWhile (\<lambda>c. c \<noteq> CHR ''/'') s)
             (tl (dropWhile (\<lambda>c. c \<noteq> CHR ''/'') s))
      else rat_set_decimal s)"

definition rat_num :: "rat \<Rightarrow> int" where "rat_num q = fst (quotient_of q)"
definition rat_den :: "rat \<Rightarrow> int" where "rat_den q = snd (quotient_of q)"

text \<open>\<open>big.Int.Quo\<close> truncates towards zero, \<open>big.Int.QuoRem\<close> gives the matching remainder.\<close>

definition int_quo :: "int \<Rightarrow> int \<Rightarrow> int" where
  "int_quo a b = sgn a * sgn b * (\<bar>a\<bar> div \<bar>b\<bar>)"

definition int_rem :: "int \<Rightarrow> int \<Rightarrow> int" where
  "int_rem a b = a - b * int_quo a b"

lemma int_quo_pos: "0 < b \<Longrightarrow> int_quo a b = (if 0 \<le> a then a div b else - (- a div b))"
  by (simp add: int_quo_def sgn_if)

lemma int_quo_mult: "0 < b \<Longrightarrow> int_quo (b * c) b = c"
  by (simp add: int_quo_pos) (metis less_irrefl mult_minus_right nonzero_mult_div_cancel_left
      add.inverse_inverse)

definition is_int64 :: "int \<Rightarrow> bool" where
  "is_int64 n \<longleftrightarrow> - (2 ^ 63) \<le> n \<and> n < 2 ^ 63"

section \<open>Rat.FloatString\<close>

definition pad_zeros :: "nat \<Rightarrow> string \<Rightarrow> string" where
  "pad_zeros n s = replicate (n - length s) CHR ''0'' @ s"

definition float_string :: "rat \<Rightarrow> nat \<Rightarrow> string" where
  "float_string x prec =
     (let a = rat_num x; b = rat_den x in
      if b = 1
      then dec_of_int a @ (if 0 < prec then CHR ''.'' # replicate prec CHR ''0'' else [])
      else
        (let q = \<bar>a\<bar> div b; p = 10 ^ prec; r0 = (\<bar>a\<bar> mod b) * p;
             r = r0 div b; up = b \<le> 2 * (r0 mod b); r1 = (if up then r + 1 else r);
             q' = (if up \<and> p \<le> r1 then q + 1 else q); r' = (if up \<and> p \<le> r1 then r1 - p else r1)
         in (if a < 0 then ''-'' else []) @ dec_of_nat (nat q')
            @ (if 0 < prec then CHR ''.'' # pad_zeros prec (dec_of_nat (nat r')) else [])))"

section \<open>Decimal text\<close>

lemma any_digit_digit [simp]: "is_digit c \<Longrightarrow> any_digit c = Some (digit_val c)"
  by (simp add: any_digit_def)

lemma is_digit_not_special [simp]:
  "is_digit c \<Longrightarrow> c \<noteq> CHR ''.''" "is_digit c \<Longrightarrow> c \<noteq> CHR ''_''" "is_digit c \<Longrightarrow> c \<noteq> CHR ''/''"
  "is_digit c \<Longrightarrow> c \<noteq> CHR ''-''" "is_digit c \<Longrightarrow> c \<noteq> CHR ''+''" "is_digit c \<Longrightarrow> c \<notin> set ''bBoOxX''"
  by (auto simp: is_digit_def)

lemma not_digit_slash: "\<not> is_digit CHR ''/''"
  by (simp add: is_digit_def)

lemma digit_val_less_base [simp]: "is_digit c \<Longrightarrow> \<not> 10 \<le> digit_val c"
  using digit_val_less [of c] by linarith

lemma scan_digits_decimal:
  "\<forall>c\<in>set ds. is_digit c \<Longrightarrow>
     scan_digits 10 f st (ds @ s) =
       scan_digits 10 f
         (st\<lparr>sc_acc := foldl (\<lambda>n c. 10 * n + digit_val c) (sc_acc st) ds,
             sc_count := sc_count st + length ds,
             sc_prev := (if ds = [] then sc_prev st else PDigit)\<rparr>) s"
proof (induction ds arbitrary: st)
  case Nil
  show ?case by simp
next
  case (Cons c ds)
  then show ?case by (simp add: Cons.IH mult.commute)
qed

text \<open>The first digit of a decimal text is no base prefix when another digit or a radix point
  follows.\<close>

lemma scan_base_decimal:
  assumes "\<forall>c\<in>set (d # ds). is_digit c" "s = [] \<or> hd s = CHR ''.''"
  shows "scan_base True ((d # ds) @ s) =
           (if d = CHR ''0'' then (10, False, PDigit, 1, ds @ s)
            else (10, False, POther, 0, (d # ds) @ s))"
proof (cases ds)
  case Nil
  then show ?thesis using assms by (cases s) (auto simp: scan_base_def)
next
  case (Cons e es)
  then have "is_digit e" using assms(1) by simp
  then have "e \<notin> set ''bBoOxX''" by (rule is_digit_not_special(6))
  then show ?thesis using Cons by (simp add: scan_base_def)
qed

lemma foldl_dec_zero: "foldl (\<lambda>n c. 10 * n + digit_val c) 0 (CHR ''0'' # ds) =
    foldl (\<lambda>n c. 10 * n + digit_val c) 0 ds"
  by (simp add: digit_val_def)

lemma nat_scan_decimal [rat_text]:
  assumes "ds \<noteq> []" "\<forall>c\<in>set ds. is_digit c" "\<forall>c\<in>set fs. is_digit c"
  shows "nat_scan True (ds @ CHR ''.'' # fs) = Some (nat_of_dec (ds @ fs), 10, length fs, [])"
proof -
  obtain d es where ds: "ds = d # es" using assms(1) by (cases ds) auto
  have base: "scan_base True (ds @ CHR ''.'' # fs) =
      (if d = CHR ''0'' then (10, False, PDigit, 1, es @ CHR ''.'' # fs)
       else (10, False, POther, 0, ds @ CHR ''.'' # fs))"
    using scan_base_decimal [of d es "CHR ''.'' # fs"] assms(2) ds by simp
  have tail: "scan_digits 10 False st fs =
      (st\<lparr>sc_acc := foldl (\<lambda>n c. 10 * n + digit_val c) (sc_acc st) fs,
          sc_count := sc_count st + length fs,
          sc_prev := (if fs = [] then sc_prev st else PDigit)\<rparr>, [])" for st
    using scan_digits_decimal [OF assms(3), of False st "[]"] by simp
  show ?thesis
  proof (cases "d = CHR ''0''")
    case True
    have es: "\<forall>c\<in>set es. is_digit c" using assms(2) ds by simp
    show ?thesis
      unfolding nat_scan_def base using True ds
      by (simp add: scan_digits_decimal [OF es] tail nat_of_dec_def digit_val_def)
  next
    case False
    show ?thesis
      unfolding nat_scan_def base using False assms(1)
      by (simp add: scan_digits_decimal [OF assms(2)] tail nat_of_dec_def)
  qed
qed

lemma nat_scan_digits [rat_text]:
  assumes "ds \<noteq> []" "\<forall>c\<in>set ds. is_digit c"
  shows "nat_scan True ds = Some (nat_of_dec ds, 10, 0, [])"
proof -
  obtain d es where ds: "ds = d # es" using assms(1) by (cases ds) auto
  have base: "scan_base True ds =
      (if d = CHR ''0'' then (10, False, PDigit, 1, es) else (10, False, POther, 0, ds))"
    using scan_base_decimal [of d es "[]"] assms(2) ds by simp
  show ?thesis
  proof (cases "d = CHR ''0''")
    case True
    have es: "\<forall>c\<in>set es. is_digit c" using assms(2) ds by simp
    show ?thesis
      unfolding nat_scan_def base using True ds scan_digits_decimal [OF es, of True _ "[]"]
      by (simp add: nat_of_dec_def digit_val_def)
  next
    case False
    show ?thesis
      unfolding nat_scan_def base
      using False assms(1) scan_digits_decimal [OF assms(2), of True _ "[]"]
      by (simp add: nat_of_dec_def)
  qed
qed

lemma pow_int_5_2: "pow_int 5 (- int n) * pow_int 2 (- int n) = 1 / 10 ^ n"
proof -
  have "(10::rat) ^ n = 5 ^ n * 2 ^ n" by (simp flip: power_mult_distrib)
  then show ?thesis by (simp add: pow_int_def)
qed

lemma scan_exponent_Nil [simp]: "scan_exponent [] = Some (0, 10, [])"
  by (simp add: scan_exponent_def)

lemma scan_sign_digit: "is_digit c \<Longrightarrow> scan_sign (c # s) = Some (False, c # s)"
  by (simp add: scan_sign_def)

text \<open>What the parser returns on an optionally negative decimal text.\<close>

lemma rat_set_decimal_point:
  assumes "ds \<noteq> []" "\<forall>c\<in>set ds. is_digit c" "\<forall>c\<in>set fs. is_digit c" "length fs \<le> 1000000"
  shows "rat_set_string (ds @ CHR ''.'' # fs) = Some (of_nat (nat_of_dec (ds @ fs)) / 10 ^ length fs)"
    and "rat_set_string (CHR ''-'' # ds @ CHR ''.'' # fs)
           = Some (- of_nat (nat_of_dec (ds @ fs)) / 10 ^ length fs)"
proof -
  obtain d es where ds: "ds = d # es" using assms(1) by (cases ds) auto
  have noslash: "CHR ''/'' \<notin> set (ds @ CHR ''.'' # fs)"
    using assms(2,3) not_digit_slash by auto
  have sg: "scan_sign (ds @ CHR ''.'' # fs) = Some (False, ds @ CHR ''.'' # fs)"
    using assms(2) ds by (simp add: scan_sign_digit)
  have sg': "scan_sign (CHR ''-'' # ds @ CHR ''.'' # fs) = Some (True, ds @ CHR ''.'' # fs)"
    by (simp add: scan_sign_def)
  show "rat_set_string (ds @ CHR ''.'' # fs) = Some (of_nat (nat_of_dec (ds @ fs)) / 10 ^ length fs)"
    using noslash assms(1,4)
    by (simp add: rat_set_string_def rat_set_decimal_def sg nat_scan_decimal [OF assms(1-3)]
        pow_int_5_2 mult.assoc Let_def)
  show "rat_set_string (CHR ''-'' # ds @ CHR ''.'' # fs)
           = Some (- of_nat (nat_of_dec (ds @ fs)) / 10 ^ length fs)"
    using noslash assms(4)
    by (simp add: rat_set_string_def rat_set_decimal_def sg' nat_scan_decimal [OF assms(1-3)]
        pow_int_5_2 mult.assoc Let_def)
qed

lemma rat_set_digits:
  assumes "ds \<noteq> []" "\<forall>c\<in>set ds. is_digit c"
  shows "rat_set_string ds = Some (of_nat (nat_of_dec ds))"
    and "rat_set_string (CHR ''-'' # ds) = Some (- of_nat (nat_of_dec ds))"
proof -
  obtain d es where ds: "ds = d # es" using assms(1) by (cases ds) auto
  have noslash: "CHR ''/'' \<notin> set ds" using assms(2) not_digit_slash by auto
  have sg: "scan_sign ds = Some (False, ds)" using assms(2) ds by (simp add: scan_sign_digit)
  have sg': "scan_sign (CHR ''-'' # ds) = Some (True, ds)" by (simp add: scan_sign_def)
  have one: "pow_int 5 0 = 1" "pow_int 2 0 = 1" by (simp_all add: pow_int_def)
  show "rat_set_string ds = Some (of_nat (nat_of_dec ds))"
    using noslash assms(1)
    by (simp add: rat_set_string_def rat_set_decimal_def sg nat_scan_digits [OF assms] one)
  show "rat_set_string (CHR ''-'' # ds) = Some (- of_nat (nat_of_dec ds))"
    using noslash
    by (simp add: rat_set_string_def rat_set_decimal_def sg' nat_scan_digits [OF assms] one)
qed

section \<open>Numerator and denominator\<close>

lemma rat_den_pos [simp]: "0 < rat_den q"
  by (simp add: rat_den_def quotient_of_denom_pos')

lemma rat_num_den: "q = of_int (rat_num q) / of_int (rat_den q)"
  unfolding rat_num_def rat_den_def by (rule quotient_of_div) (rule prod.collapse [symmetric])

lemma rat_coprime: "coprime (rat_num q) (rat_den q)"
  unfolding rat_num_def rat_den_def
  by (rule quotient_of_coprime) (rule prod.collapse [symmetric])

lemma rat_num_nonneg: "0 \<le> rat_num q \<longleftrightarrow> 0 \<le> q"
proof -
  have "0 \<le> q \<longleftrightarrow> (0::rat) \<le> of_int (rat_num q) / of_int (rat_den q)"
    using rat_num_den [of q] by simp
  then show ?thesis using rat_den_pos [of q] by (simp add: zero_le_divide_iff not_le [symmetric])
qed

text \<open>The truncated quotient of a non-negative rational is its floor.\<close>

lemma int_quo_floor: "0 \<le> q \<Longrightarrow> int_quo (rat_num q) (rat_den q) = \<lfloor>q\<rfloor>"
proof -
  assume "0 \<le> q"
  then have "0 \<le> rat_num q" by (simp add: rat_num_nonneg)
  then have "int_quo (rat_num q) (rat_den q) = rat_num q div rat_den q"
    using rat_den_pos [of q] by (simp add: int_quo_def abs_of_pos sgn_if)
  also have "\<dots> = \<lfloor>(of_int (rat_num q) / of_int (rat_den q) :: rat)\<rfloor>"
    by (simp add: floor_divide_of_int_eq)
  finally show ?thesis using rat_num_den [of q] by simp
qed

end
