(* ===== verification/Conversion.thy ===== *)
theory Conversion
  imports Go_Rat
begin

text \<open>
  \<open>backend/internal/marketplace/conversion.go\<close>: the quantity of a marketplace order line becomes
  an SML quantity (times the alias's multiplier) and a base-unit quantity (times the unit
  factor), all in exact rationals, and rationals are rendered as decimal text for SML. The
  lemmas show that the rendered text parses back to the rational, that rounding a demand up
  never falls below it, and what the conversion computes and refuses.
\<close>

section \<open>The model\<close>

definition MaxQuantityMultiplier :: int where
  "MaxQuantityMultiplier = 1000000"

record QuantityConversionInput =
  MarketplaceQty :: string
  Multiplier :: int
  StandValue :: string
  DivideValue :: string

record QuantityConversion =
  SMLQty :: rat
  BaseQty :: rat
  BaseFloor :: int

text \<open>One constructor per message of \<open>fmt.Errorf\<close>, with the name or value it prints.\<close>

datatype conversion_error =
    MultiplierOutOfRange
  | Required string
  | NotDecimal string
  | MustNotBeNegative string
  | MustBePositive string
  | RationalRequired
  | NoFiniteDecimal rat

definition positiveOrZeroDecimal :: "string \<Rightarrow> string \<Rightarrow> conversion_error + rat" where
  "positiveOrZeroDecimal name raw =
     (let raw = trim_space raw in
      if raw = [] then Inl (Required name)
      else case rat_set_string raw of
             None \<Rightarrow> Inl (NotDecimal name)
           | Some value \<Rightarrow> if value < 0 then Inl (MustNotBeNegative name) else Inr value)"

definition positiveDecimal :: "string \<Rightarrow> string \<Rightarrow> conversion_error + rat" where
  "positiveDecimal name raw =
     and_then (positiveOrZeroDecimal name raw)
       (\<lambda>value. if value \<le> 0 then Inl (MustBePositive name) else Inr value)"

definition CalculateQuantityConversion ::
    "QuantityConversionInput \<Rightarrow> conversion_error + QuantityConversion" where
  "CalculateQuantityConversion input =
     (if Multiplier input < 1 \<or> Multiplier input > MaxQuantityMultiplier
      then Inl MultiplierOutOfRange
      else
        and_then (positiveOrZeroDecimal ''marketplace quantity'' (MarketplaceQty input)) (\<lambda>qty.
        and_then (positiveDecimal ''stand value'' (StandValue input)) (\<lambda>stand.
        and_then (positiveDecimal ''divide value'' (DivideValue input)) (\<lambda>divide.
          let smlQty = qty * of_int (Multiplier input);
              unitFactor = stand / divide;
              baseQty = smlQty * unitFactor;
              baseFloor = int_quo (rat_num baseQty) (rat_den baseQty)
          in Inr \<lparr>SMLQty = smlQty, BaseQty = baseQty, BaseFloor = baseFloor\<rparr>))))"

definition pow10 :: "nat \<Rightarrow> int" where
  "pow10 scale = 10 ^ scale"

text \<open>Digits are padded on the left until one stands before the radix point, and the zeros at
  the end of the fraction are cut.\<close>

definition formatScaledInteger :: "int \<Rightarrow> nat \<Rightarrow> string" where
  "formatScaledInteger value scale =
     (let negative = value < 0; digits = dec_of_nat (nat \<bar>value\<bar>) in
      if scale = 0 then (if negative then CHR ''-'' # digits else digits)
      else
        (let digits = pad_zeros (Suc scale) digits;
             whole = take (length digits - scale) digits;
             fraction = trim_right_char (drop (length digits - scale) digits) CHR ''0'';
             result = (if fraction \<noteq> [] then whole @ ''.'' @ fraction else whole)
         in if negative \<and> result \<noteq> ''0'' then CHR ''-'' # result else result))"

text \<open>The loops that divide the denominator by two and by five. A denominator is positive, so
  the guards \<open>1 < p\<close> and \<open>0 < d\<close> always hold; they make the recursion total.\<close>

function strip_factor :: "int \<Rightarrow> int \<Rightarrow> nat \<Rightarrow> int \<times> nat" where
  "strip_factor p d n =
     (if 1 < p \<and> 0 < d \<and> d mod p = 0 then strip_factor p (d div p) (Suc n) else (d, n))"
  by pat_completeness auto
termination
proof (relation "measure (\<lambda>(p, d, n). nat d)", simp, goal_cases)
  case (1 p d n)
  then show ?case by (simp add: int_div_less_self)
qed

declare strip_factor.simps [simp del]

definition RatFiniteDecimal :: "rat option \<Rightarrow> conversion_error + string" where
  "RatFiniteDecimal v =
     (case v of None \<Rightarrow> Inl RationalRequired
      | Some value \<Rightarrow>
          (case strip_factor 2 (rat_den value) 0 of (d2, twos) \<Rightarrow>
             (case strip_factor 5 d2 0 of (d5, fives) \<Rightarrow>
                if d5 \<noteq> 1 then Inl (NoFiniteDecimal value)
                else
                  (let scale = (if fives > twos then fives else twos);
                       scaled = int_quo (rat_num value * pow10 scale) (rat_den value)
                   in Inr (formatScaledInteger scaled scale)))))"

definition RatCeilDecimal :: "rat option \<Rightarrow> int \<Rightarrow> string" where
  "RatCeilDecimal v scale =
     (case v of None \<Rightarrow> []
      | Some value \<Rightarrow>
          if scale < 0 then []
          else
            (let num = rat_num value * pow10 (nat scale);
                 quotient = int_quo num (rat_den value);
                 remainder = int_rem num (rat_den value);
                 quotient = (if value > 0 \<and> remainder \<noteq> 0 then quotient + 1 else quotient)
             in formatScaledInteger quotient (nat scale)))"

section \<open>Rendering and parsing\<close>

lemma trim_right_char_split: "s = trim_right_char s c @ replicate (length (takeWhile (\<lambda>x. x = c) (rev s))) c"
proof -
  have "takeWhile (\<lambda>x. x = c) (rev s) = replicate (length (takeWhile (\<lambda>x. x = c) (rev s))) c"
    by (rule replicate_length_same [symmetric]) (auto dest: set_takeWhileD)
  then have "rev s = replicate (length (takeWhile (\<lambda>x. x = c) (rev s))) c
      @ dropWhile (\<lambda>x. x = c) (rev s)"
    by (metis takeWhile_dropWhile_id)
  then have "rev (rev s) = trim_right_char s c
      @ rev (replicate (length (takeWhile (\<lambda>x. x = c) (rev s))) c)"
    unfolding trim_right_char_def by (metis rev_append)
  then show ?thesis by (simp del: rev_replicate) (simp add: rev_replicate)
qed

text \<open>The digits of the scaled integer, cut into whole part and fraction, still denote the
  scaled integer over the power of ten.\<close>

lemma scaled_digits:
  fixes n scale :: nat
  defines "ds \<equiv> pad_zeros (Suc scale) (dec_of_nat n)"
  defines "whole \<equiv> take (length ds - scale) ds"
  defines "fraction \<equiv> trim_right_char (drop (length ds - scale) ds) CHR ''0''"
  shows "whole \<noteq> []" "\<forall>c\<in>set whole. is_digit c" "\<forall>c\<in>set fraction. is_digit c"
    "length fraction \<le> scale"
    "(of_nat (nat_of_dec (whole @ fraction)) :: rat) / 10 ^ length fraction = of_nat n / 10 ^ scale"
proof -
  have len: "scale < length ds" by (simp add: ds_def pad_zeros_def)
  have dig: "\<forall>c\<in>set ds. is_digit c"
    by (auto simp: ds_def pad_zeros_def dest: dec_of_nat_digits split: if_splits)
  define k where "k = length (takeWhile (\<lambda>x. x = CHR ''0'') (rev (drop (length ds - scale) ds)))"
  have split: "drop (length ds - scale) ds = fraction @ replicate k CHR ''0''"
    unfolding fraction_def k_def by (rule trim_right_char_split)
  have whole_app: "ds = (whole @ fraction) @ replicate k CHR ''0''"
    using split by (metis append_assoc append_take_drop_id whole_def)
  have scale: "scale = length fraction + k"
    using split len by (metis diff_diff_cancel length_append length_drop length_replicate
        less_imp_le_nat)
  show "whole \<noteq> []" using len by (auto simp: whole_def)
  show "\<forall>c\<in>set whole. is_digit c" "\<forall>c\<in>set fraction. is_digit c"
    using dig whole_app by (metis UnCI set_append)+
  show "length fraction \<le> scale" using scale by simp
  have "nat_of_dec ds = n" by (simp add: ds_def pad_zeros_def nat_of_dec_pad)
  then have "n = nat_of_dec (whole @ fraction) * 10 ^ k"
    using whole_app nat_of_dec_append_zeros by metis
  then show "(of_nat (nat_of_dec (whole @ fraction)) :: rat) / 10 ^ length fraction
      = of_nat n / 10 ^ scale"
    by (simp add: scale power_add)
qed

lemma formatScaledInteger_cases:
  fixes v :: int and scale :: nat
  assumes "scale \<noteq> 0"
  defines "ds \<equiv> pad_zeros (Suc scale) (dec_of_nat (nat \<bar>v\<bar>))"
  defines "whole \<equiv> take (length ds - scale) ds"
  defines "fraction \<equiv> trim_right_char (drop (length ds - scale) ds) CHR ''0''"
  shows "formatScaledInteger v scale =
     (let result = (if fraction \<noteq> [] then whole @ ''.'' @ fraction else whole)
      in if v < 0 \<and> result \<noteq> ''0'' then CHR ''-'' # result else result)"
  by (simp only: formatScaledInteger_def assms(1) if_False Let_def ds_def whole_def fraction_def)

lemma rat_set_formatScaledInteger:
  assumes "scale \<le> 1000000"
  shows "rat_set_string (formatScaledInteger v scale) = Some (of_int v / 10 ^ scale)"
proof (cases "scale = 0")
  case True
  have "\<forall>c\<in>set (dec_of_nat (nat \<bar>v\<bar>)). is_digit c" by (auto dest: dec_of_nat_digits)
  then show ?thesis
    using True rat_set_digits [of "dec_of_nat (nat \<bar>v\<bar>)"]
    by (cases "v < 0") (auto simp: formatScaledInteger_def Let_def)
next
  case False
  define ds where "ds = pad_zeros (Suc scale) (dec_of_nat (nat \<bar>v\<bar>))"
  define whole where "whole = take (length ds - scale) ds"
  define fraction where "fraction = trim_right_char (drop (length ds - scale) ds) CHR ''0''"
  define result where "result = (if fraction \<noteq> [] then whole @ ''.'' @ fraction else whole)"
  note sd = scaled_digits [where n = "nat \<bar>v\<bar>" and scale = scale, folded ds_def, folded whole_def fraction_def]
  have fmt: "formatScaledInteger v scale =
      (if v < 0 \<and> result \<noteq> ''0'' then CHR ''-'' # result else result)"
    using formatScaledInteger_cases [OF False, of v]
    by (simp only: Let_def ds_def whole_def fraction_def result_def)
  have val: "(of_nat (nat_of_dec (whole @ fraction)) :: rat) / 10 ^ length fraction
      = of_int \<bar>v\<bar> / 10 ^ scale"
    using sd(5) by simp
  have len: "length fraction \<le> 1000000" using sd(4) assms by simp
  have pos: "rat_set_string result = Some (of_int \<bar>v\<bar> / 10 ^ scale)"
    and neg: "rat_set_string (CHR ''-'' # result) = Some (- of_int \<bar>v\<bar> / 10 ^ scale)"
    using rat_set_decimal_point [OF sd(1-3) len] rat_set_digits [OF sd(1,2)] val
    by (cases "fraction = []"; simp add: result_def)+
  show ?thesis
  proof (cases "v < 0")
    case True
    have "result \<noteq> ''0''"
    proof
      assume "result = ''0''"
      with pos have "rat_set_string ''0'' = Some (of_int \<bar>v\<bar> / 10 ^ scale)" by simp
      moreover have "rat_set_string ''0'' = Some 0"
        using rat_set_digits(1) [of "''0''"] by (simp add: nat_of_dec_def digit_val_def)
      ultimately show False using True by simp
    qed
    with fmt neg True show ?thesis by simp
  next
    case False
    with fmt pos show ?thesis by simp
  qed
qed

section \<open>Finite decimals\<close>

lemma strip_factor_spec:
  assumes "1 < p" "0 < d" "strip_factor p d n = (d', m)"
  shows "n \<le> m \<and> d = d' * p ^ (m - n) \<and> 0 < d' \<and> \<not> p dvd d'"
  using assms
proof (induction p d n arbitrary: d' m rule: strip_factor.induct)
  case (1 p d n)
  show ?case
  proof (cases "d mod p = 0")
    case True
    then obtain q where q: "d = p * q" by (auto simp: mod_eq_0_iff_dvd)
    with 1(2,3) have "0 < q" by (simp add: zero_less_mult_iff)
    moreover have "strip_factor p d n = strip_factor p q (Suc n)"
      using 1(2,3) True q by (subst strip_factor.simps) simp
    then have "strip_factor p q (Suc n) = (d', m)" using 1(4) by simp
    ultimately have IH: "Suc n \<le> m \<and> q = d' * p ^ (m - Suc n) \<and> 0 < d' \<and> \<not> p dvd d'"
      using 1(1) [of d' m] 1(2,3) True q by simp
    then have "p ^ (m - n) = p * p ^ (m - Suc n)"
      by (metis Suc_diff_le diff_Suc_Suc power_Suc)
    with IH q show ?thesis by (simp add: algebra_simps)
  next
    case False
    with 1(2-4) show ?thesis by (auto simp: strip_factor.simps [of p d n] mod_eq_0_iff_dvd)
  qed
qed

lemma coprime_two_five: "coprime (2::int) 5" "coprime (5::int) 2"
  by simp_all

text \<open>The rendering succeeds exactly on the rationals that have a finite decimal
  representation, and yields a scaled integer that denotes the rational.\<close>

lemma RatFiniteDecimal_spec:
  assumes "RatFiniteDecimal (Some q) = Inr s"
  obtains scale v where "s = formatScaledInteger v scale" "q = of_int v / 10 ^ scale"
    "\<And>k. rat_den q dvd 10 ^ k \<Longrightarrow> scale \<le> k"
proof -
  obtain d2 twos where 2: "strip_factor 2 (rat_den q) 0 = (d2, twos)" by fastforce
  obtain d5 fives where 5: "strip_factor 5 d2 0 = (d5, fives)" by fastforce
  define scale where "scale = max twos fives"
  have s2: "rat_den q = d2 * 2 ^ twos" "0 < d2" using strip_factor_spec [OF _ _ 2] by auto
  have d5: "d5 = 1" using assms 2 5 by (auto simp: RatFiniteDecimal_def split: if_splits)
  then have s5: "d2 = 5 ^ fives" using strip_factor_spec [OF _ s2(2) 5] by simp
  have den: "rat_den q = 5 ^ fives * 2 ^ twos" using s2 s5 by simp
  have "(10::int) ^ scale = 5 ^ scale * 2 ^ scale" by (simp flip: power_mult_distrib)
  then have dv: "rat_den q dvd 10 ^ scale"
    unfolding den scale_def by (simp add: mult_dvd_mono le_imp_power_dvd)
  then obtain r where r: "10 ^ scale = rat_den q * r" by blast
  have "int_quo (rat_num q * pow10 scale) (rat_den q) = rat_num q * r"
    using int_quo_mult [OF rat_den_pos [of q], of "rat_num q * r"]
    by (simp add: pow10_def r mult.left_commute)
  moreover have "(if fives > twos then fives else twos) = scale" by (simp add: scale_def)
  ultimately have s: "s = formatScaledInteger (rat_num q * r) scale"
    using assms 2 5 d5 by (simp add: RatFiniteDecimal_def)
  have "(10::rat) ^ scale = of_int (rat_den q) * of_int r"
    using r by (metis of_int_mult of_int_numeral of_int_power)
  moreover have "(0::rat) \<noteq> of_int r" using r by auto
  ultimately have "q = of_int (rat_num q * r) / 10 ^ scale"
    using rat_num_den [of q] by simp
  moreover have "scale \<le> k" if "rat_den q dvd 10 ^ k" for k
  proof -
    have "(10::int) ^ k = 5 ^ k * 2 ^ k" by (simp flip: power_mult_distrib)
    then have "5 ^ fives * 2 ^ twos dvd (5::int) ^ k * 2 ^ k" using that den by simp
    then have "2 ^ twos dvd (5::int) ^ k * 2 ^ k" "5 ^ fives dvd (5::int) ^ k * 2 ^ k"
      by (rule dvd_mult_right, rule dvd_mult_left)
    moreover have "coprime ((2::int) ^ twos) (5 ^ k)" "coprime ((5::int) ^ fives) (2 ^ k)"
      by (simp_all only: coprime_power_left_iff coprime_power_right_iff) (simp_all add: coprime_two_five)
    ultimately have "(2::int) ^ twos dvd 2 ^ k" "(5::int) ^ fives dvd 5 ^ k"
      by (metis coprime_dvd_mult_right_iff, metis coprime_dvd_mult_left_iff)
    then show ?thesis by (auto simp: scale_def dest!: zdvd_imp_le)
  qed
  ultimately show thesis using that s by blast
qed

lemma RatFiniteDecimal_total:
  assumes "rat_den q dvd 10 ^ k"
  shows "\<exists>s. RatFiniteDecimal (Some q) = Inr s"
proof -
  obtain d2 twos where 2: "strip_factor 2 (rat_den q) 0 = (d2, twos)" by fastforce
  obtain d5 fives where 5: "strip_factor 5 d2 0 = (d5, fives)" by fastforce
  have s2: "rat_den q = d2 * 2 ^ twos" "0 < d2" "\<not> 2 dvd d2"
    using strip_factor_spec [OF _ _ 2] by auto
  have s5: "d2 = d5 * 5 ^ fives" "0 < d5" "\<not> 5 dvd d5"
    using strip_factor_spec [OF _ s2(2) 5] by auto
  have "d5 dvd 10 ^ k" using assms s2 s5 by (metis dvd_mult_left dvd_trans)
  moreover have "(10::int) ^ k = 2 ^ k * 5 ^ k" by (simp flip: power_mult_distrib)
  moreover have "coprime d5 ((2::int) ^ k)"
    using s2(3) s5(1) by (simp add: coprime_commute [of d5] coprime_power_left_iff)
  moreover have "coprime d5 ((5::int) ^ k)"
  proof -
    have "coprime (5::int) d5"
    proof (rule coprimeI)
      fix c :: int assume c: "c dvd 5" "c dvd d5"
      have "\<bar>c\<bar> dvd 5" using c(1) by simp
      moreover have "0 < \<bar>c\<bar>" using c(1) by auto
      ultimately have "\<bar>c\<bar> = 1 \<or> \<bar>c\<bar> = 2 \<or> \<bar>c\<bar> = 3 \<or> \<bar>c\<bar> = 4 \<or> \<bar>c\<bar> = 5"
        using zdvd_imp_le [of "\<bar>c\<bar>" 5] by arith
      moreover have "\<bar>c\<bar> \<noteq> 5" using c(2) s5(3) by (metis abs_dvd_iff)
      moreover have "\<not> (2::int) dvd 5" "\<not> (3::int) dvd 5" "\<not> (4::int) dvd 5" by simp_all
      ultimately have "\<bar>c\<bar> = 1" using \<open>\<bar>c\<bar> dvd 5\<close> by metis
      then show "is_unit c" by simp
    qed
    then show ?thesis by (simp add: coprime_commute [of d5] coprime_power_left_iff)
  qed
  ultimately have "is_unit d5" by (metis coprime_dvd_mult_right_iff coprime_absorb_left)
  then have "d5 = 1" using s5(2) by auto
  with 2 5 show ?thesis by (simp add: RatFiniteDecimal_def)
qed

lemma RatCeilDecimal_eq:
  "RatCeilDecimal (Some q) (int scale) = formatScaledInteger \<lceil>q * 10 ^ scale\<rceil> scale"
proof -
  let ?a = "rat_num q * 10 ^ scale" and ?b = "rat_den q"
  have b: "0 < ?b" by simp
  have val: "q * 10 ^ scale = of_int ?a / of_int ?b"
    using arg_cong [OF rat_num_den [of q], of "\<lambda>x. x * 10 ^ scale"] by simp
  have ceil: "\<lceil>q * 10 ^ scale\<rceil> = - (- ?a div ?b)"
  proof -
    have "- (of_int ?a / of_int ?b :: rat) = of_int (- ?a) / of_int ?b" by simp
    then show ?thesis unfolding val ceiling_def by (simp only: floor_divide_of_int_eq)
  qed
  have sg: "0 < q \<longleftrightarrow> 0 < rat_num q"
    using rat_num_nonneg [of "- q"] rat_num_den [of q] b
    by (metis (no_types, opaque_lifting) divide_pos_pos of_int_0_less_iff zero_less_divide_iff not_less_iff_gr_or_eq)
  show ?thesis
  proof (cases "0 < q")
    case True
    then have "0 < ?a" using sg by simp
    then have quo: "int_quo ?a ?b = ?a div ?b" using b by (simp add: int_quo_pos)
    have "- (- ?a div ?b) = (if ?a mod ?b = 0 then ?a div ?b else ?a div ?b + 1)"
      using zdiv_zminus1_eq_if [of ?b ?a] less_imp_neq [OF b] by auto
    moreover have "int_rem ?a ?b = ?a mod ?b"
      by (simp add: int_rem_def quo minus_mult_div_eq_mod)
    ultimately show ?thesis
      using True ceil quo by (simp add: RatCeilDecimal_def pow10_def Let_def)
  next
    case False
    then have "rat_num q \<le> 0" using sg by simp
    then have "?a \<le> 0" by (simp add: mult_le_0_iff)
    then have "int_quo ?a ?b = - (- ?a div ?b)" using b by (simp add: int_quo_pos)
    with False ceil show ?thesis by (simp add: RatCeilDecimal_def pow10_def Let_def)
  qed
qed

lemmas conversion_decs = positiveOrZeroDecimal_def positiveDecimal_def

lemma positiveOrZeroDecimal_Inr:
  "positiveOrZeroDecimal name raw = Inr q \<longleftrightarrow>
     rat_set_string (trim_space raw) = Some q \<and> 0 \<le> q \<and> trim_space raw \<noteq> []"
  by (auto simp: positiveOrZeroDecimal_def Let_def split: option.splits)

lemma positiveDecimal_Inr:
  "positiveDecimal name raw = Inr q \<longleftrightarrow>
     rat_set_string (trim_space raw) = Some q \<and> 0 < q \<and> trim_space raw \<noteq> []"
  by (cases "rat_set_string (trim_space raw)")
    (auto simp: positiveDecimal_def positiveOrZeroDecimal_def Let_def)

section \<open>Properties\<close>

text \<open>
  C38. Whenever \<open>RatFiniteDecimal\<close> renders a rational, \<open>Rat.SetString\<close> reads the text back as
  exactly that rational, with no trailing rounding: a quantity written for SML is the quantity
  that was computed. It renders every rational whose denominator divides a power of ten (here
  up to \<open>10 ^ 1000000\<close>, the exponent bound of the parser).
\<close>
theorem RatFiniteDecimal_roundtrip:
  assumes "rat_den q dvd 10 ^ k" and "k \<le> 1000000"
  shows "\<exists>s. RatFiniteDecimal (Some q) = Inr s \<and> rat_set_string s = Some q"
proof -
  obtain s where s: "RatFiniteDecimal (Some q) = Inr s"
    using RatFiniteDecimal_total [OF assms(1)] by blast
  then obtain scale v where "s = formatScaledInteger v scale" "q = of_int v / 10 ^ scale" "scale \<le> k"
    using assms(1) by (metis RatFiniteDecimal_spec)
  then show ?thesis using s assms(2) by (simp add: rat_set_formatScaledInteger)
qed

theorem RatFiniteDecimal_roundtrip_witness:
  "RatFiniteDecimal (Some (25 / 8)) = Inr ''3.125'' \<and> rat_set_string ''3.125'' = Some (25 / 8)"
proof -
  have "rat_den (25 / 8) dvd 10 ^ 3" by code_simp
  then have "\<exists>s. RatFiniteDecimal (Some (25 / 8)) = Inr s \<and> rat_set_string s = Some (25 / 8)"
    by (rule RatFiniteDecimal_roundtrip) simp
  moreover have "RatFiniteDecimal (Some (25 / 8)) = Inr ''3.125''" by code_simp
  ultimately show ?thesis by auto
qed

text \<open>
  Rounding a demand up: the text of \<open>RatCeilDecimal\<close> parses to a value that is never below
  the demand and less than one unit of the last place above it, so a reservation written at
  this scale always covers what was sold.
\<close>
theorem RatCeilDecimal_covers:
  assumes "scale \<le> 1000000"
  shows "\<exists>r. rat_set_string (RatCeilDecimal (Some q) (int scale)) = Some r
             \<and> q \<le> r \<and> r < q + 1 / 10 ^ scale"
proof (intro exI conjI)
  let ?p = "10 ^ scale :: rat"
  let ?r = "of_int \<lceil>q * ?p\<rceil> / ?p"
  show "rat_set_string (RatCeilDecimal (Some q) (int scale)) = Some ?r"
    by (simp add: RatCeilDecimal_eq rat_set_formatScaledInteger [OF assms])
  show "q \<le> ?r" by (simp add: pos_le_divide_eq)
  have "of_int \<lceil>q * ?p\<rceil> < q * ?p + 1" by linarith
  then have "?r < (q * ?p + 1) / ?p" by (simp add: divide_strict_right_mono)
  then show "?r < q + 1 / ?p" by (simp add: add_divide_distrib)
qed

theorem RatCeilDecimal_covers_witness:
  "rat_set_string (RatCeilDecimal (Some (1 / 3)) 2) = Some (34 / 100) \<and> (1 / 3 :: rat) \<le> 34 / 100"
proof -
  have "\<exists>r. rat_set_string (RatCeilDecimal (Some (1 / 3)) (int 2)) = Some r
            \<and> 1 / 3 \<le> r \<and> r < 1 / 3 + 1 / 10 ^ 2"
    by (rule RatCeilDecimal_covers) simp
  moreover have "RatCeilDecimal (Some (1 / 3)) (int 2) = ''0.34''" by code_simp
  moreover have "rat_set_string ''0.34'' = Some (34 / 100)" by code_simp
  ultimately show ?thesis by auto
qed

text \<open>
  The conversion of an order quantity succeeds exactly when the multiplier is between 1 and
  1000000, the quantity is a non-negative decimal and both unit values are positive decimals;
  it then returns quantity times multiplier, that times stand over divide, and the floor of the
  latter, which is never negative.
\<close>
theorem CalculateQuantityConversion_spec:
  "CalculateQuantityConversion input = Inr c \<longleftrightarrow>
     1 \<le> Multiplier input \<and> Multiplier input \<le> 1000000 \<and>
     (\<exists>qty stand divide.
        rat_set_string (trim_space (MarketplaceQty input)) = Some qty \<and> 0 \<le> qty \<and>
        rat_set_string (trim_space (StandValue input)) = Some stand \<and> 0 < stand \<and>
        rat_set_string (trim_space (DivideValue input)) = Some divide \<and> 0 < divide \<and>
        SMLQty c = qty * of_int (Multiplier input) \<and>
        BaseQty c = SMLQty c * (stand / divide) \<and>
        BaseFloor c = \<lfloor>BaseQty c\<rfloor> \<and> 0 \<le> BaseFloor c)"
proof -
  have ne: "rat_set_string (trim_space s) = Some q \<Longrightarrow> trim_space s \<noteq> []" for s q
    by (auto simp: rat_set_string_def)
  have fl: "0 \<le> qty \<Longrightarrow> 0 < stand \<Longrightarrow> 0 < divide \<Longrightarrow> 1 \<le> m \<Longrightarrow>
      int_quo (rat_num (qty * of_int m * (stand / divide))) (rat_den (qty * of_int m * (stand / divide)))
        = \<lfloor>qty * of_int m * (stand / divide)\<rfloor> \<and> 0 \<le> qty * of_int m * (stand / divide)"
    for qty stand divide :: rat and m :: int
    by (simp add: int_quo_floor)
  show ?thesis
  proof (cases "1 \<le> Multiplier input \<and> Multiplier input \<le> 1000000")
    case False
    then show ?thesis by (auto simp: CalculateQuantityConversion_def MaxQuantityMultiplier_def)
  next
    case True
    then show ?thesis
      using fl [of _ _ _ "Multiplier input"] ne
      by (cases c)
        (auto simp: CalculateQuantityConversion_def MaxQuantityMultiplier_def result_simps Let_def
          positiveOrZeroDecimal_Inr positiveDecimal_Inr simp del: times_divide_eq_right)
  qed
qed

end
