(* ===== verification/TikTok_Orders.thy ===== *)
theory TikTok_Orders
  imports Go_Rat
begin

text \<open>
  \<open>backend/internal/services/tiktokshop/order_client.go\<close>: the typed order model that crosses
  the TikTok Shop gateway, the validation of a search request and of the orders a response
  holds, and the three read operations of the client. The HTTP exchange itself (\<open>OrderClient.do\<close>:
  signing, transport, JSON decoding) is the parameter \<open>exchange\<close> of each operation. The lemmas
  show what a validated request and an accepted response satisfy.
\<close>

section \<open>Data\<close>

type_synonym OrderStatus = string
type_synonym ShippingType = string

definition OrderStatusUnpaid :: OrderStatus where "OrderStatusUnpaid = ''UNPAID''"
definition OrderStatusOnHold :: OrderStatus where "OrderStatusOnHold = ''ON_HOLD''"
definition OrderStatusAwaitingShipment :: OrderStatus where
  "OrderStatusAwaitingShipment = ''AWAITING_SHIPMENT''"
definition OrderStatusPartiallyShipping :: OrderStatus where
  "OrderStatusPartiallyShipping = ''PARTIALLY_SHIPPING''"
definition OrderStatusAwaitingCollection :: OrderStatus where
  "OrderStatusAwaitingCollection = ''AWAITING_COLLECTION''"
definition OrderStatusInTransit :: OrderStatus where "OrderStatusInTransit = ''IN_TRANSIT''"
definition OrderStatusDelivered :: OrderStatus where "OrderStatusDelivered = ''DELIVERED''"
definition OrderStatusCompleted :: OrderStatus where "OrderStatusCompleted = ''COMPLETED''"
definition OrderStatusCancelled :: OrderStatus where "OrderStatusCancelled = ''CANCELLED''"

lemmas order_status_defs =
  OrderStatusUnpaid_def OrderStatusOnHold_def OrderStatusAwaitingShipment_def
  OrderStatusPartiallyShipping_def OrderStatusAwaitingCollection_def OrderStatusInTransit_def
  OrderStatusDelivered_def OrderStatusCompleted_def OrderStatusCancelled_def

definition ShippingTypeTikTok :: ShippingType where "ShippingTypeTikTok = ''TIKTOK''"
definition ShippingTypeSeller :: ShippingType where "ShippingTypeSeller = ''SELLER''"
definition ShippingTypeTikTokDigital :: ShippingType where
  "ShippingTypeTikTokDigital = ''TIKTOK_DIGITAL''"

definition OrderSortFieldCreateTime :: string where "OrderSortFieldCreateTime = ''create_time''"
definition OrderSortFieldUpdateTime :: string where "OrderSortFieldUpdateTime = ''update_time''"
definition OrderSortAscending :: string where "OrderSortAscending = ''ASC''"
definition OrderSortDescending :: string where "OrderSortDescending = ''DESC''"

record OrderSearchFilters =
  filter_OrderStatus :: OrderStatus
  filter_CreateTimeGE :: int
  filter_CreateTimeLT :: int
  filter_UpdateTimeGE :: int
  filter_UpdateTimeLT :: int
  filter_ShippingType :: ShippingType
  filter_IsBuyerRequestCancel :: "bool option"
  filter_WarehouseIDs :: "string list"

record SearchOrdersRequest =
  search_PageSize :: int
  search_PageToken :: string
  search_SortField :: string
  search_SortOrder :: string
  search_Filters :: OrderSearchFilters

record OrderPayment =
  payment_Currency :: string
  payment_SubTotal :: string
  payment_ShippingFee :: string
  payment_SellerDiscount :: string
  payment_PlatformDiscount :: string
  payment_PaymentPlatformDiscount :: string
  payment_PaymentDiscountServiceFee :: string
  payment_TotalAmount :: string
  payment_OriginalTotalProductPrice :: string
  payment_OriginalShippingFee :: string
  payment_ShippingFeeSellerDiscount :: string
  payment_ShippingFeePlatformDiscount :: string
  payment_ShippingFeeCofundedDiscount :: string
  payment_Tax :: string
  payment_SmallOrderFee :: string
  payment_ShippingFeeTax :: string
  payment_ProductTax :: string
  payment_RetailDeliveryFee :: string
  payment_BuyerServiceFee :: string
  payment_HandlingFee :: string
  payment_ShippingInsuranceFee :: string
  payment_ItemInsuranceFee :: string
  payment_ItemInsuranceTax :: string
  payment_DistanceShippingFee :: string
  payment_DistanceFee :: string

record CombinedListingSKU =
  combined_SKUID :: string
  combined_SKUCount :: int
  combined_ProductID :: string
  combined_SellerSKU :: string

record OrderLineItem =
  line_ID :: string
  line_ProductID :: string
  line_SKUID :: string
  line_SellerSKU :: string
  line_ProductName :: string
  line_SKUName :: string
  line_Currency :: string
  line_OriginalPrice :: string
  line_SalePrice :: string
  line_SellerDiscount :: string
  line_PlatformDiscount :: string
  line_DisplayStatus :: string
  line_PackageID :: string
  line_PackageStatus :: string
  line_Quantity :: int
  line_CombinedListingSKUs :: "CombinedListingSKU list"

record OrderPackage =
  package_ID :: string

record Order =
  order_ID :: string
  order_Status :: OrderStatus
  order_CreateTime :: int
  order_UpdateTime :: int
  order_PaidTime :: int
  order_CancelTime :: int
  order_ShippingType :: ShippingType
  order_FulfillmentType :: string
  order_DeliveryType :: string
  order_OrderType :: string
  order_CommercePlatform :: string
  order_IsCOD :: bool
  order_IsSampleOrder :: bool
  order_IsBuyerRequestCancel :: bool
  order_Payment :: OrderPayment
  order_LineItems :: "OrderLineItem list"
  order_Packages :: "OrderPackage list"

text \<open>A price detail holds price details for its lines, hence a datatype.\<close>

datatype PriceDetail = PriceDetail
  (price_Currency: string) (price_Total: string) (price_Payment: string)
  (price_SKUListPrice: string) (price_SKUSalePrice: string) (price_Subtotal: string)
  (price_SubtotalDeductionSeller: string) (price_SubtotalDeductionPlatform: string)
  (price_SubtotalTaxAmount: string) (price_VoucherDeductionPlatform: string)
  (price_VoucherDeductionSeller: string) (price_ShippingListPrice: string)
  (price_ShippingSalePrice: string) (price_ShippingFeeDeductionSeller: string)
  (price_ShippingFeeDeductionPlatform: string)
  (price_ShippingFeeDeductionPlatformVoucher: string) (price_TaxAmount: string)
  (price_TaxRate: string) (price_NetPriceAmount: string) (price_SmallOrderFee: string)
  (price_CODFee: string) (price_CODFeeNetAmount: string) (price_SKUGiftOriginalPrice: string)
  (price_SKUGiftNetPrice: string) (price_DistanceShippingFee: string) (price_DistanceFee: string)
  (price_LineItems: "PriceDetail list")

record SearchOrdersResult =
  result_NextPageToken :: string
  result_TotalCount :: int
  result_Orders :: "Order list"

text \<open>The two sentinel errors, and what \<open>do\<close> may return besides.\<close>

datatype order_error = ErrInvalidOrderInput | ErrInvalidOrderResponse | ExchangeError string

section \<open>Validation\<close>

definition validOrderStatus :: "OrderStatus \<Rightarrow> bool" where
  "validOrderStatus status \<longleftrightarrow>
     status \<in> set [[], OrderStatusUnpaid, OrderStatusOnHold, OrderStatusAwaitingShipment,
       OrderStatusPartiallyShipping, OrderStatusAwaitingCollection, OrderStatusInTransit,
       OrderStatusDelivered, OrderStatusCompleted, OrderStatusCancelled]"

definition validShippingType :: "ShippingType \<Rightarrow> bool" where
  "validShippingType t \<longleftrightarrow>
     t \<in> set [[], ShippingTypeTikTok, ShippingTypeSeller, ShippingTypeTikTokDigital]"

definition validTimeRange :: "int \<Rightarrow> int \<Rightarrow> bool" where
  "validTimeRange from_t to_t \<longleftrightarrow>
     from_t \<ge> 0 \<and> to_t \<ge> 0 \<and> (from_t = 0 \<or> to_t = 0 \<or> from_t < to_t)"

text \<open>\<open>SearchOrdersRequest.Validate\<close> changes the request through its pointer: the page token and
  the warehouse ids are trimmed. \<open>None\<close> is a nil request.\<close>

definition validateSearch :: "SearchOrdersRequest option \<Rightarrow> order_error + SearchOrdersRequest" where
  "validateSearch arg =
     (case arg of None \<Rightarrow> Inl ErrInvalidOrderInput
      | Some input \<Rightarrow>
          if search_PageSize input < 1 \<or> search_PageSize input > 100 then Inl ErrInvalidOrderInput
          else
            (let input = input\<lparr>search_PageToken := trim_space (search_PageToken input)\<rparr>;
                 filters = search_Filters input in
             if search_SortField input \<noteq> [] \<and> search_SortField input \<noteq> OrderSortFieldCreateTime
                \<and> search_SortField input \<noteq> OrderSortFieldUpdateTime
             then Inl ErrInvalidOrderInput
             else if search_SortOrder input \<noteq> [] \<and> search_SortOrder input \<noteq> OrderSortAscending
                \<and> search_SortOrder input \<noteq> OrderSortDescending
             then Inl ErrInvalidOrderInput
             else if \<not> validOrderStatus (filter_OrderStatus filters)
                \<or> \<not> validShippingType (filter_ShippingType filters)
             then Inl ErrInvalidOrderInput
             else if \<not> validTimeRange (filter_CreateTimeGE filters) (filter_CreateTimeLT filters)
                \<or> \<not> validTimeRange (filter_UpdateTimeGE filters) (filter_UpdateTimeLT filters)
             then Inl ErrInvalidOrderInput
             else if length (filter_WarehouseIDs filters) > 100 then Inl ErrInvalidOrderInput
             else
               and_then (scan_unique ErrInvalidOrderInput trim_space (\<lambda>w. w \<noteq> []) []
                           (filter_WarehouseIDs filters))
                 (\<lambda>ws. Inr (input\<lparr>search_Filters := filters\<lparr>filter_WarehouseIDs := ws\<rparr>\<rparr>))))"

definition normalizeOrderIDs :: "string list \<Rightarrow> order_error + string list" where
  "normalizeOrderIDs input =
     (if length input = 0 \<or> length input > 50 then Inl ErrInvalidOrderInput
      else scan_unique ErrInvalidOrderInput trim_space (\<lambda>i. i \<noteq> []) [] input)"

text \<open>The loop of \<open>validateOrders\<close>: it trims the id of each order in place, and refuses an order
  without id or status, with an unknown status, seen before, or not asked for.\<close>

fun validateOrdersLoop ::
    "string set option \<Rightarrow> string set \<Rightarrow> Order list \<Rightarrow> order_error + Order list" where
  "validateOrdersLoop expected seen [] = Inr []"
| "validateOrdersLoop expected seen (ord # orders) =
     (let ord = ord\<lparr>order_ID := trim_space (order_ID ord)\<rparr> in
      if order_ID ord = [] \<or> order_Status ord = [] \<or> \<not> validOrderStatus (order_Status ord)
      then Inl ErrInvalidOrderResponse
      else if order_ID ord \<in> seen then Inl ErrInvalidOrderResponse
      else if (case expected of None \<Rightarrow> False | Some ids \<Rightarrow> order_ID ord \<notin> ids)
      then Inl ErrInvalidOrderResponse
      else and_then (validateOrdersLoop expected (insert (order_ID ord) seen) orders)
             (\<lambda>rest. Inr (ord # rest)))"

definition validateOrders :: "Order list \<Rightarrow> nat \<Rightarrow> string set option \<Rightarrow> order_error + Order list" where
  "validateOrders orders limit expected =
     (if length orders > limit then Inl ErrInvalidOrderResponse
      else validateOrdersLoop expected {} orders)"

section \<open>The client's operations\<close>

record OrderClient =
  client_baseURL :: "string option"
  client_appKey :: string
  client_appSecret :: string
  client_now :: int

text \<open>What an operation hands to \<open>do\<close>: method, path, query, the filters it encodes as the body,
  access token.\<close>

record order_call =
  call_method :: string
  call_path :: string
  call_query :: "(string \<times> string) list"
  call_body :: "OrderSearchFilters option"
  call_token :: string

definition PathSearchOrders :: string where "PathSearchOrders = ''/order/202309/orders/search''"
definition PathGetOrderDetails :: string where "PathGetOrderDetails = ''/order/202507/orders''"
definition PathPriceDetailBase :: string where "PathPriceDetailBase = ''/order/202407/orders''"

definition baseQuery :: "OrderClient \<Rightarrow> string \<Rightarrow> (string \<times> string) list" where
  "baseQuery c shopCipher =
     [(''app_key'', client_appKey c), (''shop_cipher'', shopCipher),
      (''timestamp'', dec_of_int (client_now c))]"

text \<open>\<open>exchange\<close> is \<open>OrderClient.do\<close>: the request id of the response and either an error or the
  decoded data.\<close>

definition SearchOrders ::
    "(order_call \<Rightarrow> string \<times> (order_error + SearchOrdersResult)) \<Rightarrow> OrderClient option \<Rightarrow>
     string \<Rightarrow> string \<Rightarrow> SearchOrdersRequest \<Rightarrow> string \<times> (order_error + SearchOrdersResult)" where
  "SearchOrders exchange client accessToken shopCipher input =
     (let accessToken = trim_space accessToken; shopCipher = trim_space shopCipher in
      case client of None \<Rightarrow> ([], Inl ErrInvalidOrderInput)
      | Some c \<Rightarrow>
         if client_baseURL c = None \<or> accessToken = [] \<or> shopCipher = []
         then ([], Inl ErrInvalidOrderInput)
         else
           (case validateSearch (Some input) of
              Inl _ \<Rightarrow> ([], Inl ErrInvalidOrderInput)
            | Inr input \<Rightarrow>
               (let query = baseQuery c shopCipher;
                    query = assoc_update ''page_size'' (dec_of_int (search_PageSize input)) query;
                    query = (if search_PageToken input \<noteq> []
                             then assoc_update ''page_token'' (search_PageToken input) query else query);
                    query = (if search_SortField input \<noteq> []
                             then assoc_update ''sort_field'' (search_SortField input) query else query);
                    query = (if search_SortOrder input \<noteq> []
                             then assoc_update ''sort_order'' (search_SortOrder input) query else query)
                in case exchange \<lparr>call_method = ''POST'', call_path = PathSearchOrders, call_query = query,
                          call_body = Some (search_Filters input), call_token = accessToken\<rparr> of
                     (requestID, Inl e) \<Rightarrow> (requestID, Inl e)
                   | (requestID, Inr result) \<Rightarrow>
                       (case validateOrders (result_Orders result) 100 None of
                          Inl _ \<Rightarrow> (requestID, Inl ErrInvalidOrderResponse)
                        | Inr orders \<Rightarrow>
                            if result_TotalCount result < int (length orders)
                            then (requestID, Inl ErrInvalidOrderResponse)
                            else (requestID, Inr (result\<lparr>result_Orders := orders,
                                    result_NextPageToken := trim_space (result_NextPageToken result)\<rparr>))))))"

definition GetOrderDetails ::
    "(order_call \<Rightarrow> string \<times> (order_error + Order list)) \<Rightarrow> OrderClient option \<Rightarrow>
     string \<Rightarrow> string \<Rightarrow> string list \<Rightarrow> string \<times> (order_error + Order list)" where
  "GetOrderDetails exchange client accessToken shopCipher orderIDs =
     (let accessToken = trim_space accessToken; shopCipher = trim_space shopCipher in
      case (client, normalizeOrderIDs orderIDs) of
        (Some c, Inr ids) \<Rightarrow>
          if client_baseURL c = None \<or> accessToken = [] \<or> shopCipher = []
          then ([], Inl ErrInvalidOrderInput)
          else
            (let query = assoc_update ''ids'' (join ids '','') (baseQuery c shopCipher) in
             case exchange \<lparr>call_method = ''GET'', call_path = PathGetOrderDetails, call_query = query,
                    call_body = None, call_token = accessToken\<rparr> of
               (requestID, Inl e) \<Rightarrow> (requestID, Inl e)
             | (requestID, Inr orders) \<Rightarrow>
                 (case validateOrders orders 50 (Some (set ids)) of
                    Inl _ \<Rightarrow> (requestID, Inl ErrInvalidOrderResponse)
                  | Inr orders \<Rightarrow>
                      if length orders \<noteq> length ids then (requestID, Inl ErrInvalidOrderResponse)
                      else (requestID, Inr orders)))
      | _ \<Rightarrow> ([], Inl ErrInvalidOrderInput))"

definition GetPriceDetail ::
    "(order_call \<Rightarrow> string \<times> (order_error + PriceDetail)) \<Rightarrow> OrderClient option \<Rightarrow>
     string \<Rightarrow> string \<Rightarrow> string \<Rightarrow> string \<times> (order_error + PriceDetail)" where
  "GetPriceDetail exchange client accessToken shopCipher orderID =
     (let accessToken = trim_space accessToken; shopCipher = trim_space shopCipher;
          orderID = trim_space orderID in
      case client of None \<Rightarrow> ([], Inl ErrInvalidOrderInput)
      | Some c \<Rightarrow>
         if client_baseURL c = None \<or> accessToken = [] \<or> shopCipher = [] \<or> orderID = []
            \<or> (\<exists>ch\<in>set orderID. ch \<in> set ''/?#'')
         then ([], Inl ErrInvalidOrderInput)
         else
           (case exchange \<lparr>call_method = ''GET'',
                   call_path = PathPriceDetailBase @ ''/'' @ orderID @ ''/price_detail'',
                   call_query = baseQuery c shopCipher, call_body = None, call_token = accessToken\<rparr> of
              (requestID, Inl e) \<Rightarrow> (requestID, Inl e)
            | (requestID, Inr detail) \<Rightarrow>
                if trim_space (price_Currency detail) = [] \<or> trim_space (price_Payment detail) = []
                then (requestID, Inl ErrInvalidOrderResponse)
                else (requestID, Inr detail)))"

section \<open>Facts\<close>

lemma validateOrdersLoop_Inr:
  "validateOrdersLoop expected seen orders = Inr outs \<Longrightarrow>
     outs = map (\<lambda>w. w\<lparr>order_ID := trim_space (order_ID w)\<rparr>) orders \<and>
     distinct (map order_ID outs) \<and> order_ID ` set outs \<inter> seen = {} \<and>
     (\<forall>w\<in>set outs. order_ID w \<noteq> [] \<and> order_Status w \<noteq> [] \<and> validOrderStatus (order_Status w)) \<and>
     (\<forall>ids. expected = Some ids \<longrightarrow> order_ID ` set outs \<subseteq> ids)"
proof (induction orders arbitrary: seen outs)
  case Nil
  then show ?case by simp
next
  case (Cons ord orders)
  define ord' where "ord' = ord\<lparr>order_ID := trim_space (order_ID ord)\<rparr>"
  from Cons.prems obtain rest where rest:
      "validateOrdersLoop expected (insert (order_ID ord') seen) orders = Inr rest"
      "outs = ord' # rest" "order_ID ord' \<noteq> []" "order_Status ord' \<noteq> []"
      "validOrderStatus (order_Status ord')" "order_ID ord' \<notin> seen"
      "\<forall>ids. expected = Some ids \<longrightarrow> order_ID ord' \<in> ids"
    by (auto simp: Let_def ord'_def [symmetric] result_simps split: if_splits option.splits)
  note IH = Cons.IH [OF rest(1)]
  note IH1 = IH [THEN conjunct1] and IH2 = IH [THEN conjunct2, THEN conjunct1]
    and IH3 = IH [THEN conjunct2, THEN conjunct2, THEN conjunct1]
    and IH4 = IH [THEN conjunct2, THEN conjunct2, THEN conjunct2, THEN conjunct1]
    and IH5 = IH [THEN conjunct2, THEN conjunct2, THEN conjunct2, THEN conjunct2]
  have "outs = map (\<lambda>w. w\<lparr>order_ID := trim_space (order_ID w)\<rparr>) (ord # orders)"
    unfolding rest(2) IH1 by (simp only: list.map ord'_def)
  moreover have "distinct (map order_ID outs)" "order_ID ` set outs \<inter> seen = {}"
    unfolding rest(2) using IH2 IH3 rest(6) by auto
  moreover have "\<forall>w\<in>set outs. order_ID w \<noteq> [] \<and> order_Status w \<noteq> [] \<and> validOrderStatus (order_Status w)"
    unfolding rest(2) using IH4 rest(3-5) by simp
  moreover have "\<forall>ids. expected = Some ids \<longrightarrow> order_ID ` set outs \<subseteq> ids"
    unfolding rest(2) using IH5 rest(7) by simp
  ultimately show ?case by blast
qed

lemma validateOrders_Inr:
  assumes "validateOrders orders limit expected = Inr outs"
  shows "length outs \<le> limit" "distinct (map order_ID outs)"
    "\<forall>w\<in>set outs. trim_space (order_ID w) = order_ID w \<and> order_ID w \<noteq> []
       \<and> order_Status w \<noteq> [] \<and> validOrderStatus (order_Status w)"
    "expected = Some ids \<Longrightarrow> order_ID ` set outs \<subseteq> ids"
proof -
  have len: "length orders \<le> limit" and loop: "validateOrdersLoop expected {} orders = Inr outs"
    using assms by (auto simp: validateOrders_def split: if_splits)
  note * = validateOrdersLoop_Inr [OF loop]
  show "length outs \<le> limit" using * len by simp
  show "distinct (map order_ID outs)" using * by blast
  show "\<forall>w\<in>set outs. trim_space (order_ID w) = order_ID w \<and> order_ID w \<noteq> []
       \<and> order_Status w \<noteq> [] \<and> validOrderStatus (order_Status w)"
    using * by auto
  show "expected = Some ids \<Longrightarrow> order_ID ` set outs \<subseteq> ids" using * by blast
qed

lemma normalizeOrderIDs_Inr:
  assumes "normalizeOrderIDs input = Inr ids"
  shows "ids = map trim_space input" "distinct ids" "[] \<notin> set ids" "ids \<noteq> []" "length ids \<le> 50"
  using assms by (auto simp: normalizeOrderIDs_def scan_unique_Inr_iff split: if_splits)

section \<open>Properties\<close>

text \<open>
  An accepted order-detail response holds exactly the orders that were asked for: the ids
  of the returned orders are the trimmed requested ids, each once, whatever the exchange
  returned, and every order has a known, non-empty status.
\<close>
theorem GetOrderDetails_exact:
  assumes "GetOrderDetails exchange client token cipher orderIDs = (requestID, Inr orders)"
  shows "mset (map order_ID orders) = mset (map trim_space orderIDs)
    \<and> (\<forall>w\<in>set orders. order_Status w \<noteq> [] \<and> validOrderStatus (order_Status w))"
proof -
  obtain c ids raw where ids: "normalizeOrderIDs orderIDs = Inr ids"
    and val: "validateOrders raw 50 (Some (set ids)) = Inr orders" and len: "length orders = length ids"
    using assms
    by (auto simp: GetOrderDetails_def Let_def split: option.splits sum.splits prod.splits if_splits)
  note v = validateOrders_Inr [OF val] and n = normalizeOrderIDs_Inr [OF ids]
  have "set (map order_ID orders) \<subseteq> set ids" using v(4) by simp
  moreover have "card (set (map order_ID orders)) = card (set ids)"
    using v(2) n(2) len by (metis distinct_card length_map)
  ultimately have "set (map order_ID orders) = set ids" by (simp add: card_subset_eq)
  then have "mset (map order_ID orders) = mset ids"
    using v(2) n(2) by (metis mset_set_set)
  with n(1) v(3) show ?thesis by auto
qed

definition sample_payment :: OrderPayment where
  "sample_payment =
     \<lparr>payment_Currency = ''THB'', payment_SubTotal = ''10'', payment_ShippingFee = ''1'',
      payment_SellerDiscount = [], payment_PlatformDiscount = [],
      payment_PaymentPlatformDiscount = [], payment_PaymentDiscountServiceFee = [],
      payment_TotalAmount = ''11'', payment_OriginalTotalProductPrice = ''10'',
      payment_OriginalShippingFee = [], payment_ShippingFeeSellerDiscount = [],
      payment_ShippingFeePlatformDiscount = [], payment_ShippingFeeCofundedDiscount = [],
      payment_Tax = [], payment_SmallOrderFee = [], payment_ShippingFeeTax = [],
      payment_ProductTax = [], payment_RetailDeliveryFee = [], payment_BuyerServiceFee = [],
      payment_HandlingFee = [], payment_ShippingInsuranceFee = [], payment_ItemInsuranceFee = [],
      payment_ItemInsuranceTax = [], payment_DistanceShippingFee = [], payment_DistanceFee = []\<rparr>"

definition sample_line :: "string \<Rightarrow> string \<Rightarrow> OrderLineItem" where
  "sample_line i sku =
     \<lparr>line_ID = i, line_ProductID = ''7'', line_SKUID = sku, line_SellerSKU = [],
      line_ProductName = ''Cup'', line_SKUName = ''Blue'', line_Currency = ''THB'',
      line_OriginalPrice = ''50'', line_SalePrice = ''50'', line_SellerDiscount = [],
      line_PlatformDiscount = [], line_DisplayStatus = [], line_PackageID = [],
      line_PackageStatus = [], line_Quantity = 1, line_CombinedListingSKUs = []\<rparr>"

definition sample_order :: "string \<Rightarrow> Order" where
  "sample_order i =
     \<lparr>order_ID = i, order_Status = ''UNPAID'', order_CreateTime = 0, order_UpdateTime = 1000,
      order_PaidTime = 0, order_CancelTime = 0, order_ShippingType = [], order_FulfillmentType = [],
      order_DeliveryType = [], order_OrderType = [], order_CommercePlatform = [], order_IsCOD = False,
      order_IsSampleOrder = False, order_IsBuyerRequestCancel = False,
      order_Payment = sample_payment,
      order_LineItems = [sample_line ''2'' ''9'', sample_line ''1'' ''9''], order_Packages = []\<rparr>"

definition sample_client :: OrderClient where
  "sample_client = \<lparr>client_baseURL = Some ''https://api'', client_appKey = ''k'',
     client_appSecret = ''s'', client_now = 1700000000\<rparr>"

theorem GetOrderDetails_exact_witness:
  "mset (map order_ID [sample_order ''6'', sample_order ''5'']) = mset (map trim_space ['' 5'', ''6''])
    \<and> order_Status (sample_order ''5'') \<noteq> [] \<and> validOrderStatus (order_Status (sample_order ''5''))"
proof -
  have t: "trim_space '' 5 '' = ''5''" "trim_space ''6'' = ''6''" "trim_space ''t'' = ''t''"
    "trim_space ''c'' = ''c''" by code_simp+
  have "normalizeOrderIDs ['' 5'', ''6''] = Inr [''5'', ''6'']" by code_simp
  then have "GetOrderDetails (\<lambda>_. (''r'', Inr [sample_order ''6'', sample_order '' 5 ''])) (Some sample_client)
      ''t'' ''c'' ['' 5'', ''6''] = (''r'', Inr [sample_order ''6'', sample_order ''5''])"
    by (simp add: GetOrderDetails_def t sample_client_def validateOrders_def sample_order_def
        validOrderStatus_def order_status_defs)
  from GetOrderDetails_exact [OF this] show ?thesis by simp
qed

text \<open>
  A validated search request is bounded (page size 1 to 100, at most 100 warehouse ids, time
  ranges in order) and validating it again changes nothing.
\<close>
theorem validateSearch_stable:
  assumes "validateSearch (Some input) = Inr req"
  shows "validateSearch (Some req) = Inr req \<and> 1 \<le> search_PageSize req \<and> search_PageSize req \<le> 100
    \<and> distinct (filter_WarehouseIDs (search_Filters req))
    \<and> length (filter_WarehouseIDs (search_Filters req)) \<le> 100"
proof -
  define fs where "fs = search_Filters input"
  obtain ws where ws: "scan_unique ErrInvalidOrderInput trim_space (\<lambda>w. w \<noteq> []) []
        (filter_WarehouseIDs fs) = Inr ws"
    and req: "req = input\<lparr>search_PageToken := trim_space (search_PageToken input),
        search_Filters := fs\<lparr>filter_WarehouseIDs := ws\<rparr>\<rparr>"
    and len: "length (filter_WarehouseIDs fs) \<le> 100"
    and checks: "1 \<le> search_PageSize input" "search_PageSize input \<le> 100"
      "validOrderStatus (filter_OrderStatus fs)" "validShippingType (filter_ShippingType fs)"
      "validTimeRange (filter_CreateTimeGE fs) (filter_CreateTimeLT fs)"
      "validTimeRange (filter_UpdateTimeGE fs) (filter_UpdateTimeLT fs)"
      "search_SortField input = [] \<or> search_SortField input = OrderSortFieldCreateTime
        \<or> search_SortField input = OrderSortFieldUpdateTime"
      "search_SortOrder input = [] \<or> search_SortOrder input = OrderSortAscending
        \<or> search_SortOrder input = OrderSortDescending"
    using assms
    by (simp add: validateSearch_def Let_def result_simps fs_def split: if_splits) blast
  have idem: "scan_unique ErrInvalidOrderInput trim_space (\<lambda>w. w \<noteq> []) [] ws = Inr ws"
    using ws by (rule scan_unique_idem) simp
  have "length ws \<le> 100" using len scan_unique_map [OF ws] by simp
  moreover have "distinct ws" using ws by (rule scan_unique_distinct)
  ultimately show ?thesis
    using checks idem by (auto simp: req validateSearch_def Let_def result_simps)
qed

definition sample_search :: SearchOrdersRequest where
  "sample_search = \<lparr>search_PageSize = 20, search_PageToken = '' p'', search_SortField = ''update_time'',
     search_SortOrder = ''ASC'',
     search_Filters = \<lparr>filter_OrderStatus = [], filter_CreateTimeGE = 0, filter_CreateTimeLT = 0,
       filter_UpdateTimeGE = 10, filter_UpdateTimeLT = 20, filter_ShippingType = [],
       filter_IsBuyerRequestCancel = None, filter_WarehouseIDs = ['' a'', ''b'']\<rparr>\<rparr>"

definition sample_search_valid :: SearchOrdersRequest where
  "sample_search_valid = sample_search\<lparr>search_PageToken := ''p'',
     search_Filters := (search_Filters sample_search)\<lparr>filter_WarehouseIDs := [''a'', ''b'']\<rparr>\<rparr>"

theorem validateSearch_stable_witness:
  "validateSearch (Some sample_search_valid) = Inr sample_search_valid
    \<and> 1 \<le> search_PageSize sample_search_valid \<and> search_PageSize sample_search_valid \<le> 100
    \<and> distinct (filter_WarehouseIDs (search_Filters sample_search_valid))
    \<and> length (filter_WarehouseIDs (search_Filters sample_search_valid)) \<le> 100"
proof (rule validateSearch_stable)
  show "validateSearch (Some sample_search) = Inr sample_search_valid" by code_simp
qed

end
