(* ===== verification/Stores.thy ===== *)
theory Stores
  imports Prelude
begin

text \<open>
  The contract of a database table that is written by \<open>INSERT ... ON CONFLICT ... DO UPDATE\<close>: a
  locale with the key of a row, the merge of the new row with the one it replaces, and the
  write itself. What a batch of such writes does to the table is proved once here; each
  component that keeps such a table interprets the locale on its own write.
\<close>

definition lookup_by :: "('r \<Rightarrow> 'k) \<Rightarrow> 'r list \<Rightarrow> 'k \<Rightarrow> 'r option" where
  "lookup_by key rows k = find (\<lambda>r. key r = k) rows"

lemma lookup_by_Nil [simp]: "lookup_by key [] k = None"
  by (simp add: lookup_by_def)

lemma lookup_by_Cons [simp]:
  "lookup_by key (r # rows) k = (if key r = k then Some r else lookup_by key rows k)"
  by (simp add: lookup_by_def)

lemma lookup_by_None: "lookup_by key rows k = None \<longleftrightarrow> k \<notin> key ` set rows"
  by (induction rows) auto

lemma lookup_by_Some: "lookup_by key rows k = Some r \<Longrightarrow> r \<in> set rows \<and> key r = k"
  by (induction rows) (auto split: if_splits)

lemma lookup_by_map:
  "(\<And>r. key (f r) = key r) \<Longrightarrow> lookup_by key (map f rows) k = map_option f (lookup_by key rows k)"
  by (induction rows) simp_all

lemma lookup_by_distinct:
  "distinct (map key rows) \<Longrightarrow> r \<in> set rows \<Longrightarrow> lookup_by key rows (key r) = Some r"
  by (induction rows) (auto simp: image_iff)

text \<open>\<open>UPDATE ... WHERE key = k\<close> with a change that keeps the key.\<close>

lemma lookup_by_update:
  assumes "\<And>r. key r = k \<Longrightarrow> key (f r) = k"
  shows "lookup_by key (map (\<lambda>r. if key r = k then f r else r) rows) k'
     = (if k' = k then map_option f (lookup_by key rows k) else lookup_by key rows k')"
  using assms by (induction rows) auto

text \<open>A batch of writes, first to last.\<close>

definition write_all :: "('r \<Rightarrow> 'r list \<Rightarrow> 'r list) \<Rightarrow> 'r list \<Rightarrow> 'r list \<Rightarrow> 'r list" where
  "write_all upsert news rows = foldl (\<lambda>rs n. upsert n rs) rows news"

lemma write_all_simps [simp]:
  "write_all upsert [] rows = rows"
  "write_all upsert (n # news) rows = write_all upsert news (upsert n rows)"
  by (simp_all add: write_all_def)

locale keyed_table =
  fixes key :: "'r \<Rightarrow> 'k"
    and merge :: "'r \<Rightarrow> 'r \<Rightarrow> 'r"
    and upsert :: "'r \<Rightarrow> 'r list \<Rightarrow> 'r list"
  assumes lookup_write:
      "lookup_by key (upsert new rows) k =
         (if k = key new
          then Some (case lookup_by key rows k of None \<Rightarrow> new | Some old \<Rightarrow> merge new old)
          else lookup_by key rows k)"
    and distinct_write: "distinct (map key rows) \<Longrightarrow> distinct (map key (upsert new rows))"
begin

lemma distinct_write_all: "distinct (map key rows) \<Longrightarrow> distinct (map key (write_all upsert news rows))"
  by (induction news arbitrary: rows) (simp_all add: distinct_write)

lemma lookup_write_all_other:
  "k \<notin> key ` set news \<Longrightarrow> lookup_by key (write_all upsert news rows) k = lookup_by key rows k"
  by (induction news arbitrary: rows) (auto simp: lookup_write)

lemma lookup_write_all:
  "distinct (map key news) \<Longrightarrow> n \<in> set news \<Longrightarrow>
     lookup_by key (write_all upsert news rows) (key n) =
       Some (case lookup_by key rows (key n) of None \<Rightarrow> n | Some old \<Rightarrow> merge n old)"
proof (induction news arbitrary: rows)
  case Nil
  then show ?case by simp
next
  case (Cons m news)
  show ?case
  proof (cases "n = m")
    case True
    with Cons.prems show ?thesis by (auto simp: lookup_write_all_other lookup_write)
  next
    case False
    with Cons.prems have "n \<in> set news" "key n \<noteq> key m" by (auto simp: image_iff)
    with Cons show ?thesis by (simp add: lookup_write)
  qed
qed

end

end
