(* ===== verification/TikTok_Snapshot.thy ===== *)
theory TikTok_Snapshot
  imports TikTok_Orders Stores "HOL-Library.Product_Lexorder"
begin

text \<open>
  \<open>backend/internal/services/tiktokshop/order_snapshot.go\<close>: a batch of orders is read from the
  gateway, each order is checked against its price detail and normalised into a snapshot, and
  the batch is stored in one transaction, one row per shop and order. JSON encoding and SHA-256
  are the parameter \<open>codec\<close>; the two gateway calls and the store are parameters of \<open>Sync\<close>, and
  the store is modelled over its tables by \<open>UpsertBatch\<close> and \<open>ListSnapshots\<close>. A time is a number of
  seconds since 1970.
\<close>

section \<open>Data\<close>

definition maxTikTokOrderSnapshotBatch :: nat where
  "maxTikTokOrderSnapshotBatch = 20"

datatype snapshot_error =
    ErrInvalidSnapshotInput
  | ErrSnapshotAmountMismatch
  | ErrSnapshotSourceInvalid
  | ErrSnapshotSourceUnavailable
  | ErrSnapshotPersistenceFailed
  | ErrSnapshotStoreNotConfigured
  | ErrInvalidSnapshotListFilter
  | SnapshotDatabaseError

record TikTokOrderSnapshotRequest =
  snapreq_ShopID :: string
  snapreq_OrderIDs :: "string list"

record TikTokOrderSnapshotSummary =
  summary_OrderID :: string
  summary_OrderStatus :: OrderStatus
  summary_ItemCount :: nat
  summary_SKUCount :: nat
  summary_SourceHash :: string
  summary_DetailRequestID :: string
  summary_PriceDetailRequestID :: string

record TikTokOrderSnapshotResult =
  snapres_ShopID :: string
  snapres_SyncedCount :: nat
  snapres_Snapshots :: "TikTokOrderSnapshotSummary list"

record NormalizedTikTokOrderItem =
  item_ProductID :: string
  item_SKUID :: string
  item_SellerSKU :: string
  item_ProductName :: string
  item_SKUName :: string
  item_Quantity :: nat
  item_LineIDs :: "string list"

record TikTokOrderSnapshotRecord =
  snap_OrderID :: string
  snap_OrderStatus :: OrderStatus
  snap_Currency :: string
  snap_PaymentTotal :: string
  snap_ProductSubtotal :: string
  snap_ShippingFee :: string
  snap_ItemInsuranceFee :: string
  snap_ItemCount :: nat
  snap_SKUCount :: nat
  snap_SafeOrderJSON :: string
  snap_SafePriceDetailJSON :: string
  snap_NormalizedItems :: "NormalizedTikTokOrderItem list"
  snap_NormalizedItemsJSON :: string
  snap_DetailRequestID :: string
  snap_PriceDetailRequestID :: string
  snap_SourceHash :: string
  snap_LastOrderUpdateAt :: "int option"

text \<open>\<open>json.Marshal\<close> of the three parts and of the struct that is hashed, and the hexadecimal
  SHA-256 of it. None of these values makes \<open>json.Marshal\<close> fail.\<close>

record codec =
  marshal_order :: "Order \<Rightarrow> string"
  marshal_price :: "PriceDetail \<Rightarrow> string"
  marshal_items :: "NormalizedTikTokOrderItem list \<Rightarrow> string"
  marshal_hash_input :: "string \<Rightarrow> string \<Rightarrow> string \<Rightarrow> string"
  sha256_hex :: "string \<Rightarrow> string"

section \<open>Normalising the lines of an order\<close>

definition item_key :: "string \<Rightarrow> string \<Rightarrow> string" where
  "item_key productID skuID = productID @ [CHR 0x00] @ skuID"

fun normalizeLinesLoop ::
    "(string \<times> NormalizedTikTokOrderItem) list \<Rightarrow> string set \<Rightarrow> OrderLineItem list \<Rightarrow>
     snapshot_error + (string \<times> NormalizedTikTokOrderItem) list" where
  "normalizeLinesLoop grouped lineIDs [] = Inr grouped"
| "normalizeLinesLoop grouped lineIDs (line # rest) =
     (let i = trim_space (line_ID line); p = trim_space (line_ProductID line);
          s = trim_space (line_SKUID line) in
      if i = [] \<or> p = [] \<or> s = [] then Inl ErrInvalidSnapshotInput
      else if i \<in> lineIDs then Inl ErrInvalidSnapshotInput
      else
        (let key = item_key p s;
             item = (case map_of grouped key of
                 None \<Rightarrow> \<lparr>item_ProductID = p, item_SKUID = s,
                    item_SellerSKU = trim_space (line_SellerSKU line),
                    item_ProductName = trim_space (line_ProductName line),
                    item_SKUName = trim_space (line_SKUName line),
                    item_Quantity = 0, item_LineIDs = []\<rparr>
               | Some item \<Rightarrow>
                   if item_SellerSKU item = []
                   then item\<lparr>item_SellerSKU := trim_space (line_SellerSKU line)\<rparr> else item);
             item = item\<lparr>item_Quantity := item_Quantity item + 1,
                         item_LineIDs := item_LineIDs item @ [i]\<rparr>
         in normalizeLinesLoop (assoc_update key item grouped) (insert i lineIDs) rest))"

definition normalizeTikTokOrderItems ::
    "OrderLineItem list \<Rightarrow> snapshot_error + NormalizedTikTokOrderItem list" where
  "normalizeTikTokOrderItems lineItems =
     (if length lineItems = 0 \<or> length lineItems > 1000 then Inl ErrInvalidSnapshotInput
      else and_then (normalizeLinesLoop [] {} lineItems) (\<lambda>grouped.
        let items = map (\<lambda>(_, item). item\<lparr>item_LineIDs := sort_by id (item_LineIDs item)\<rparr>) grouped
        in Inr (sort_by (\<lambda>item. (item_ProductID item, item_SKUID item)) items)))"

text \<open>The pattern \<open>^(0|[1-9][0-9]{0,17})(\.[0-9]{1,6})?$\<close>.\<close>

definition money_pattern :: "string \<Rightarrow> bool" where
  "money_pattern s =
     (let whole = takeWhile (\<lambda>c. c \<noteq> CHR ''.'') s; point = dropWhile (\<lambda>c. c \<noteq> CHR ''.'') s in
      (whole = ''0''
        \<or> whole \<noteq> [] \<and> hd whole \<noteq> CHR ''0'' \<and> list_all is_digit whole \<and> length whole \<le> 18)
      \<and> (point = [] \<or> tl point \<noteq> [] \<and> list_all is_digit (tl point) \<and> length (tl point) \<le> 6))"

definition snapshotMoney :: "string \<Rightarrow> bool \<Rightarrow> snapshot_error + string \<times> rat" where
  "snapshotMoney raw required =
     (let value = trim_space raw;
          value = (if value = [] \<and> \<not> required then ''0'' else value) in
      if \<not> money_pattern value then Inl ErrInvalidSnapshotInput
      else case rat_set_string value of
             None \<Rightarrow> Inl ErrInvalidSnapshotInput
           | Some number \<Rightarrow> if number < 0 then Inl ErrInvalidSnapshotInput else Inr (value, number))"

section \<open>Building a snapshot\<close>

definition safeOrder :: "Order \<Rightarrow> Order" where
  "safeOrder ord =
     ord\<lparr>order_LineItems := sort_by (\<lambda>l. trim_space (line_ID l)) (order_LineItems ord),
         order_Packages := sort_by (\<lambda>p. trim_space (package_ID p)) (order_Packages ord)\<rparr>"

definition BuildTikTokOrderSnapshot ::
    "codec \<Rightarrow> Order \<Rightarrow> PriceDetail \<Rightarrow> string \<Rightarrow> string \<Rightarrow> snapshot_error + TikTokOrderSnapshotRecord"
  where
  "BuildTikTokOrderSnapshot cd ord price detailRequestID priceRequestID =
     (let ord = ord\<lparr>order_ID := trim_space (order_ID ord)\<rparr>;
          detailRequestID = trim_space detailRequestID;
          priceRequestID = trim_space priceRequestID;
          currency = to_upper (trim_space (payment_Currency (order_Payment ord)));
          priceCurrency = to_upper (trim_space (price_Currency price)) in
      if order_ID ord = [] \<or> order_Status ord = [] \<or> \<not> validOrderStatus (order_Status ord)
         \<or> currency = [] \<or> priceCurrency = [] \<or> currency \<noteq> priceCurrency
         \<or> detailRequestID = [] \<or> priceRequestID = []
      then Inl ErrInvalidSnapshotInput
      else
        and_then (snapshotMoney (payment_TotalAmount (order_Payment ord)) True) (\<lambda>(paymentTotal, paymentValue).
        and_then (snapshotMoney (price_Payment price) True) (\<lambda>(_, priceValue).
        if paymentValue \<noteq> priceValue then Inl ErrSnapshotAmountMismatch
        else
        and_then (snapshotMoney (payment_SubTotal (order_Payment ord)) False) (\<lambda>(productSubtotal, _).
        and_then (snapshotMoney (payment_ShippingFee (order_Payment ord)) False) (\<lambda>(shippingFee, _).
        and_then (snapshotMoney (payment_ItemInsuranceFee (order_Payment ord)) False) (\<lambda>(itemInsuranceFee, _).
        and_then (normalizeTikTokOrderItems (order_LineItems ord)) (\<lambda>normalized.
          let safe_order = marshal_order cd (safeOrder ord);
              safe_price = marshal_price cd price;
              normalizedJSON = marshal_items cd normalized;
              hashInput = marshal_hash_input cd safe_order safe_price normalizedJSON
          in Inr
            \<lparr>snap_OrderID = order_ID ord, snap_OrderStatus = order_Status ord,
             snap_Currency = currency, snap_PaymentTotal = paymentTotal,
             snap_ProductSubtotal = productSubtotal, snap_ShippingFee = shippingFee,
             snap_ItemInsuranceFee = itemInsuranceFee,
             snap_ItemCount = length (order_LineItems ord), snap_SKUCount = length normalized,
             snap_SafeOrderJSON = safe_order, snap_SafePriceDetailJSON = safe_price,
             snap_NormalizedItems = normalized, snap_NormalizedItemsJSON = normalizedJSON,
             snap_DetailRequestID = detailRequestID, snap_PriceDetailRequestID = priceRequestID,
             snap_SourceHash = sha256_hex cd hashInput,
             snap_LastOrderUpdateAt =
               (if order_UpdateTime ord > 0 then Some (order_UpdateTime ord) else None)\<rparr>)))))))"

definition normalizeSnapshotRequest ::
    "TikTokOrderSnapshotRequest \<Rightarrow> snapshot_error + string \<times> string list" where
  "normalizeSnapshotRequest input =
     (let shopID = trim_space (snapreq_ShopID input); ids = snapreq_OrderIDs input in
      if \<not> numeric_id shopID \<or> length ids = 0 \<or> length ids > maxTikTokOrderSnapshotBatch
      then Inl ErrInvalidSnapshotInput
      else and_then (scan_unique ErrInvalidSnapshotInput trim_space numeric_id [] ids)
             (\<lambda>orderIDs. Inr (shopID, orderIDs)))"

section \<open>Synchronising a batch\<close>

record GatewayOrderDetailsResponse =
  details_UpstreamRequestID :: string
  details_Orders :: "Order list"

record GatewayOrderPriceDetailResponse =
  pricedetail_UpstreamRequestID :: string
  pricedetail_PriceDetail :: "PriceDetail option"

text \<open>The gateway and the store of the service: each call reads and changes the outside world
  \<open>'w\<close>; \<open>Inl ()\<close> is an error of the call, \<open>Inr None\<close> a nil response.\<close>

record 'w OrderSnapshotService =
  svc_details :: "'w \<Rightarrow> string \<Rightarrow> string list \<Rightarrow> 'w \<times> (unit + GatewayOrderDetailsResponse option)"
  svc_price :: "'w \<Rightarrow> string \<Rightarrow> string \<Rightarrow> 'w \<times> (unit + GatewayOrderPriceDetailResponse option)"
  svc_upsert :: "'w \<Rightarrow> string \<Rightarrow> TikTokOrderSnapshotRecord list \<Rightarrow> 'w \<times> (snapshot_error + unit)"

text \<open>The orders of the detail response, keyed by trimmed id; the last order of an id is found
  first, but an id occurs once.\<close>

fun collectOrders ::
    "string list \<Rightarrow> (string \<times> Order) list \<Rightarrow> Order list \<Rightarrow> snapshot_error + (string \<times> Order) list"
  where
  "collectOrders orderIDs orders [] = Inr orders"
| "collectOrders orderIDs orders (ord # rest) =
     (let ord = ord\<lparr>order_ID := trim_space (order_ID ord)\<rparr> in
      if order_ID ord \<notin> set orderIDs \<or> order_Status ord = [] \<or> \<not> validOrderStatus (order_Status ord)
      then Inl ErrSnapshotSourceInvalid
      else if map_of orders (order_ID ord) \<noteq> None then Inl ErrSnapshotSourceInvalid
      else collectOrders orderIDs ((order_ID ord, ord) # orders) rest)"

text \<open>The zero value of an order, which a Go map returns for an absent key.\<close>

definition zeroPayment :: OrderPayment where
  "zeroPayment =
     \<lparr>payment_Currency = [], payment_SubTotal = [], payment_ShippingFee = [],
      payment_SellerDiscount = [], payment_PlatformDiscount = [],
      payment_PaymentPlatformDiscount = [], payment_PaymentDiscountServiceFee = [],
      payment_TotalAmount = [], payment_OriginalTotalProductPrice = [],
      payment_OriginalShippingFee = [], payment_ShippingFeeSellerDiscount = [],
      payment_ShippingFeePlatformDiscount = [], payment_ShippingFeeCofundedDiscount = [],
      payment_Tax = [], payment_SmallOrderFee = [], payment_ShippingFeeTax = [],
      payment_ProductTax = [], payment_RetailDeliveryFee = [], payment_BuyerServiceFee = [],
      payment_HandlingFee = [], payment_ShippingInsuranceFee = [], payment_ItemInsuranceFee = [],
      payment_ItemInsuranceTax = [], payment_DistanceShippingFee = [], payment_DistanceFee = []\<rparr>"

definition zeroOrder :: Order where
  "zeroOrder =
     \<lparr>order_ID = [], order_Status = [], order_CreateTime = 0, order_UpdateTime = 0,
      order_PaidTime = 0, order_CancelTime = 0, order_ShippingType = [], order_FulfillmentType = [],
      order_DeliveryType = [], order_OrderType = [], order_CommercePlatform = [],
      order_IsCOD = False, order_IsSampleOrder = False, order_IsBuyerRequestCancel = False,
      order_Payment = zeroPayment, order_LineItems = [], order_Packages = []\<rparr>"

definition lookupOrder :: "(string \<times> Order) list \<Rightarrow> string \<Rightarrow> Order" where
  "lookupOrder orders i = (case map_of orders i of None \<Rightarrow> zeroOrder | Some ord \<Rightarrow> ord)"

fun buildRecords ::
    "codec \<Rightarrow> 'w OrderSnapshotService \<Rightarrow> string \<Rightarrow> string \<Rightarrow> (string \<times> Order) list \<Rightarrow> 'w \<Rightarrow> string list \<Rightarrow>
     'w \<times> (snapshot_error + TikTokOrderSnapshotRecord list)" where
  "buildRecords cd svc shopID detailID orders w [] = (w, Inr [])"
| "buildRecords cd svc shopID detailID orders w (orderID # rest) =
     (case svc_price svc w shopID orderID of
        (w, Inl _) \<Rightarrow> (w, Inl ErrSnapshotSourceUnavailable)
      | (w, Inr None) \<Rightarrow> (w, Inl ErrSnapshotSourceInvalid)
      | (w, Inr (Some response)) \<Rightarrow>
          (case pricedetail_PriceDetail response of
             None \<Rightarrow> (w, Inl ErrSnapshotSourceInvalid)
           | Some detail \<Rightarrow>
               (case BuildTikTokOrderSnapshot cd (lookupOrder orders orderID) detail detailID
                       (pricedetail_UpstreamRequestID response) of
                  Inl e \<Rightarrow> (w, Inl (if e = ErrSnapshotAmountMismatch then e
                                    else ErrSnapshotSourceInvalid))
                | Inr record' \<Rightarrow>
                    (case buildRecords cd svc shopID detailID orders w rest of
                       (w, Inl e) \<Rightarrow> (w, Inl e)
                     | (w, Inr records) \<Rightarrow> (w, Inr (record' # records))))))"

definition snapshotSummary :: "TikTokOrderSnapshotRecord \<Rightarrow> TikTokOrderSnapshotSummary" where
  "snapshotSummary r =
     \<lparr>summary_OrderID = snap_OrderID r, summary_OrderStatus = snap_OrderStatus r,
      summary_ItemCount = snap_ItemCount r, summary_SKUCount = snap_SKUCount r,
      summary_SourceHash = snap_SourceHash r, summary_DetailRequestID = snap_DetailRequestID r,
      summary_PriceDetailRequestID = snap_PriceDetailRequestID r\<rparr>"

text \<open>\<open>None\<close> is a nil service, or one whose gateway or store is nil.\<close>

definition Sync ::
    "codec \<Rightarrow> 'w OrderSnapshotService option \<Rightarrow> 'w \<Rightarrow> TikTokOrderSnapshotRequest \<Rightarrow>
     'w \<times> (snapshot_error + TikTokOrderSnapshotResult)" where
  "Sync cd service w input =
     (case (normalizeSnapshotRequest input, service) of
        (Inr (shopID, orderIDs), Some svc) \<Rightarrow>
          (case svc_details svc w shopID orderIDs of
             (w, Inl _) \<Rightarrow> (w, Inl ErrSnapshotSourceUnavailable)
           | (w, Inr None) \<Rightarrow> (w, Inl ErrSnapshotSourceInvalid)
           | (w, Inr (Some detail)) \<Rightarrow>
               if trim_space (details_UpstreamRequestID detail) = []
                  \<or> length (details_Orders detail) \<noteq> length orderIDs
               then (w, Inl ErrSnapshotSourceInvalid)
               else
                 (case collectOrders orderIDs [] (details_Orders detail) of
                    Inl e \<Rightarrow> (w, Inl e)
                  | Inr orders \<Rightarrow>
                      (case buildRecords cd svc shopID (details_UpstreamRequestID detail) orders w orderIDs of
                         (w, Inl e) \<Rightarrow> (w, Inl e)
                       | (w, Inr records) \<Rightarrow>
                           (case svc_upsert svc w shopID records of
                              (w, Inl _) \<Rightarrow> (w, Inl ErrSnapshotPersistenceFailed)
                            | (w, Inr _) \<Rightarrow>
                                (w, Inr \<lparr>snapres_ShopID = shopID, snapres_SyncedCount = length records,
                                        snapres_Snapshots = map snapshotSummary records\<rparr>)))))
      | _ \<Rightarrow> (w, Inl ErrInvalidSnapshotInput))"

section \<open>The snapshot store\<close>

record ShopConnection =
  conn_ShopID :: string
  conn_ShopName :: string
  conn_GatewayConnectionID :: string
  conn_Disabled :: bool

record SnapshotRow =
  row_ShopID :: string
  row_ConnectionID :: string
  row_Snapshot :: TikTokOrderSnapshotRecord
  row_LastSyncedAt :: int

record SnapshotDB =
  db_connections :: "ShopConnection list"
  db_snapshots :: "SnapshotRow list"

definition activeConnection :: "SnapshotDB \<Rightarrow> string \<Rightarrow> ShopConnection option" where
  "activeConnection db shopID =
     find (\<lambda>c. conn_ShopID c = shopID \<and> \<not> conn_Disabled c) (db_connections db)"

text \<open>\<open>INSERT ... ON CONFLICT (shop_id, order_id) DO UPDATE\<close>: all columns are replaced, only the
  time of the last order update is kept when the new one is null.\<close>

fun upsertRow :: "SnapshotRow \<Rightarrow> SnapshotRow list \<Rightarrow> SnapshotRow list" where
  "upsertRow new [] = [new]"
| "upsertRow new (old # rows) =
     (if row_ShopID old = row_ShopID new
         \<and> snap_OrderID (row_Snapshot old) = snap_OrderID (row_Snapshot new)
      then new\<lparr>row_Snapshot := (row_Snapshot new)\<lparr>snap_LastOrderUpdateAt :=
             (case snap_LastOrderUpdateAt (row_Snapshot new) of
                None \<Rightarrow> snap_LastOrderUpdateAt (row_Snapshot old) | Some t \<Rightarrow> Some t)\<rparr>\<rparr> # rows
      else old # upsertRow new rows)"

definition storableSnapshot :: "TikTokOrderSnapshotRecord \<Rightarrow> bool" where
  "storableSnapshot r \<longleftrightarrow>
     \<not> (snap_OrderID r = [] \<or> snap_ItemCount r < 1 \<or> snap_SKUCount r < 1
        \<or> length (snap_SourceHash r) \<noteq> 64 \<or> length (snap_SafeOrderJSON r) = 0
        \<or> length (snap_SafePriceDetailJSON r) = 0 \<or> length (snap_NormalizedItemsJSON r) = 0)"

text \<open>\<open>exec_ok\<close> says for which records the INSERT runs without an error of the database; the
  transaction is rolled back at the first failure.\<close>

fun upsertLoop ::
    "(TikTokOrderSnapshotRecord \<Rightarrow> bool) \<Rightarrow> string \<Rightarrow> string \<Rightarrow> int \<Rightarrow> SnapshotRow list \<Rightarrow>
     TikTokOrderSnapshotRecord list \<Rightarrow> snapshot_error + SnapshotRow list" where
  "upsertLoop exec_ok connectionID shopID now rows [] = Inr rows"
| "upsertLoop exec_ok connectionID shopID now rows (r # records) =
     (if \<not> storableSnapshot r then Inl ErrInvalidSnapshotInput
      else if \<not> exec_ok r then Inl SnapshotDatabaseError
      else upsertLoop exec_ok connectionID shopID now
             (upsertRow \<lparr>row_ShopID = shopID, row_ConnectionID = connectionID, row_Snapshot = r,
                         row_LastSyncedAt = now\<rparr> rows) records)"

definition UpsertBatch ::
    "(TikTokOrderSnapshotRecord \<Rightarrow> bool) \<Rightarrow> int \<Rightarrow> SnapshotDB \<Rightarrow> string \<Rightarrow>
     TikTokOrderSnapshotRecord list \<Rightarrow> SnapshotDB \<times> (snapshot_error + unit)" where
  "UpsertBatch exec_ok now db shopID records =
     (let shopID = trim_space shopID in
      if \<not> numeric_id shopID \<or> length records = 0 \<or> length records > maxTikTokOrderSnapshotBatch
      then (db, Inl ErrInvalidSnapshotInput)
      else
        (case activeConnection db shopID of
           None \<Rightarrow> (db, Inl ErrInvalidSnapshotInput)
         | Some conn \<Rightarrow>
             (case upsertLoop exec_ok (conn_GatewayConnectionID conn) shopID now (db_snapshots db) records of
                Inl e \<Rightarrow> (db, Inl e)
              | Inr rows \<Rightarrow> (db\<lparr>db_snapshots := rows\<rparr>, Inr ()))))"

section \<open>Facts about normalised lines\<close>

abbreviation line_trimmed_id :: "OrderLineItem \<Rightarrow> string" where
  "line_trimmed_id l \<equiv> trim_space (line_ID l)"

definition line_key :: "OrderLineItem \<Rightarrow> string" where
  "line_key l = item_key (trim_space (line_ProductID l)) (trim_space (line_SKUID l))"

definition line_complete :: "OrderLineItem \<Rightarrow> bool" where
  "line_complete l \<longleftrightarrow>
     line_trimmed_id l \<noteq> [] \<and> trim_space (line_ProductID l) \<noteq> [] \<and> trim_space (line_SKUID l) \<noteq> []"

text \<open>What the loop adds for one line: the group of the line's key, updated.\<close>

definition add_line ::
    "(string \<times> NormalizedTikTokOrderItem) list \<Rightarrow> OrderLineItem \<Rightarrow> NormalizedTikTokOrderItem" where
  "add_line grouped line =
     (let item = (case map_of grouped (line_key line) of
                 None \<Rightarrow> \<lparr>item_ProductID = trim_space (line_ProductID line),
                    item_SKUID = trim_space (line_SKUID line),
                    item_SellerSKU = trim_space (line_SellerSKU line),
                    item_ProductName = trim_space (line_ProductName line),
                    item_SKUName = trim_space (line_SKUName line),
                    item_Quantity = 0, item_LineIDs = []\<rparr>
               | Some item \<Rightarrow>
                   if item_SellerSKU item = []
                   then item\<lparr>item_SellerSKU := trim_space (line_SellerSKU line)\<rparr> else item)
      in item\<lparr>item_Quantity := item_Quantity item + 1,
              item_LineIDs := item_LineIDs item @ [line_trimmed_id line]\<rparr>)"

lemma normalizeLinesLoop_Cons:
  "normalizeLinesLoop g ids (l # ls) =
     (if \<not> line_complete l \<or> line_trimmed_id l \<in> ids then Inl ErrInvalidSnapshotInput
      else normalizeLinesLoop (assoc_update (line_key l) (add_line g l) g)
             (insert (line_trimmed_id l) ids) ls)"
  by (simp add: Let_def line_complete_def line_key_def add_line_def)

declare normalizeLinesLoop.simps(2) [simp del]
declare normalizeLinesLoop_Cons [simp]

text \<open>The loop succeeds exactly when every line is complete and no line id repeats.\<close>

lemma normalizeLinesLoop_Inr_iff:
  "(\<exists>g'. normalizeLinesLoop g ids ls = Inr g') \<longleftrightarrow>
     (\<forall>l\<in>set ls. line_complete l) \<and> distinct (map line_trimmed_id ls)
     \<and> line_trimmed_id ` set ls \<inter> ids = {}"
proof (induction ls arbitrary: g ids)
  case Nil
  show ?case by simp
next
  case (Cons l ls)
  show ?case
    by (cases "\<not> line_complete l \<or> line_trimmed_id l \<in> ids") (auto simp: Cons.IH)
qed

text \<open>A fact that one more line preserves holds for the result of the loop.\<close>

lemma normalizeLinesLoop_invariant:
  assumes "normalizeLinesLoop g ids ls = Inr g'" "P [] g"
    and "\<And>done l g. P done g \<Longrightarrow> l \<in> set ls \<Longrightarrow>
           P (done @ [l]) (assoc_update (line_key l) (add_line g l) g)"
  shows "P ls g'"
proof -
  have "P (done @ ls) g'"
    if "normalizeLinesLoop g ids ls = Inr g'" "P done g"
      "\<And>done l g. P done g \<Longrightarrow> l \<in> set ls \<Longrightarrow>
           P (done @ [l]) (assoc_update (line_key l) (add_line g l) g)" for "done" ls g ids
    using that
  proof (induction ls arbitrary: g ids "done")
    case Nil
    then show ?case by simp
  next
    case (Cons l ls)
    have "normalizeLinesLoop (assoc_update (line_key l) (add_line g l) g)
        (insert (line_trimmed_id l) ids) ls = Inr g'"
      using Cons.prems(1) by (simp split: if_splits)
    then have "P ((done @ [l]) @ ls) g'"
      by (rule Cons.IH) (use Cons.prems(2,3) in auto)
    then show ?case by simp
  qed
  from this [OF assms(1,2)] assms(3) show ?thesis by simp
qed

lemma mset_concat_assoc_update:
  "mset (concat (map (\<lambda>p. F (snd p)) (assoc_update k v g)))
     + (case map_of g k of None \<Rightarrow> {#} | Some v0 \<Rightarrow> mset (F v0))
   = mset (concat (map (\<lambda>p. F (snd p)) g)) + mset (F v)"
  by (induction g) (auto split: option.splits if_splits)

lemma group_line_ids:
  assumes "normalizeLinesLoop [] {} ls = Inr g"
  shows "mset (concat (map (\<lambda>p. item_LineIDs (snd p)) g)) = mset (map line_trimmed_id ls)"
proof (rule normalizeLinesLoop_invariant [OF assms])
  fix done' l and g :: "(string \<times> NormalizedTikTokOrderItem) list"
  assume IH: "mset (concat (map (\<lambda>p. item_LineIDs (snd p)) g)) = mset (map line_trimmed_id done')"
  show "mset (concat (map (\<lambda>p. item_LineIDs (snd p)) (assoc_update (line_key l) (add_line g l) g)))
      = mset (map line_trimmed_id (done' @ [l]))"
    using mset_concat_assoc_update [of item_LineIDs "line_key l" "add_line g l" g]
    by (cases "map_of g (line_key l)") (auto simp: add_line_def Let_def IH split: if_splits)
qed simp

lemma group_items:
  assumes "normalizeLinesLoop [] {} ls = Inr g"
  shows "distinct (map fst g) \<and>
    (\<forall>(k, it)\<in>set g. k = item_key (item_ProductID it) (item_SKUID it)
       \<and> item_Quantity it = length (item_LineIDs it) \<and> item_LineIDs it \<noteq> [])"
proof (rule normalizeLinesLoop_invariant [OF assms])
  fix done' l and g :: "(string \<times> NormalizedTikTokOrderItem) list"
  let ?ok = "\<lambda>(k, it). k = item_key (item_ProductID it) (item_SKUID it)
       \<and> item_Quantity it = length (item_LineIDs it) \<and> item_LineIDs it \<noteq> []"
  assume IH: "distinct (map fst g) \<and> (\<forall>p\<in>set g. ?ok p)"
  have "?ok (line_key l, add_line g l)"
  proof (cases "map_of g (line_key l)")
    case None
    then show ?thesis by (simp add: add_line_def line_key_def Let_def)
  next
    case (Some it)
    then have "?ok (line_key l, it)" using IH by (blast dest: map_of_SomeD)
    with Some show ?thesis by (auto simp: add_line_def Let_def)
  qed
  then have "\<forall>p\<in>set (assoc_update (line_key l) (add_line g l) g). ?ok p"
    using IH set_assoc_update [of "line_key l" "add_line g l" g] by blast
  with IH show "distinct (map fst (assoc_update (line_key l) (add_line g l) g))
      \<and> (\<forall>p\<in>set (assoc_update (line_key l) (add_line g l) g). ?ok p)" by simp
qed simp

abbreviation item_pair :: "NormalizedTikTokOrderItem \<Rightarrow> string \<times> string" where
  "item_pair it \<equiv> (item_ProductID it, item_SKUID it)"

lemma normalize_Inr:
  assumes "normalizeTikTokOrderItems ls = Inr items"
  obtains g where "normalizeLinesLoop [] {} ls = Inr g" "ls \<noteq> []" "length ls \<le> 1000"
    "items = sort_by item_pair (map (\<lambda>(_, it). it\<lparr>item_LineIDs := sort_by id (item_LineIDs it)\<rparr>) g)"
  using assms
  by (auto simp: normalizeTikTokOrderItems_def Let_def result_simps split: if_splits)

lemma group_pairs_distinct:
  assumes "normalizeLinesLoop [] {} ls = Inr g"
  shows "distinct (map item_pair (map (\<lambda>(_, it). it\<lparr>item_LineIDs := sort_by id (item_LineIDs it)\<rparr>) g))"
proof -
  define ys where "ys = map item_pair (map (\<lambda>(_, it). it\<lparr>item_LineIDs := sort_by id (item_LineIDs it)\<rparr>) g)"
  have "map fst g = map (\<lambda>q. item_key (fst q) (snd q)) ys"
    using group_items [OF assms] by (auto simp: ys_def)
  then have "distinct (map (\<lambda>q. item_key (fst q) (snd q)) ys)"
    using group_items [OF assms] by simp
  then show ?thesis unfolding ys_def [symmetric] distinct_map by (rule conjunct1)
qed

lemma mset_concat_sort: "mset (concat (map (\<lambda>x. f x) (sort_by k xs))) = mset (concat (map f xs))"
proof -
  have "mset (concat (map f ys)) = sum_mset (image_mset (\<lambda>x. mset (f x)) (mset ys))" for ys
    by (induction ys) auto
  then show ?thesis by simp
qed

text \<open>
  C22. Normalising the lines of an order neither loses nor invents a unit: each line id occurs in
  exactly one item, the quantity of an item is the number of its line ids, the quantities add
  up to the number of lines, and the items are ordered by product and SKU, each pair once.
\<close>
theorem normalizeTikTokOrderItems_conserves:
  assumes "normalizeTikTokOrderItems ls = Inr items"
  shows "mset (concat (map item_LineIDs items)) = mset (map line_trimmed_id ls)
    \<and> distinct (concat (map item_LineIDs items))
    \<and> (\<forall>it\<in>set items. item_Quantity it = length (item_LineIDs it) \<and> 1 \<le> item_Quantity it)
    \<and> sum_list (map item_Quantity items) = length ls
    \<and> sorted (map item_pair items) \<and> distinct (map item_pair items)"
proof -
  obtain g where g: "normalizeLinesLoop [] {} ls = Inr g"
    and items: "items = sort_by item_pair
      (map (\<lambda>(_, it). it\<lparr>item_LineIDs := sort_by id (item_LineIDs it)\<rparr>) g)"
    using assms by (rule normalize_Inr)
  have ids: "mset (concat (map item_LineIDs items)) = mset (map line_trimmed_id ls)"
  proof -
    have "mset (concat (map item_LineIDs items))
        = mset (concat (map (\<lambda>p. sort_by id (item_LineIDs (snd p))) g))"
      unfolding items mset_concat_sort by (simp add: comp_def case_prod_unfold)
    also have "\<dots> = mset (concat (map (\<lambda>p. item_LineIDs (snd p)) g))"
      by (induction g) auto
    finally show ?thesis using group_line_ids [OF g] by simp
  qed
  have "distinct (map line_trimmed_id ls)"
    using normalizeLinesLoop_Inr_iff [of "[]" "{}" ls] g by auto
  with ids have dist: "distinct (concat (map item_LineIDs items))"
    by (blast dest: mset_eq_imp_distinct_iff)
  have qty: "\<forall>it\<in>set items. item_Quantity it = length (item_LineIDs it) \<and> 1 \<le> item_Quantity it"
    using group_items [OF g] by (fastforce simp: items neq_Nil_conv)
  then have "sum_list (map item_Quantity items) = sum_list (map (\<lambda>it. length (item_LineIDs it)) items)"
    by (intro arg_cong [where f = sum_list] map_cong) auto
  then have "sum_list (map item_Quantity items) = length (concat (map item_LineIDs items))"
    by (simp add: length_concat comp_def)
  also have "\<dots> = length ls" using ids by (metis length_map size_mset)
  finally have total: "sum_list (map item_Quantity items) = length ls" .
  have "sorted (map item_pair items)" by (simp add: items sorted_sort_by)
  moreover have "distinct (map item_pair items)"
    using group_pairs_distinct [OF g] unfolding items distinct_map_sort_by .
  ultimately show ?thesis using ids dist qty total by blast
qed

theorem normalizeTikTokOrderItems_conserves_witness:
  "\<exists>items. normalizeTikTokOrderItems [sample_line ''2'' ''9'', sample_line ''1'' ''9''] = Inr items
     \<and> sum_list (map item_Quantity items) = length [sample_line ''2'' ''9'', sample_line ''1'' ''9'']"
proof -
  have "normalizeTikTokOrderItems [sample_line ''2'' ''9'', sample_line ''1'' ''9''] =
      Inr [\<lparr>item_ProductID = ''7'', item_SKUID = ''9'', item_SellerSKU = [], item_ProductName = ''Cup'',
            item_SKUName = ''Blue'', item_Quantity = 2, item_LineIDs = [''1'', ''2'']\<rparr>]"
    by code_simp
  from this normalizeTikTokOrderItems_conserves [OF this] show ?thesis by blast
qed

section \<open>Reordering the lines of an order\<close>

text \<open>Lines of one product and SKU agree when they carry the same seller SKU and names.\<close>

definition lines_agree :: "OrderLineItem list \<Rightarrow> bool" where
  "lines_agree ls \<longleftrightarrow>
     (\<forall>l\<in>set ls. \<forall>l'\<in>set ls. line_key l = line_key l' \<longrightarrow>
        trim_space (line_ProductID l) = trim_space (line_ProductID l')
        \<and> trim_space (line_SKUID l) = trim_space (line_SKUID l')
        \<and> trim_space (line_SellerSKU l) = trim_space (line_SellerSKU l')
        \<and> trim_space (line_ProductName l) = trim_space (line_ProductName l')
        \<and> trim_space (line_SKUName l) = trim_space (line_SKUName l'))"

definition item_of :: "OrderLineItem \<Rightarrow> string list \<Rightarrow> NormalizedTikTokOrderItem" where
  "item_of l ids =
     \<lparr>item_ProductID = trim_space (line_ProductID l), item_SKUID = trim_space (line_SKUID l),
      item_SellerSKU = trim_space (line_SellerSKU l), item_ProductName = trim_space (line_ProductName l),
      item_SKUName = trim_space (line_SKUName l), item_Quantity = length ids, item_LineIDs = ids\<rparr>"

lemma item_of_LineIDs [simp]: "item_LineIDs (item_of l ids) = ids"
  by (simp add: item_of_def)

definition group_of :: "OrderLineItem list \<Rightarrow> string \<Rightarrow> NormalizedTikTokOrderItem option" where
  "group_of ls k =
     (case filter (\<lambda>l. line_key l = k) ls of
        [] \<Rightarrow> None | l # m \<Rightarrow> Some (item_of l (map line_trimmed_id (l # m))))"

lemma map_of_groups:
  assumes "normalizeLinesLoop [] {} ls = Inr g" "lines_agree ls"
  shows "map_of g = group_of ls"
proof -
  have "map_of g = group_of ls \<and> set ls \<subseteq> set ls"
  proof (rule normalizeLinesLoop_invariant [OF assms(1),
        where P = "\<lambda>d g. set d \<subseteq> set ls \<longrightarrow> map_of g = group_of d", THEN mp, THEN conjI])
    show "set [] \<subseteq> set ls \<longrightarrow> map_of [] = group_of []"
      by (simp add: group_of_def fun_eq_iff)
    fix d l and g :: "(string \<times> NormalizedTikTokOrderItem) list"
    assume IH: "set d \<subseteq> set ls \<longrightarrow> map_of g = group_of d"
    show "set (d @ [l]) \<subseteq> set ls \<longrightarrow>
        map_of (assoc_update (line_key l) (add_line g l) g) = group_of (d @ [l])"
    proof
      assume sub: "set (d @ [l]) \<subseteq> set ls"
      then have g: "map_of g = group_of d" using IH by simp
      have "group_of (d @ [l]) (line_key l) = Some (add_line g l)"
      proof (cases "filter (\<lambda>x. line_key x = line_key l) d")
        case Nil
        then show ?thesis by (simp add: add_line_def g group_of_def item_of_def)
      next
        case (Cons a m)
        then have "a \<in> set (filter (\<lambda>x. line_key x = line_key l) d)" by simp
        then have "a \<in> set d" "line_key a = line_key l" by simp_all
        then have "trim_space (line_SellerSKU a) = trim_space (line_SellerSKU l)"
          using assms(2) sub by (auto simp: lines_agree_def)
        then show ?thesis
          using Cons by (simp add: add_line_def g group_of_def item_of_def Let_def)
      qed
      then show "map_of (assoc_update (line_key l) (add_line g l) g) = group_of (d @ [l])"
        by (auto simp: fun_eq_iff g group_of_def)
    qed
  qed auto
  then show ?thesis by simp
qed

lemma group_of_perm:
  assumes "mset ls = mset ls'" "lines_agree ls"
  shows "map_option (\<lambda>it. it\<lparr>item_LineIDs := sort_by id (item_LineIDs it)\<rparr>) (group_of ls k)
       = map_option (\<lambda>it. it\<lparr>item_LineIDs := sort_by id (item_LineIDs it)\<rparr>) (group_of ls' k)"
proof -
  let ?f = "filter (\<lambda>l. line_key l = k)"
  have m: "mset (?f ls) = mset (?f ls')" using assms(1) by simp
  show ?thesis
  proof (cases "?f ls")
    case Nil
    with m have "?f ls' = []" by simp
    with Nil show ?thesis by (simp add: group_of_def)
  next
    case (Cons a as)
    with m obtain b bs where b: "?f ls' = b # bs" by (cases "?f ls'") auto
    have "a \<in> set (?f ls)" "b \<in> set (?f ls)" using Cons b mset_eq_setD [OF m] by (metis list.set_intros(1))+
    then have "item_of a ids = item_of b ids" for ids
      using assms(2) by (simp add: lines_agree_def item_of_def)
    moreover have m': "mset (a # as) = mset (b # bs)" using m unfolding Cons b .
    then have "mset (map line_trimmed_id (a # as)) = mset (map line_trimmed_id (b # bs))"
      by (simp only: mset_map)
    then have "sort_by id (map line_trimmed_id (a # as)) = sort_by id (map line_trimmed_id (b # bs))"
      by (rule sort_by_perm) simp
    moreover have "length (a # as) = length (b # bs)" using m' by (rule mset_eq_length)
    moreover have "(item_of l ids)\<lparr>item_LineIDs := x\<rparr> = (item_of l x)\<lparr>item_Quantity := length ids\<rparr>" for l ids x
      by (simp add: item_of_def)
    ultimately show ?thesis using Cons b by (simp add: group_of_def del: list.map)
  qed
qed

lemma normalize_perm:
  assumes "mset ls = mset ls'" "lines_agree ls" "normalizeTikTokOrderItems ls = Inr items"
  shows "normalizeTikTokOrderItems ls' = Inr items"
proof -
  let ?fin = "\<lambda>it. it\<lparr>item_LineIDs := sort_by id (item_LineIDs it)\<rparr>"
  obtain g where g: "normalizeLinesLoop [] {} ls = Inr g" and len: "ls \<noteq> []" "length ls \<le> 1000"
    and items: "items = sort_by item_pair (map (\<lambda>(_, it). ?fin it) g)"
    using assms(3) by (rule normalize_Inr)
  have sets: "set ls' = set ls" using assms(1) by (metis set_mset_mset)
  have "distinct (map line_trimmed_id ls) = distinct (map line_trimmed_id ls')"
    by (rule mset_eq_imp_distinct_iff) (simp add: assms(1))
  then obtain g' where g': "normalizeLinesLoop [] {} ls' = Inr g'"
    using normalizeLinesLoop_Inr_iff [of "[]" "{}" ls] normalizeLinesLoop_Inr_iff [of "[]" "{}" ls'] g sets
    by auto
  have "length ls' = length ls" using mset_eq_length [OF assms(1)] by simp
  then have len': "ls' \<noteq> []" "length ls' \<le> 1000" using len by auto
  have agree': "lines_agree ls'" using assms(2) by (simp only: lines_agree_def sets)
  have "set (map (\<lambda>(_, it). ?fin it) g) = set (map (\<lambda>(_, it). ?fin it) g')"
    using group_items [OF g] group_items [OF g']
    by (simp only: set_map_values map_of_groups [OF g assms(2)] map_of_groups [OF g' agree']
        group_of_perm [OF assms(1,2)])
  moreover have d: "distinct (map (\<lambda>(_, it). ?fin it) g)" "distinct (map (\<lambda>(_, it). ?fin it) g')"
    and inj: "inj_on item_pair (set (map (\<lambda>(_, it). ?fin it) g))"
    using group_pairs_distinct [OF g] group_pairs_distinct [OF g'] unfolding distinct_map by blast+
  ultimately have "mset (map (\<lambda>(_, it). ?fin it) g) = mset (map (\<lambda>(_, it). ?fin it) g')"
    by (simp only: set_eq_iff_mset_eq_distinct)
  then have "sort_by item_pair (map (\<lambda>(_, it). ?fin it) g) = sort_by item_pair (map (\<lambda>(_, it). ?fin it) g')"
    by (rule sort_by_perm) (rule inj)
  with items g' len' show ?thesis by (simp add: normalizeTikTokOrderItems_def)
qed

lemma normalize_error: "normalizeTikTokOrderItems ls = Inl e \<Longrightarrow> e = ErrInvalidSnapshotInput"
proof -
  have "normalizeLinesLoop g ids ls = Inl e \<Longrightarrow> e = ErrInvalidSnapshotInput" for g ids
    by (induction ls arbitrary: g ids) (auto split: if_splits)
  then show "normalizeTikTokOrderItems ls = Inl e \<Longrightarrow> e = ErrInvalidSnapshotInput"
    by (auto simp: normalizeTikTokOrderItems_def Let_def result_simps split: if_splits)
qed

lemma normalize_perm_eq:
  assumes "mset ls' = mset ls" "lines_agree ls"
  shows "normalizeTikTokOrderItems ls' = normalizeTikTokOrderItems ls"
proof (cases "normalizeTikTokOrderItems ls")
  case (Inr items)
  then show ?thesis using normalize_perm [OF assms(1) [symmetric] assms(2)] by simp
next
  case (Inl e)
  have agree': "lines_agree ls'" using assms(2) by (simp only: lines_agree_def mset_eq_setD [OF assms(1)])
  show ?thesis
  proof (cases "normalizeTikTokOrderItems ls'")
    case (Inr items)
    with normalize_perm [OF assms(1) agree'] Inl show ?thesis by simp
  next
    case Inl': (Inl e')
    then show ?thesis using Inl normalize_error by metis
  qed
qed

text \<open>
  C26. Harmless reordering upstream does not change a snapshot: with the lines and packages of an
  order in any other order the result is the same, the content hash included, for every encoder
  and hash function, provided the lines of one product and SKU carry the same names and seller
  SKU and the package ids differ.
\<close>
theorem BuildTikTokOrderSnapshot_reorder:
  assumes "mset lines' = mset (order_LineItems ord)" and "lines_agree (order_LineItems ord)"
    and "mset packages' = mset (order_Packages ord)"
    and "inj_on (\<lambda>q. trim_space (package_ID q)) (set (order_Packages ord))"
  shows "BuildTikTokOrderSnapshot cd (ord\<lparr>order_LineItems := lines', order_Packages := packages'\<rparr>) price d p
           = BuildTikTokOrderSnapshot cd ord price d p"
proof (cases "normalizeTikTokOrderItems (order_LineItems ord)")
  case (Inl e)
  have n': "normalizeTikTokOrderItems lines' = Inl e"
    using normalize_perm_eq [OF assms(1,2)] Inl by simp
  show ?thesis by (simp add: BuildTikTokOrderSnapshot_def Let_def Inl n' cong: if_cong)
next
  case (Inr items)
  have n': "normalizeTikTokOrderItems lines' = Inr items"
    using normalize_perm_eq [OF assms(1,2)] Inr by simp
  obtain g where "normalizeLinesLoop [] {} (order_LineItems ord) = Inr g"
    using Inr by (rule normalize_Inr)
  then have "distinct (map line_trimmed_id (order_LineItems ord))"
    using normalizeLinesLoop_Inr_iff [of "[]" "{}" "order_LineItems ord"] by auto
  then have "inj_on line_trimmed_id (set (order_LineItems ord))" by (simp add: distinct_map)
  then have "inj_on line_trimmed_id (set lines')" using mset_eq_setD [OF assms(1)] by simp
  then have lines: "sort_by line_trimmed_id lines' = sort_by line_trimmed_id (order_LineItems ord)"
    by (rule sort_by_perm [OF assms(1)])
  have "inj_on (\<lambda>q. trim_space (package_ID q)) (set packages')"
    using assms(4) mset_eq_setD [OF assms(3)] by simp
  then have packages: "sort_by (\<lambda>q. trim_space (package_ID q)) packages'
      = sort_by (\<lambda>q. trim_space (package_ID q)) (order_Packages ord)"
    by (rule sort_by_perm [OF assms(3)])
  have "length lines' = length (order_LineItems ord)" using mset_eq_length [OF assms(1)] .
  then show ?thesis
    by (simp add: BuildTikTokOrderSnapshot_def Let_def Inr n' safeOrder_def lines packages cong: if_cong)
qed

section \<open>Amounts\<close>

lemma money_pattern_parses:
  assumes "money_pattern s"
  shows "\<exists>q. rat_set_string s = Some q \<and> 0 \<le> q"
proof -
  define whole where "whole = takeWhile (\<lambda>c. c \<noteq> CHR ''.'') s"
  define point where "point = dropWhile (\<lambda>c. c \<noteq> CHR ''.'') s"
  have s: "s = whole @ point" by (simp add: whole_def point_def)
  note pat = assms [unfolded money_pattern_def Let_def, folded whole_def point_def]
  have w: "whole \<noteq> []" "\<forall>c\<in>set whole. is_digit c"
    using pat is_digit_zero by (auto simp: list_all_iff)
  have p: "point = [] \<or> (\<forall>c\<in>set (tl point). is_digit c) \<and> length (tl point) \<le> 6"
    using pat by (auto simp: list_all_iff)
  show ?thesis
  proof (cases point)
    case Nil
    then show ?thesis using rat_set_digits(1) [OF w] s by simp
  next
    case (Cons c fs)
    have "c = CHR ''.''" using Cons point_def hd_dropWhile [of "\<lambda>c. c \<noteq> CHR ''.''" s] by auto
    moreover have "\<forall>c\<in>set fs. is_digit c" "length fs \<le> 1000000" using p Cons by auto
    ultimately show ?thesis using rat_set_decimal_point(1) [OF w] s Cons by simp
  qed
qed

lemma snapshotMoney_Inr:
  "snapshotMoney raw req = Inr (v, q) \<longleftrightarrow>
     v = (if trim_space raw = [] \<and> \<not> req then ''0'' else trim_space raw)
     \<and> money_pattern v \<and> rat_set_string v = Some q"
proof -
  define w where "w = (if trim_space raw = [] \<and> \<not> req then ''0'' else trim_space raw)"
  show ?thesis
  proof (cases "money_pattern w")
    case False
    then show ?thesis by (auto simp: snapshotMoney_def Let_def simp flip: w_def)
  next
    case True
    then obtain q' where "rat_set_string w = Some q'" "0 \<le> q'" using money_pattern_parses by blast
    then show ?thesis using True by (auto simp: snapshotMoney_def Let_def simp flip: w_def)
  qed
qed

text \<open>
  C6. A snapshot is only built when the order and its price detail agree on the amount: the
  stored payment total is a plain decimal text whose exact value is the price detail's payment,
  under the same currency, and the stored order id is the trimmed, non-empty one.
\<close>
theorem BuildTikTokOrderSnapshot_amounts:
  assumes "BuildTikTokOrderSnapshot cd ord price d p = Inr r"
  shows "money_pattern (snap_PaymentTotal r)
    \<and> rat_set_string (snap_PaymentTotal r) \<noteq> None
    \<and> rat_set_string (snap_PaymentTotal r) = rat_set_string (trim_space (price_Payment price))
    \<and> snap_Currency r = to_upper (trim_space (price_Currency price))
    \<and> snap_OrderID r = trim_space (order_ID ord) \<and> snap_OrderID r \<noteq> []"
proof -
  obtain pv q where m: "snapshotMoney (payment_TotalAmount (order_Payment ord)) True
        = Inr (snap_PaymentTotal r, q)"
      "snapshotMoney (price_Payment price) True = Inr (pv, q)"
    and "snap_Currency r = to_upper (trim_space (price_Currency price))"
      "snap_OrderID r = trim_space (order_ID ord)" "snap_OrderID r \<noteq> []"
    using assms
    by (auto simp: BuildTikTokOrderSnapshot_def Let_def result_simps split: if_splits prod.splits)
  moreover have "money_pattern (snap_PaymentTotal r)" "rat_set_string (snap_PaymentTotal r) = Some q"
    using m(1) unfolding snapshotMoney_Inr by blast+
  moreover have "rat_set_string (trim_space (price_Payment price)) = Some q"
    using m(2) unfolding snapshotMoney_Inr by auto
  ultimately show ?thesis by simp
qed

definition sample_price :: "string \<Rightarrow> PriceDetail" where
  "sample_price amount =
     PriceDetail ''THB'' [] amount [] [] [] [] [] [] [] [] [] [] [] [] [] [] [] [] [] [] [] [] [] [] [] []"

definition sample_codec :: codec where
  "sample_codec = \<lparr>marshal_order = order_ID, marshal_price = price_Payment,
     marshal_items = (\<lambda>its. concat (map item_ProductID its)),
     marshal_hash_input = (\<lambda>a b c. a @ b @ c), sha256_hex = (\<lambda>_. replicate 64 CHR ''0'')\<rparr>"

definition sample_snapshot :: "string \<Rightarrow> TikTokOrderSnapshotRecord" where
  "sample_snapshot i =
     \<lparr>snap_OrderID = i, snap_OrderStatus = ''UNPAID'', snap_Currency = ''THB'',
      snap_PaymentTotal = ''11'', snap_ProductSubtotal = ''10'', snap_ShippingFee = ''1'',
      snap_ItemInsuranceFee = ''0'', snap_ItemCount = 2, snap_SKUCount = 1,
      snap_SafeOrderJSON = i, snap_SafePriceDetailJSON = ''11.0'',
      snap_NormalizedItems = [\<lparr>item_ProductID = ''7'', item_SKUID = ''9'', item_SellerSKU = [],
         item_ProductName = ''Cup'', item_SKUName = ''Blue'', item_Quantity = 2, item_LineIDs = [''1'', ''2'']\<rparr>],
      snap_NormalizedItemsJSON = ''7'', snap_DetailRequestID = ''d'', snap_PriceDetailRequestID = ''p'',
      snap_SourceHash = replicate 64 CHR ''0'', snap_LastOrderUpdateAt = Some 1000\<rparr>"

lemma sample_build:
  "BuildTikTokOrderSnapshot sample_codec (sample_order ''5'') (sample_price ''11.0'') ''d'' ''p''
     = Inr (sample_snapshot ''5'')"
proof -
  have n: "normalizeTikTokOrderItems (order_LineItems (sample_order ''5''))
      = Inr (snap_NormalizedItems (sample_snapshot ''5''))" by code_simp
  have m: "snapshotMoney ''11'' True = Inr (''11'', 11)" "snapshotMoney ''11.0'' True = Inr (''11.0'', 11)"
    "snapshotMoney ''10'' False = Inr (''10'', 10)" "snapshotMoney ''1'' False = Inr (''1'', 1)"
    "snapshotMoney [] False = Inr (''0'', 0)" by code_simp+
  have t: "trim_space ''5'' = ''5''" "trim_space ''d'' = ''d''" "trim_space ''p'' = ''p''"
    "to_upper (trim_space ''THB'') = ''THB''" by code_simp+
  show ?thesis
    using n by (simp add: BuildTikTokOrderSnapshot_def Let_def sample_order_def sample_payment_def
        sample_price_def t m validOrderStatus_def order_status_defs sample_snapshot_def
        sample_codec_def safeOrder_def)
qed

theorem BuildTikTokOrderSnapshot_reorder_witness:
  "BuildTikTokOrderSnapshot sample_codec
     ((sample_order ''5'')\<lparr>order_LineItems := [sample_line ''1'' ''9'', sample_line ''2'' ''9''],
        order_Packages := []\<rparr>) (sample_price ''11.0'') ''d'' ''p''
   = BuildTikTokOrderSnapshot sample_codec (sample_order ''5'') (sample_price ''11.0'') ''d'' ''p''"
proof (rule BuildTikTokOrderSnapshot_reorder)
  show "mset [sample_line ''1'' ''9'', sample_line ''2'' ''9''] = mset (order_LineItems (sample_order ''5''))"
    by (simp add: sample_order_def)
  show "lines_agree (order_LineItems (sample_order ''5''))"
    by (simp add: sample_order_def lines_agree_def sample_line_def)
qed (simp_all add: sample_order_def)

theorem BuildTikTokOrderSnapshot_amounts_witness:
  "rat_set_string (snap_PaymentTotal (sample_snapshot ''5''))
     = rat_set_string (trim_space (price_Payment (sample_price ''11.0'')))"
  using BuildTikTokOrderSnapshot_amounts [OF sample_build] by blast

section \<open>The table of snapshots\<close>

definition row_key :: "SnapshotRow \<Rightarrow> string \<times> string" where
  "row_key r = (row_ShopID r, snap_OrderID (row_Snapshot r))"

definition row_merge :: "SnapshotRow \<Rightarrow> SnapshotRow \<Rightarrow> SnapshotRow" where
  "row_merge new old = new\<lparr>row_Snapshot := (row_Snapshot new)\<lparr>snap_LastOrderUpdateAt :=
     (case snap_LastOrderUpdateAt (row_Snapshot new) of
        None \<Rightarrow> snap_LastOrderUpdateAt (row_Snapshot old) | Some t \<Rightarrow> Some t)\<rparr>\<rparr>"

lemma row_key_merge [simp]: "row_key (row_merge new old) = row_key new"
  by (simp add: row_key_def row_merge_def)

lemma upsertRow_Cons [simp]:
  "upsertRow new (old # rows) =
     (if row_key old = row_key new then row_merge new old # rows else old # upsertRow new rows)"
  by (simp add: row_key_def row_merge_def)

declare upsertRow.simps(2) [simp del]

lemma keys_upsertRow [simp]: "row_key ` set (upsertRow new rows) = insert (row_key new) (row_key ` set rows)"
  by (induction rows) auto

interpretation snapshots: keyed_table row_key row_merge upsertRow
proof
  show "lookup_by row_key (upsertRow new rows) k =
      (if k = row_key new
       then Some (case lookup_by row_key rows k of None \<Rightarrow> new | Some old \<Rightarrow> row_merge new old)
       else lookup_by row_key rows k)" for new rows k
    by (induction rows) auto
  show "distinct (map row_key (upsertRow new rows))" if "distinct (map row_key rows)" for new rows
    using that by (induction rows) auto
qed

definition new_row :: "string \<Rightarrow> string \<Rightarrow> int \<Rightarrow> TikTokOrderSnapshotRecord \<Rightarrow> SnapshotRow" where
  "new_row connectionID shopID now r =
     \<lparr>row_ShopID = shopID, row_ConnectionID = connectionID, row_Snapshot = r, row_LastSyncedAt = now\<rparr>"

lemma upsertLoop_Inr:
  "upsertLoop exec_ok c s now rows records = Inr rows' \<longleftrightarrow>
     (\<forall>r\<in>set records. storableSnapshot r \<and> exec_ok r)
     \<and> rows' = write_all upsertRow (map (new_row c s now) records) rows"
  by (induction records arbitrary: rows) (auto simp: new_row_def)

lemma UpsertBatch_Inr:
  assumes "UpsertBatch exec_ok now db shopID records = (db', Inr ())"
  shows "\<exists>conn :: ShopConnection. db' = db\<lparr>db_snapshots := write_all upsertRow
       (map (new_row (conn_GatewayConnectionID conn) (trim_space shopID) now) records) (db_snapshots db)\<rparr>"
proof -
  obtain conn where c: "activeConnection db (trim_space shopID) = Some conn"
    using assms by (auto simp: UpsertBatch_def Let_def split: if_splits option.splits)
  then have "db' = db\<lparr>db_snapshots := write_all upsertRow
       (map (new_row (conn_GatewayConnectionID conn) (trim_space shopID) now) records) (db_snapshots db)\<rparr>"
    using assms by (auto simp: UpsertBatch_def Let_def upsertLoop_Inr split: if_splits sum.splits)
  then show ?thesis ..
qed

text \<open>
  A batch of snapshots is stored all or nothing: on an error the database is unchanged; on
  success each record of the batch is the row of its shop and order (its order-update time
  falls back to the stored one when it has none), every other row is as before, and no key
  occurs twice when none did.
\<close>
theorem UpsertBatch_atomic:
  assumes "distinct (map snap_OrderID records)"
  shows "(\<forall>e db'. UpsertBatch exec_ok now db shopID records = (db', Inl e) \<longrightarrow> db' = db)
    \<and> (\<forall>db'. UpsertBatch exec_ok now db shopID records = (db', Inr ()) \<longrightarrow>
        (\<forall>r\<in>set records. \<exists>row.
            lookup_by row_key (db_snapshots db') (trim_space shopID, snap_OrderID r) = Some row
            \<and> (row_Snapshot row)\<lparr>snap_LastOrderUpdateAt := snap_LastOrderUpdateAt r\<rparr> = r
            \<and> (snap_LastOrderUpdateAt r \<noteq> None \<longrightarrow> row_Snapshot row = r))
        \<and> (\<forall>k. k \<notin> (\<lambda>r. (trim_space shopID, snap_OrderID r)) ` set records \<longrightarrow>
            lookup_by row_key (db_snapshots db') k = lookup_by row_key (db_snapshots db) k)
        \<and> (distinct (map row_key (db_snapshots db)) \<longrightarrow> distinct (map row_key (db_snapshots db'))))"
proof (intro conjI allI impI)
  fix e db' assume "UpsertBatch exec_ok now db shopID records = (db', Inl e)"
  then show "db' = db"
    by (auto simp: UpsertBatch_def Let_def split: if_splits option.splits sum.splits)
next
  fix db' assume ok: "UpsertBatch exec_ok now db shopID records = (db', Inr ())"
  obtain conn :: ShopConnection where db': "db' = db\<lparr>db_snapshots := write_all upsertRow
       (map (new_row (conn_GatewayConnectionID conn) (trim_space shopID) now) records) (db_snapshots db)\<rparr>"
    using UpsertBatch_Inr [OF ok] ..
  let ?new = "new_row (conn_GatewayConnectionID conn) (trim_space shopID) now"
  have key: "row_key (?new r) = (trim_space shopID, snap_OrderID r)" for r
    by (simp add: row_key_def new_row_def)
  have dist: "distinct (map row_key (map ?new records))"
    using assms by (simp add: comp_def key distinct_map inj_on_def)
  show "\<forall>r\<in>set records. \<exists>row.
        lookup_by row_key (db_snapshots db') (trim_space shopID, snap_OrderID r) = Some row
        \<and> (row_Snapshot row)\<lparr>snap_LastOrderUpdateAt := snap_LastOrderUpdateAt r\<rparr> = r
        \<and> (snap_LastOrderUpdateAt r \<noteq> None \<longrightarrow> row_Snapshot row = r)"
  proof
    fix r assume "r \<in> set records"
    then have "?new r \<in> set (map ?new records)" by simp
    from snapshots.lookup_write_all [OF dist this, of "db_snapshots db"]
    have "lookup_by row_key (db_snapshots db') (trim_space shopID, snap_OrderID r) = Some
        (case lookup_by row_key (db_snapshots db) (trim_space shopID, snap_OrderID r) of
           None \<Rightarrow> ?new r | Some old \<Rightarrow> row_merge (?new r) old)" (is "_ = Some ?row")
      by (simp add: db' key)
    moreover have "(row_Snapshot ?row)\<lparr>snap_LastOrderUpdateAt := snap_LastOrderUpdateAt r\<rparr> = r
        \<and> (snap_LastOrderUpdateAt r \<noteq> None \<longrightarrow> row_Snapshot ?row = r)"
      by (auto simp: new_row_def row_merge_def split: option.split)
    ultimately show "\<exists>row. lookup_by row_key (db_snapshots db') (trim_space shopID, snap_OrderID r) = Some row
        \<and> (row_Snapshot row)\<lparr>snap_LastOrderUpdateAt := snap_LastOrderUpdateAt r\<rparr> = r
        \<and> (snap_LastOrderUpdateAt r \<noteq> None \<longrightarrow> row_Snapshot row = r)"
      by blast
  qed
  show "distinct (map row_key (db_snapshots db'))" if "distinct (map row_key (db_snapshots db))"
    using snapshots.distinct_write_all [OF that] by (simp add: db')
  show "lookup_by row_key (db_snapshots db') k = lookup_by row_key (db_snapshots db) k"
    if "k \<notin> (\<lambda>r. (trim_space shopID, snap_OrderID r)) ` set records" for k
    using that snapshots.lookup_write_all_other [of k "map ?new records" "db_snapshots db"]
    by (auto simp: db' key image_iff)
qed

definition sample_db :: SnapshotDB where
  "sample_db = \<lparr>db_connections = [\<lparr>conn_ShopID = ''1'', conn_ShopName = ''Shop'',
     conn_GatewayConnectionID = ''g'', conn_Disabled = False\<rparr>], db_snapshots = []\<rparr>"

lemma sample_upsert:
  "UpsertBatch (\<lambda>_. True) 9 sample_db '' 1'' [sample_snapshot ''5''] =
     (sample_db\<lparr>db_snapshots := [new_row ''g'' ''1'' 9 (sample_snapshot ''5'')]\<rparr>, Inr ())"
proof -
  have "trim_space '' 1'' = ''1''" "numeric_id ''1''" by code_simp+
  moreover have "storableSnapshot (sample_snapshot ''5'')"
    by (simp add: storableSnapshot_def sample_snapshot_def)
  ultimately show ?thesis
    by (simp add: UpsertBatch_def maxTikTokOrderSnapshotBatch_def activeConnection_def sample_db_def
        new_row_def Let_def)
qed

theorem UpsertBatch_atomic_witness:
  "\<exists>db' row. UpsertBatch (\<lambda>_. True) 9 sample_db '' 1'' [sample_snapshot ''5''] = (db', Inr ())
     \<and> lookup_by row_key (db_snapshots db') (trim_space '' 1'', ''5'') = Some row
     \<and> row_Snapshot row = sample_snapshot ''5''"
proof -
  have d: "distinct (map snap_OrderID [sample_snapshot ''5''])" by simp
  let ?db' = "sample_db\<lparr>db_snapshots := [new_row ''g'' ''1'' 9 (sample_snapshot ''5'')]\<rparr>"
  note * = UpsertBatch_atomic [OF d, of "\<lambda>_. True" 9 sample_db "'' 1''", THEN conjunct2, THEN spec,
      THEN mp, OF sample_upsert, THEN conjunct1, THEN bspec, of "sample_snapshot ''5''"]
  have f: "snap_OrderID (sample_snapshot ''5'') = ''5''" "snap_LastOrderUpdateAt (sample_snapshot ''5'') \<noteq> None"
    by (simp_all add: sample_snapshot_def)
  from * obtain row where
    "lookup_by row_key (db_snapshots ?db') (trim_space '' 1'', ''5'') = Some row"
    "row_Snapshot row = sample_snapshot ''5''"
    using f by (metis list.set_intros(1))
  then show ?thesis using sample_upsert by blast
qed

section \<open>Properties of a synchronisation\<close>

lemma collectOrders_Inr:
  assumes "collectOrders ids orders raw = Inr orders'"
    and "\<forall>(k, w)\<in>set orders. order_ID w = k \<and> trim_space k = k"
  shows "\<forall>(k, w)\<in>set orders'. order_ID w = k \<and> trim_space k = k"
  using assms
proof (induction raw arbitrary: orders)
  case Nil
  then show ?case by simp
next
  case (Cons ord raw)
  define ord' where "ord' = ord\<lparr>order_ID := trim_space (order_ID ord)\<rparr>"
  have "collectOrders ids ((order_ID ord', ord') # orders) raw = Inr orders'"
    using Cons.prems(1) by (simp add: Let_def ord'_def [symmetric] split: if_splits)
  moreover have "\<forall>(k, w)\<in>set ((order_ID ord', ord') # orders). order_ID w = k \<and> trim_space k = k"
    using Cons.prems(2) by (simp add: ord'_def)
  ultimately show ?case by (rule Cons.IH)
qed

lemma build_zeroOrder: "BuildTikTokOrderSnapshot cd zeroOrder price d p = Inl ErrInvalidSnapshotInput"
  by (simp add: BuildTikTokOrderSnapshot_def zeroOrder_def)

lemma build_order_id: "BuildTikTokOrderSnapshot cd ord price d p = Inr r \<Longrightarrow> snap_OrderID r = trim_space (order_ID ord)"
  by (auto simp: BuildTikTokOrderSnapshot_def Let_def result_simps split: if_splits prod.splits)

lemma buildRecords_Inr:
  assumes "\<forall>(k, w)\<in>set orders. order_ID w = k \<and> trim_space k = k"
  shows "buildRecords cd svc shopID d orders w ids = (w', Inr records) \<Longrightarrow> map snap_OrderID records = ids"
proof (induction ids arbitrary: w records)
  case Nil
  then show ?case by simp
next
  case (Cons i ids)
  from Cons.prems obtain w1 detail p r w2 rs where
    b: "BuildTikTokOrderSnapshot cd (lookupOrder orders i) detail d p = Inr r"
    and rec: "buildRecords cd svc shopID d orders w1 ids = (w', Inr rs)" "records = r # rs"
    by (auto split: prod.splits sum.splits option.splits)
  have "trim_space (order_ID (lookupOrder orders i)) = i"
  proof (cases "map_of orders i")
    case None
    then show ?thesis using b by (simp add: lookupOrder_def build_zeroOrder)
  next
    case (Some w)
    then have "(i, w) \<in> set orders" by (rule map_of_SomeD)
    then show ?thesis using assms Some by (auto simp: lookupOrder_def)
  qed
  with Cons.IH [OF rec(1)] rec(2) build_order_id [OF b] show ?case by simp
qed

text \<open>
  C27. A successful synchronisation stores exactly what was asked for: the last thing it does to
  the outside world is one successful write of a batch that holds one record per requested order
  id, in the order of the request and without repetition, and it reports as many.
\<close>
theorem Sync_complete:
  assumes "Sync cd (Some svc) w input = (w', Inr res)"
  shows "\<exists>shopID ids records w0.
     normalizeSnapshotRequest input = Inr (shopID, ids) \<and> distinct ids \<and> length ids \<le> 20
     \<and> map snap_OrderID records = ids
     \<and> svc_upsert svc w0 shopID records = (w', Inr ())
     \<and> snapres_ShopID res = shopID \<and> snapres_SyncedCount res = length ids
     \<and> map summary_OrderID (snapres_Snapshots res) = ids"
proof -
  obtain shopID ids where n: "normalizeSnapshotRequest input = Inr (shopID, ids)"
    using assms by (cases "normalizeSnapshotRequest input") (auto simp: Sync_def)
  obtain w1 r1 where d: "svc_details svc w shopID ids = (w1, r1)" by fastforce
  obtain detail where r1: "r1 = Inr (Some detail)"
    using assms n d by (auto simp: Sync_def split: sum.splits option.splits)
  obtain orders where c: "collectOrders ids [] (details_Orders detail) = Inr orders"
    using assms n d r1 by (auto simp: Sync_def split: sum.splits if_splits)
  obtain w2 r2 where b2: "buildRecords cd svc shopID (details_UpstreamRequestID detail) orders w1 ids
      = (w2, r2)" by fastforce
  obtain records where r2: "r2 = Inr records"
    using assms n d r1 c b2 by (auto simp: Sync_def split: sum.splits if_splits)
  note b = b2 [unfolded r2]
  obtain w3 r3 where u3: "svc_upsert svc w2 shopID records = (w3, r3)" by fastforce
  have u: "svc_upsert svc w2 shopID records = (w', Inr ())"
    and res: "res = \<lparr>snapres_ShopID = shopID, snapres_SyncedCount = length records,
        snapres_Snapshots = map snapshotSummary records\<rparr>"
    using assms n d r1 c b u3 by (auto simp: Sync_def split: sum.splits if_splits)
  have m: "map snap_OrderID records = ids"
    by (rule buildRecords_Inr [OF _ b]) (rule collectOrders_Inr [OF c], simp)
  have "distinct ids" "length ids \<le> 20"
    using n by (auto simp: normalizeSnapshotRequest_def Let_def result_simps scan_unique_Inr_iff
        maxTikTokOrderSnapshotBatch_def split: if_splits)
  moreover have "length records = length ids" using m by (metis length_map)
  moreover have "map summary_OrderID (snapres_Snapshots res) = map snap_OrderID records"
    by (simp add: res snapshotSummary_def)
  ultimately show ?thesis using n m u res by auto
qed

definition sample_service :: "nat OrderSnapshotService" where
  "sample_service =
     \<lparr>svc_details = (\<lambda>w shop ids. (w + 1, Inr (Some \<lparr>details_UpstreamRequestID = ''d'',
        details_Orders = map sample_order ids\<rparr>))),
      svc_price = (\<lambda>w shop i. (w + 1, Inr (Some \<lparr>pricedetail_UpstreamRequestID = ''p'',
        pricedetail_PriceDetail = Some (sample_price ''11.0'')\<rparr>))),
      svc_upsert = (\<lambda>w shop rs. (w + 1, Inr ()))\<rparr>"

lemma sample_sync:
  "Sync sample_codec (Some sample_service) 0 \<lparr>snapreq_ShopID = ''1'', snapreq_OrderIDs = ['' 5'']\<rparr> =
     (3, Inr \<lparr>snapres_ShopID = ''1'', snapres_SyncedCount = 1,
             snapres_Snapshots = [snapshotSummary (sample_snapshot ''5'')]\<rparr>)"
proof -
  have n: "normalizeSnapshotRequest \<lparr>snapreq_ShopID = ''1'', snapreq_OrderIDs = ['' 5'']\<rparr>
      = Inr (''1'', [''5''])" by code_simp
  have t: "trim_space ''5'' = ''5''" "trim_space ''d'' = ''d''" by code_simp+
  have so: "order_ID (sample_order ''5'') = ''5''" "order_Status (sample_order ''5'') = ''UNPAID''"
    "(sample_order ''5'')\<lparr>order_ID := ''5''\<rparr> = sample_order ''5''" by (simp_all add: sample_order_def)
  have v: "validOrderStatus ''UNPAID''" by (simp add: validOrderStatus_def order_status_defs)
  show ?thesis
    by (simp add: Sync_def n sample_service_def t so v Let_def lookupOrder_def sample_build)
qed

theorem Sync_complete_witness:
  "\<exists>shopID ids. normalizeSnapshotRequest \<lparr>snapreq_ShopID = ''1'', snapreq_OrderIDs = ['' 5'']\<rparr>
     = Inr (shopID, ids) \<and> distinct ids"
  using Sync_complete [OF sample_sync] by blast

end
