(* ===== verification/TikTok_SnapshotList.thy ===== *)
theory TikTok_SnapshotList
  imports TikTok_Snapshot
begin

text \<open>
  The paged list of stored snapshots (\<open>TikTokOrderSnapshotStore.List\<close> in \<open>order_snapshot.go\<close>):
  the filters, the status groups, the counts per group and the pages, newest first. The lemmas
  show that the groups split the stored orders and that the pages put together are exactly the
  filtered list.
\<close>

section \<open>The model\<close>

type_synonym TikTokOrderStatusGroup = string

definition TikTokOrderStatusGroupAll :: TikTokOrderStatusGroup where
  "TikTokOrderStatusGroupAll = []"
definition TikTokOrderStatusGroupUnpaid :: TikTokOrderStatusGroup where
  "TikTokOrderStatusGroupUnpaid = ''unpaid''"
definition TikTokOrderStatusGroupToShip :: TikTokOrderStatusGroup where
  "TikTokOrderStatusGroupToShip = ''to_ship''"
definition TikTokOrderStatusGroupShipping :: TikTokOrderStatusGroup where
  "TikTokOrderStatusGroupShipping = ''shipping''"
definition TikTokOrderStatusGroupCompleted :: TikTokOrderStatusGroup where
  "TikTokOrderStatusGroupCompleted = ''completed''"
definition TikTokOrderStatusGroupCancelled :: TikTokOrderStatusGroup where
  "TikTokOrderStatusGroupCancelled = ''cancelled''"

lemmas status_group_defs =
  TikTokOrderStatusGroupAll_def TikTokOrderStatusGroupUnpaid_def TikTokOrderStatusGroupToShip_def
  TikTokOrderStatusGroupShipping_def TikTokOrderStatusGroupCompleted_def
  TikTokOrderStatusGroupCancelled_def

definition ValidTikTokOrderStatusGroup :: "TikTokOrderStatusGroup \<Rightarrow> bool" where
  "ValidTikTokOrderStatusGroup value \<longleftrightarrow>
     value \<in> set [TikTokOrderStatusGroupAll, TikTokOrderStatusGroupUnpaid,
       TikTokOrderStatusGroupToShip, TikTokOrderStatusGroupShipping,
       TikTokOrderStatusGroupCompleted, TikTokOrderStatusGroupCancelled]"

record TikTokOrderSnapshotListFilter =
  list_ShopID :: string
  list_Status :: OrderStatus
  list_StatusGroup :: TikTokOrderStatusGroup
  list_OrderIDPrefix :: string
  list_Page :: int
  list_PageSize :: int

record TikTokOrderSnapshotStatusCounts =
  counts_Total :: nat
  counts_Unpaid :: nat
  counts_ToShip :: nat
  counts_Shipping :: nat
  counts_Completed :: nat
  counts_Cancelled :: nat

record TikTokOrderSnapshotListItem =
  li_ShopID :: string
  li_ShopName :: string
  li_OrderID :: string
  li_OrderStatus :: OrderStatus
  li_Currency :: string
  li_PaymentTotalAmount :: string
  li_ProductSubtotalAmount :: string
  li_ShippingFeeAmount :: string
  li_ItemInsuranceFeeAmount :: string
  li_ItemCount :: nat
  li_SKUCount :: nat
  li_LastOrderUpdateAt :: "int option"
  li_LastSyncedAt :: int

record TikTokOrderSnapshotListResult =
  lres_Data :: "TikTokOrderSnapshotListItem list"
  lres_Page :: int
  lres_PageSize :: int
  lres_TotalItems :: int
  lres_TotalPages :: int
  lres_StatusCounts :: TikTokOrderSnapshotStatusCounts

text \<open>The status sets that the SQL of the list and of the counts uses.\<close>

definition toShipStatuses :: "OrderStatus list" where
  "toShipStatuses = [''ON_HOLD'', ''AWAITING_SHIPMENT'']"

definition shippingStatuses :: "OrderStatus list" where
  "shippingStatuses = [''PARTIALLY_SHIPPING'', ''AWAITING_COLLECTION'', ''IN_TRANSIT'', ''DELIVERED'']"

definition inStatusGroup :: "TikTokOrderStatusGroup \<Rightarrow> OrderStatus \<Rightarrow> bool" where
  "inStatusGroup g s \<longleftrightarrow>
     g = [] \<or> (g = ''unpaid'' \<and> s = ''UNPAID'') \<or> (g = ''to_ship'' \<and> s \<in> set toShipStatuses)
     \<or> (g = ''shipping'' \<and> s \<in> set shippingStatuses) \<or> (g = ''completed'' \<and> s = ''COMPLETED'')
     \<or> (g = ''cancelled'' \<and> s = ''CANCELLED'')"

text \<open>\<open>JOIN tiktok_shop_connections c ON c.shop_id = s.shop_id AND c.disabled_at IS NULL\<close>.\<close>

definition joinedRows :: "SnapshotDB \<Rightarrow> (SnapshotRow \<times> ShopConnection) list" where
  "joinedRows db =
     [(r, c). r \<leftarrow> db_snapshots db, c \<leftarrow> db_connections db,
              conn_ShopID c = row_ShopID r \<and> \<not> conn_Disabled c]"

abbreviation row_status :: "SnapshotRow \<times> ShopConnection \<Rightarrow> OrderStatus" where
  "row_status rc \<equiv> snap_OrderStatus (row_Snapshot (fst rc))"

definition listMatches :: "TikTokOrderSnapshotListFilter \<Rightarrow> SnapshotRow \<times> ShopConnection \<Rightarrow> bool" where
  "listMatches f rc \<longleftrightarrow>
     (list_ShopID f = [] \<or> row_ShopID (fst rc) = list_ShopID f)
     \<and> (list_Status f = [] \<or> row_status rc = list_Status f)
     \<and> inStatusGroup (list_StatusGroup f) (row_status rc)
     \<and> (list_OrderIDPrefix f = [] \<or> prefix (list_OrderIDPrefix f) (snap_OrderID (row_Snapshot (fst rc))))"

definition countMatches :: "TikTokOrderSnapshotListFilter \<Rightarrow> SnapshotRow \<times> ShopConnection \<Rightarrow> bool" where
  "countMatches f rc \<longleftrightarrow>
     (list_ShopID f = [] \<or> row_ShopID (fst rc) = list_ShopID f)
     \<and> (list_OrderIDPrefix f = [] \<or> prefix (list_OrderIDPrefix f) (snap_OrderID (row_Snapshot (fst rc))))"

definition statusCounts ::
    "TikTokOrderSnapshotListFilter \<Rightarrow> SnapshotDB \<Rightarrow> TikTokOrderSnapshotStatusCounts" where
  "statusCounts f db =
     (let rows = filter (countMatches f) (joinedRows db);
          number = (\<lambda>g. length (filter (\<lambda>rc. inStatusGroup g (row_status rc)) rows))
      in \<lparr>counts_Total = length rows, counts_Unpaid = number ''unpaid'',
          counts_ToShip = number ''to_ship'', counts_Shipping = number ''shipping'',
          counts_Completed = number ''completed'', counts_Cancelled = number ''cancelled''\<rparr>)"

text \<open>\<open>numeric_text\<close> is the text the database returns for a stored amount.\<close>

definition listItem :: "(string \<Rightarrow> string) \<Rightarrow> SnapshotRow \<times> ShopConnection \<Rightarrow> TikTokOrderSnapshotListItem" where
  "listItem numeric_text rc =
     (let r = fst rc; s = row_Snapshot r in
      \<lparr>li_ShopID = row_ShopID r, li_ShopName = conn_ShopName (snd rc), li_OrderID = snap_OrderID s,
       li_OrderStatus = snap_OrderStatus s, li_Currency = snap_Currency s,
       li_PaymentTotalAmount = numeric_text (snap_PaymentTotal s),
       li_ProductSubtotalAmount = numeric_text (snap_ProductSubtotal s),
       li_ShippingFeeAmount = numeric_text (snap_ShippingFee s),
       li_ItemInsuranceFeeAmount = numeric_text (snap_ItemInsuranceFee s),
       li_ItemCount = snap_ItemCount s, li_SKUCount = snap_SKUCount s,
       li_LastOrderUpdateAt = snap_LastOrderUpdateAt s, li_LastSyncedAt = row_LastSyncedAt r\<rparr>)"

text \<open>\<open>ORDER BY s.last_synced_at DESC, s.order_id DESC\<close>.\<close>

definition orderedRows ::
    "TikTokOrderSnapshotListFilter \<Rightarrow> SnapshotDB \<Rightarrow> (SnapshotRow \<times> ShopConnection) list" where
  "orderedRows f db =
     rev (sort_by (\<lambda>rc. (row_LastSyncedAt (fst rc), snap_OrderID (row_Snapshot (fst rc))))
            (filter (listMatches f) (joinedRows db)))"

definition normalizeListFilter :: "TikTokOrderSnapshotListFilter \<Rightarrow> TikTokOrderSnapshotListFilter" where
  "normalizeListFilter f =
     f\<lparr>list_ShopID := trim_space (list_ShopID f), list_OrderIDPrefix := trim_space (list_OrderIDPrefix f),
       list_Status := trim_space (list_Status f), list_StatusGroup := trim_space (list_StatusGroup f)\<rparr>"

definition ListSnapshots ::
    "(string \<Rightarrow> string) \<Rightarrow> SnapshotDB option \<Rightarrow> TikTokOrderSnapshotListFilter \<Rightarrow>
     snapshot_error + TikTokOrderSnapshotListResult" where
  "ListSnapshots numeric_text store filter0 =
     (let f = normalizeListFilter filter0 in
      case store of None \<Rightarrow> Inl ErrInvalidSnapshotListFilter
      | Some db \<Rightarrow>
          if list_Page f < 1 \<or> list_Page f > 1000000 \<or> list_PageSize f < 1 \<or> list_PageSize f > 50
             \<or> (list_ShopID f \<noteq> [] \<and> \<not> numeric_id (list_ShopID f))
             \<or> (list_OrderIDPrefix f \<noteq> [] \<and> \<not> numeric_id (list_OrderIDPrefix f))
             \<or> (list_Status f \<noteq> [] \<and> \<not> validOrderStatus (list_Status f))
             \<or> \<not> ValidTikTokOrderStatusGroup (list_StatusGroup f)
          then Inl ErrInvalidSnapshotListFilter
          else
            (let offset = (list_Page f - 1) * list_PageSize f;
                 total = int (length (filter (listMatches f) (joinedRows db)));
                 result = \<lparr>lres_Data = [], lres_Page = list_Page f, lres_PageSize = list_PageSize f,
                   lres_TotalItems = total,
                   lres_TotalPages = (if total > 0 then int_quo (total + list_PageSize f - 1) (list_PageSize f)
                                      else 0),
                   lres_StatusCounts = statusCounts f db\<rparr>
             in if offset \<ge> total then Inr result
                else Inr (result\<lparr>lres_Data :=
                       map (listItem numeric_text)
                         (take (nat (list_PageSize f)) (drop (nat offset) (orderedRows f db)))\<rparr>)))"

section \<open>Properties\<close>

lemma length_orderedRows [simp]: "length (orderedRows f db) = length (filter (listMatches f) (joinedRows db))"
  by (simp add: orderedRows_def)

lemma mset_orderedRows: "mset (orderedRows f db) = mset (filter (listMatches f) (joinedRows db))"
  by (simp add: orderedRows_def)

text \<open>A list cut into pages of equal size is the pages put together.\<close>

lemma concat_pages:
  assumes "0 < n"
  shows "concat (map (\<lambda>i. take n (drop (i * n) xs)) [0..<k]) = take (k * n) xs"
proof (induction k)
  case 0
  show ?case by simp
next
  case (Suc k)
  have "take (k * n + n) xs = take (k * n) xs @ take n (drop (k * n) xs)" by (rule take_add)
  with Suc show ?case by (simp add: add.commute)
qed

lemma ListSnapshots_data:
  assumes "ListSnapshots nt (Some db) f = Inr res"
  shows "lres_Data res = map (listItem nt) (take (nat (list_PageSize f))
           (drop (nat ((list_Page f - 1) * list_PageSize f)) (orderedRows (normalizeListFilter f) db)))
    \<and> lres_TotalItems res = int (length (orderedRows (normalizeListFilter f) db))
    \<and> 1 \<le> list_PageSize f \<and> list_PageSize f \<le> 50 \<and> 1 \<le> list_Page f"
  using assms
  by (auto simp: ListSnapshots_def Let_def normalizeListFilter_def split: if_splits)

lemma normalizeListFilter_page:
  "normalizeListFilter (f\<lparr>list_Page := p\<rparr>) = (normalizeListFilter f)\<lparr>list_Page := p\<rparr>"
  by (simp add: normalizeListFilter_def)

lemma listMatches_page [simp]: "listMatches (f\<lparr>list_Page := p\<rparr>) = listMatches f"
  by (simp add: listMatches_def fun_eq_iff)

lemma orderedRows_page [simp]: "orderedRows (f\<lparr>list_Page := p\<rparr>) db = orderedRows f db"
  by (simp add: orderedRows_def)

lemma ListSnapshots_other_page:
  assumes "ListSnapshots nt (Some db) f = Inr res" "1 \<le> p" "p \<le> 1000000"
  shows "\<exists>r. ListSnapshots nt (Some db) (f\<lparr>list_Page := p\<rparr>) = Inr r"
  using assms by (auto simp: ListSnapshots_def Let_def normalizeListFilter_def split: if_splits)

text \<open>
  The pages of the order list are a partition of it: reading every page from the first to
  the reported last one gives each matching snapshot of a connected shop exactly once, newest
  first, whatever the page size.
\<close>
theorem ListSnapshots_pages:
  assumes "ListSnapshots nt (Some db) f = Inr res" and "lres_TotalPages res \<le> 1000000"
  shows "concat (map (\<lambda>p. case ListSnapshots nt (Some db) (f\<lparr>list_Page := int p + 1\<rparr>) of
                         Inl _ \<Rightarrow> [] | Inr r \<Rightarrow> lres_Data r) [0..<nat (lres_TotalPages res)])
           = map (listItem nt) (orderedRows (normalizeListFilter f) db)"
proof -
  define xs where "xs = orderedRows (normalizeListFilter f) db"
  define n where "n = nat (list_PageSize f)"
  define k where "k = nat (lres_TotalPages res)"
  note d = ListSnapshots_data [OF assms(1)]
  have n: "0 < n" "int n = list_PageSize f" using d by (auto simp: n_def)
  have pages: "lres_TotalPages res =
      (if length xs > 0 then int_quo (int (length xs) + int n - 1) (int n) else 0)"
    using assms(1) d n
    by (auto simp: ListSnapshots_def Let_def normalizeListFilter_def xs_def split: if_splits)
  then have k: "length xs \<le> k * n"
  proof (cases "length xs = 0")
    case False
    then have "int_quo (int (length xs) + int n - 1) (int n) = (int (length xs) + int n - 1) div int n"
      using n(1) by (simp add: int_quo_pos)
    then have "int k = int ((length xs + n - 1) div n)"
      using pages False n(1) by (simp add: k_def zdiv_int of_nat_diff pos_imp_zdiv_nonneg_iff)
    then have "k = (length xs + n - 1) div n" by simp
    moreover have "length xs \<le> ((length xs + n - 1) div n) * n"
      using n(1) div_mod_decomp [of "length xs + n - 1" n] mod_less_divisor [OF n(1), of "length xs + n - 1"]
      by linarith
    ultimately show ?thesis by simp
  qed simp
  have "(case ListSnapshots nt (Some db) (f\<lparr>list_Page := int p + 1\<rparr>) of Inl _ \<Rightarrow> [] | Inr r \<Rightarrow> lres_Data r)
      = map (listItem nt) (take n (drop (p * n) xs))" if "p < k" for p
  proof -
    have "int p + 1 \<le> 1000000" using that assms(2) by (simp add: k_def)
    then obtain r where r: "ListSnapshots nt (Some db) (f\<lparr>list_Page := int p + 1\<rparr>) = Inr r"
      using ListSnapshots_other_page [OF assms(1)] by fastforce
    have "nat (int p * list_PageSize f) = p * n" using n by (metis nat_int of_nat_mult)
    with ListSnapshots_data [OF r] show ?thesis
      by (simp add: r normalizeListFilter_page xs_def n_def)
  qed
  then have "concat (map (\<lambda>p. case ListSnapshots nt (Some db) (f\<lparr>list_Page := int p + 1\<rparr>) of
        Inl _ \<Rightarrow> [] | Inr r \<Rightarrow> lres_Data r) [0..<k])
      = concat (map (\<lambda>p. map (listItem nt) (take n (drop (p * n) xs))) [0..<k])"
    by (intro arg_cong [where f = concat] map_cong) auto
  also have "\<dots> = map (listItem nt) (concat (map (\<lambda>p. take n (drop (p * n) xs)) [0..<k]))"
    by (simp add: map_concat comp_def)
  also have "\<dots> = map (listItem nt) xs" using concat_pages [OF n(1), of xs k] k by simp
  finally show ?thesis by (simp add: k_def xs_def)
qed

definition sample_filter :: TikTokOrderSnapshotListFilter where
  "sample_filter = \<lparr>list_ShopID = [], list_Status = [], list_StatusGroup = ''unpaid'',
     list_OrderIDPrefix = [], list_Page = 1, list_PageSize = 1\<rparr>"

definition sample_listed_db :: SnapshotDB where
  "sample_listed_db = sample_db\<lparr>db_snapshots :=
     [new_row ''g'' ''1'' 8 (sample_snapshot ''5''), new_row ''g'' ''1'' 9 (sample_snapshot ''6'')]\<rparr>"

lemma sample_joined: "joinedRows sample_listed_db =
    map (\<lambda>r. (r, hd (db_connections sample_db))) (db_snapshots sample_listed_db)"
  by (simp add: joinedRows_def sample_listed_db_def sample_db_def new_row_def)

lemma sample_listed_rows:
  "length (db_snapshots sample_listed_db) = 2"
  "r \<in> set (db_snapshots sample_listed_db) \<Longrightarrow> snap_OrderStatus (row_Snapshot r) = ''UNPAID''"
  by (auto simp: sample_listed_db_def new_row_def sample_snapshot_def)

theorem ListSnapshots_pages_witness:
  "\<exists>res. ListSnapshots id (Some sample_listed_db) sample_filter = Inr res \<and> lres_TotalPages res = 2
     \<and> concat (map (\<lambda>p. case ListSnapshots id (Some sample_listed_db) (sample_filter\<lparr>list_Page := int p + 1\<rparr>) of
                         Inl _ \<Rightarrow> [] | Inr r \<Rightarrow> lres_Data r) [0..<nat (lres_TotalPages res)])
        = map (listItem id) (orderedRows (normalizeListFilter sample_filter) sample_listed_db)"
proof -
  have f: "normalizeListFilter sample_filter = sample_filter" by code_simp
  have m: "filter (listMatches sample_filter) (joinedRows sample_listed_db) = joinedRows sample_listed_db"
    using sample_listed_rows(2)
    by (auto simp: sample_joined listMatches_def sample_filter_def inStatusGroup_def intro!: filter_True)
  have n: "length (joinedRows sample_listed_db) = 2" by (simp add: sample_joined sample_listed_rows)
  have v: "ValidTikTokOrderStatusGroup ''unpaid''"
    by (simp add: ValidTikTokOrderStatusGroup_def status_group_defs)
  have pf: "list_Page sample_filter = 1" "list_PageSize sample_filter = 1" "list_ShopID sample_filter = []"
      "list_Status sample_filter = []" "list_OrderIDPrefix sample_filter = []"
      "list_StatusGroup sample_filter = ''unpaid''"
    by (simp_all add: sample_filter_def)
  obtain res where res: "ListSnapshots id (Some sample_listed_db) sample_filter = Inr res"
      "lres_TotalPages res = 2"
    by (simp add: ListSnapshots_def Let_def f m n v pf int_quo_def)
  then show ?thesis using ListSnapshots_pages [OF res(1)] by simp
qed

text \<open>A status is in exactly one of the five groups of the list.\<close>

definition one_group :: "OrderStatus \<Rightarrow> bool" where
  "one_group s \<longleftrightarrow>
     of_bool (inStatusGroup ''unpaid'' s) + of_bool (inStatusGroup ''to_ship'' s)
     + of_bool (inStatusGroup ''shipping'' s) + of_bool (inStatusGroup ''completed'' s)
     + of_bool (inStatusGroup ''cancelled'' s) = (1::nat)"

lemma valid_status_one_group:
  assumes "s \<noteq> []" "validOrderStatus s"
  shows "one_group s"
proof -
  have "list_all one_group [OrderStatusUnpaid, OrderStatusOnHold, OrderStatusAwaitingShipment,
       OrderStatusPartiallyShipping, OrderStatusAwaitingCollection, OrderStatusInTransit,
       OrderStatusDelivered, OrderStatusCompleted, OrderStatusCancelled]" by code_simp
  then show ?thesis using assms by (auto simp: validOrderStatus_def)
qed

text \<open>
  The counts of the order list add up: when every stored status is one the gateway may
  report, each order of a connected shop that the shop and prefix filters select falls in
  exactly one of the five groups, so their counts sum to the total.
\<close>
theorem statusCounts_partition:
  assumes "\<forall>r\<in>set (db_snapshots db). snap_OrderStatus (row_Snapshot r) \<noteq> []
             \<and> validOrderStatus (snap_OrderStatus (row_Snapshot r))"
  shows "counts_Total (statusCounts f db) =
     counts_Unpaid (statusCounts f db) + counts_ToShip (statusCounts f db)
     + counts_Shipping (statusCounts f db) + counts_Completed (statusCounts f db)
     + counts_Cancelled (statusCounts f db)"
proof -
  define size_of where "size_of = (\<lambda>g rows. length (filter (\<lambda>rc. inStatusGroup g (row_status rc)) rows))"
  have "length rows = size_of ''unpaid'' rows + size_of ''to_ship'' rows + size_of ''shipping'' rows
          + size_of ''completed'' rows + size_of ''cancelled'' rows"
    if "\<forall>rc\<in>set rows. row_status rc \<noteq> [] \<and> validOrderStatus (row_status rc)" for rows
    using that
  proof (induction rows)
    case (Cons rc rows)
    then have "one_group (row_status rc)" by (intro valid_status_one_group) auto
    moreover have "size_of g (rc # rows) = of_bool (inStatusGroup g (row_status rc)) + size_of g rows" for g
      by (simp add: size_of_def)
    ultimately show ?case using Cons by (simp add: one_group_def)
  qed (simp add: size_of_def)
  moreover have "\<forall>rc\<in>set (filter (countMatches f) (joinedRows db)).
      row_status rc \<noteq> [] \<and> validOrderStatus (row_status rc)"
    using assms by (auto simp: joinedRows_def)
  ultimately show ?thesis by (simp add: statusCounts_def Let_def size_of_def)
qed

theorem statusCounts_partition_witness:
  "counts_Total (statusCounts sample_filter sample_listed_db) = 2
    \<and> counts_Unpaid (statusCounts sample_filter sample_listed_db) = 2
    \<and> counts_ToShip (statusCounts sample_filter sample_listed_db) = 0"
proof -
  have ok: "\<forall>r\<in>set (db_snapshots sample_listed_db). snap_OrderStatus (row_Snapshot r) \<noteq> []
      \<and> validOrderStatus (snap_OrderStatus (row_Snapshot r))"
    using sample_listed_rows(2) by (simp add: validOrderStatus_def order_status_defs)
  have rows: "filter (countMatches sample_filter) (joinedRows sample_listed_db) = joinedRows sample_listed_db"
    by (auto simp: sample_joined countMatches_def sample_filter_def intro!: filter_True)
  have unpaid: "filter (\<lambda>rc. inStatusGroup ''unpaid'' (row_status rc)) (joinedRows sample_listed_db)
      = joinedRows sample_listed_db"
    using sample_listed_rows(2) by (auto simp: sample_joined inStatusGroup_def intro!: filter_True)
  have n: "length (joinedRows sample_listed_db) = 2" by (simp add: sample_joined sample_listed_rows)
  have "counts_Total (statusCounts sample_filter sample_listed_db) = 2"
      "counts_Unpaid (statusCounts sample_filter sample_listed_db) = 2"
    by (simp_all add: statusCounts_def Let_def rows unpaid n)
  then show ?thesis using statusCounts_partition [OF ok, of sample_filter] by simp
qed

end
