(* ===== verification/Go_Time.thy ===== *)
theory Go_Time
  imports Prelude
begin

text \<open>
  What the program uses of Go's package \<open>time\<close>. An instant is an \<open>int\<close>, its distance from the Unix
  epoch in microseconds (the resolution of a \<open>timestamptz\<close> column, to which every instant the
  program stores is reduced); a duration is an \<open>int\<close> of microseconds as well. Seconds are kept in
  a signed 64-bit field counted from the year 1, so \<open>time.Unix\<close> wraps around for arguments near
  the ends of \<open>int64\<close>; \<open>Sub\<close> saturates at the largest and smallest \<open>time.Duration\<close>.
\<close>

type_synonym instant = int
type_synonym duration = int

definition wrap64 :: "int \<Rightarrow> int" where
  "wrap64 x = (x + 2 ^ 63) mod 2 ^ 64 - 2 ^ 63"

lemma wrap64_id: "- (2 ^ 63) \<le> x \<Longrightarrow> x < 2 ^ 63 \<Longrightarrow> wrap64 x = x"
  by (simp add: wrap64_def)

definition unix_to_internal :: int where "unix_to_internal = 62135596800"

definition second :: duration where "second = 1000000"
definition minute :: duration where "minute = 60 * second"
definition hour :: duration where "hour = 60 * minute"

lemmas duration_defs = second_def minute_def hour_def

text \<open>\<open>time.Unix(s, 0)\<close> and \<open>t.Unix()\<close>.\<close>

definition time_unix :: "int \<Rightarrow> instant" where
  "time_unix s = (wrap64 (s + unix_to_internal) - unix_to_internal) * second"

definition unix_seconds :: "instant \<Rightarrow> int" where
  "unix_seconds t = t div second"

text \<open>The zero \<open>time.Time\<close>: midnight of 1 January of the year 1.\<close>

definition zero_time :: instant where "zero_time = - unix_to_internal * second"

definition max_duration :: duration where "max_duration = (2 ^ 63 - 1) div 1000"

definition time_sub :: "instant \<Rightarrow> instant \<Rightarrow> duration" where
  "time_sub t u =
     (let d = wrap64 (unix_seconds t - unix_seconds u) * second + (t mod second - u mod second)
      in if \<bar>d\<bar> \<le> max_duration then d
         else if t < u then - max_duration else max_duration)"

lemma time_unix_in_range:
  "- (2 ^ 62) \<le> s \<Longrightarrow> s \<le> 2 ^ 62 \<Longrightarrow> time_unix s = s * second"
  by (simp add: time_unix_def unix_to_internal_def wrap64_id)

lemma unix_seconds_time_unix:
  "- (2 ^ 62) \<le> s \<Longrightarrow> s \<le> 2 ^ 62 \<Longrightarrow> unix_seconds (time_unix s) = s"
  by (simp add: time_unix_in_range unix_seconds_def second_def)

lemma time_sub_close:
  assumes "\<bar>t - u\<bar> \<le> max_duration"
  shows "time_sub t u = t - u"
proof -
  have "\<bar>unix_seconds t - unix_seconds u\<bar> < 2 ^ 62"
    using assms unfolding unix_seconds_def second_def max_duration_def by simp
  then have "wrap64 (unix_seconds t - unix_seconds u) = unix_seconds t - unix_seconds u"
    by (intro wrap64_id) (simp_all add: abs_less_iff)
  moreover have "(unix_seconds t - unix_seconds u) * second + (t mod second - u mod second) = t - u"
    by (simp add: unix_seconds_def left_diff_distrib minus_div_mult_eq_mod [symmetric])
  ultimately show ?thesis using assms by (simp add: time_sub_def Let_def)
qed

lemma time_sub_far:
  assumes "max_duration < t - u" "t - u < 2 ^ 62 * second"
  shows "time_sub t u = max_duration"
proof -
  have "\<bar>unix_seconds t - unix_seconds u\<bar> \<le> 2 ^ 62"
    using assms unfolding unix_seconds_def second_def max_duration_def by simp
  then have "wrap64 (unix_seconds t - unix_seconds u) = unix_seconds t - unix_seconds u"
    by (intro wrap64_id) (simp_all add: abs_le_iff)
  moreover have "(unix_seconds t - unix_seconds u) * second + (t mod second - u mod second) = t - u"
    by (simp add: unix_seconds_def left_diff_distrib minus_div_mult_eq_mod [symmetric])
  ultimately show ?thesis using assms by (simp add: time_sub_def Let_def max_duration_def)
qed

text \<open>For instants that are not absurdly far apart, a bound on the difference is exact.\<close>

lemma time_sub_le_iff:
  assumes "u \<le> t" "t - u < 2 ^ 62 * second" "d < max_duration"
  shows "time_sub t u \<le> d \<longleftrightarrow> t - u \<le> d"
proof (cases "t - u \<le> max_duration")
  case True
  then show ?thesis using assms by (simp add: time_sub_close)
next
  case False
  then show ?thesis using assms by (simp add: time_sub_far)
qed

end
