(* ===== verification/TikTok_Reconcile.thy ===== *)
theory TikTok_Reconcile
  imports TikTok_Snapshot Go_Time
begin

text \<open>
  The order reconciler (\<open>order_reconcile.go\<close>): it walks the pages of the orders that were updated
  in a window, snapshots every page, and records the progress, the completion or the failure of
  the run in its store. The gateway, the snapshot service and the store are the interfaces of
  the Go code, as the operations of a record over the outside world; the locale
  \<open>watermark_store\<close> states what the reconciler's caller relies on.
\<close>

section \<open>Requests and settings\<close>

definition tikTokOrderReconcilePageSize :: int where "tikTokOrderReconcilePageSize = 20"
definition tikTokOrderReconcileMaxPages :: nat where "tikTokOrderReconcileMaxPages = 10"
definition tikTokOrderReconcileMaxSpan :: duration where "tikTokOrderReconcileMaxSpan = 24 * hour"

datatype reconcile_error =
    ErrInvalidOrderReconcileInput
  | ErrOrderReconcileFailed string
  | ErrOrderSyncVersionConflict
  | ErrNoRows
  | ErrDatabase

record TikTokOrderReconcileRequest =
  recreq_ShopID :: string
  recreq_UpdateTimeGE :: int
  recreq_UpdateTimeLT :: int

record TikTokOrderReconcileRun =
  run_ID :: string
  run_ShopID :: string
  run_WindowStart :: instant
  run_WindowEnd :: instant

record TikTokOrderReconcileProgress =
  prog_PageCount :: nat
  prog_DiscoveredCount :: nat
  prog_SnapshottedCount :: nat
  prog_LastPageToken :: string
  prog_SearchRequestIDs :: "string list"

record TikTokOrderReconcileResult =
  recres_RunID :: string
  recres_ShopID :: string
  recres_WindowStart :: instant
  recres_WindowEnd :: instant
  recres_PageCount :: nat
  recres_DiscoveredCount :: nat
  recres_SnapshottedCount :: nat

record TikTokOrderSyncSettingUpdate =
  upd_Enabled :: bool
  upd_IntervalSeconds :: int
  upd_OverlapSeconds :: int
  upd_ConfigVersion :: int

definition validTikTokOrderReconcileRequest :: "TikTokOrderReconcileRequest \<Rightarrow> bool" where
  "validTikTokOrderReconcileRequest input \<longleftrightarrow>
     (if \<not> numeric_id (trim_space (recreq_ShopID input)) \<or> recreq_UpdateTimeGE input \<le> 0
         \<or> recreq_UpdateTimeLT input \<le> recreq_UpdateTimeGE input
      then False
      else time_sub (time_unix (recreq_UpdateTimeLT input)) (time_unix (recreq_UpdateTimeGE input))
             \<le> tikTokOrderReconcileMaxSpan)"

definition validateSettingUpdate :: "TikTokOrderSyncSettingUpdate \<Rightarrow> reconcile_error + unit" where
  "validateSettingUpdate input =
     (if upd_IntervalSeconds input < 60 \<or> upd_IntervalSeconds input > 86400
         \<or> upd_OverlapSeconds input < 60 \<or> upd_OverlapSeconds input > 86400
         \<or> upd_ConfigVersion input < 1
      then Inl ErrInvalidOrderReconcileInput else Inr ())"

definition ValidTikTokShopID :: "string \<Rightarrow> bool" where
  "ValidTikTokShopID value \<longleftrightarrow> numeric_id (trim_space value)"

section \<open>The reconciler\<close>

record GatewayOrderSearchResponse =
  gsearch_UpstreamRequestID :: string
  gsearch_NextPageToken :: string
  gsearch_TotalCount :: int
  gsearch_Orders :: "Order list"

text \<open>The reconciler's gateway, snapshot service and store.\<close>

record 'w TikTokOrderReconciler =
  rec_search :: "'w \<Rightarrow> string \<Rightarrow> SearchOrdersRequest \<Rightarrow> 'w \<times> (unit + GatewayOrderSearchResponse option)"
  rec_sync :: "'w \<Rightarrow> TikTokOrderSnapshotRequest \<Rightarrow> 'w \<times> (snapshot_error + TikTokOrderSnapshotResult option)"
  rec_start :: "'w \<Rightarrow> TikTokOrderReconcileRequest \<Rightarrow> 'w \<times> (reconcile_error + TikTokOrderReconcileRun)"
  rec_record :: "'w \<Rightarrow> string \<Rightarrow> TikTokOrderReconcileProgress \<Rightarrow> 'w \<times> (reconcile_error + unit)"
  rec_complete :: "'w \<Rightarrow> string \<Rightarrow> TikTokOrderReconcileProgress \<Rightarrow> 'w \<times> (reconcile_error + unit)"
  rec_fail :: "'w \<Rightarrow> string \<Rightarrow> string \<Rightarrow> string \<Rightarrow> 'w \<times> (reconcile_error + unit)"
  rec_now :: "'w \<Rightarrow> instant"

definition searchRequest :: "TikTokOrderReconcileRun \<Rightarrow> string \<Rightarrow> SearchOrdersRequest" where
  "searchRequest run pageToken =
     \<lparr>search_PageSize = tikTokOrderReconcilePageSize, search_PageToken = pageToken,
      search_SortField = OrderSortFieldUpdateTime, search_SortOrder = OrderSortAscending,
      search_Filters = \<lparr>filter_OrderStatus = [], filter_CreateTimeGE = 0, filter_CreateTimeLT = 0,
        filter_UpdateTimeGE = unix_seconds (run_WindowStart run),
        filter_UpdateTimeLT = unix_seconds (run_WindowEnd run), filter_ShippingType = [],
        filter_IsBuyerRequestCancel = None, filter_WarehouseIDs = []\<rparr>\<rparr>"

text \<open>The failure of a run: what the store answers is ignored.\<close>

definition failRun ::
    "'w TikTokOrderReconciler \<Rightarrow> TikTokOrderReconcileRun \<Rightarrow> 'w \<Rightarrow> string \<Rightarrow> string \<Rightarrow>
     'w \<times> (reconcile_error + TikTokOrderReconcileResult)" where
  "failRun s run w code message =
     (let (w, _) = rec_fail s w (run_ID run) code message in (w, Inl (ErrOrderReconcileFailed code)))"

text \<open>The orders of a page: the ids in order and the set of all ids seen so far.\<close>

definition orderInWindow :: "TikTokOrderReconcileRun \<Rightarrow> Order \<Rightarrow> bool" where
  "orderInWindow run ord \<longleftrightarrow>
     numeric_id (trim_space (order_ID ord)) \<and> unix_seconds (run_WindowStart run) \<le> order_UpdateTime ord
     \<and> order_UpdateTime ord < unix_seconds (run_WindowEnd run)"

fun pageOrders ::
    "TikTokOrderReconcileRun \<Rightarrow> string list \<Rightarrow> Order list \<Rightarrow> (string \<times> string) + string list" where
  "pageOrders run seen [] = Inr []"
| "pageOrders run seen (ord # rest) =
     (if \<not> orderInWindow run ord
      then Inl (''search_response_invalid'',
                ''TikTok Shop returned an order outside the reconciliation contract'')
      else
        let orderID = trim_space (order_ID ord) in
        if orderID \<in> set seen
        then Inl (''duplicate_order'', ''TikTok Shop returned a duplicate order across pages'')
        else and_then (pageOrders run (orderID # seen) rest) (\<lambda>ids. Inr (orderID # ids)))"

text \<open>A page without orders is not sent to the snapshot service.\<close>

definition syncPage ::
    "'w TikTokOrderReconciler \<Rightarrow> TikTokOrderReconcileRun \<Rightarrow> 'w \<Rightarrow> string list \<Rightarrow> 'w \<times> nat option" where
  "syncPage s run w orderIDs =
     (if orderIDs = [] then (w, Some 0)
      else
        case rec_sync s w \<lparr>snapreq_ShopID = run_ShopID run, snapreq_OrderIDs = orderIDs\<rparr> of
          (w, Inr (Some result)) \<Rightarrow>
            (w, if snapres_SyncedCount result \<noteq> length orderIDs then None
                else Some (snapres_SyncedCount result))
        | (w, _) \<Rightarrow> (w, None))"

fun reconcilePages ::
    "'w TikTokOrderReconciler \<Rightarrow> TikTokOrderReconcileRun \<Rightarrow> nat \<Rightarrow> 'w \<Rightarrow> string list \<Rightarrow> string list \<Rightarrow>
     string \<Rightarrow> TikTokOrderReconcileProgress \<Rightarrow> 'w \<times> (reconcile_error + TikTokOrderReconcileResult)"
  where
  "reconcilePages s run 0 w seenOrders seenTokens pageToken progress =
     failRun s run w ''page_limit_reached'' ''TikTok Shop reconciliation exceeded the bounded page limit''"
| "reconcilePages s run (Suc pages) w seenOrders seenTokens pageToken progress =
     (case rec_search s w (run_ShopID run) (searchRequest run pageToken) of
        (w, Inl _) \<Rightarrow> failRun s run w ''search_failed'' ''TikTok Shop Order List request failed''
      | (w, Inr None) \<Rightarrow>
          failRun s run w ''search_response_invalid'' ''TikTok Shop Order List response was incomplete''
      | (w, Inr (Some response)) \<Rightarrow>
          if trim_space (gsearch_UpstreamRequestID response) = []
          then failRun s run w ''search_response_invalid'' ''TikTok Shop Order List response was incomplete''
          else
            let nextPageToken = trim_space (gsearch_NextPageToken response) in
            if nextPageToken \<noteq> [] \<and> (nextPageToken = pageToken \<or> nextPageToken \<in> set seenTokens)
            then failRun s run w ''page_token_repeated'' ''TikTok Shop repeated an order page token''
            else
              let seenTokens = (if nextPageToken \<noteq> [] then nextPageToken # seenTokens else seenTokens) in
              case pageOrders run seenOrders (gsearch_Orders response) of
                Inl (code, message) \<Rightarrow> failRun s run w code message
              | Inr orderIDs \<Rightarrow>
                  (case syncPage s run w orderIDs of
                     (w, None) \<Rightarrow>
                       failRun s run w ''snapshot_failed'' ''TikTok Shop order detail snapshot failed''
                   | (w, Some synced) \<Rightarrow>
                       let progress = progress\<lparr>
                             prog_SnapshottedCount := prog_SnapshottedCount progress + synced,
                             prog_PageCount := prog_PageCount progress + 1,
                             prog_DiscoveredCount := prog_DiscoveredCount progress + length orderIDs,
                             prog_LastPageToken := nextPageToken,
                             prog_SearchRequestIDs := prog_SearchRequestIDs progress
                               @ [trim_space (gsearch_UpstreamRequestID response)]\<rparr> in
                       case rec_record s w (run_ID run) progress of
                         (w, Inl _) \<Rightarrow>
                           failRun s run w ''progress_persist_failed''
                             ''TikTok Shop reconciliation progress could not be saved''
                       | (w, Inr _) \<Rightarrow>
                           if nextPageToken = [] then
                             (case rec_complete s w (run_ID run) progress of
                                (w, Inl _) \<Rightarrow>
                                  failRun s run w ''completion_persist_failed''
                                    ''TikTok Shop reconciliation completion could not be saved''
                              | (w, Inr _) \<Rightarrow>
                                  (w, Inr \<lparr>recres_RunID = run_ID run, recres_ShopID = run_ShopID run,
                                     recres_WindowStart = run_WindowStart run,
                                     recres_WindowEnd = run_WindowEnd run,
                                     recres_PageCount = prog_PageCount progress,
                                     recres_DiscoveredCount = prog_DiscoveredCount progress,
                                     recres_SnapshottedCount = prog_SnapshottedCount progress\<rparr>))
                           else reconcilePages s run pages w (rev orderIDs @ seenOrders) seenTokens
                                  nextPageToken progress))"

definition initialProgress :: TikTokOrderReconcileProgress where
  "initialProgress =
     \<lparr>prog_PageCount = 0, prog_DiscoveredCount = 0, prog_SnapshottedCount = 0,
      prog_LastPageToken = [], prog_SearchRequestIDs = []\<rparr>"

definition validRun :: "TikTokOrderReconcileRun \<Rightarrow> bool" where
  "validRun run \<longleftrightarrow>
     \<not> (trim_space (run_ID run) = [] \<or> \<not> numeric_id (trim_space (run_ShopID run))
        \<or> run_WindowStart run = zero_time \<or> \<not> run_WindowStart run < run_WindowEnd run
        \<or> time_sub (run_WindowEnd run) (run_WindowStart run) > tikTokOrderReconcileMaxSpan)"

definition execute ::
    "'w TikTokOrderReconciler \<Rightarrow> 'w \<Rightarrow> TikTokOrderReconcileRun \<Rightarrow>
     'w \<times> (reconcile_error + TikTokOrderReconcileResult)" where
  "execute s w run =
     (if \<not> validRun run then (w, Inl ErrInvalidOrderReconcileInput)
      else reconcilePages s run tikTokOrderReconcileMaxPages w [] [] [] initialProgress)"

text \<open>\<open>None\<close> is a nil reconciler, or one with a nil gateway, snapshot service, store or clock.\<close>

definition ExecuteScheduled ::
    "'w TikTokOrderReconciler option \<Rightarrow> 'w \<Rightarrow> TikTokOrderReconcileRun \<Rightarrow>
     'w \<times> (reconcile_error + TikTokOrderReconcileResult)" where
  "ExecuteScheduled reconciler w run =
     (case reconciler of None \<Rightarrow> (w, Inl ErrInvalidOrderReconcileInput) | Some s \<Rightarrow> execute s w run)"

definition Reconcile ::
    "'w TikTokOrderReconciler option \<Rightarrow> 'w \<Rightarrow> TikTokOrderReconcileRequest \<Rightarrow>
     'w \<times> (reconcile_error + TikTokOrderReconcileResult)" where
  "Reconcile reconciler w input =
     (let input = input\<lparr>recreq_ShopID := trim_space (recreq_ShopID input)\<rparr> in
      case reconciler of None \<Rightarrow> (w, Inl ErrInvalidOrderReconcileInput)
      | Some s \<Rightarrow>
          if \<not> validTikTokOrderReconcileRequest input
             \<or> time_unix (recreq_UpdateTimeLT input) > rec_now s w + 5 * second
          then (w, Inl ErrInvalidOrderReconcileInput)
          else
            case rec_start s w input of
              (w, Inl _) \<Rightarrow> (w, Inl (ErrOrderReconcileFailed ''start run''))
            | (w, Inr run) \<Rightarrow> execute s w run)"

section \<open>Properties\<close>

subsection \<open>The window check\<close>

text \<open>
  For times of any calendar in use (seconds below \<open>2 ^ 61\<close>), a request is accepted exactly
  when the shop id is numeric and the window is not empty and not longer than 24 hours.
\<close>
theorem validTikTokOrderReconcileRequest_window:
  assumes "\<bar>recreq_UpdateTimeGE input\<bar> \<le> 2 ^ 61" "\<bar>recreq_UpdateTimeLT input\<bar> \<le> 2 ^ 61"
  shows "validTikTokOrderReconcileRequest input \<longleftrightarrow>
     numeric_id (trim_space (recreq_ShopID input)) \<and> 0 < recreq_UpdateTimeGE input
     \<and> recreq_UpdateTimeGE input < recreq_UpdateTimeLT input
     \<and> recreq_UpdateTimeLT input \<le> recreq_UpdateTimeGE input + 86400"
proof (cases "0 < recreq_UpdateTimeGE input \<and> recreq_UpdateTimeGE input < recreq_UpdateTimeLT input")
  case True
  have "time_unix (recreq_UpdateTimeGE input) = recreq_UpdateTimeGE input * second"
       "time_unix (recreq_UpdateTimeLT input) = recreq_UpdateTimeLT input * second"
    using assms by (auto intro!: time_unix_in_range)
  moreover have "time_sub (recreq_UpdateTimeLT input * second) (recreq_UpdateTimeGE input * second)
        \<le> tikTokOrderReconcileMaxSpan \<longleftrightarrow>
      recreq_UpdateTimeLT input * second - recreq_UpdateTimeGE input * second \<le> tikTokOrderReconcileMaxSpan"
    using True assms
    by (intro time_sub_le_iff) (auto simp: duration_defs max_duration_def tikTokOrderReconcileMaxSpan_def)
  ultimately show ?thesis
    using True by (auto simp: validTikTokOrderReconcileRequest_def tikTokOrderReconcileMaxSpan_def duration_defs)
next
  case False
  then show ?thesis by (auto simp: validTikTokOrderReconcileRequest_def)
qed

theorem validTikTokOrderReconcileRequest_window_witness:
  "validTikTokOrderReconcileRequest
     \<lparr>recreq_ShopID = ''7'', recreq_UpdateTimeGE = 1000, recreq_UpdateTimeLT = 87400\<rparr>
   \<and> \<not> validTikTokOrderReconcileRequest
     \<lparr>recreq_ShopID = ''7'', recreq_UpdateTimeGE = 1000, recreq_UpdateTimeLT = 87401\<rparr>"
proof -
  have "numeric_id (trim_space ''7'')" by code_simp
  then show ?thesis by (simp add: validTikTokOrderReconcileRequest_window)
qed

text \<open>
  The 24-hour bound does not hold at the end of \<open>int64\<close>: there the instant wraps around, the
  span is negative, and the longest window of all is accepted.
\<close>
theorem validTikTokOrderReconcileRequest_wraps:
  "validTikTokOrderReconcileRequest
     \<lparr>recreq_ShopID = ''7'', recreq_UpdateTimeGE = 1, recreq_UpdateTimeLT = 2 ^ 63 - 1\<rparr>
   \<and> time_unix (2 ^ 63 - 1) < time_unix 1"
proof -
  have "numeric_id (trim_space ''7'')" by code_simp
  then show ?thesis
    by (simp add: validTikTokOrderReconcileRequest_def time_unix_def time_sub_def wrap64_def
        unix_to_internal_def unix_seconds_def Let_def duration_defs tikTokOrderReconcileMaxSpan_def
        max_duration_def)
qed

subsection \<open>A successful run\<close>

lemma pageOrders_Inr:
  "pageOrders run seen ords = Inr ids \<longleftrightarrow>
     ids = map (\<lambda>ord. trim_space (order_ID ord)) ords \<and> distinct ids \<and> set ids \<inter> set seen = {}
     \<and> (\<forall>ord\<in>set ords. orderInWindow run ord)"
proof (induction ords arbitrary: seen ids)
  case Nil
  show ?case by auto
next
  case (Cons ord ords)
  show ?case
  proof (cases "orderInWindow run ord \<and> trim_space (order_ID ord) \<notin> set seen")
    case True
    then show ?thesis
      by (simp add: Let_def result_simps Cons.IH) (fastforce simp: image_iff)
  next
    case False
    then show ?thesis by (auto simp: Let_def)
  qed
qed

lemma syncPage_Some: "syncPage s run w ids = (w', Some k) \<Longrightarrow> k = length ids"
  by (auto simp: syncPage_def split: if_splits prod.splits sum.splits option.splits)

abbreviation response_ids :: "GatewayOrderSearchResponse \<Rightarrow> string list" where
  "response_ids response \<equiv> map (\<lambda>ord. trim_space (order_ID ord)) (gsearch_Orders response)"

abbreviation next_token :: "GatewayOrderSearchResponse \<Rightarrow> string" where
  "next_token response \<equiv> trim_space (gsearch_NextPageToken response)"

text \<open>One page of a run that succeeds.\<close>

lemma reconcilePages_success_step:
  assumes "reconcilePages s run (Suc n) w seenOrders seenTokens tok prog = (w', Inr res)"
  obtains w1 response w2 w3 prog' where
    "rec_search s w (run_ShopID run) (searchRequest run tok) = (w1, Inr (Some response))"
    "next_token response \<noteq> [] \<longrightarrow> next_token response \<noteq> tok \<and> next_token response \<notin> set seenTokens"
    "pageOrders run seenOrders (gsearch_Orders response) = Inr (response_ids response)"
    "prog_PageCount prog' = prog_PageCount prog + 1"
    "prog_DiscoveredCount prog' = prog_DiscoveredCount prog + length (response_ids response)"
    "prog_SnapshottedCount prog' = prog_SnapshottedCount prog + length (response_ids response)"
    "syncPage s run w1 (response_ids response) = (w2, Some (length (response_ids response)))"
    "rec_record s w2 (run_ID run) prog' = (w3, Inr ())"
    "next_token response = [] \<longrightarrow> rec_complete s w3 (run_ID run) prog' = (w', Inr ())
       \<and> res = \<lparr>recres_RunID = run_ID run, recres_ShopID = run_ShopID run,
              recres_WindowStart = run_WindowStart run, recres_WindowEnd = run_WindowEnd run,
              recres_PageCount = prog_PageCount prog',
              recres_DiscoveredCount = prog_DiscoveredCount prog',
              recres_SnapshottedCount = prog_SnapshottedCount prog'\<rparr>"
    "next_token response \<noteq> [] \<longrightarrow>
       reconcilePages s run n w3 (rev (response_ids response) @ seenOrders)
         (next_token response # seenTokens) (next_token response) prog' = (w', Inr res)"
proof -
  obtain w1 r1 where 1: "rec_search s w (run_ShopID run) (searchRequest run tok) = (w1, r1)"
    by (cases "rec_search s w (run_ShopID run) (searchRequest run tok)")
  obtain response where 2: "r1 = Inr (Some response)"
    using assms 1 by (cases r1; cases "projr r1") (auto simp: failRun_def split: prod.splits)
  have 3: "trim_space (gsearch_UpstreamRequestID response) \<noteq> []"
       "\<not> (next_token response \<noteq> [] \<and> (next_token response = tok \<or> next_token response \<in> set seenTokens))"
    using assms 1 2 by (auto simp: failRun_def Let_def split: prod.splits if_splits)
  obtain ids where 4: "pageOrders run seenOrders (gsearch_Orders response) = Inr ids"
    using assms 1 2 3
    by (cases "pageOrders run seenOrders (gsearch_Orders response)")
       (auto simp: failRun_def Let_def split: prod.splits)
  then have ids: "ids = response_ids response" by (simp add: pageOrders_Inr)
  obtain w2 synced where 5: "syncPage s run w1 ids = (w2, synced)"
    by (cases "syncPage s run w1 ids")
  obtain k where 6: "synced = Some k"
    using assms 1 2 3 4 5 by (cases synced) (auto simp: failRun_def Let_def split: prod.splits)
  have k: "k = length ids" using 5 6 by (simp add: syncPage_Some)
  define prog' where "prog' = prog\<lparr>
     prog_SnapshottedCount := prog_SnapshottedCount prog + k,
     prog_PageCount := prog_PageCount prog + 1,
     prog_DiscoveredCount := prog_DiscoveredCount prog + length ids,
     prog_LastPageToken := next_token response,
     prog_SearchRequestIDs := prog_SearchRequestIDs prog @ [trim_space (gsearch_UpstreamRequestID response)]\<rparr>"
  obtain w3 r3 where 7: "rec_record s w2 (run_ID run) prog' = (w3, r3)"
    by (cases "rec_record s w2 (run_ID run) prog'")
  have 8: "r3 = Inr ()"
    using assms 1 2 3 4 5 6 7
    by (cases r3) (auto simp: failRun_def Let_def prog'_def split: prod.splits)
  show thesis
  proof (rule that [of w1 response prog' w2 w3])
    show "next_token response = [] \<longrightarrow> rec_complete s w3 (run_ID run) prog' = (w', Inr ())
       \<and> res = \<lparr>recres_RunID = run_ID run, recres_ShopID = run_ShopID run,
              recres_WindowStart = run_WindowStart run, recres_WindowEnd = run_WindowEnd run,
              recres_PageCount = prog_PageCount prog',
              recres_DiscoveredCount = prog_DiscoveredCount prog',
              recres_SnapshottedCount = prog_SnapshottedCount prog'\<rparr>"
      using assms 1 2 3 4 5 6 7 8
      by (cases "rec_complete s w3 (run_ID run) prog'"; cases "snd (rec_complete s w3 (run_ID run) prog')")
         (auto simp: failRun_def Let_def prog'_def split: prod.splits)
    show "next_token response \<noteq> [] \<longrightarrow>
       reconcilePages s run n w3 (rev (response_ids response) @ seenOrders)
         (next_token response # seenTokens) (next_token response) prog' = (w', Inr res)"
      using assms 1 2 3 4 5 6 7 8 ids by (auto simp: Let_def prog'_def)
  qed (use 1 2 3 4 5 6 7 8 k ids in \<open>auto simp: prog'_def\<close>)
qed

text \<open>
  The pages of a walk: each was answered for the token the one before it returned, its orders
  lie in the window and were all snapshotted, and the last one returned no token.
\<close>

definition page_done :: "'w TikTokOrderReconciler \<Rightarrow> TikTokOrderReconcileRun \<Rightarrow> string \<Rightarrow> GatewayOrderSearchResponse \<Rightarrow> bool"
  where
  "page_done s run tok response \<longleftrightarrow>
     (\<exists>w w'. rec_search s w (run_ShopID run) (searchRequest run tok) = (w', Inr (Some response)))
     \<and> (\<forall>ord\<in>set (gsearch_Orders response). orderInWindow run ord)
     \<and> (\<exists>w w'. syncPage s run w (response_ids response) = (w', Some (length (gsearch_Orders response))))"

fun page_chain ::
    "'w TikTokOrderReconciler \<Rightarrow> TikTokOrderReconcileRun \<Rightarrow> string \<Rightarrow> GatewayOrderSearchResponse list \<Rightarrow> bool"
  where
  "page_chain s run tok [] \<longleftrightarrow> False"
| "page_chain s run tok (r # rs) \<longleftrightarrow>
     page_done s run tok r
     \<and> (if rs = [] then next_token r = [] else next_token r \<noteq> [] \<and> page_chain s run (next_token r) rs)"

lemma reconcilePages_success:
  assumes "reconcilePages s run n w seenOrders seenTokens tok prog = (w', Inr res)"
  shows "\<exists>responses. length responses \<le> n \<and> page_chain s run tok responses
     \<and> distinct (concat (map response_ids responses))
     \<and> set (concat (map response_ids responses)) \<inter> set seenOrders = {}
     \<and> recres_PageCount res = prog_PageCount prog + length responses
     \<and> recres_DiscoveredCount res = prog_DiscoveredCount prog + length (concat (map response_ids responses))
     \<and> recres_SnapshottedCount res = prog_SnapshottedCount prog + length (concat (map response_ids responses))
     \<and> (\<exists>w1 p. rec_complete s w1 (run_ID run) p = (w', Inr ())
          \<and> prog_DiscoveredCount p = recres_DiscoveredCount res)"
  using assms
proof (induction n arbitrary: w seenOrders seenTokens tok prog)
  case 0
  then show ?case by (simp add: failRun_def split: prod.splits)
next
  case (Suc n)
  from Suc.prems obtain w1 response w2 w3 prog' where
    step: "rec_search s w (run_ShopID run) (searchRequest run tok) = (w1, Inr (Some response))"
      "pageOrders run seenOrders (gsearch_Orders response) = Inr (response_ids response)"
      "syncPage s run w1 (response_ids response) = (w2, Some (length (response_ids response)))"
    and prog: "prog_PageCount prog' = prog_PageCount prog + 1"
      "prog_DiscoveredCount prog' = prog_DiscoveredCount prog + length (response_ids response)"
      "prog_SnapshottedCount prog' = prog_SnapshottedCount prog + length (response_ids response)"
    and last: "next_token response = [] \<longrightarrow> rec_complete s w3 (run_ID run) prog' = (w', Inr ())
       \<and> res = \<lparr>recres_RunID = run_ID run, recres_ShopID = run_ShopID run,
              recres_WindowStart = run_WindowStart run, recres_WindowEnd = run_WindowEnd run,
              recres_PageCount = prog_PageCount prog',
              recres_DiscoveredCount = prog_DiscoveredCount prog',
              recres_SnapshottedCount = prog_SnapshottedCount prog'\<rparr>"
    and more: "next_token response \<noteq> [] \<longrightarrow>
       reconcilePages s run n w3 (rev (response_ids response) @ seenOrders)
         (next_token response # seenTokens) (next_token response) prog' = (w', Inr res)"
    by (rule reconcilePages_success_step) blast
  have done': "page_done s run tok response" "distinct (response_ids response)"
      "set (response_ids response) \<inter> set seenOrders = {}"
    using step unfolding page_done_def pageOrders_Inr by auto
  show ?case
  proof (cases "next_token response = []")
    case True
    with last have l: "rec_complete s w3 (run_ID run) prog' = (w', Inr ())"
      "recres_PageCount res = prog_PageCount prog'" "recres_DiscoveredCount res = prog_DiscoveredCount prog'"
      "recres_SnapshottedCount res = prog_SnapshottedCount prog'" by simp_all
    have "page_chain s run tok [response]" using True done'(1) by simp
    with l done' prog show ?thesis by (intro exI [of _ "[response]"]) auto
  next
    case False
    with Suc.IH more obtain rs where rs: "length rs \<le> n" "page_chain s run (next_token response) rs"
      "distinct (concat (map response_ids rs))"
      "set (concat (map response_ids rs)) \<inter> set (rev (response_ids response) @ seenOrders) = {}"
      "recres_PageCount res = prog_PageCount prog' + length rs"
      "recres_DiscoveredCount res = prog_DiscoveredCount prog' + length (concat (map response_ids rs))"
      "recres_SnapshottedCount res = prog_SnapshottedCount prog' + length (concat (map response_ids rs))"
      "\<exists>w1 p. rec_complete s w1 (run_ID run) p = (w', Inr ())
          \<and> prog_DiscoveredCount p = recres_DiscoveredCount res"
      by blast
    have "page_chain s run tok (response # rs)" using rs(2) done'(1) False by (cases rs) simp_all
    moreover have "distinct (concat (map response_ids (response # rs)))"
      using rs(3,4) done'(2) unfolding list.map concat.simps distinct_append set_append set_rev by blast
    moreover have "set (concat (map response_ids (response # rs))) \<inter> set seenOrders = {}"
      using rs(4) done'(3) unfolding list.map concat.simps set_append set_rev by blast
    ultimately show ?thesis using rs(1,5-8) prog
      by (intro exI [of _ "response # rs"]) simp
  qed
qed

text \<open>
  C20. A run that is reported as successful has read the whole window: the pages it fetched form
  an unbroken chain from the empty token to a page without a token, at most ten of them, no
  order occurs on two pages or lies outside the window, every page was snapshotted in full, the
  reported counts are the sizes of what was read, and the store accepted the completion.
\<close>
theorem execute_success:
  assumes "execute s w run = (w', Inr res)"
  shows "\<exists>responses. length responses \<le> 10 \<and> page_chain s run [] responses
     \<and> distinct (concat (map response_ids responses))
     \<and> recres_PageCount res = length responses
     \<and> recres_DiscoveredCount res = length (concat (map response_ids responses))
     \<and> recres_SnapshottedCount res = recres_DiscoveredCount res
     \<and> (\<exists>w1 p. rec_complete s w1 (run_ID run) p = (w', Inr ())
          \<and> prog_DiscoveredCount p = recres_DiscoveredCount res)"
proof -
  have "reconcilePages s run 10 w [] [] [] initialProgress = (w', Inr res)"
    using assms by (auto simp: execute_def tikTokOrderReconcileMaxPages_def split: if_splits)
  then obtain responses where "length responses \<le> 10" "page_chain s run [] responses"
      "distinct (concat (map response_ids responses))"
      "recres_PageCount res = prog_PageCount initialProgress + length responses"
      "recres_DiscoveredCount res = prog_DiscoveredCount initialProgress
         + length (concat (map response_ids responses))"
      "recres_SnapshottedCount res = prog_SnapshottedCount initialProgress
         + length (concat (map response_ids responses))"
      "\<exists>w1 p. rec_complete s w1 (run_ID run) p = (w', Inr ())
          \<and> prog_DiscoveredCount p = recres_DiscoveredCount res"
    by (blast dest: reconcilePages_success)
  then show ?thesis
    by (intro exI [of _ responses] conjI) (simp_all add: initialProgress_def del: length_concat)
qed

text \<open>A gateway with two pages, for the witnesses: the world is the log of the store's calls.\<close>

definition sample_order_of :: "string \<Rightarrow> int \<Rightarrow> Order" where
  "sample_order_of i t = (sample_order i)\<lparr>order_UpdateTime := t\<rparr>"

definition sample_reconciler :: "string list TikTokOrderReconciler" where
  "sample_reconciler =
     \<lparr>rec_search = (\<lambda>w shop req. (w, Inr (Some
        (if search_PageToken req = []
         then \<lparr>gsearch_UpstreamRequestID = ''r1'', gsearch_NextPageToken = ''n'', gsearch_TotalCount = 2,
               gsearch_Orders = [sample_order_of ''5'' 6]\<rparr>
         else \<lparr>gsearch_UpstreamRequestID = ''r2'', gsearch_NextPageToken = [], gsearch_TotalCount = 2,
               gsearch_Orders = [sample_order_of ''6'' 7]\<rparr>)))),
      rec_sync = (\<lambda>w req. (w, Inr (Some \<lparr>snapres_ShopID = snapreq_ShopID req,
        snapres_SyncedCount = length (snapreq_OrderIDs req), snapres_Snapshots = []\<rparr>))),
      rec_start = (\<lambda>w req. (w, Inl ErrDatabase)),
      rec_record = (\<lambda>w i p. (''page'' # w, Inr ())),
      rec_complete = (\<lambda>w i p. (''complete'' # w, Inr ())),
      rec_fail = (\<lambda>w i c m. (c # w, Inr ())),
      rec_now = (\<lambda>w. 0)\<rparr>"

definition sample_run :: TikTokOrderReconcileRun where
  "sample_run = \<lparr>run_ID = ''run'', run_ShopID = ''7'', run_WindowStart = 5 * second,
     run_WindowEnd = 9 * second\<rparr>"

lemma sample_order_in_window:
  "orderInWindow sample_run (sample_order_of ''5'' 6)" "orderInWindow sample_run (sample_order_of ''6'' 7)"
  "trim_space (order_ID (sample_order_of i t)) = trim_space i"
proof -
  have "numeric_id (trim_space ''5'')" "numeric_id (trim_space ''6'')" by code_simp+
  then show "orderInWindow sample_run (sample_order_of ''5'' 6)" "orderInWindow sample_run (sample_order_of ''6'' 7)"
    "trim_space (order_ID (sample_order_of i t)) = trim_space i"
    by (simp_all add: orderInWindow_def sample_order_of_def sample_order_def sample_run_def
        unix_seconds_def second_def)
qed

lemma sample_valid_run: "validRun sample_run"
proof -
  have "numeric_id (trim_space ''7'')" "trim_space ''run'' \<noteq> []" by code_simp+
  moreover have "time_sub (9 * second) (5 * second) = 4 * second"
    by (subst time_sub_close) (simp_all add: second_def max_duration_def)
  ultimately show ?thesis
    by (simp add: validRun_def sample_run_def zero_time_def duration_defs unix_to_internal_def
        tikTokOrderReconcileMaxSpan_def)
qed

lemma sample_trims:
  "trim_space ''5'' = ''5''" "trim_space ''6'' = ''6''" "trim_space ''n'' = ''n''"
  "trim_space ''r1'' = ''r1''" "trim_space ''r2'' = ''r2''" "trim_space [] = []"
  by code_simp+

lemma sample_execute:
  "\<exists>res. execute sample_reconciler [] sample_run = ([''complete'', ''page'', ''page''], Inr res)
     \<and> recres_PageCount res = 2 \<and> recres_DiscoveredCount res = 2"
  unfolding execute_def tikTokOrderReconcileMaxPages_def
  by (simp add: sample_valid_run sample_reconciler_def searchRequest_def sample_trims
      sample_order_in_window initialProgress_def syncPage_def Let_def eval_nat_numeral)

theorem execute_success_witness:
  "\<exists>res responses. execute sample_reconciler [] sample_run = ([''complete'', ''page'', ''page''], Inr res)
     \<and> page_chain sample_reconciler sample_run [] responses \<and> length responses = 2"
proof -
  obtain res where res: "execute sample_reconciler [] sample_run = ([''complete'', ''page'', ''page''], Inr res)"
      "recres_PageCount res = 2"
    using sample_execute by blast
  then show ?thesis using execute_success [OF res(1)] by metis
qed

section \<open>The contract of the store\<close>

text \<open>
  What the reconciler may rely on for a \<open>view\<close> of the world (the watermarks of the shops, say):
  nothing but a completion that succeeds changes it.
\<close>

locale watermark_store =
  fixes s :: "'w TikTokOrderReconciler"
    and view :: "'w \<Rightarrow> 'v"
  assumes search_view: "view (fst (rec_search s w shop req)) = view w"
    and sync_view: "view (fst (rec_sync s w sreq)) = view w"
    and start_view: "view (fst (rec_start s w input)) = view w"
    and record_view: "view (fst (rec_record s w i p)) = view w"
    and fail_view: "view (fst (rec_fail s w i code message)) = view w"
    and complete_view: "rec_complete s w i p = (w', Inl e) \<Longrightarrow> view w' = view w"
begin

lemma failRun_view: "view (fst (failRun s run w code message)) = view w"
  using fail_view by (simp add: failRun_def split: prod.splits) (metis fst_conv)

lemma failRun_view': "failRun s run w code message = (w', r) \<Longrightarrow> view w' = view w"
  using failRun_view by (metis fst_conv)

lemma syncPage_view: "syncPage s run w ids = (w', k) \<Longrightarrow> view w' = view w"
  using sync_view [of w "\<lparr>snapreq_ShopID = run_ShopID run, snapreq_OrderIDs = ids\<rparr>"]
  by (auto simp: syncPage_def split: if_splits prod.splits sum.splits option.splits)

lemma search_view': "rec_search s w shop req = (w', r) \<Longrightarrow> view w' = view w"
  using search_view by (metis fst_conv)

lemma record_view': "rec_record s w i p = (w', r) \<Longrightarrow> view w' = view w"
  using record_view by (metis fst_conv)

lemma reconcilePages_error_view:
  "reconcilePages s run n w seenOrders seenTokens tok prog = (w', Inl e) \<Longrightarrow> view w' = view w"
proof (induction n arbitrary: w seenOrders seenTokens tok prog)
  case 0
  then show ?case by (simp add: failRun_view')
next
  case (Suc n)
  note views = failRun_view' syncPage_view search_view' record_view' complete_view
  show ?case
    using Suc.prems
    by (fastforce simp: Let_def dest: views Suc.IH
        split: prod.splits sum.splits option.splits if_splits)
qed

lemma execute_error_view: "execute s w run = (w', Inl e) \<Longrightarrow> view w' = view w"
  by (auto simp: execute_def dest: reconcilePages_error_view split: if_splits)

lemma Reconcile_error_view:
  assumes "Reconcile (Some s) w input = (w', Inl e)"
  shows "view w' = view w"
proof -
  define i where "i = input\<lparr>recreq_ShopID := trim_space (recreq_ShopID input)\<rparr>"
  have "view (fst (rec_start s w i)) = view w" by (rule start_view)
  then show ?thesis
    using assms
    by (auto simp: Reconcile_def Let_def i_def dest: execute_error_view
        split: if_splits prod.splits sum.splits)
qed

end

text \<open>
  An invariant of the world that the pages of a run keep still holds when the run is completed.
\<close>

locale run_invariant =
  fixes s :: "'w TikTokOrderReconciler"
    and inv :: "'w \<Rightarrow> bool"
  assumes search_inv: "inv w \<Longrightarrow> inv (fst (rec_search s w shop req))"
    and sync_inv: "inv w \<Longrightarrow> inv (fst (rec_sync s w sreq))"
    and record_inv: "inv w \<Longrightarrow> inv (fst (rec_record s w i p))"
begin

lemma syncPage_inv: "syncPage s run w ids = (w', k) \<Longrightarrow> inv w \<Longrightarrow> inv w'"
  using sync_inv [of w "\<lparr>snapreq_ShopID = run_ShopID run, snapreq_OrderIDs = ids\<rparr>"]
  by (auto simp: syncPage_def split: if_splits prod.splits sum.splits option.splits)

lemma reconcilePages_inv:
  "reconcilePages s run n w seenOrders seenTokens tok prog = (w', Inr res) \<Longrightarrow> inv w \<Longrightarrow>
     \<exists>w1 p. inv w1 \<and> rec_complete s w1 (run_ID run) p = (w', Inr ())"
proof (induction n arbitrary: w seenOrders seenTokens tok prog)
  case 0
  then show ?case by (simp add: failRun_def split: prod.splits)
next
  case (Suc n)
  from Suc.prems(1) show ?case
  proof (rule reconcilePages_success_step)
    fix w1 response w2 w3 prog'
    assume step: "rec_search s w (run_ShopID run) (searchRequest run tok) = (w1, Inr (Some response))"
      "syncPage s run w1 (response_ids response) = (w2, Some (length (response_ids response)))"
      "rec_record s w2 (run_ID run) prog' = (w3, Inr ())"
      and fin: "next_token response = [] \<longrightarrow> rec_complete s w3 (run_ID run) prog' = (w', Inr ())
       \<and> res = \<lparr>recres_RunID = run_ID run, recres_ShopID = run_ShopID run,
              recres_WindowStart = run_WindowStart run, recres_WindowEnd = run_WindowEnd run,
              recres_PageCount = prog_PageCount prog',
              recres_DiscoveredCount = prog_DiscoveredCount prog',
              recres_SnapshottedCount = prog_SnapshottedCount prog'\<rparr>"
      and more: "next_token response \<noteq> [] \<longrightarrow>
       reconcilePages s run n w3 (rev (response_ids response) @ seenOrders)
         (next_token response # seenTokens) (next_token response) prog' = (w', Inr res)"
    have "inv w1" using search_inv [OF Suc.prems(2)] step(1) by (metis fst_conv)
    then have "inv w2" using syncPage_inv [OF step(2)] by simp
    then have "inv w3" using record_inv step(3) by (metis fst_conv)
    then show ?thesis
      using fin more Suc.IH by (cases "next_token response = []") blast+
  qed
qed

lemma execute_inv:
  "execute s w run = (w', Inr res) \<Longrightarrow> inv w \<Longrightarrow>
     \<exists>w1 p. inv w1 \<and> rec_complete s w1 (run_ID run) p = (w', Inr ())"
  using reconcilePages_inv [of run tikTokOrderReconcileMaxPages w "[]" "[]" "[]" initialProgress w' res]
  by (simp add: execute_def split: if_splits)

end

text \<open>The contract of the store gives the invariance of the view.\<close>

context watermark_store begin

sublocale same_view: run_invariant s "\<lambda>w. view w = v" for v
  by unfold_locales (simp_all add: search_view sync_view record_view)

end

end
