(* ===== verification/TikTok_ReconcileStore.thy ===== *)
theory TikTok_ReconcileStore
  imports TikTok_Reconcile "HOL-Library.Product_Lexorder"
begin

text \<open>
  The durable state of the order reconciliation (\<open>order_reconcile_store.go\<close> over the tables of
  migration \<open>098_tiktok_shop_order_reconciliation.sql\<close>): the per-shop settings with their
  watermark, and the runs with their leases. An operation is one transaction: on an error the
  state is the one before. Identifiers that the database generates and the readings of \<open>NOW()\<close>
  are arguments. The constraints of the migration are part of the writes.
\<close>

section \<open>The tables\<close>

datatype run_status = RunRunning | RunSucceeded | RunFailed
datatype run_trigger = TriggerManual | TriggerSchedule

record SyncSettingRow =
  set_ShopID :: string
  set_Enabled :: bool
  set_IntervalSeconds :: int
  set_OverlapSeconds :: int
  set_Watermark :: "instant option"
  set_NextRunAt :: instant
  set_LastSuccessAt :: "instant option"
  set_LastErrorCode :: string
  set_LastErrorMessage :: string
  set_ConfigVersion :: int

record SyncRunRow =
  sr_ID :: string
  sr_ConnectionID :: string
  sr_ShopID :: string
  sr_Trigger :: run_trigger
  sr_Status :: run_status
  sr_WindowStart :: instant
  sr_WindowEnd :: instant
  sr_PageCount :: nat
  sr_DiscoveredCount :: nat
  sr_SnapshottedCount :: nat
  sr_TokenHash :: "string option"
  sr_RequestIDs :: "string list"
  sr_ErrorCode :: string
  sr_ErrorMessage :: string
  sr_LeaseUntil :: instant
  sr_FinishedAt :: "instant option"

record ReconcileDB =
  rdb_connections :: "ShopConnection list"
  rdb_settings :: "SyncSettingRow list"
  rdb_runs :: "SyncRunRow list"

record TikTokOrderSyncSetting =
  sync_ShopID :: string
  sync_ShopName :: string
  sync_Enabled :: bool
  sync_IntervalSeconds :: int
  sync_OverlapSeconds :: int
  sync_WatermarkUpdateAt :: "instant option"
  sync_NextRunAt :: instant
  sync_LastSuccessAt :: "instant option"
  sync_LastErrorCode :: string
  sync_LastErrorMessage :: string
  sync_ConfigVersion :: int

definition tikTokOrderReconcileSafetyLag :: duration where
  "tikTokOrderReconcileSafetyLag = 30 * second"

definition activeShop :: "ReconcileDB \<Rightarrow> string \<Rightarrow> ShopConnection option" where
  "activeShop db shopID = find (\<lambda>c. conn_ShopID c = shopID \<and> \<not> conn_Disabled c) (rdb_connections db)"

text \<open>\<open>INSERT INTO tiktok_shop_order_sync_settings (shop_id) ... ON CONFLICT DO NOTHING\<close>, with the
  defaults of the migration.\<close>

definition defaultSetting :: "instant \<Rightarrow> string \<Rightarrow> SyncSettingRow" where
  "defaultSetting now shopID =
     \<lparr>set_ShopID = shopID, set_Enabled = False, set_IntervalSeconds = 300, set_OverlapSeconds = 900,
      set_Watermark = None, set_NextRunAt = now, set_LastSuccessAt = None, set_LastErrorCode = [],
      set_LastErrorMessage = [], set_ConfigVersion = 1\<rparr>"

definition ensureSetting :: "instant \<Rightarrow> string \<Rightarrow> SyncSettingRow list \<Rightarrow> SyncSettingRow list" where
  "ensureSetting now shopID settings =
     (if shopID \<in> set_ShopID ` set settings then settings else settings @ [defaultSetting now shopID])"

text \<open>\<open>UPDATE ... WHERE shop_id = $1\<close>, with \<open>requireOneReconcileRow\<close> on the number of rows.\<close>

definition requireOneReconcileRow :: "nat \<Rightarrow> reconcile_error + unit" where
  "requireOneReconcileRow count' =
     (if count' \<noteq> 1 then Inl (ErrOrderReconcileFailed []) else Inr ())"

definition updateSettings ::
    "string \<Rightarrow> (SyncSettingRow \<Rightarrow> SyncSettingRow) \<Rightarrow> SyncSettingRow list \<Rightarrow>
     reconcile_error + SyncSettingRow list" where
  "updateSettings shopID f settings =
     and_then (requireOneReconcileRow (length (filter (\<lambda>s. set_ShopID s = shopID) settings)))
       (\<lambda>_. Inr (map (\<lambda>s. if set_ShopID s = shopID then f s else s) settings))"

text \<open>Runs whose lease has ended are failed before a new run is started.\<close>

definition expireRuns :: "instant \<Rightarrow> instant \<Rightarrow> SyncRunRow list \<Rightarrow> SyncRunRow list" where
  "expireRuns cutoff finished runs =
     map (\<lambda>r. if sr_Status r = RunRunning \<and> sr_LeaseUntil r < cutoff
              then r\<lparr>sr_Status := RunFailed, sr_ErrorCode := ''lease_expired'',
                     sr_ErrorMessage := ''Previous reconciliation lease expired'',
                     sr_FinishedAt := Some finished\<rparr>
              else r) runs"

text \<open>The insert of a running run: primary key, one running run for each shop, window checks.\<close>

definition newRun ::
    "string \<Rightarrow> instant \<Rightarrow> ShopConnection \<Rightarrow> run_trigger \<Rightarrow> instant \<Rightarrow> instant \<Rightarrow> SyncRunRow" where
  "newRun runID now conn trigger windowStart windowEnd =
     \<lparr>sr_ID = runID, sr_ConnectionID = conn_GatewayConnectionID conn, sr_ShopID = conn_ShopID conn,
      sr_Trigger = trigger, sr_Status = RunRunning, sr_WindowStart = windowStart,
      sr_WindowEnd = windowEnd, sr_PageCount = 0, sr_DiscoveredCount = 0, sr_SnapshottedCount = 0,
      sr_TokenHash = None, sr_RequestIDs = [], sr_ErrorCode = [], sr_ErrorMessage = [],
      sr_LeaseUntil = now + 30 * minute, sr_FinishedAt = None\<rparr>"

definition insertRun :: "SyncRunRow \<Rightarrow> SyncRunRow list \<Rightarrow> reconcile_error + SyncRunRow list" where
  "insertRun r runs =
     (if sr_ID r \<in> sr_ID ` set runs
         \<or> (\<exists>q\<in>set runs. sr_ShopID q = sr_ShopID r \<and> sr_Status q = RunRunning)
         \<or> \<not> sr_WindowStart r < sr_WindowEnd r
         \<or> sr_WindowEnd r - sr_WindowStart r > 24 * hour
      then Inl ErrDatabase else Inr (runs @ [r]))"

text \<open>\<open>UPDATE tiktok_shop_order_sync_runs ... WHERE id = $1 AND status = 'running'\<close>.\<close>

definition runningRun :: "string \<Rightarrow> SyncRunRow list \<Rightarrow> SyncRunRow option" where
  "runningRun runID runs = find (\<lambda>r. sr_ID r = runID \<and> sr_Status r = RunRunning) runs"

definition updateRun :: "string \<Rightarrow> (SyncRunRow \<Rightarrow> SyncRunRow) \<Rightarrow> SyncRunRow list \<Rightarrow> SyncRunRow list" where
  "updateRun runID f runs =
     map (\<lambda>r. if sr_ID r = runID \<and> sr_Status r = RunRunning then f r else r) runs"

definition validCounts :: "TikTokOrderReconcileProgress \<Rightarrow> bool" where
  "validCounts p \<longleftrightarrow>
     prog_PageCount p \<le> tikTokOrderReconcileMaxPages \<and> prog_SnapshottedCount p \<le> prog_DiscoveredCount p"

section \<open>The operations\<close>

definition reconcilePageTokenHash :: "(string \<Rightarrow> string) \<Rightarrow> string \<Rightarrow> string option" where
  "reconcilePageTokenHash digest pageToken =
     (let pageToken = trim_space pageToken in
      if pageToken = [] then None else Some (digest pageToken))"

fun cleanRequestIDs :: "string list \<Rightarrow> reconcile_error + string list" where
  "cleanRequestIDs [] = Inr []"
| "cleanRequestIDs (value # rest) =
     (let value = trim_space value in
      if value = [] \<or> length value > 256 then Inl ErrInvalidOrderReconcileInput
      else and_then (cleanRequestIDs rest) (\<lambda>clean. Inr (value # clean)))"

definition reconcileRequestIDsJSON :: "string list \<Rightarrow> reconcile_error + string list" where
  "reconcileRequestIDsJSON values =
     (if length values > tikTokOrderReconcileMaxPages then Inl ErrInvalidOrderReconcileInput
      else cleanRequestIDs values)"

definition StartManualRun ::
    "string \<Rightarrow> instant \<Rightarrow> ReconcileDB \<Rightarrow> TikTokOrderReconcileRequest \<Rightarrow>
     reconcile_error + (ReconcileDB \<times> TikTokOrderReconcileRun)" where
  "StartManualRun runID now db input =
     (if \<not> validTikTokOrderReconcileRequest input then Inl ErrInvalidOrderReconcileInput
      else
        let shopID = trim_space (recreq_ShopID input);
            windowStart = time_unix (recreq_UpdateTimeGE input);
            windowEnd = time_unix (recreq_UpdateTimeLT input);
            runs = expireRuns now now (rdb_runs db) in
        case activeShop db shopID of None \<Rightarrow> Inl ErrInvalidOrderReconcileInput
        | Some conn \<Rightarrow>
            and_then (insertRun (newRun runID now conn TriggerManual windowStart windowEnd) runs)
              (\<lambda>runs. Inr (db\<lparr>rdb_settings := ensureSetting now shopID (rdb_settings db), rdb_runs := runs\<rparr>,
                 \<lparr>run_ID = runID, run_ShopID = shopID, run_WindowStart = windowStart,
                  run_WindowEnd = windowEnd\<rparr>)))"

definition RecordPage ::
    "(string \<Rightarrow> string) \<Rightarrow> instant \<Rightarrow> ReconcileDB \<Rightarrow> string \<Rightarrow> TikTokOrderReconcileProgress \<Rightarrow>
     reconcile_error + ReconcileDB" where
  "RecordPage digest now db runID progress =
     (if trim_space runID = [] then Inl ErrInvalidOrderReconcileInput
      else
        let tokenHash = reconcilePageTokenHash digest (prog_LastPageToken progress) in
        and_then (reconcileRequestIDsJSON (prog_SearchRequestIDs progress)) (\<lambda>requestIDs.
          if runningRun runID (rdb_runs db) = None then Inl (ErrOrderReconcileFailed [])
          else if \<not> validCounts progress then Inl ErrDatabase
          else Inr (db\<lparr>rdb_runs := updateRun runID (\<lambda>r.
                 r\<lparr>sr_PageCount := prog_PageCount progress,
                   sr_DiscoveredCount := prog_DiscoveredCount progress,
                   sr_SnapshottedCount := prog_SnapshottedCount progress,
                   sr_TokenHash := tokenHash, sr_RequestIDs := requestIDs,
                   sr_LeaseUntil := now + 30 * minute\<rparr>) (rdb_runs db)\<rparr>)))"

definition CompleteRun ::
    "(string \<Rightarrow> string) \<Rightarrow> instant \<Rightarrow> ReconcileDB \<Rightarrow> string \<Rightarrow> TikTokOrderReconcileProgress \<Rightarrow>
     reconcile_error + ReconcileDB" where
  "CompleteRun digest now db runID progress =
     (if trim_space runID = [] then Inl ErrInvalidOrderReconcileInput
      else
        let tokenHash = reconcilePageTokenHash digest (prog_LastPageToken progress) in
        and_then (reconcileRequestIDsJSON (prog_SearchRequestIDs progress)) (\<lambda>requestIDs.
          case runningRun runID (rdb_runs db) of None \<Rightarrow> Inl ErrNoRows
          | Some run \<Rightarrow>
              if \<not> validCounts progress then Inl ErrDatabase
              else
                let windowEnd = sr_WindowEnd run;
                    runs = updateRun runID (\<lambda>r.
                      r\<lparr>sr_Status := RunSucceeded, sr_PageCount := prog_PageCount progress,
                        sr_DiscoveredCount := prog_DiscoveredCount progress,
                        sr_SnapshottedCount := prog_SnapshottedCount progress,
                        sr_TokenHash := (if tokenHash = None then sr_TokenHash r else tokenHash),
                        sr_RequestIDs := requestIDs, sr_ErrorCode := [], sr_ErrorMessage := [],
                        sr_FinishedAt := Some now\<rparr>) (rdb_runs db) in
                and_then (updateSettings (sr_ShopID run) (\<lambda>s.
                    s\<lparr>set_Watermark := (case set_Watermark s of None \<Rightarrow> Some windowEnd
                         | Some w \<Rightarrow> if w < windowEnd then Some windowEnd else Some w),
                      set_LastSuccessAt := Some now, set_LastErrorCode := [], set_LastErrorMessage := []\<rparr>)
                    (rdb_settings db))
                  (\<lambda>settings. Inr (db\<lparr>rdb_settings := settings, rdb_runs := runs\<rparr>))))"

definition FailRun ::
    "instant \<Rightarrow> ReconcileDB \<Rightarrow> string \<Rightarrow> string \<Rightarrow> string \<Rightarrow> reconcile_error + ReconcileDB" where
  "FailRun now db runID code message =
     (if trim_space runID = [] then Inl ErrInvalidOrderReconcileInput
      else
        let code = trim_space code; message = trim_space message in
        if code = [] \<or> length message > 512 then Inl ErrInvalidOrderReconcileInput
        else
          case runningRun runID (rdb_runs db) of None \<Rightarrow> Inl ErrNoRows
          | Some run \<Rightarrow>
              let runs = updateRun runID (\<lambda>r.
                    r\<lparr>sr_Status := RunFailed, sr_ErrorCode := code, sr_ErrorMessage := message,
                      sr_FinishedAt := Some now\<rparr>) (rdb_runs db) in
              and_then (updateSettings (sr_ShopID run) (\<lambda>s.
                  s\<lparr>set_LastErrorCode := code, set_LastErrorMessage := message,
                    set_NextRunAt := (if set_Enabled s then now + 60 * second else set_NextRunAt s)\<rparr>)
                  (rdb_settings db))
                (\<lambda>settings. Inr (db\<lparr>rdb_settings := settings, rdb_runs := runs\<rparr>)))"

text \<open>The window of a scheduled run, from the overlap and the watermark of the shop.\<close>

definition claimWindow :: "instant \<Rightarrow> int \<Rightarrow> instant option \<Rightarrow> instant \<times> instant" where
  "claimWindow now overlapSeconds watermark =
     (let windowEnd = now - tikTokOrderReconcileSafetyLag;
          windowStart = windowEnd - overlapSeconds * second in
      case watermark of
        Some w \<Rightarrow>
          if w < windowEnd then
            let windowStart = w - overlapSeconds * second in
            if time_sub windowEnd windowStart > tikTokOrderReconcileMaxSpan
            then (windowStart, windowStart + tikTokOrderReconcileMaxSpan)
            else (windowStart, windowEnd)
          else (windowStart, windowEnd)
      | None \<Rightarrow> (windowStart, windowEnd))"

text \<open>The due shops, in the order in which they are claimed.\<close>

definition dueSettings :: "instant \<Rightarrow> ReconcileDB \<Rightarrow> SyncRunRow list \<Rightarrow> SyncSettingRow list" where
  "dueSettings now db runs =
     sort_by (\<lambda>s. (set_NextRunAt s, set_ShopID s))
       (filter (\<lambda>s. activeShop db (set_ShopID s) \<noteq> None \<and> set_Enabled s \<and> set_NextRunAt s \<le> now
                    \<and> \<not> (\<exists>r\<in>set runs. sr_ShopID r = set_ShopID s \<and> sr_Status r = RunRunning))
          (rdb_settings db))"

definition ClaimDueRun ::
    "string \<Rightarrow> instant \<Rightarrow> instant \<Rightarrow> ReconcileDB \<Rightarrow> reconcile_error + (ReconcileDB \<times> TikTokOrderReconcileRun)"
  where
  "ClaimDueRun runID db_now now db =
     (if now = zero_time then Inl ErrInvalidOrderReconcileInput
      else
        let runs = expireRuns now now (rdb_runs db) in
        case dueSettings now db runs of [] \<Rightarrow> Inl ErrNoRows
        | s # _ \<Rightarrow>
            (case activeShop db (set_ShopID s) of None \<Rightarrow> Inl ErrNoRows
             | Some conn \<Rightarrow>
                 let (windowStart, windowEnd) = claimWindow now (set_OverlapSeconds s) (set_Watermark s) in
                 and_then (insertRun (newRun runID db_now conn TriggerSchedule windowStart windowEnd) runs)
                   (\<lambda>runs. and_then (updateSettings (set_ShopID s)
                        (\<lambda>s'. s'\<lparr>set_NextRunAt := now + set_IntervalSeconds s * second\<rparr>) (rdb_settings db))
                     (\<lambda>settings. Inr (db\<lparr>rdb_settings := settings, rdb_runs := runs\<rparr>,
                        \<lparr>run_ID = runID, run_ShopID = set_ShopID s, run_WindowStart = windowStart,
                         run_WindowEnd = windowEnd\<rparr>)))))"

definition settingOf :: "string \<Rightarrow> SyncSettingRow \<Rightarrow> TikTokOrderSyncSetting" where
  "settingOf shopName s =
     \<lparr>sync_ShopID = set_ShopID s, sync_ShopName = shopName, sync_Enabled = set_Enabled s,
      sync_IntervalSeconds = set_IntervalSeconds s, sync_OverlapSeconds = set_OverlapSeconds s,
      sync_WatermarkUpdateAt = set_Watermark s, sync_NextRunAt = set_NextRunAt s,
      sync_LastSuccessAt = set_LastSuccessAt s, sync_LastErrorCode = set_LastErrorCode s,
      sync_LastErrorMessage = set_LastErrorMessage s, sync_ConfigVersion = set_ConfigVersion s\<rparr>"

text \<open>The change of a setting by its update.\<close>

definition reconfigured :: "instant \<Rightarrow> TikTokOrderSyncSettingUpdate \<Rightarrow> SyncSettingRow \<Rightarrow> SyncSettingRow" where
  "reconfigured now input s =
     s\<lparr>set_Enabled := upd_Enabled input, set_IntervalSeconds := upd_IntervalSeconds input,
       set_OverlapSeconds := upd_OverlapSeconds input, set_ConfigVersion := set_ConfigVersion s + 1,
       set_NextRunAt := (if upd_Enabled input then now else set_NextRunAt s),
       set_LastErrorCode := [], set_LastErrorMessage := []\<rparr>"

text \<open>The answer of an update carries no shop name: the scan does not read one.\<close>

definition UpdateSetting ::
    "instant \<Rightarrow> ReconcileDB \<Rightarrow> string \<Rightarrow> TikTokOrderSyncSettingUpdate \<Rightarrow>
     reconcile_error + (ReconcileDB \<times> TikTokOrderSyncSetting)" where
  "UpdateSetting now db shopID0 input =
     (let shopID = trim_space shopID0 in
      if \<not> numeric_id shopID \<or> validateSettingUpdate input \<noteq> Inr ()
      then Inl ErrInvalidOrderReconcileInput
      else if activeShop db shopID = None then Inl ErrInvalidOrderReconcileInput
      else
        let settings = ensureSetting now shopID (rdb_settings db);
            change = reconfigured now input in
        case find (\<lambda>s. set_ShopID s = shopID \<and> set_ConfigVersion s = upd_ConfigVersion input) settings of
          None \<Rightarrow> Inl ErrOrderSyncVersionConflict
        | Some s \<Rightarrow>
            Inr (db\<lparr>rdb_settings :=
                   map (\<lambda>s. if set_ShopID s = shopID \<and> set_ConfigVersion s = upd_ConfigVersion input
                            then change s else s) settings\<rparr>,
                 settingOf [] (change s)))"

definition ListSettings :: "instant \<Rightarrow> ReconcileDB \<Rightarrow> TikTokOrderSyncSetting list" where
  "ListSettings now db =
     map (\<lambda>c. settingOf (conn_ShopName c)
            (case lookup_by set_ShopID (rdb_settings db) (conn_ShopID c) of
               Some s \<Rightarrow> s | None \<Rightarrow> defaultSetting now (conn_ShopID c)))
       (sort_by (\<lambda>c. (conn_ShopName c, conn_ShopID c))
          (filter (\<lambda>c. \<not> conn_Disabled c) (rdb_connections db)))"

section \<open>Reachable states\<close>

text \<open>A transaction of the store, or a change of the connections by the OAuth flow.\<close>

inductive reconcile_step :: "ReconcileDB \<Rightarrow> ReconcileDB \<Rightarrow> bool" where
  step_start: "StartManualRun runID now db input = Inr (db', run) \<Longrightarrow> reconcile_step db db'"
| step_record: "RecordPage digest now db runID progress = Inr db' \<Longrightarrow> reconcile_step db db'"
| step_complete: "CompleteRun digest now db runID progress = Inr db' \<Longrightarrow> reconcile_step db db'"
| step_fail: "FailRun now db runID code message = Inr db' \<Longrightarrow> reconcile_step db db'"
| step_claim: "ClaimDueRun runID db_now now db = Inr (db', run) \<Longrightarrow> reconcile_step db db'"
| step_update: "UpdateSetting now db shopID input = Inr (db', setting) \<Longrightarrow> reconcile_step db db'"
| step_connections: "reconcile_step db (db\<lparr>rdb_connections := conns\<rparr>)"

definition emptyReconcileDB :: ReconcileDB where
  "emptyReconcileDB = \<lparr>rdb_connections = [], rdb_settings = [], rdb_runs = []\<rparr>"

inductive reconcile_reachable :: "ReconcileDB \<Rightarrow> bool" where
  reach_empty: "reconcile_reachable emptyReconcileDB"
| reach_step: "reconcile_reachable db \<Longrightarrow> reconcile_step db db' \<Longrightarrow> reconcile_reachable db'"

subsection \<open>The invariant of the tables\<close>

definition shop_runs :: "string \<Rightarrow> SyncRunRow list \<Rightarrow> SyncRunRow list" where
  "shop_runs shopID runs = filter (\<lambda>r. sr_ShopID r = shopID) runs"

definition setting_ok :: "SyncSettingRow \<Rightarrow> bool" where
  "setting_ok s \<longleftrightarrow> 60 \<le> set_IntervalSeconds s \<and> set_IntervalSeconds s \<le> 86400
     \<and> 60 \<le> set_OverlapSeconds s \<and> set_OverlapSeconds s \<le> 86400 \<and> 1 \<le> set_ConfigVersion s"

definition run_ok :: "SyncRunRow \<Rightarrow> bool" where
  "run_ok r \<longleftrightarrow> sr_WindowStart r < sr_WindowEnd r \<and> sr_WindowEnd r - sr_WindowStart r \<le> 24 * hour
     \<and> sr_PageCount r \<le> 10 \<and> sr_SnapshottedCount r \<le> sr_DiscoveredCount r"

definition quiet :: "SyncRunRow list \<Rightarrow> bool" where
  "quiet runs \<longleftrightarrow> (\<forall>r\<in>set runs. sr_Status r \<noteq> RunRunning)"

definition settings_ok :: "SyncSettingRow list \<Rightarrow> bool" where
  "settings_ok settings \<longleftrightarrow> distinct (map set_ShopID settings) \<and> (\<forall>s\<in>set settings. setting_ok s)"

definition runs_ok :: "string set \<Rightarrow> SyncRunRow list \<Rightarrow> bool" where
  "runs_ok shops runs \<longleftrightarrow>
     distinct (map sr_ID runs) \<and> (\<forall>r\<in>set runs. run_ok r \<and> sr_ShopID r \<in> shops)
     \<and> (\<forall>shop. quiet (butlast (shop_runs shop runs)))"

definition db_ok :: "ReconcileDB \<Rightarrow> bool" where
  "db_ok db \<longleftrightarrow> settings_ok (rdb_settings db)
     \<and> runs_ok (set_ShopID ` set (rdb_settings db)) (rdb_runs db)"

text \<open>A rewriting of runs that starts none and keeps their identity.\<close>

definition run_update :: "(SyncRunRow \<Rightarrow> SyncRunRow) \<Rightarrow> bool" where
  "run_update g \<longleftrightarrow> (\<forall>r. sr_ID (g r) = sr_ID r \<and> sr_ShopID (g r) = sr_ShopID r
     \<and> sr_Trigger (g r) = sr_Trigger r \<and> (run_ok r \<longrightarrow> run_ok (g r))
     \<and> sr_WindowStart (g r) = sr_WindowStart r \<and> sr_WindowEnd (g r) = sr_WindowEnd r
     \<and> (sr_Status r \<noteq> RunRunning \<longrightarrow> sr_Status (g r) = sr_Status r))"

lemma shop_runs_map: "run_update g \<Longrightarrow> shop_runs s (map g runs) = map g (shop_runs s runs)"
  by (simp add: shop_runs_def run_update_def filter_map comp_def)

lemma runs_ok_map:
  assumes "run_update g" "runs_ok shops runs"
  shows "runs_ok shops (map g runs)"
proof -
  have "map sr_ID (map g runs) = map sr_ID runs" using assms(1) by (simp add: run_update_def)
  moreover have "quiet (butlast (shop_runs s (map g runs)))" for s
    using assms unfolding runs_ok_def shop_runs_map [OF assms(1)] map_butlast [symmetric]
    by (auto simp: quiet_def run_update_def)
  ultimately show ?thesis using assms by (simp add: runs_ok_def run_update_def comp_def)
qed

lemma insertRun_Inr:
  "insertRun r runs = Inr runs' \<longleftrightarrow>
     runs' = runs @ [r] \<and> sr_ID r \<notin> sr_ID ` set runs \<and> quiet (shop_runs (sr_ShopID r) runs)
     \<and> sr_WindowStart r < sr_WindowEnd r \<and> sr_WindowEnd r - sr_WindowStart r \<le> 24 * hour"
  by (auto simp: insertRun_def quiet_def shop_runs_def)

lemma runs_ok_insert:
  assumes "insertRun r runs = Inr runs'" "runs_ok shops runs" "sr_ShopID r \<in> shops"
    "sr_PageCount r = 0" "sr_SnapshottedCount r = 0"
  shows "runs_ok shops runs'"
  using assms
  by (auto simp: insertRun_Inr runs_ok_def run_ok_def shop_runs_def butlast_append)

lemma run_update_expire: "run_update (\<lambda>r. if sr_Status r = RunRunning \<and> sr_LeaseUntil r < cutoff
    then r\<lparr>sr_Status := RunFailed, sr_ErrorCode := c, sr_ErrorMessage := m, sr_FinishedAt := t\<rparr> else r)"
  by (simp add: run_update_def run_ok_def)

lemma runs_ok_expire: "runs_ok shops runs \<Longrightarrow> runs_ok shops (expireRuns cutoff t runs)"
  unfolding expireRuns_def by (rule runs_ok_map [OF run_update_expire])

lemma runs_ok_mono: "runs_ok shops runs \<Longrightarrow> shops \<subseteq> shops' \<Longrightarrow> runs_ok shops' runs"
  by (auto simp: runs_ok_def)

lemma activeShop_Some: "activeShop db shop = Some c \<Longrightarrow> conn_ShopID c = shop"
  by (auto simp: activeShop_def find_Some_iff)

lemma newRun_fields [simp]:
  "sr_ID (newRun i now c tr a b) = i" "sr_ShopID (newRun i now c tr a b) = conn_ShopID c"
  "sr_Trigger (newRun i now c tr a b) = tr" "sr_Status (newRun i now c tr a b) = RunRunning"
  "sr_WindowStart (newRun i now c tr a b) = a" "sr_WindowEnd (newRun i now c tr a b) = b"
  "sr_PageCount (newRun i now c tr a b) = 0" "sr_SnapshottedCount (newRun i now c tr a b) = 0"
  by (simp_all add: newRun_def)

lemma settings_ok_ensure: "settings_ok settings \<Longrightarrow> settings_ok (ensureSetting now shop settings)"
  by (auto simp: settings_ok_def ensureSetting_def setting_ok_def defaultSetting_def)

lemma shops_ensure: "set_ShopID ` set (ensureSetting now shop settings) = insert shop (set_ShopID ` set settings)"
  by (auto simp: ensureSetting_def defaultSetting_def)

text \<open>A change of settings that keeps the shop and the ranges.\<close>

lemma settings_ok_map:
  assumes "settings_ok settings" "\<And>s. set_ShopID (f s) = set_ShopID s" "\<And>s. setting_ok s \<Longrightarrow> setting_ok (f s)"
  shows "settings_ok (map f settings)" "set_ShopID ` set (map f settings) = set_ShopID ` set settings"
proof -
  have "map set_ShopID (map f settings) = map set_ShopID settings" using assms(2) by simp
  then show "settings_ok (map f settings)" using assms by (simp add: settings_ok_def comp_def)
  show "set_ShopID ` set (map f settings) = set_ShopID ` set settings" using assms(2) by (simp add: image_image)
qed

lemma updateSettings_Inr:
  "updateSettings shop f settings = Inr settings' \<Longrightarrow>
     settings' = map (\<lambda>s. if set_ShopID s = shop then f s else s) settings \<and> shop \<in> set_ShopID ` set settings"
  by (auto simp: updateSettings_def requireOneReconcileRow_def filter_empty_conv split: if_splits
      dest!: arg_cong [where f = "\<lambda>n. n = (0::nat)"])

lemma run_update_updateRun:
  assumes "\<And>r. sr_ID (f r) = sr_ID r \<and> sr_ShopID (f r) = sr_ShopID r \<and> sr_Trigger (f r) = sr_Trigger r
     \<and> sr_WindowStart (f r) = sr_WindowStart r \<and> sr_WindowEnd (f r) = sr_WindowEnd r
     \<and> (run_ok r \<longrightarrow> run_ok (f r))"
  shows "run_update (\<lambda>r. if sr_ID r = i \<and> sr_Status r = RunRunning then f r else r)"
  using assms by (simp add: run_update_def)

lemma validCounts_run_ok:
  assumes "validCounts p" "run_ok r"
  shows "run_ok (r\<lparr>sr_PageCount := prog_PageCount p, sr_DiscoveredCount := prog_DiscoveredCount p,
     sr_SnapshottedCount := prog_SnapshottedCount p, sr_TokenHash := h, sr_RequestIDs := ids,
     sr_LeaseUntil := l\<rparr>)"
    "run_ok (r\<lparr>sr_Status := st, sr_PageCount := prog_PageCount p, sr_DiscoveredCount := prog_DiscoveredCount p,
     sr_SnapshottedCount := prog_SnapshottedCount p, sr_TokenHash := h, sr_RequestIDs := ids,
     sr_ErrorCode := c, sr_ErrorMessage := m, sr_FinishedAt := t\<rparr>)"
  using assms by (simp_all add: run_ok_def validCounts_def tikTokOrderReconcileMaxPages_def)

lemma updateSettings_ok:
  assumes "updateSettings shop f settings = Inr settings'" "settings_ok settings"
    "\<And>s. set_ShopID (f s) = set_ShopID s" "\<And>s. setting_ok s \<Longrightarrow> setting_ok (f s)"
  shows "settings_ok settings' \<and> set_ShopID ` set settings' = set_ShopID ` set settings"
proof -
  let ?g = "\<lambda>s. if set_ShopID s = shop then f s else s"
  have g: "set_ShopID (?g s) = set_ShopID s" "setting_ok s \<Longrightarrow> setting_ok (?g s)" for s
    using assms(3,4) by simp_all
  have "settings' = map ?g settings" using updateSettings_Inr [OF assms(1)] by simp
  with settings_ok_map [OF assms(2), of ?g] g show ?thesis by simp
qed

text \<open>What each operation does when it succeeds.\<close>

lemma StartManualRun_Inr:
  assumes "StartManualRun runID now db input = Inr (db', run)"
  obtains conn runs where
    "validTikTokOrderReconcileRequest input"
    "activeShop db (trim_space (recreq_ShopID input)) = Some conn"
    "conn_ShopID conn = trim_space (recreq_ShopID input)"
    "insertRun (newRun runID now conn TriggerManual (time_unix (recreq_UpdateTimeGE input))
       (time_unix (recreq_UpdateTimeLT input))) (expireRuns now now (rdb_runs db)) = Inr runs"
    "db' = db\<lparr>rdb_settings := ensureSetting now (trim_space (recreq_ShopID input)) (rdb_settings db),
       rdb_runs := runs\<rparr>"
    "run = \<lparr>run_ID = runID, run_ShopID = trim_space (recreq_ShopID input),
       run_WindowStart = time_unix (recreq_UpdateTimeGE input),
       run_WindowEnd = time_unix (recreq_UpdateTimeLT input)\<rparr>"
  using assms activeShop_Some
  by (auto simp: StartManualRun_def Let_def result_simps split: if_splits option.splits)

lemma RecordPage_Inr:
  assumes "RecordPage h now db runID progress = Inr db'"
  obtains ids tok where
    "reconcileRequestIDsJSON (prog_SearchRequestIDs progress) = Inr ids" "validCounts progress"
    "db' = db\<lparr>rdb_runs := updateRun runID (\<lambda>r.
                 r\<lparr>sr_PageCount := prog_PageCount progress,
                   sr_DiscoveredCount := prog_DiscoveredCount progress,
                   sr_SnapshottedCount := prog_SnapshottedCount progress,
                   sr_TokenHash := tok, sr_RequestIDs := ids,
                   sr_LeaseUntil := now + 30 * minute\<rparr>) (rdb_runs db)\<rparr>"
  using assms by (auto simp: RecordPage_def Let_def result_simps split: if_splits)

definition completed :: "instant \<Rightarrow> TikTokOrderReconcileProgress \<Rightarrow> string list \<Rightarrow> string option \<Rightarrow> SyncRunRow \<Rightarrow> SyncRunRow"
  where
  "completed now progress ids tok r =
     r\<lparr>sr_Status := RunSucceeded, sr_PageCount := prog_PageCount progress,
       sr_DiscoveredCount := prog_DiscoveredCount progress,
       sr_SnapshottedCount := prog_SnapshottedCount progress,
       sr_TokenHash := (if tok = None then sr_TokenHash r else tok),
       sr_RequestIDs := ids, sr_ErrorCode := [], sr_ErrorMessage := [], sr_FinishedAt := Some now\<rparr>"

definition advanced :: "instant \<Rightarrow> instant \<Rightarrow> SyncSettingRow \<Rightarrow> SyncSettingRow" where
  "advanced now windowEnd s =
     s\<lparr>set_Watermark := (case set_Watermark s of None \<Rightarrow> Some windowEnd
         | Some w \<Rightarrow> if w < windowEnd then Some windowEnd else Some w),
       set_LastSuccessAt := Some now, set_LastErrorCode := [], set_LastErrorMessage := []\<rparr>"

lemma CompleteRun_Inr:
  assumes "CompleteRun h now db runID progress = Inr db'"
  obtains run ids tok settings where
    "runningRun runID (rdb_runs db) = Some run" "validCounts progress"
    "updateSettings (sr_ShopID run) (advanced now (sr_WindowEnd run)) (rdb_settings db) = Inr settings"
    "db' = db\<lparr>rdb_settings := settings,
       rdb_runs := updateRun runID (completed now progress ids tok) (rdb_runs db)\<rparr>"
  using assms
  by (auto simp: CompleteRun_def Let_def result_simps completed_def [abs_def] advanced_def [abs_def]
      split: if_splits option.splits)

lemma FailRun_Inr:
  assumes "FailRun now db runID code message = Inr db'"
  obtains run c m settings where
    "runningRun runID (rdb_runs db) = Some run"
    "updateSettings (sr_ShopID run) (\<lambda>s.
        s\<lparr>set_LastErrorCode := c, set_LastErrorMessage := m,
          set_NextRunAt := (if set_Enabled s then now + 60 * second else set_NextRunAt s)\<rparr>)
        (rdb_settings db) = Inr settings"
    "db' = db\<lparr>rdb_settings := settings, rdb_runs := updateRun runID (\<lambda>r.
        r\<lparr>sr_Status := RunFailed, sr_ErrorCode := c, sr_ErrorMessage := m,
          sr_FinishedAt := Some now\<rparr>) (rdb_runs db)\<rparr>"
  using assms by (auto simp: FailRun_def Let_def result_simps split: if_splits option.splits)

lemma dueSettings_mem:
  "s \<in> set (dueSettings now db runs) \<Longrightarrow>
     s \<in> set (rdb_settings db) \<and> set_Enabled s \<and> set_NextRunAt s \<le> now"
  by (simp add: dueSettings_def)

lemma ClaimDueRun_Inr:
  assumes "ClaimDueRun runID db_now now db = Inr (db', run)"
  obtains s rest conn runs settings a b where
    "dueSettings now db (expireRuns now now (rdb_runs db)) = s # rest" "s \<in> set (rdb_settings db)"
    "claimWindow now (set_OverlapSeconds s) (set_Watermark s) = (a, b)"
    "conn_ShopID conn = set_ShopID s"
    "insertRun (newRun runID db_now conn TriggerSchedule a b) (expireRuns now now (rdb_runs db)) = Inr runs"
    "updateSettings (set_ShopID s) (\<lambda>s'. s'\<lparr>set_NextRunAt := now + set_IntervalSeconds s * second\<rparr>)
       (rdb_settings db) = Inr settings"
    "db' = db\<lparr>rdb_settings := settings, rdb_runs := runs\<rparr>"
    "run = \<lparr>run_ID = runID, run_ShopID = set_ShopID s, run_WindowStart = a, run_WindowEnd = b\<rparr>"
proof -
  obtain s rest where 1: "dueSettings now db (expireRuns now now (rdb_runs db)) = s # rest"
    using assms by (auto simp: ClaimDueRun_def Let_def split: if_splits list.splits)
  then have 2: "s \<in> set (rdb_settings db)"
    using dueSettings_mem [of s now db "expireRuns now now (rdb_runs db)"] by simp
  obtain conn where 3: "activeShop db (set_ShopID s) = Some conn"
    using assms 1 by (auto simp: ClaimDueRun_def Let_def split: if_splits option.splits)
  obtain a b where 4: "claimWindow now (set_OverlapSeconds s) (set_Watermark s) = (a, b)" by fastforce
  show thesis
    using assms 1 2 3 4 that activeShop_Some [OF 3]
    by (auto simp: ClaimDueRun_def Let_def result_simps split: if_splits)
qed

lemma UpdateSetting_Inr:
  assumes "UpdateSetting now db shopID0 input = Inr (db', out)"
  obtains s where
    "validateSettingUpdate input = Inr ()"
    "s \<in> set (ensureSetting now (trim_space shopID0) (rdb_settings db))"
    "set_ShopID s = trim_space shopID0" "set_ConfigVersion s = upd_ConfigVersion input"
    "out = settingOf [] (reconfigured now input s)"
    "db' = db\<lparr>rdb_settings := map (\<lambda>s. if set_ShopID s = trim_space shopID0
         \<and> set_ConfigVersion s = upd_ConfigVersion input then reconfigured now input s else s)
         (ensureSetting now (trim_space shopID0) (rdb_settings db))\<rparr>"
  using assms
proof -
  let ?P = "\<lambda>s. set_ShopID s = trim_space shopID0 \<and> set_ConfigVersion s = upd_ConfigVersion input"
  obtain s where s: "find ?P (ensureSetting now (trim_space shopID0) (rdb_settings db)) = Some s"
    using assms by (auto simp: UpdateSetting_def Let_def split: if_splits option.splits)
  then have "s \<in> set (ensureSetting now (trim_space shopID0) (rdb_settings db))" "?P s"
    by (auto simp: find_Some_iff)
  moreover have "validateSettingUpdate input = Inr ()"
    using assms by (auto simp: UpdateSetting_def Let_def split: if_splits)
  ultimately show thesis
    using assms s that by (auto simp: UpdateSetting_def Let_def split: if_splits)
qed

lemma reconfigured_ok:
  "validateSettingUpdate input = Inr () \<Longrightarrow> setting_ok s \<Longrightarrow> setting_ok (reconfigured now input s)"
  by (auto simp: validateSettingUpdate_def setting_ok_def reconfigured_def split: if_splits)

lemma reconfigured_shop: "set_ShopID (reconfigured now input s) = set_ShopID s"
  by (simp add: reconfigured_def)

lemma db_ok_step:
  assumes "reconcile_step db db'" "db_ok db"
  shows "db_ok db'"
  using assms
proof (cases rule: reconcile_step.cases)
  case (step_start runID now input run)
  then show ?thesis
  proof (rule StartManualRun_Inr)
    fix conn runs
    assume *: "insertRun (newRun runID now conn TriggerManual (time_unix (recreq_UpdateTimeGE input))
         (time_unix (recreq_UpdateTimeLT input))) (expireRuns now now (rdb_runs db)) = Inr runs"
      "conn_ShopID conn = trim_space (recreq_ShopID input)"
      "db' = db\<lparr>rdb_settings := ensureSetting now (trim_space (recreq_ShopID input)) (rdb_settings db),
         rdb_runs := runs\<rparr>"
    have "runs_ok (insert (trim_space (recreq_ShopID input)) (set_ShopID ` set (rdb_settings db))) runs"
      using assms(2) *(2)
      by (intro runs_ok_insert [OF *(1)] runs_ok_expire)
         (auto simp: db_ok_def intro: runs_ok_mono)
    with assms(2) *(3) show ?thesis by (simp add: db_ok_def settings_ok_ensure shops_ensure)
  qed
next
  case (step_record digest now runID progress)
  then show ?thesis
  proof (rule RecordPage_Inr)
    fix ids tok
    assume c: "validCounts progress" and *: "db' = db\<lparr>rdb_runs := updateRun runID (\<lambda>r.
       r\<lparr>sr_PageCount := prog_PageCount progress, sr_DiscoveredCount := prog_DiscoveredCount progress,
         sr_SnapshottedCount := prog_SnapshottedCount progress, sr_TokenHash := tok, sr_RequestIDs := ids,
         sr_LeaseUntil := now + 30 * minute\<rparr>) (rdb_runs db)\<rparr>"
    show ?thesis using assms(2) c unfolding * db_ok_def updateRun_def
      by (auto intro!: runs_ok_map run_update_updateRun validCounts_run_ok)
  qed
next
  case (step_complete digest now runID progress)
  then show ?thesis
  proof (rule CompleteRun_Inr)
    fix run ids tok settings
    assume c: "validCounts progress"
      and u: "updateSettings (sr_ShopID run) (advanced now (sr_WindowEnd run)) (rdb_settings db) = Inr settings"
      and *: "db' = db\<lparr>rdb_settings := settings,
                rdb_runs := updateRun runID (completed now progress ids tok) (rdb_runs db)\<rparr>"
    have "runs_ok shops (updateRun runID (completed now progress ids tok) runs)" if "runs_ok shops runs" for shops runs
      using that c unfolding updateRun_def
      by (intro runs_ok_map run_update_updateRun) (auto simp: completed_def validCounts_run_ok)
    moreover have "settings_ok settings \<and> set_ShopID ` set settings = set_ShopID ` set (rdb_settings db)"
      using assms(2) by (intro updateSettings_ok [OF u]) (simp_all add: db_ok_def advanced_def setting_ok_def)
    ultimately show ?thesis using assms(2) by (simp add: * db_ok_def)
  qed
next
  case (step_fail now runID code message)
  then show ?thesis
  proof (rule FailRun_Inr)
    fix run c m settings
    assume u: "updateSettings (sr_ShopID run) (\<lambda>s.
        s\<lparr>set_LastErrorCode := c, set_LastErrorMessage := m,
          set_NextRunAt := (if set_Enabled s then now + 60 * second else set_NextRunAt s)\<rparr>)
        (rdb_settings db) = Inr settings"
      and *: "db' = db\<lparr>rdb_settings := settings, rdb_runs := updateRun runID (\<lambda>r.
        r\<lparr>sr_Status := RunFailed, sr_ErrorCode := c, sr_ErrorMessage := m,
          sr_FinishedAt := Some now\<rparr>) (rdb_runs db)\<rparr>"
    have "runs_ok shops (updateRun runID (\<lambda>r. r\<lparr>sr_Status := RunFailed, sr_ErrorCode := c,
        sr_ErrorMessage := m, sr_FinishedAt := Some now\<rparr>) runs)" if "runs_ok shops runs" for shops runs
      using that unfolding updateRun_def
      by (intro runs_ok_map run_update_updateRun) (auto simp: run_ok_def)
    moreover have "settings_ok settings \<and> set_ShopID ` set settings = set_ShopID ` set (rdb_settings db)"
      using assms(2) by (intro updateSettings_ok [OF u]) (simp_all add: db_ok_def setting_ok_def)
    ultimately show ?thesis using assms(2) by (simp add: * db_ok_def)
  qed
next
  case (step_claim runID db_now now run)
  then show ?thesis
  proof (rule ClaimDueRun_Inr)
    fix s rest conn runs settings a b
    assume *: "s \<in> set (rdb_settings db)" "conn_ShopID conn = set_ShopID s"
      "insertRun (newRun runID db_now conn TriggerSchedule a b) (expireRuns now now (rdb_runs db)) = Inr runs"
      "updateSettings (set_ShopID s) (\<lambda>s'. s'\<lparr>set_NextRunAt := now + set_IntervalSeconds s * second\<rparr>)
         (rdb_settings db) = Inr settings"
      "db' = db\<lparr>rdb_settings := settings, rdb_runs := runs\<rparr>"
    have "runs_ok (set_ShopID ` set (rdb_settings db)) runs"
      using assms(2) *(1,2)
      by (intro runs_ok_insert [OF *(3)] runs_ok_expire) (auto simp: db_ok_def)
    moreover have "settings_ok settings \<and> set_ShopID ` set settings = set_ShopID ` set (rdb_settings db)"
      using assms(2) by (intro updateSettings_ok [OF *(4)]) (simp_all add: db_ok_def setting_ok_def)
    ultimately show ?thesis by (simp add: * db_ok_def)
  qed
next
  case (step_update now shopID input setting)
  then show ?thesis
  proof (rule UpdateSetting_Inr)
    let ?e = "ensureSetting now (trim_space shopID) (rdb_settings db)"
    assume v: "validateSettingUpdate input = Inr ()"
      and *: "db' = db\<lparr>rdb_settings := map (\<lambda>s. if set_ShopID s = trim_space shopID
         \<and> set_ConfigVersion s = upd_ConfigVersion input then reconfigured now input s else s) ?e\<rparr>"
    have e: "settings_ok ?e" using assms(2) by (simp add: db_ok_def settings_ok_ensure)
    let ?g = "\<lambda>s. if set_ShopID s = trim_space shopID
         \<and> set_ConfigVersion s = upd_ConfigVersion input then reconfigured now input s else s"
    have g: "set_ShopID (?g s) = set_ShopID s" "setting_ok s \<Longrightarrow> setting_ok (?g s)" for s
      using reconfigured_ok [OF v] by (simp_all add: reconfigured_shop)
    have "settings_ok (rdb_settings db')"
         "set_ShopID ` set (rdb_settings db') = insert (trim_space shopID) (set_ShopID ` set (rdb_settings db))"
      unfolding * using settings_ok_map [OF e, of ?g] g shops_ensure
      by (simp_all del: set_map)
    then show ?thesis using assms(2) * by (auto simp: db_ok_def intro: runs_ok_mono)
  qed
next
  case (step_connections conns)
  then show ?thesis using assms(2) by (simp add: db_ok_def)
qed

lemma db_ok_reachable: "reconcile_reachable db \<Longrightarrow> db_ok db"
proof (induction rule: reconcile_reachable.induct)
  case reach_empty
  show ?case by (simp add: db_ok_def emptyReconcileDB_def settings_ok_def runs_ok_def shop_runs_def quiet_def)
next
  case (reach_step db db')
  then show ?case by (blast intro: db_ok_step)
qed

end
