(* ===== verification/TikTok_ReconcileCover.thy ===== *)
theory TikTok_ReconcileCover
  imports TikTok_ReconcileStore
begin

text \<open>
  What the reconciliation tables promise for one shop, as a small abstract machine: at most one
  window is being read, the windows that were read in full are a growing list, and the watermark
  is the largest end of such a window. Every transaction of the store refines steps of this
  machine, and the facts about coverage and gaps are proved on it.
\<close>

section \<open>The abstract machine\<close>

record ShopView =
  sv_done :: "(instant \<times> instant) list"
  sv_running :: "(instant \<times> instant) option"
  sv_watermark :: "instant option"
  sv_manual :: bool

definition raise :: "instant \<Rightarrow> instant option \<Rightarrow> instant" where
  "raise b watermark = (case watermark of None \<Rightarrow> b | Some w \<Rightarrow> max w b)"

inductive shop_step :: "ShopView \<Rightarrow> ShopView \<Rightarrow> bool" where
  shop_lose: "shop_step v (v\<lparr>sv_running := None\<rparr>)"
| shop_manual: "sv_running v = None \<Longrightarrow> a < b \<Longrightarrow>
     shop_step v (v\<lparr>sv_running := Some (a, b), sv_manual := True\<rparr>)"
| shop_claim: "sv_running v = None \<Longrightarrow> a < b \<Longrightarrow> 60 \<le> overlap \<Longrightarrow>
     claimWindow now overlap (sv_watermark v) = (a, b) \<Longrightarrow>
     shop_step v (v\<lparr>sv_running := Some (a, b)\<rparr>)"
| shop_finish: "sv_running v = Some (a, b) \<Longrightarrow>
     shop_step v (v\<lparr>sv_running := None, sv_done := sv_done v @ [(a, b)],
       sv_watermark := Some (raise b (sv_watermark v))\<rparr>)"

definition window :: "SyncRunRow \<Rightarrow> instant \<times> instant" where
  "window r = (sr_WindowStart r, sr_WindowEnd r)"

definition watermark_of :: "string \<Rightarrow> SyncSettingRow list \<Rightarrow> instant option" where
  "watermark_of shop settings =
     (case lookup_by set_ShopID settings shop of None \<Rightarrow> None | Some s \<Rightarrow> set_Watermark s)"

definition runs_view :: "instant option \<Rightarrow> SyncRunRow list \<Rightarrow> ShopView" where
  "runs_view wm xs =
     \<lparr>sv_done = map window (filter (\<lambda>r. sr_Status r = RunSucceeded) xs),
      sv_running = (if xs = [] then None
        else if sr_Status (last xs) = RunRunning then Some (window (last xs)) else None),
      sv_watermark = wm, sv_manual = (\<exists>r\<in>set xs. sr_Trigger r = TriggerManual)\<rparr>"

definition shop_view :: "string \<Rightarrow> ReconcileDB \<Rightarrow> ShopView" where
  "shop_view shop db = runs_view (watermark_of shop (rdb_settings db)) (shop_runs shop (rdb_runs db))"

section \<open>The refinement\<close>

lemma watermark_of_map:
  assumes "\<And>s. set_ShopID (f s) = set_ShopID s" "\<And>s. set_Watermark (f s) = set_Watermark s"
  shows "watermark_of shop (map f settings) = watermark_of shop settings"
  using assms(2) by (simp add: watermark_of_def lookup_by_map assms(1) split: option.splits)

lemma watermark_of_ensure: "watermark_of shop (ensureSetting now shop' settings) = watermark_of shop settings"
proof -
  have "lookup_by set_ShopID (settings @ [s]) shop =
      (case lookup_by set_ShopID settings shop of None \<Rightarrow> if set_ShopID s = shop then Some s else None
       | Some t \<Rightarrow> Some t)" for s
    by (induction settings) simp_all
  then show ?thesis
    by (auto simp: watermark_of_def ensureSetting_def defaultSetting_def split: option.splits)
qed

lemma watermark_of_update:
  assumes "updateSettings shop' f settings = Inr settings'"
    "\<And>s. set_ShopID (f s) = set_ShopID s" "\<And>s. set_Watermark (f s) = set_Watermark s"
  shows "watermark_of shop settings' = watermark_of shop settings"
  using updateSettings_Inr [OF assms(1)] assms(2,3) by (simp add: watermark_of_map)

lemma watermark_of_advanced:
  assumes "updateSettings shop' (advanced now b) settings = Inr settings'"
  shows "watermark_of shop settings' =
     (if shop = shop' then Some (raise b (watermark_of shop settings)) else watermark_of shop settings)"
proof -
  let ?g = "\<lambda>s. if set_ShopID s = shop' then advanced now b s else s"
  have s: "settings' = map ?g settings" "shop' \<in> set_ShopID ` set settings"
    using updateSettings_Inr [OF assms] by simp_all
  have l: "lookup_by set_ShopID settings' shop = map_option ?g (lookup_by set_ShopID settings shop)"
    unfolding s(1) by (rule lookup_by_map) (simp add: advanced_def)
  show ?thesis
  proof (cases "lookup_by set_ShopID settings shop")
    case None
    with s(2) have "shop \<noteq> shop'" by (auto simp: lookup_by_None)
    with None l show ?thesis by (simp add: watermark_of_def)
  next
    case (Some r)
    then have "set_ShopID r = shop" using lookup_by_Some by metis
    moreover have "set_Watermark (advanced now b r) = Some (raise b (set_Watermark r))"
      by (auto simp: advanced_def raise_def split: option.split)
    ultimately show ?thesis using Some l by (cases "shop = shop'") (simp_all add: watermark_of_def)
  qed
qed

text \<open>Rewriting the runs of a shop without completing any keeps its view, up to the running one.\<close>

lemma runs_view_map:
  assumes "run_update g" "\<And>r. sr_Status (g r) = RunSucceeded \<longleftrightarrow> sr_Status r = RunSucceeded"
  shows "runs_view wm (map g xs) = runs_view wm xs \<or> runs_view wm (map g xs) = (runs_view wm xs)\<lparr>sv_running := None\<rparr>"
proof -
  have "filter (\<lambda>r. sr_Status r = RunSucceeded) (map g xs) = map g (filter (\<lambda>r. sr_Status r = RunSucceeded) xs)"
    using assms(2) by (simp add: filter_map comp_def)
  then have "map window (filter (\<lambda>r. sr_Status r = RunSucceeded) (map g xs))
      = map window (filter (\<lambda>r. sr_Status r = RunSucceeded) xs)"
    using assms(1) by (simp add: run_update_def window_def)
  moreover have "window (last (map g xs)) = window (last xs)" if "xs \<noteq> []"
    using that assms(1) by (simp add: last_map window_def run_update_def)
  moreover have "sr_Status (last (map g xs)) = RunRunning \<longrightarrow> sr_Status (last xs) = RunRunning" if "xs \<noteq> []"
    using that assms(1) by (simp add: last_map run_update_def) metis
  moreover have "(\<exists>r\<in>set (map g xs). sr_Trigger r = TriggerManual) = (\<exists>r\<in>set xs. sr_Trigger r = TriggerManual)"
    using assms(1) by (simp add: run_update_def)
  ultimately show ?thesis unfolding runs_view_def by (cases "xs = []") auto
qed

lemma shop_steps_map:
  assumes "run_update g" "\<And>r. sr_Status (g r) = RunSucceeded \<longleftrightarrow> sr_Status r = RunSucceeded"
  shows "shop_step\<^sup>*\<^sup>* (runs_view wm (shop_runs shop runs)) (runs_view wm (shop_runs shop (map g runs)))"
  using runs_view_map [OF assms, of wm "shop_runs shop runs"] shop_lose
  by (auto simp: shop_runs_map [OF assms(1)] r_into_rtranclp)

lemma shop_steps_expire:
  "shop_step\<^sup>*\<^sup>* (runs_view wm (shop_runs shop runs)) (runs_view wm (shop_runs shop (expireRuns cutoff t runs)))"
  unfolding expireRuns_def by (rule shop_steps_map [OF run_update_expire]) simp

lemma quiet_not_running: "quiet xs \<Longrightarrow> sv_running (runs_view wm xs) = None"
  by (auto simp: quiet_def runs_view_def)

text \<open>Adding a running run to a shop that has none.\<close>

lemma shop_steps_insert:
  assumes "insertRun (newRun runID t conn trigger a b) runs = Inr runs'"
    "trigger = TriggerManual \<or>
       (\<exists>now overlap. 60 \<le> overlap \<and> claimWindow now overlap wm = (a, b)) \<or> shop \<noteq> conn_ShopID conn"
  shows "shop_step\<^sup>*\<^sup>* (runs_view wm (shop_runs shop runs)) (runs_view wm (shop_runs shop runs'))"
proof (cases "shop = conn_ShopID conn")
  case False
  with assms(1) show ?thesis by (simp add: insertRun_Inr shop_runs_def)
next
  case True
  let ?v = "runs_view wm (shop_runs shop runs)"
  have q: "sv_running ?v = None" "a < b"
    using assms(1) True by (simp_all add: insertRun_Inr quiet_not_running)
  have xs: "shop_runs shop runs' = shop_runs shop runs @ [newRun runID t conn trigger a b]"
    using assms(1) True by (simp add: insertRun_Inr shop_runs_def)
  show ?thesis
  proof (cases trigger)
    case TriggerManual
    then have "runs_view wm (shop_runs shop runs') = ?v\<lparr>sv_running := Some (a, b), sv_manual := True\<rparr>"
      by (simp add: xs runs_view_def window_def)
    with q show ?thesis by (metis shop_manual r_into_rtranclp)
  next
    case TriggerSchedule
    then have v: "runs_view wm (shop_runs shop runs') = ?v\<lparr>sv_running := Some (a, b)\<rparr>"
      by (simp add: xs runs_view_def window_def)
    obtain now overlap where "60 \<le> overlap" "claimWindow now overlap (sv_watermark ?v) = (a, b)"
      using assms(2) True TriggerSchedule by (auto simp: runs_view_def)
    with q v show ?thesis by (metis shop_claim r_into_rtranclp)
  qed
qed

lemma runningRun_Some:
  "runningRun i runs = Some r \<Longrightarrow> r \<in> set runs \<and> sr_ID r = i \<and> sr_Status r = RunRunning"
  by (auto simp: runningRun_def find_Some_iff)

lemma completed_fields [simp]:
  "sr_ID (completed now p ids tok r) = sr_ID r" "sr_ShopID (completed now p ids tok r) = sr_ShopID r"
  "sr_Status (completed now p ids tok r) = RunSucceeded" "window (completed now p ids tok r) = window r"
  "sr_WindowStart (completed now p ids tok r) = sr_WindowStart r"
  "sr_WindowEnd (completed now p ids tok r) = sr_WindowEnd r"
  "sr_Trigger (completed now p ids tok r) = sr_Trigger r"
  by (simp_all add: completed_def window_def)

text \<open>A completion: of the shop's last run, or of another shop's.\<close>

lemma shop_steps_complete:
  assumes "CompleteRun digest now db i p = Inr db'" "db_ok db"
  shows "shop_step\<^sup>*\<^sup>* (shop_view shop db) (shop_view shop db')"
proof -
  from assms(1) obtain run ids tok settings where
    run: "runningRun i (rdb_runs db) = Some run" and valid: "validCounts p" and
    upd: "updateSettings (sr_ShopID run) (advanced now (sr_WindowEnd run)) (rdb_settings db) = Inr settings" and
    db': "db' = db\<lparr>rdb_settings := settings,
       rdb_runs := updateRun i (completed now p ids tok) (rdb_runs db)\<rparr>"
    by (rule CompleteRun_Inr)
  let ?g = "\<lambda>r. if sr_ID r = i \<and> sr_Status r = RunRunning then completed now p ids tok r else r"
  note r = runningRun_Some [OF run]
  have ids: "distinct (map sr_ID (rdb_runs db))" using assms(2) by (simp add: db_ok_def runs_ok_def)
  have other: "?g q = q" if "q \<in> set (rdb_runs db)" "q \<noteq> run" for q
    using that r ids by (auto simp: distinct_map inj_on_def)
  have "run_update ?g" by (rule run_update_updateRun) (simp add: completed_def validCounts_run_ok valid)
  then have runs: "shop_runs shop (rdb_runs db') = map ?g (shop_runs shop (rdb_runs db))"
    by (simp add: db' updateRun_def shop_runs_map)
  have st: "rdb_settings db' = settings" by (simp add: db')
  show ?thesis
  proof (cases "shop = sr_ShopID run")
    case False
    have "map ?g (shop_runs shop (rdb_runs db)) = shop_runs shop (rdb_runs db)"
    proof (rule map_idI)
      fix q assume "q \<in> set (shop_runs shop (rdb_runs db))"
      then have "q \<in> set (rdb_runs db)" "q \<noteq> run" using False by (auto simp: shop_runs_def)
      then show "?g q = q" by (rule other)
    qed
    then show ?thesis
      using False watermark_of_advanced [OF upd, of shop] by (simp add: shop_view_def runs st)
  next
    case True
    let ?xs = "shop_runs shop (rdb_runs db)"
    have mem: "run \<in> set ?xs" using r True by (simp add: shop_runs_def)
    then have ne: "?xs \<noteq> []" by auto
    have "quiet (butlast ?xs)" using assms(2) by (simp add: db_ok_def runs_ok_def)
    with mem r have last: "last ?xs = run"
      by (metis append_butlast_last_id ne quiet_def rotate1.simps(2) set_ConsD set_rotate1)
    then obtain ys where xs: "?xs = ys @ [run]" by (metis append_butlast_last_id ne)
    have "distinct (map sr_ID ?xs)" using ids by (simp add: shop_runs_def distinct_map_filter)
    with xs have "run \<notin> set ys" by (auto simp: image_iff)
    moreover have "set ys \<subseteq> set ?xs" unfolding xs by auto
    then have "set ys \<subseteq> set (rdb_runs db)" by (auto simp: shop_runs_def)
    ultimately have "\<And>q. q \<in> set ys \<Longrightarrow> ?g q = q" by (intro other) auto
    then have "map ?g ys = ys" by (rule map_idI)
    then have xs': "shop_runs shop (rdb_runs db') = ys @ [completed now p ids tok run]"
      using r by (simp add: runs xs)
    have "shop_step (runs_view wm (ys @ [run]))
        (runs_view (Some (raise (sr_WindowEnd run) wm)) (ys @ [completed now p ids tok run]))" for wm
      using shop_finish [of "runs_view wm (ys @ [run])" "sr_WindowStart run" "sr_WindowEnd run"] r
      by (simp add: runs_view_def window_def)
    then show ?thesis
      using watermark_of_advanced [OF upd, of shop] True xs xs' by (simp add: shop_view_def st r_into_rtranclp)
  qed
qed

lemma reconcile_step_refines:
  assumes "reconcile_step db db'" "db_ok db"
  shows "shop_step\<^sup>*\<^sup>* (shop_view shop db) (shop_view shop db')"
  using assms
proof (cases rule: reconcile_step.cases)
  case (step_start runID now input run)
  then show ?thesis
  proof (rule StartManualRun_Inr)
    fix conn runs
    assume i: "insertRun (newRun runID now conn TriggerManual (time_unix (recreq_UpdateTimeGE input))
         (time_unix (recreq_UpdateTimeLT input))) (expireRuns now now (rdb_runs db)) = Inr runs"
      and d: "db' = db\<lparr>rdb_settings := ensureSetting now (trim_space (recreq_ShopID input)) (rdb_settings db),
         rdb_runs := runs\<rparr>"
    show ?thesis
      unfolding shop_view_def d
      using shop_steps_expire shop_steps_insert [OF i]
      by (simp add: watermark_of_ensure) (blast intro: rtranclp_trans)
  qed
next
  case (step_record digest now runID progress)
  then show ?thesis
  proof (rule RecordPage_Inr)
    fix ids tok
    assume c: "validCounts progress" and *: "db' = db\<lparr>rdb_runs := updateRun runID (\<lambda>r.
       r\<lparr>sr_PageCount := prog_PageCount progress, sr_DiscoveredCount := prog_DiscoveredCount progress,
         sr_SnapshottedCount := prog_SnapshottedCount progress, sr_TokenHash := tok, sr_RequestIDs := ids,
         sr_LeaseUntil := now + 30 * minute\<rparr>) (rdb_runs db)\<rparr>"
    show ?thesis unfolding * shop_view_def updateRun_def
      using c by (simp, intro shop_steps_map run_update_updateRun) (auto simp: validCounts_run_ok)
  qed
next
  case (step_complete digest now runID progress)
  with assms(2) show ?thesis by (intro shop_steps_complete)
next
  case (step_fail now runID code message)
  then show ?thesis
  proof (rule FailRun_Inr)
    fix run c m settings
    assume u: "updateSettings (sr_ShopID run) (\<lambda>s.
        s\<lparr>set_LastErrorCode := c, set_LastErrorMessage := m,
          set_NextRunAt := (if set_Enabled s then now + 60 * second else set_NextRunAt s)\<rparr>)
        (rdb_settings db) = Inr settings"
      and *: "db' = db\<lparr>rdb_settings := settings, rdb_runs := updateRun runID (\<lambda>r.
        r\<lparr>sr_Status := RunFailed, sr_ErrorCode := c, sr_ErrorMessage := m,
          sr_FinishedAt := Some now\<rparr>) (rdb_runs db)\<rparr>"
    have "watermark_of shop settings = watermark_of shop (rdb_settings db)"
      by (rule watermark_of_update [OF u]) simp_all
    then show ?thesis unfolding * shop_view_def updateRun_def
      by (simp, intro shop_steps_map run_update_updateRun) (auto simp: run_ok_def)
  qed
next
  case (step_claim runID db_now now run)
  then show ?thesis
  proof (rule ClaimDueRun_Inr)
    fix s rest conn runs settings a b
    assume *: "s \<in> set (rdb_settings db)" "claimWindow now (set_OverlapSeconds s) (set_Watermark s) = (a, b)"
      "conn_ShopID conn = set_ShopID s"
      "insertRun (newRun runID db_now conn TriggerSchedule a b) (expireRuns now now (rdb_runs db)) = Inr runs"
      "updateSettings (set_ShopID s) (\<lambda>s'. s'\<lparr>set_NextRunAt := now + set_IntervalSeconds s * second\<rparr>)
         (rdb_settings db) = Inr settings"
      "db' = db\<lparr>rdb_settings := settings, rdb_runs := runs\<rparr>"
    let ?wm = "watermark_of shop (rdb_settings db)"
    have "watermark_of shop settings = ?wm"
      by (rule watermark_of_update [OF *(5)]) simp_all
    moreover have "shop_step\<^sup>*\<^sup>* (runs_view ?wm (shop_runs shop (expireRuns now now (rdb_runs db))))
        (runs_view ?wm (shop_runs shop runs))"
    proof (rule shop_steps_insert [OF *(4)])
      have "60 \<le> set_OverlapSeconds s"
        using assms(2) *(1) by (auto simp: db_ok_def settings_ok_def setting_ok_def)
      moreover have "?wm = set_Watermark s" if "shop = set_ShopID s"
        using that assms(2) *(1) lookup_by_distinct [of set_ShopID "rdb_settings db" s]
        by (simp add: watermark_of_def db_ok_def settings_ok_def)
      ultimately show "TriggerSchedule = TriggerManual \<or>
          (\<exists>now overlap. 60 \<le> overlap \<and> claimWindow now overlap ?wm = (a, b)) \<or> shop \<noteq> conn_ShopID conn"
        using *(2,3) by metis
    qed
    ultimately show ?thesis
      unfolding shop_view_def *(6) using shop_steps_expire [of ?wm shop "rdb_runs db" now now]
      by simp
  qed
next
  case (step_update now shopID input setting)
  then show ?thesis
  proof (rule UpdateSetting_Inr)
    assume *: "db' = db\<lparr>rdb_settings := map (\<lambda>s. if set_ShopID s = trim_space shopID
         \<and> set_ConfigVersion s = upd_ConfigVersion input then reconfigured now input s else s)
         (ensureSetting now (trim_space shopID) (rdb_settings db))\<rparr>"
    have "watermark_of shop (rdb_settings db') = watermark_of shop (rdb_settings db)"
      unfolding * by (simp add: watermark_of_map reconfigured_def watermark_of_ensure)
    then show ?thesis by (simp add: shop_view_def *)
  qed
next
  case (step_connections conns)
  then show ?thesis by (simp add: shop_view_def)
qed

section \<open>Facts of the abstract machine\<close>

lemma claimWindow_start:
  assumes "claimWindow now overlap (Some w) = (a, b)" "60 \<le> overlap"
  shows "a \<le> w"
  using assms by (auto simp: claimWindow_def Let_def second_def split: if_splits)

definition covered :: "(instant \<times> instant) list \<Rightarrow> instant \<Rightarrow> bool" where
  "covered ws t \<longleftrightarrow> (\<exists>p\<in>set ws. fst p \<le> t \<and> t < snd p)"

definition shop_ok :: "ShopView \<Rightarrow> bool" where
  "shop_ok v \<longleftrightarrow>
     (case sv_watermark v of
        None \<Rightarrow> sv_done v = []
      | Some w \<Rightarrow> (\<forall>p\<in>set (sv_done v). snd p \<le> w) \<and> w \<in> snd ` set (sv_done v))
     \<and> (\<not> sv_manual v \<longrightarrow>
          (\<forall>a b w. sv_running v = Some (a, b) \<longrightarrow> sv_watermark v = Some w \<longrightarrow> a \<le> w)
          \<and> (\<forall>w t. sv_watermark v = Some w \<longrightarrow> fst (hd (sv_done v)) \<le> t \<longrightarrow> t < w \<longrightarrow> covered (sv_done v) t))"

lemma covered_append: "covered (ws @ [(a, b)]) t \<longleftrightarrow> covered ws t \<or> a \<le> t \<and> t < b"
  by (auto simp: covered_def)

lemma shop_ok_step:
  assumes "shop_step v v'" "shop_ok v"
  shows "shop_ok v'"
  using assms
proof (cases rule: shop_step.cases)
  case shop_lose
  then show ?thesis using assms(2) by (simp add: shop_ok_def split: option.splits)
next
  case (shop_manual a b)
  then show ?thesis using assms(2) by (simp add: shop_ok_def split: option.splits)
next
  case (shop_claim a b overlap now)
  then have "sv_watermark v = Some w \<Longrightarrow> a \<le> w" for w by (simp add: claimWindow_start)
  then show ?thesis using assms(2) shop_claim by (simp add: shop_ok_def split: option.splits)
next
  case (shop_finish a b)
  show ?thesis
  proof (cases "sv_watermark v")
    case None
    then show ?thesis using assms(2) shop_finish by (auto simp: shop_ok_def raise_def covered_def)
  next
    case (Some w)
    then have w: "\<forall>p\<in>set (sv_done v). snd p \<le> w" "w \<in> snd ` set (sv_done v)"
      using assms(2) by (simp_all add: shop_ok_def)
    then have ne: "sv_done v \<noteq> []" by auto
    have "covered (sv_done v @ [(a, b)]) t"
      if "\<not> sv_manual v" "fst (hd (sv_done v)) \<le> t" "t < max w b" for t
    proof (cases "t < w")
      case True
      with that Some assms(2) show ?thesis by (simp add: shop_ok_def covered_append)
    next
      case False
      moreover have "a \<le> w" using that(1) Some assms(2) shop_finish by (auto simp: shop_ok_def)
      ultimately show ?thesis using that(3) by (auto simp: covered_append)
    qed
    then show ?thesis using Some w ne shop_finish
      by (auto simp: shop_ok_def raise_def max_def)
  qed
qed

lemma shop_ok_steps: "shop_step\<^sup>*\<^sup>* v v' \<Longrightarrow> shop_ok v \<Longrightarrow> shop_ok v'"
  by (induction rule: rtranclp_induct) (auto intro: shop_ok_step)

lemma shop_ok_reachable: "reconcile_reachable db \<Longrightarrow> shop_ok (shop_view shop db)"
proof (induction rule: reconcile_reachable.induct)
  case reach_empty
  show ?case
    by (simp add: shop_ok_def shop_view_def runs_view_def emptyReconcileDB_def watermark_of_def shop_runs_def)
next
  case (reach_step db db')
  then show ?case using reconcile_step_refines shop_ok_steps db_ok_reachable by metis
qed

section \<open>Properties\<close>

lemma claimWindow_behind:
  assumes "0 \<le> overlap" "overlap \<le> 86400" "w < now - tikTokOrderReconcileSafetyLag"
    "now - w < 2 ^ 60 * second"
  shows "claimWindow now overlap (Some w) =
     (w - overlap * second,
      min (now - tikTokOrderReconcileSafetyLag) (w - overlap * second + 24 * hour))"
proof -
  have "time_sub (now - tikTokOrderReconcileSafetyLag) (w - overlap * second) \<le> tikTokOrderReconcileMaxSpan
     \<longleftrightarrow> now - tikTokOrderReconcileSafetyLag - (w - overlap * second) \<le> tikTokOrderReconcileMaxSpan"
    using assms by (intro time_sub_le_iff)
      (auto simp: tikTokOrderReconcileSafetyLag_def tikTokOrderReconcileMaxSpan_def duration_defs max_duration_def)
  then show ?thesis using assms(3)
    by (auto simp: claimWindow_def Let_def tikTokOrderReconcileMaxSpan_def)
qed

text \<open>
  C25. A scheduled run of a shop whose watermark lies behind starts at or before the watermark
  (no gap), spans at most 24 hours, and ends after the watermark exactly when the overlap is
  shorter than 24 hours. The validation of settings admits an overlap of exactly 24 hours: a
  shop that is behind with it reads the same window again and never advances.
\<close>
theorem claimWindow_progress:
  assumes "60 \<le> overlap" "overlap \<le> 86400" "w < now - tikTokOrderReconcileSafetyLag"
    "now - w < 2 ^ 60 * second" "claimWindow now overlap (Some w) = (a, b)"
  shows "a < w \<and> b \<le> now - tikTokOrderReconcileSafetyLag \<and> b - a \<le> 24 * hour
     \<and> (w < b \<longleftrightarrow> overlap < 86400)"
  using claimWindow_behind [of overlap w now] assms
  by (auto simp: second_def minute_def hour_def min_def split: if_splits)

theorem claimWindow_progress_witness:
  "claimWindow (200000 * second) 86400 (Some (1000 * second)) = (- 85400 * second, 1000 * second)
   \<and> \<not> 1000 * second < (1000 * second :: int)"
proof -
  have *: "claimWindow (200000 * second) 86400 (Some (1000 * second)) = (- 85400 * second, 1000 * second)"
    by (subst claimWindow_behind) (simp_all add: tikTokOrderReconcileSafetyLag_def duration_defs)
  show ?thesis
    using claimWindow_progress [OF _ _ _ _ *] * by (simp add: tikTokOrderReconcileSafetyLag_def second_def)
qed

text \<open>
  C24. In every reachable state a shop has at most one running run, every window is non-empty
  and at most 24 hours long, at most ten pages are counted, and no run counts more snapshots
  than discovered orders.
\<close>
theorem reconcile_runs_invariant:
  assumes "reconcile_reachable db" "r \<in> set (rdb_runs db)"
  shows "sr_WindowStart r < sr_WindowEnd r \<and> sr_WindowEnd r - sr_WindowStart r \<le> 24 * hour
     \<and> sr_PageCount r \<le> 10 \<and> sr_SnapshottedCount r \<le> sr_DiscoveredCount r
     \<and> (\<forall>q\<in>set (rdb_runs db). sr_ShopID q = sr_ShopID r \<and> sr_Status q = RunRunning
          \<and> sr_Status r = RunRunning \<longrightarrow> q = r)"
proof -
  have ok: "db_ok db" using assms(1) by (rule db_ok_reachable)
  let ?xs = "shop_runs (sr_ShopID r) (rdb_runs db)"
  have q: "quiet (butlast ?xs)" using ok by (simp add: db_ok_def runs_ok_def)
  have "x = last ?xs" if "x \<in> set ?xs" "sr_Status x = RunRunning" for x
  proof -
    have "?xs = butlast ?xs @ [last ?xs]" using that by (metis append_butlast_last_id empty_iff empty_set)
    then have "x \<in> set (butlast ?xs) \<or> x = last ?xs" using that(1) by (metis rotate1.simps(2) set_ConsD set_rotate1)
    with q that(2) show ?thesis by (auto simp: quiet_def)
  qed
  then have "q = r" if "q \<in> set (rdb_runs db)" "sr_ShopID q = sr_ShopID r" "sr_Status q = RunRunning"
      "sr_Status r = RunRunning" for q
    using that assms(2) by (simp add: shop_runs_def) metis
  then show ?thesis using ok assms(2) by (auto simp: db_ok_def runs_ok_def run_ok_def)
qed

text \<open>
  C7. For a shop that is only read by scheduled runs, the watermark never skips a moment: every
  instant from the start of the first successful window up to the watermark lies in the window
  of a run that succeeded.
\<close>
theorem watermark_covers:
  assumes "reconcile_reachable db"
    and "\<forall>r\<in>set (rdb_runs db). sr_ShopID r = shop \<longrightarrow> sr_Trigger r = TriggerSchedule"
    and "watermark_of shop (rdb_settings db) = Some w"
    and "filter (\<lambda>r. sr_ShopID r = shop \<and> sr_Status r = RunSucceeded) (rdb_runs db) = first # rest"
    and "sr_WindowStart first \<le> t" "t < w"
  shows "\<exists>r\<in>set (rdb_runs db). sr_ShopID r = shop \<and> sr_Status r = RunSucceeded
           \<and> sr_WindowStart r \<le> t \<and> t < sr_WindowEnd r"
proof -
  let ?v = "shop_view shop db"
  have ok: "shop_ok ?v" using assms(1) by (rule shop_ok_reachable)
  have f: "filter (\<lambda>r. sr_Status r = RunSucceeded) (shop_runs shop (rdb_runs db)) = first # rest"
    using assms(4) by (simp add: shop_runs_def conj_commute)
  have v: "sv_watermark ?v = Some w" "\<not> sv_manual ?v"
    "sv_done ?v = map window (first # rest)"
    using assms(2,3) f by (auto simp: shop_view_def runs_view_def shop_runs_def)
  then have "covered (sv_done ?v) t" using ok assms(5,6) by (simp add: shop_ok_def window_def)
  then obtain r where "r \<in> set (first # rest)" "sr_WindowStart r \<le> t" "t < sr_WindowEnd r"
    unfolding v(3) covered_def by (auto simp: window_def)
  moreover have "set (first # rest) \<subseteq> {r \<in> set (rdb_runs db). sr_ShopID r = shop \<and> sr_Status r = RunSucceeded}"
    unfolding assms(4) [symmetric] by auto
  ultimately show ?thesis by blast
qed

text \<open>
  C23. The watermark of a shop is exactly the latest end among its successful windows; it is
  null exactly when no run of the shop has succeeded.
\<close>
theorem watermark_exact:
  assumes "reconcile_reachable db"
  shows "watermark_of shop (rdb_settings db) =
     (let ends = map sr_WindowEnd (filter (\<lambda>r. sr_ShopID r = shop \<and> sr_Status r = RunSucceeded) (rdb_runs db))
      in if ends = [] then None else Some (Max (set ends)))"
proof -
  define ends where "ends = map sr_WindowEnd (filter (\<lambda>r. sr_ShopID r = shop \<and> sr_Status r = RunSucceeded) (rdb_runs db))"
  have e: "ends = map snd (sv_done (shop_view shop db))"
    unfolding ends_def shop_view_def runs_view_def shop_runs_def
    by (simp add: window_def comp_def conj_commute)
  have ok: "shop_ok (shop_view shop db)" using assms by (rule shop_ok_reachable)
  have w: "sv_watermark (shop_view shop db) = watermark_of shop (rdb_settings db)"
    by (simp add: shop_view_def runs_view_def)
  show ?thesis
  proof (cases "watermark_of shop (rdb_settings db)")
    case None
    with ok w e show ?thesis unfolding ends_def [symmetric] by (simp add: shop_ok_def)
  next
    case (Some m)
    with ok w have m: "\<forall>x\<in>set ends. x \<le> m" "m \<in> set ends" by (simp_all add: shop_ok_def e)
    then have "Max (set ends) = m" by (intro Max_eqI) auto
    with m(2) Some show ?thesis unfolding ends_def [symmetric] by auto
  qed
qed

section \<open>Histories\<close>

text \<open>A history of transactions of one shop, for the witnesses.\<close>

datatype reconcile_command =
    CmdUpdate TikTokOrderSyncSettingUpdate
  | CmdClaim string
  | CmdStart string TikTokOrderReconcileRequest
  | CmdComplete string

definition sample_progress :: TikTokOrderReconcileProgress where
  "sample_progress = \<lparr>prog_PageCount = 1, prog_DiscoveredCount = 0, prog_SnapshottedCount = 0,
     prog_LastPageToken = [], prog_SearchRequestIDs = [''r1'']\<rparr>"

fun run_command :: "instant \<Rightarrow> reconcile_command \<Rightarrow> ReconcileDB \<Rightarrow> reconcile_error + ReconcileDB" where
  "run_command now (CmdUpdate input) db = and_then (UpdateSetting now db ''7'' input) (\<lambda>(db, _). Inr db)"
| "run_command now (CmdClaim i) db = and_then (ClaimDueRun i now now db) (\<lambda>(db, _). Inr db)"
| "run_command now (CmdStart i input) db = and_then (StartManualRun i now db input) (\<lambda>(db, _). Inr db)"
| "run_command now (CmdComplete i) db = CompleteRun id now db i sample_progress"

fun history :: "(instant \<times> reconcile_command) list \<Rightarrow> ReconcileDB \<Rightarrow> reconcile_error + ReconcileDB" where
  "history [] db = Inr db"
| "history ((now, c) # cs) db = and_then (run_command now c db) (history cs)"

lemma history_reachable: "history cs db = Inr db' \<Longrightarrow> reconcile_reachable db \<Longrightarrow> reconcile_reachable db'"
proof (induction cs arbitrary: db)
  case Nil
  then show ?case by simp
next
  case (Cons x cs)
  obtain now c db1 where "x = (now, c)" "run_command now c db = Inr db1" "history cs db1 = Inr db'"
    using Cons.prems(1) by (cases x) (auto simp: result_simps)
  moreover have "reconcile_step db db1"
    using calculation(2) by (cases c) (auto simp: result_simps intro: reconcile_step.intros)
  ultimately show ?case using Cons by (blast intro: reach_step)
qed

definition sample_start :: ReconcileDB where
  "sample_start = emptyReconcileDB\<lparr>rdb_connections := [\<lparr>conn_ShopID = ''7'', conn_ShopName = ''shop'',
     conn_GatewayConnectionID = ''g'', conn_Disabled = False\<rparr>]\<rparr>"

lemma sample_start_reachable: "reconcile_reachable sample_start"
  unfolding sample_start_def by (rule reach_step [OF reach_empty step_connections])

text \<open>
  The shop is enabled with an overlap of one minute; its first scheduled run reads \<open>[910 s, 970 s)\<close>
  and succeeds. Much later a manual run reads \<open>[5000 s, 5100 s)\<close>.
\<close>

definition scheduled_history :: "(instant \<times> reconcile_command) list" where
  "scheduled_history =
     [(1000000000, CmdUpdate \<lparr>upd_Enabled = True, upd_IntervalSeconds = 60, upd_OverlapSeconds = 60,
         upd_ConfigVersion = 1\<rparr>),
      (1000000000, CmdClaim ''a''), (1001000000, CmdComplete ''a'')]"

definition manual_history :: "(instant \<times> reconcile_command) list" where
  "manual_history =
     [(5200000000, CmdStart ''b'' \<lparr>recreq_ShopID = ''7'', recreq_UpdateTimeGE = 5000,
         recreq_UpdateTimeLT = 5100\<rparr>),
      (5201000000, CmdComplete ''b'')]"

lemma sample_scheduled:
  obtains db where "history scheduled_history sample_start = Inr db" "reconcile_reachable db"
    "watermark_of ''7'' (rdb_settings db) = Some 970000000"
    "map (\<lambda>r. (window r, sr_ShopID r, sr_Status r, sr_Trigger r)) (rdb_runs db)
       = [((910000000, 970000000), ''7'', RunSucceeded, TriggerSchedule)]"
proof -
  have "case history scheduled_history sample_start of Inl _ \<Rightarrow> False
     | Inr db \<Rightarrow> watermark_of ''7'' (rdb_settings db) = Some 970000000
         \<and> map (\<lambda>r. (window r, sr_ShopID r, sr_Status r, sr_Trigger r)) (rdb_runs db)
       = [((910000000, 970000000), ''7'', RunSucceeded, TriggerSchedule)]"
    by code_simp
  from case_Inr_exists [OF this] obtain db where db: "history scheduled_history sample_start = Inr db
    \<and> watermark_of ''7'' (rdb_settings db) = Some 970000000
    \<and> map (\<lambda>r. (window r, sr_ShopID r, sr_Status r, sr_Trigger r)) (rdb_runs db)
       = [((910000000, 970000000), ''7'', RunSucceeded, TriggerSchedule)]"
    by (rule exE)
  note h = db [THEN conjunct1]
  show thesis
    by (rule that [OF h history_reachable [OF h sample_start_reachable]
        db [THEN conjunct2, THEN conjunct1] db [THEN conjunct2, THEN conjunct2]])
qed

theorem reconcile_runs_invariant_witness:
  "\<exists>db r. reconcile_reachable db \<and> r \<in> set (rdb_runs db) \<and> sr_PageCount r \<le> 10
     \<and> window r = (910000000, 970000000)"
proof -
  obtain db where db: "reconcile_reachable db"
    "map (\<lambda>r. (window r, sr_ShopID r, sr_Status r, sr_Trigger r)) (rdb_runs db)
       = [((910000000, 970000000), ''7'', RunSucceeded, TriggerSchedule)]"
    by (rule sample_scheduled)
  then obtain r where "r \<in> set (rdb_runs db)" "window r = (910000000, 970000000)" by auto
  with reconcile_runs_invariant [OF db(1)] db(1) show ?thesis by blast
qed

theorem watermark_covers_witness:
  "\<exists>db r. reconcile_reachable db \<and> r \<in> set (rdb_runs db) \<and> sr_WindowStart r \<le> 950000000
     \<and> 950000000 < sr_WindowEnd r"
proof -
  obtain db where db: "reconcile_reachable db" "watermark_of ''7'' (rdb_settings db) = Some 970000000"
    "map (\<lambda>r. (window r, sr_ShopID r, sr_Status r, sr_Trigger r)) (rdb_runs db)
       = [((910000000, 970000000), ''7'', RunSucceeded, TriggerSchedule)]"
    by (rule sample_scheduled)
  then obtain first where f: "rdb_runs db = [first]" "window first = (910000000, 970000000)"
      "sr_ShopID first = ''7''" "sr_Status first = RunSucceeded" "sr_Trigger first = TriggerSchedule"
    by auto
  have "\<exists>r\<in>set (rdb_runs db). sr_ShopID r = ''7'' \<and> sr_Status r = RunSucceeded
      \<and> sr_WindowStart r \<le> 950000000 \<and> 950000000 < sr_WindowEnd r"
    using f by (intro watermark_covers [OF db(1) _ db(2)]) (auto simp: window_def)
  then show ?thesis using db(1) by blast
qed

theorem watermark_exact_witness:
  "\<exists>db. reconcile_reachable db
     \<and> (let ends = map sr_WindowEnd (filter (\<lambda>r. sr_ShopID r = ''7'' \<and> sr_Status r = RunSucceeded) (rdb_runs db))
        in if ends = [] then None else Some (Max (set ends))) = Some (970000000 :: instant)"
proof -
  obtain db where db: "reconcile_reachable db" "watermark_of ''7'' (rdb_settings db) = Some 970000000"
    by (rule sample_scheduled)
  show ?thesis
    by (rule exI, rule conjI, rule db(1), rule trans [OF watermark_exact [OF db(1), symmetric] db(2)])
qed

text \<open>
  A manual run of a recent window moves the watermark past everything in between: here the
  scheduled runs had read up to 970 s, the manual run reads \<open>[5000 s, 5100 s)\<close>, and then the watermark is
  5100 s, no run covers 2000 s, and the next scheduled run starts at 5040 s.
\<close>
theorem manual_run_skips:
  "\<exists>db. reconcile_reachable db \<and> watermark_of ''7'' (rdb_settings db) = Some 5100000000
     \<and> \<not> (\<exists>r\<in>set (rdb_runs db). sr_WindowStart r \<le> 2000000000 \<and> 2000000000 < sr_WindowEnd r)
     \<and> (\<exists>db' run. ClaimDueRun ''c'' 5300000000 5300000000 db = Inr (db', run)
          \<and> run_WindowStart run = 5040000000)"
proof -
  have "case history (scheduled_history @ manual_history) sample_start of Inl _ \<Rightarrow> False
     | Inr db \<Rightarrow> watermark_of ''7'' (rdb_settings db) = Some 5100000000
         \<and> map window (rdb_runs db) = [(910000000, 970000000), (5000000000, 5100000000)]
         \<and> (case ClaimDueRun ''c'' 5300000000 5300000000 db of Inl _ \<Rightarrow> False
            | Inr (db', run) \<Rightarrow> run_WindowStart run = 5040000000)"
    by code_simp
  from case_Inr_exists [OF this] obtain db where
      all: "history (scheduled_history @ manual_history) sample_start = Inr db
      \<and> watermark_of ''7'' (rdb_settings db) = Some 5100000000
      \<and> map window (rdb_runs db) = [(910000000, 970000000), (5000000000, 5100000000)]
      \<and> (case ClaimDueRun ''c'' 5300000000 5300000000 db of Inl _ \<Rightarrow> False
         | Inr (db', run) \<Rightarrow> run_WindowStart run = 5040000000)"
    by (rule exE)
  note db = all [THEN conjunct1] all [THEN conjunct2, THEN conjunct1]
    all [THEN conjunct2, THEN conjunct2, THEN conjunct1] all [THEN conjunct2, THEN conjunct2, THEN conjunct2]
  have "reconcile_reachable db" by (rule history_reachable [OF db(1) sample_start_reachable])
  moreover have "\<not> (\<exists>r\<in>set (rdb_runs db). sr_WindowStart r \<le> 2000000000 \<and> 2000000000 < sr_WindowEnd r)"
    using db(3) by (auto simp: window_def)
  moreover obtain x where "ClaimDueRun ''c'' 5300000000 5300000000 db = Inr x"
      "case x of (db', run) \<Rightarrow> run_WindowStart run = 5040000000"
    using case_Inr_exists [OF db(4)] by (elim exE conjE)
  ultimately show ?thesis using db(2) by (cases x) auto
qed

section \<open>The reconciler on its store\<close>

text \<open>
  The reconciler with the store of this repository: the world is the tables, the readings of the
  clock, the identifiers the database generates, and the rest, which the gateway and the snapshot
  service read and change.
\<close>

record 'x ReconcileWorld =
  world_db :: ReconcileDB
  world_now :: "nat \<Rightarrow> instant"
  world_ids :: "nat \<Rightarrow> string"
  world_tick :: nat
  world_rest :: 'x

definition store_call ::
    "'x ReconcileWorld \<Rightarrow> (instant \<Rightarrow> string \<Rightarrow> ReconcileDB \<Rightarrow> 'e + ReconcileDB \<times> 'r) \<Rightarrow>
     'x ReconcileWorld \<times> ('e + 'r)" where
  "store_call w f =
     (let now = world_now w (world_tick w); i = world_ids w (world_tick w);
          w' = w\<lparr>world_tick := world_tick w + 1\<rparr> in
      case f now i (world_db w) of Inl e \<Rightarrow> (w', Inl e)
      | Inr (db, r) \<Rightarrow> (w'\<lparr>world_db := db\<rparr>, Inr r))"

definition unit_result :: "'e + 'd \<Rightarrow> 'e + 'd \<times> unit" where
  "unit_result r = and_then r (\<lambda>d. Inr (d, ()))"

definition rest_call :: "'x ReconcileWorld \<Rightarrow> ('x \<Rightarrow> 'x \<times> 'r) \<Rightarrow> 'x ReconcileWorld \<times> 'r" where
  "rest_call w f = (let (x, r) = f (world_rest w) in (w\<lparr>world_rest := x\<rparr>, r))"

definition NewTikTokOrderReconciler ::
    "(string \<Rightarrow> string) \<Rightarrow>
     ('x \<Rightarrow> string \<Rightarrow> SearchOrdersRequest \<Rightarrow> 'x \<times> (unit + GatewayOrderSearchResponse option)) \<Rightarrow>
     ('x \<Rightarrow> TikTokOrderSnapshotRequest \<Rightarrow> 'x \<times> (snapshot_error + TikTokOrderSnapshotResult option)) \<Rightarrow>
     'x ReconcileWorld TikTokOrderReconciler" where
  "NewTikTokOrderReconciler digest search sync =
     \<lparr>rec_search = (\<lambda>w shop req. rest_call w (\<lambda>x. search x shop req)),
      rec_sync = (\<lambda>w req. rest_call w (\<lambda>x. sync x req)),
      rec_start = (\<lambda>w input. store_call w (\<lambda>now i db. StartManualRun i now db input)),
      rec_record = (\<lambda>w i p. store_call w (\<lambda>now _ db. unit_result (RecordPage digest now db i p))),
      rec_complete = (\<lambda>w i p. store_call w (\<lambda>now _ db. unit_result (CompleteRun digest now db i p))),
      rec_fail = (\<lambda>w i c m. store_call w (\<lambda>now _ db. unit_result (FailRun now db i c m))),
      rec_now = (\<lambda>w. world_now w (world_tick w))\<rparr>"

definition world_watermarks :: "'x ReconcileWorld \<Rightarrow> string \<Rightarrow> instant option" where
  "world_watermarks w = (\<lambda>shop. watermark_of shop (rdb_settings (world_db w)))"

lemma StartManualRun_watermark:
  assumes "StartManualRun i now db input = Inr (db', run)"
  shows "watermark_of shop (rdb_settings db') = watermark_of shop (rdb_settings db)"
  using assms by (rule StartManualRun_Inr) (simp add: watermark_of_ensure)

lemma RecordPage_settings: "RecordPage d now db i p = Inr db' \<Longrightarrow> rdb_settings db' = rdb_settings db"
  by (erule RecordPage_Inr) simp

lemma FailRun_watermark:
  assumes "FailRun now db i c m = Inr db'"
  shows "watermark_of shop (rdb_settings db') = watermark_of shop (rdb_settings db)"
  using assms
proof (rule FailRun_Inr)
  fix run c m settings
  assume u: "updateSettings (sr_ShopID run) (\<lambda>s.
        s\<lparr>set_LastErrorCode := c, set_LastErrorMessage := m,
          set_NextRunAt := (if set_Enabled s then now + 60 * second else set_NextRunAt s)\<rparr>)
        (rdb_settings db) = Inr settings"
    and d: "db' = db\<lparr>rdb_settings := settings, rdb_runs := updateRun i (\<lambda>r.
        r\<lparr>sr_Status := RunFailed, sr_ErrorCode := c, sr_ErrorMessage := m,
          sr_FinishedAt := Some now\<rparr>) (rdb_runs db)\<rparr>"
  from watermark_of_update [OF u] d show ?thesis by simp
qed

interpretation reconciler: watermark_store "NewTikTokOrderReconciler digest search sync" world_watermarks
  for digest search sync
proof unfold_locales
  fix w :: "'a ReconcileWorld" and shop req sreq input i p code message w' e
  let ?s = "NewTikTokOrderReconciler digest search sync"
  show "world_watermarks (fst (rec_search ?s w shop req)) = world_watermarks w"
       "world_watermarks (fst (rec_sync ?s w sreq)) = world_watermarks w"
    by (simp_all add: NewTikTokOrderReconciler_def rest_call_def world_watermarks_def split: prod.splits)
  show "world_watermarks (fst (rec_start ?s w input)) = world_watermarks w"
    by (auto simp: NewTikTokOrderReconciler_def store_call_def world_watermarks_def Let_def
        StartManualRun_watermark split: sum.splits)
  show "world_watermarks (fst (rec_record ?s w i p)) = world_watermarks w"
    by (auto simp: NewTikTokOrderReconciler_def store_call_def world_watermarks_def Let_def unit_result_def
        result_simps dest: RecordPage_settings split: sum.splits)
  show "world_watermarks (fst (rec_fail ?s w i code message)) = world_watermarks w"
    by (auto simp: NewTikTokOrderReconciler_def store_call_def world_watermarks_def Let_def unit_result_def
        result_simps FailRun_watermark split: sum.splits)
  show "rec_complete ?s w i p = (w', Inl e) \<Longrightarrow> world_watermarks w' = world_watermarks w"
    by (auto simp: NewTikTokOrderReconciler_def store_call_def world_watermarks_def Let_def unit_result_def
        split: sum.splits)
qed

text \<open>
  A reconciliation that reports an error, whatever went wrong and wherever (the request, the
  start, a page, a snapshot, the progress or the completion), has not moved any watermark.
\<close>
theorem Reconcile_failure_keeps_watermark:
  assumes "Reconcile (Some (NewTikTokOrderReconciler digest search sync)) w input = (w', Inl e)"
  shows "world_watermarks w' shop = world_watermarks w shop"
  using reconciler.Reconcile_error_view [OF assms] by simp

definition sample_world :: "unit ReconcileWorld" where
  "sample_world = \<lparr>world_db = sample_start, world_now = (\<lambda>n. 5200000000), world_ids = (\<lambda>n. ''a''),
     world_tick = 0, world_rest = ()\<rparr>"

definition failing_search :: "unit \<Rightarrow> string \<Rightarrow> SearchOrdersRequest \<Rightarrow> unit \<times> (unit + GatewayOrderSearchResponse option)"
  where "failing_search = (\<lambda>x shop req. (x, Inl ()))"

definition failing_sync :: "unit \<Rightarrow> TikTokOrderSnapshotRequest \<Rightarrow> unit \<times> (snapshot_error + TikTokOrderSnapshotResult option)"
  where "failing_sync = (\<lambda>x req. (x, Inr None))"

theorem Reconcile_failure_keeps_watermark_witness:
  "\<exists>w'. Reconcile (Some (NewTikTokOrderReconciler id failing_search failing_sync)) sample_world
          \<lparr>recreq_ShopID = ''7'', recreq_UpdateTimeGE = 5000, recreq_UpdateTimeLT = 5100\<rparr>
        = (w', Inl (ErrOrderReconcileFailed ''search_failed'')) \<and> world_watermarks w' ''7'' = world_watermarks sample_world ''7''"
proof -
  let ?r = "Reconcile (Some (NewTikTokOrderReconciler id failing_search failing_sync)) sample_world
          \<lparr>recreq_ShopID = ''7'', recreq_UpdateTimeGE = 5000, recreq_UpdateTimeLT = 5100\<rparr>"
  have "snd ?r = Inl (ErrOrderReconcileFailed ''search_failed'')" by code_simp
  then have r: "?r = (fst ?r, Inl (ErrOrderReconcileFailed ''search_failed''))"
    by (rule trans [OF prod.collapse [symmetric] arg_cong [where f = "Pair (fst ?r)"]])
  show ?thesis
    by (rule exI, rule conjI, rule r, rule Reconcile_failure_keeps_watermark [OF r])
qed

text \<open>While a run is executed, its row keeps its shop and its window.\<close>

definition run_row :: "string \<Rightarrow> string \<Rightarrow> instant \<Rightarrow> (string \<Rightarrow> instant option) \<Rightarrow> 'x ReconcileWorld \<Rightarrow> bool" where
  "run_row i shop b marks w \<longleftrightarrow>
     (\<forall>r\<in>set (rdb_runs (world_db w)). sr_ID r = i \<longrightarrow> sr_ShopID r = shop \<and> sr_WindowEnd r = b)
     \<and> world_watermarks w = marks"

lemma run_row_RecordPage:
  assumes "RecordPage d now db j p = Inr db'"
    "\<forall>r\<in>set (rdb_runs db). sr_ID r = i \<longrightarrow> sr_ShopID r = shop \<and> sr_WindowEnd r = b"
  shows "\<forall>r\<in>set (rdb_runs db'). sr_ID r = i \<longrightarrow> sr_ShopID r = shop \<and> sr_WindowEnd r = b"
  using assms(1)
proof (rule RecordPage_Inr)
  fix ids tok
  assume c: "validCounts p" and *: "db' = db\<lparr>rdb_runs := updateRun j (\<lambda>r.
     r\<lparr>sr_PageCount := prog_PageCount p, sr_DiscoveredCount := prog_DiscoveredCount p,
       sr_SnapshottedCount := prog_SnapshottedCount p, sr_TokenHash := tok, sr_RequestIDs := ids,
       sr_LeaseUntil := now + 30 * minute\<rparr>) (rdb_runs db)\<rparr>"
  show ?thesis using assms(2) by (auto simp: * updateRun_def)
qed

interpretation run: run_invariant "NewTikTokOrderReconciler digest search sync" "run_row i shop b marks"
  for digest search sync i shop b marks
proof unfold_locales
  fix w :: "'a ReconcileWorld" and s req sreq j p
  let ?s = "NewTikTokOrderReconciler digest search sync"
  show "run_row i shop b marks (fst (rec_search ?s w s req))"
       "run_row i shop b marks (fst (rec_sync ?s w sreq))"
       "run_row i shop b marks (fst (rec_record ?s w j p))" if inv: "run_row i shop b marks w"
  proof -
    have marks: "world_watermarks (fst (rec_record ?s w j p)) = marks"
      using reconciler.record_view [of digest search sync w j p] inv by (simp add: run_row_def)
    show "run_row i shop b marks (fst (rec_search ?s w s req))"
         "run_row i shop b marks (fst (rec_sync ?s w sreq))"
      using inv by (simp_all add: NewTikTokOrderReconciler_def rest_call_def world_watermarks_def
          run_row_def split: prod.splits)
    show "run_row i shop b marks (fst (rec_record ?s w j p))"
    proof (cases "RecordPage digest (world_now w (world_tick w)) (world_db w) j p")
      case (Inl e)
      then show ?thesis using inv
        by (simp add: NewTikTokOrderReconciler_def store_call_def unit_result_def run_row_def
            world_watermarks_def Let_def)
    next
      case (Inr db')
      with inv run_row_RecordPage [OF Inr, of i shop b] marks show ?thesis
        by (simp add: NewTikTokOrderReconciler_def store_call_def unit_result_def run_row_def Let_def)
    qed
  qed
qed

lemma CompleteRun_watermark:
  assumes "CompleteRun d now db i p = Inr db'"
    "\<forall>r\<in>set (rdb_runs db). sr_ID r = i \<longrightarrow> sr_ShopID r = shop \<and> sr_WindowEnd r = b"
  shows "watermark_of shop (rdb_settings db') = Some (raise b (watermark_of shop (rdb_settings db)))"
  using assms(1)
proof (rule CompleteRun_Inr)
  fix run ids tok settings
  assume r: "runningRun i (rdb_runs db) = Some run"
    and u: "updateSettings (sr_ShopID run) (advanced now (sr_WindowEnd run)) (rdb_settings db) = Inr settings"
    and d: "db' = db\<lparr>rdb_settings := settings, rdb_runs := updateRun i (completed now p ids tok) (rdb_runs db)\<rparr>"
  have "sr_ShopID run = shop" "sr_WindowEnd run = b" using runningRun_Some [OF r] assms(2) by auto
  with watermark_of_advanced [OF u, of shop] d show ?thesis by simp
qed

lemma StartManualRun_row:
  assumes "StartManualRun i now db input = Inr (db', run)"
  shows "(\<forall>r\<in>set (rdb_runs db'). sr_ID r = i \<longrightarrow>
      sr_ShopID r = run_ShopID run \<and> sr_WindowEnd r = time_unix (recreq_UpdateTimeLT input))
    \<and> run_ID run = i \<and> run_ShopID run = trim_space (recreq_ShopID input)"
  using assms by (rule StartManualRun_Inr) (auto simp: insertRun_Inr)

text \<open>
  C21. A reconciliation that reports success has raised the watermark of its shop to the end of
  its window (or left it where it was, if it was later), whatever the gateway answered on the way.
\<close>
theorem Reconcile_success_raises_watermark:
  assumes "Reconcile (Some (NewTikTokOrderReconciler digest search sync)) w input = (w', Inr res)"
    and "shop = trim_space (recreq_ShopID input)"
  shows "world_watermarks w' shop
     = Some (raise (time_unix (recreq_UpdateTimeLT input)) (world_watermarks w shop))"
proof -
  let ?s = "NewTikTokOrderReconciler digest search sync"
  let ?i = "input\<lparr>recreq_ShopID := shop\<rparr>" and ?b = "time_unix (recreq_UpdateTimeLT input)"
  obtain w1 run where start: "rec_start ?s w ?i = (w1, Inr run)" and ex: "execute ?s w1 run = (w', Inr res)"
    using assms by (auto simp: Reconcile_def Let_def split: if_splits prod.splits sum.splits)
  have m1: "world_watermarks w1 = world_watermarks w"
    using reconciler.start_view [of digest search sync w ?i] start by simp
  obtain now j where st: "StartManualRun j now (world_db w) ?i = Inr (world_db w1, run)"
    using start by (auto simp: NewTikTokOrderReconciler_def store_call_def Let_def split: sum.splits)
  have row: "run_row (run_ID run) shop ?b (world_watermarks w) w1"
    using StartManualRun_row [OF st] m1 assms(2) by (simp add: run_row_def)
  obtain w2 p where inv: "run_row (run_ID run) shop ?b (world_watermarks w) w2"
      and c: "rec_complete ?s w2 (run_ID run) p = (w', Inr ())"
    using run.execute_inv [OF ex row] by blast
  obtain t where "CompleteRun digest t (world_db w2) (run_ID run) p = Inr (world_db w')"
    using c by (auto simp: NewTikTokOrderReconciler_def store_call_def unit_result_def Let_def
        result_simps split: sum.splits)
  from CompleteRun_watermark [OF this, of shop ?b] inv show ?thesis
    by (auto simp: run_row_def world_watermarks_def fun_eq_iff)
qed

definition empty_search :: "unit \<Rightarrow> string \<Rightarrow> SearchOrdersRequest \<Rightarrow> unit \<times> (unit + GatewayOrderSearchResponse option)"
  where "empty_search = (\<lambda>x shop req. (x, Inr (Some \<lparr>gsearch_UpstreamRequestID = ''r1'',
    gsearch_NextPageToken = [], gsearch_TotalCount = 0, gsearch_Orders = []\<rparr>)))"

theorem Reconcile_success_raises_watermark_witness:
  "\<exists>w' res. Reconcile (Some (NewTikTokOrderReconciler id empty_search failing_sync)) sample_world
          \<lparr>recreq_ShopID = ''7'', recreq_UpdateTimeGE = 5000, recreq_UpdateTimeLT = 5100\<rparr>
        = (w', Inr res) \<and> world_watermarks w' ''7'' = Some 5100000000"
proof -
  let ?r = "Reconcile (Some (NewTikTokOrderReconciler id empty_search failing_sync)) sample_world
          \<lparr>recreq_ShopID = ''7'', recreq_UpdateTimeGE = 5000, recreq_UpdateTimeLT = 5100\<rparr>"
  have "case snd ?r of Inl _ \<Rightarrow> False | Inr res \<Rightarrow> recres_PageCount res = 1" by code_simp
  then obtain res where "snd ?r = Inr res" by (rule case_Inr_exists [THEN exE]) (erule conjE)
  then have r: "?r = (fst ?r, Inr res)"
    by (rule trans [OF prod.collapse [symmetric] arg_cong [where f = "Pair (fst ?r)"]])
  have t: "trim_space ''7'' = ''7''" by code_simp
  have v: "raise (time_unix 5100) (world_watermarks sample_world ''7'') = 5100000000" by code_simp
  have "world_watermarks (fst ?r) ''7'' = Some (raise (time_unix 5100) (world_watermarks sample_world ''7''))"
    using Reconcile_success_raises_watermark [OF r, of "''7''"]
    by (simp only: TikTokOrderReconcileRequest.simps t refl simp_thms)
  then show ?thesis unfolding v using r by (intro exI conjI)
qed

end
