(* ===== verification/Go_Float.thy ===== *)
theory Go_Float
  imports Go_Rat
begin

text \<open>
  Go's \<open>float64\<close>: the IEEE 754 binary format as exact rationals with the rounding to the nearest
  representable value, ties to even, written out. The two zeros are one value (no code modelled
  here divides by a zero or reads its sign). A conversion to \<open>int64\<close> outside its range gives the
  smallest \<open>int64\<close>, as on the platforms the program is built for. The lemmas show that rounding is
  monotone and keeps the representable values.
\<close>

datatype float64 = Float rat | PosInf | NegInf | NotANumber

section \<open>Rounding\<close>

definition pow2 :: "int \<Rightarrow> rat" where
  "pow2 e = (if 0 \<le> e then 2 ^ nat e else 1 / 2 ^ nat (- e))"

function bit_len :: "int \<Rightarrow> int" where
  "bit_len n = (if n \<le> 0 then 0 else 1 + bit_len (n div 2))"
  by pat_completeness auto
termination by (relation "measure nat") auto

declare bit_len.simps [simp del]

text \<open>The exponent \<open>e\<close> with \<open>2 ^ e \<le> q < 2 ^ (e + 1)\<close>.\<close>

definition ilog2 :: "rat \<Rightarrow> int" where
  "ilog2 q = (let e = bit_len (rat_num q) - bit_len (rat_den q) in if pow2 e \<le> q then e else e - 1)"

definition round_half_even :: "rat \<Rightarrow> int" where
  "round_half_even q =
     (let f = \<lfloor>q\<rfloor>; r = q - of_int f in
      if r < 1 / 2 then f else if r > 1 / 2 then f + 1 else if even f then f else f + 1)"

text \<open>The exponent of the last place of the values near \<open>q > 0\<close>; subnormals share the smallest.\<close>

definition ulp_exp :: "rat \<Rightarrow> int" where
  "ulp_exp q = max (ilog2 q) (- 1022) - 52"

definition round_pos :: "rat \<Rightarrow> rat" where
  "round_pos q = (if q \<le> 0 then 0
     else let e = ulp_exp q in of_int (round_half_even (q / pow2 e)) * pow2 e)"

definition round64 :: "rat \<Rightarrow> float64" where
  "round64 q =
     (let v = round_pos \<bar>q\<bar> in
      if v \<ge> pow2 1024 then (if q < 0 then NegInf else PosInf)
      else Float (if q < 0 then - v else v))"

section \<open>Operations\<close>

fun f_neg :: "float64 \<Rightarrow> float64" where
  "f_neg (Float a) = Float (- a)" | "f_neg PosInf = NegInf" | "f_neg NegInf = PosInf"
| "f_neg NotANumber = NotANumber"

fun f_add :: "float64 \<Rightarrow> float64 \<Rightarrow> float64" where
  "f_add (Float a) (Float b) = round64 (a + b)"
| "f_add NotANumber _ = NotANumber" | "f_add _ NotANumber = NotANumber"
| "f_add PosInf NegInf = NotANumber" | "f_add NegInf PosInf = NotANumber"
| "f_add PosInf _ = PosInf" | "f_add _ PosInf = PosInf"
| "f_add NegInf _ = NegInf" | "f_add _ NegInf = NegInf"

definition f_sub :: "float64 \<Rightarrow> float64 \<Rightarrow> float64" where
  "f_sub x y = f_add x (f_neg y)"

fun f_sign :: "float64 \<Rightarrow> int" where
  "f_sign (Float a) = (if a < 0 then - 1 else if a = 0 then 0 else 1)"
| "f_sign PosInf = 1" | "f_sign NegInf = - 1" | "f_sign NotANumber = 0"

definition f_inf :: "int \<Rightarrow> float64" where
  "f_inf s = (if s > 0 then PosInf else if s < 0 then NegInf else NotANumber)"

fun f_mul :: "float64 \<Rightarrow> float64 \<Rightarrow> float64" where
  "f_mul (Float a) (Float b) = round64 (a * b)"
| "f_mul NotANumber _ = NotANumber" | "f_mul _ NotANumber = NotANumber"
| "f_mul x y = f_inf (f_sign x * f_sign y)"

text \<open>A division by zero takes the zero as positive.\<close>

fun f_div :: "float64 \<Rightarrow> float64 \<Rightarrow> float64" where
  "f_div (Float a) (Float b) = (if b = 0 then f_inf (f_sign (Float a)) else round64 (a / b))"
| "f_div NotANumber _ = NotANumber" | "f_div _ NotANumber = NotANumber"
| "f_div (Float a) _ = Float 0"
| "f_div x (Float b) = f_inf (f_sign x * (if b < 0 then - 1 else 1))"
| "f_div _ _ = NotANumber"

fun f_lt :: "float64 \<Rightarrow> float64 \<Rightarrow> bool" where
  "f_lt (Float a) (Float b) \<longleftrightarrow> a < b"
| "f_lt NotANumber _ \<longleftrightarrow> False" | "f_lt _ NotANumber \<longleftrightarrow> False"
| "f_lt NegInf y \<longleftrightarrow> y \<noteq> NegInf" | "f_lt x PosInf \<longleftrightarrow> x \<noteq> PosInf"
| "f_lt _ _ \<longleftrightarrow> False"

definition f_le :: "float64 \<Rightarrow> float64 \<Rightarrow> bool" where
  "f_le x y \<longleftrightarrow> x \<noteq> NotANumber \<and> (f_lt x y \<or> x = y)"

definition is_nan :: "float64 \<Rightarrow> bool" where "is_nan x \<longleftrightarrow> x = NotANumber"
definition is_inf :: "float64 \<Rightarrow> bool" where "is_inf x \<longleftrightarrow> x = PosInf \<or> x = NegInf"

text \<open>\<open>math.Max\<close>, \<open>math.Abs\<close> and \<open>math.Floor\<close>.\<close>

definition f_max :: "float64 \<Rightarrow> float64 \<Rightarrow> float64" where
  "f_max x y =
     (if x = PosInf \<or> y = PosInf then PosInf
      else if is_nan x \<or> is_nan y then NotANumber
      else if f_lt x y then y else x)"

fun f_abs :: "float64 \<Rightarrow> float64" where
  "f_abs (Float a) = Float \<bar>a\<bar>" | "f_abs NotANumber = NotANumber" | "f_abs _ = PosInf"

fun f_floor :: "float64 \<Rightarrow> float64" where
  "f_floor (Float a) = Float (of_int \<lfloor>a\<rfloor>)" | "f_floor x = x"

definition min_int64 :: int where "min_int64 = - (2 ^ 63)"
definition max_int64 :: int where "max_int64 = 2 ^ 63 - 1"

text \<open>\<open>int64(x)\<close> truncates towards zero.\<close>

fun to_int64 :: "float64 \<Rightarrow> int" where
  "to_int64 (Float a) =
     (let t = (if a < 0 then - \<lfloor>- a\<rfloor> else \<lfloor>a\<rfloor>)
      in if min_int64 \<le> t \<and> t \<le> max_int64 then t else min_int64)"
| "to_int64 _ = min_int64"

definition of_int64 :: "int \<Rightarrow> float64" where "of_int64 n = round64 (of_int n)"

section \<open>The shortest decimal text\<close>

text \<open>
  \<open>strconv.FormatFloat(x, 'f', -1, 64)\<close>: the decimal with the fewest digits that rounds back to \<open>x\<close>,
  and among those of that length the one nearest to \<open>x\<close>. Seventeen digits are always enough.
\<close>

fun ilog10_up :: "nat \<Rightarrow> rat \<Rightarrow> int" where
  "ilog10_up 0 q = 0"
| "ilog10_up (Suc n) q = (if q < 10 then 0 else 1 + ilog10_up n (q / 10))"

fun ilog10_down :: "nat \<Rightarrow> rat \<Rightarrow> int" where
  "ilog10_down 0 q = 0"
| "ilog10_down (Suc n) q = (if 1 \<le> q then 0 else ilog10_down n (q * 10) - 1)"

definition ilog10 :: "rat \<Rightarrow> int" where
  "ilog10 q = (if 1 \<le> q then ilog10_up 309 q else ilog10_down 324 q)"

definition shortest_candidate :: "rat \<Rightarrow> int \<Rightarrow> rat option" where
  "shortest_candidate q k =
     (let u = pow_int 10 k; f = of_int \<lfloor>q / u\<rfloor> * u; c = of_int \<lceil>q / u\<rceil> * u;
          (near, far) = (if q - f \<le> c - q then (f, c) else (c, f))
      in if round_pos near = q then Some near
         else if round_pos far = q then Some far else None)"

fun shortest_from :: "nat \<Rightarrow> rat \<Rightarrow> int \<Rightarrow> rat \<times> int" where
  "shortest_from 0 q k = (q, k)"
| "shortest_from (Suc n) q k =
     (case shortest_candidate q k of Some d \<Rightarrow> (d, k) | None \<Rightarrow> shortest_from n q (k - 1))"

fun format_float :: "float64 \<Rightarrow> string" where
  "format_float (Float a) =
     (if a = 0 then ''0''
      else let q = \<bar>a\<bar>; (d, k) = shortest_from 17 q (ilog10 q)
           in (if a < 0 then ''-'' else []) @ float_string d (nat (- k)))"
| "format_float PosInf = ''+Inf''"
| "format_float NegInf = ''-Inf''"
| "format_float NotANumber = ''NaN''"

section \<open>Facts about rounding\<close>

lemma pow2_pos [simp]: "0 < pow2 e"
  by (simp add: pow2_def)

lemma pow2_ne0 [simp]: "pow2 e \<noteq> 0"
  by (simp add: pow2_def)

lemma pow2_nonneg [simp]: "0 \<le> pow2 e"
  by (simp add: pow2_def)

lemma pow2_powi: "pow2 e = 2 powi e"
  by (simp add: pow2_def power_int_def inverse_eq_divide power_one_over)

lemma pow2_add: "pow2 (a + b) = pow2 a * pow2 b"
  by (simp add: pow2_powi power_int_add)

lemma pow2_diff: "pow2 (a - b) = pow2 a / pow2 b"
  by (simp add: pow2_powi power_int_diff)

lemma pow2_mono: "a \<le> b \<Longrightarrow> pow2 a \<le> pow2 b"
  by (simp add: pow2_powi power_int_increasing)

lemma pow2_nat: "0 \<le> e \<Longrightarrow> pow2 e = of_int (2 ^ nat e)"
  by (simp add: pow2_def)

lemma bit_len_pos: "0 < n \<Longrightarrow> 0 < bit_len n"
proof (induction n rule: bit_len.induct)
  case (1 n)
  show ?case
  proof (cases "n = 1")
    case False
    with 1 have "0 < bit_len (n div 2)" by simp
    with 1 show ?thesis by (simp add: bit_len.simps [of n])
  qed (simp add: bit_len.simps)
qed

lemma bit_len_bounds: "0 < n \<Longrightarrow> 2 ^ nat (bit_len n - 1) \<le> n \<and> n < 2 ^ nat (bit_len n)"
proof (induction n rule: bit_len.induct)
  case (1 n)
  show ?case
  proof (cases "n = 1")
    case True
    then show ?thesis by (simp add: bit_len.simps)
  next
    case False
    with 1 have d: "0 < n div 2" by simp
    then have ih: "2 ^ nat (bit_len (n div 2) - 1) \<le> n div 2" "n div 2 < 2 ^ nat (bit_len (n div 2))"
      using 1 by auto
    have b: "bit_len n = bit_len (n div 2) + 1" using 1 by (simp add: bit_len.simps [of n])
    have p: "0 < bit_len (n div 2)" using d by (rule bit_len_pos)
    have "(2::int) ^ nat (bit_len n - 1) = 2 * 2 ^ nat (bit_len (n div 2) - 1)"
      using p by (simp add: b flip: power_Suc add: Suc_nat_eq_nat_zadd1)
    moreover have "(2::int) ^ nat (bit_len n) = 2 * 2 ^ nat (bit_len (n div 2))"
      using p by (simp add: b nat_add_distrib)
    ultimately show ?thesis using ih by linarith
  qed
qed

lemma ilog2_bounds:
  assumes "0 < q"
  shows "pow2 (ilog2 q) \<le> q" "q < pow2 (ilog2 q + 1)"
proof -
  let ?n = "rat_num q" and ?d = "rat_den q"
  have d: "0 < ?d" by (rule rat_den_pos)
  have q: "q = of_int ?n / of_int ?d" by (rule rat_num_den)
  have n: "0 < ?n" using assms d q by (metis divide_pos_neg less_divide_eq mult_zero_left not_less_iff_gr_or_eq of_int_0_less_iff)
  define a where "a = bit_len ?n"
  define b where "b = bit_len ?d"
  have ab: "0 < a" "0 < b" using n d by (simp_all add: a_def b_def bit_len_pos)
  have N: "pow2 (a - 1) \<le> of_int ?n" "of_int ?n < pow2 a"
    and D: "pow2 (b - 1) \<le> of_int ?d" "of_int ?d < pow2 b"
    using bit_len_bounds [OF n] bit_len_bounds [OF d] ab
    by (simp_all add: pow2_nat a_def b_def del: of_int_power)
  have lo: "pow2 (a - b - 1) \<le> q"
  proof -
    have "pow2 (a - 1) / pow2 b \<le> of_int ?n / of_int ?d"
      using N(1) D(2) d n by (intro frac_le) auto
    then show ?thesis using q by (simp add: pow2_diff [symmetric] algebra_simps)
  qed
  have hi: "q < pow2 (a - b + 1)"
  proof -
    have "of_int ?n / of_int ?d < pow2 a / pow2 (b - 1)"
      using N D n by (intro frac_less) (auto intro: less_le_trans [OF pow2_pos])
    then show ?thesis using q by (simp add: pow2_diff [symmetric] algebra_simps)
  qed
  show "pow2 (ilog2 q) \<le> q" "q < pow2 (ilog2 q + 1)"
    using lo hi by (auto simp: ilog2_def Let_def a_def [symmetric] b_def [symmetric])
qed

lemma round_half_even_bounds: "of_int (round_half_even q) \<le> q + 1 / 2" "q - 1 / 2 \<le> of_int (round_half_even q)"
  unfolding round_half_even_def Let_def by (auto split: if_splits) linarith+

lemma round_half_even_of_int [simp]: "round_half_even (of_int k) = k"
  by (simp add: round_half_even_def)

lemma round_half_even_mono:
  assumes "p \<le> q"
  shows "round_half_even p \<le> round_half_even q"
proof (cases "\<lfloor>p\<rfloor> = \<lfloor>q\<rfloor>")
  case True
  then show ?thesis using assms by (auto simp: round_half_even_def Let_def)
next
  case False
  with floor_mono [OF assms] have f: "\<lfloor>p\<rfloor> + 1 \<le> \<lfloor>q\<rfloor>" by simp
  have "round_half_even p \<le> \<lfloor>p\<rfloor> + 1" "\<lfloor>q\<rfloor> \<le> round_half_even q"
    by (auto simp: round_half_even_def Let_def)
  with f show ?thesis by linarith
qed

lemma round_half_even_nonneg: "0 \<le> q \<Longrightarrow> 0 \<le> round_half_even q"
  using round_half_even_mono [of 0 q] round_half_even_of_int [of 0] by simp

lemma round_pos_nonneg: "0 \<le> round_pos q"
  by (auto simp: round_pos_def Let_def intro!: mult_nonneg_nonneg round_half_even_nonneg
      divide_nonneg_nonneg)

lemma ilog2_less: "0 < q \<Longrightarrow> q < pow2 e \<Longrightarrow> ilog2 q < e"
  using ilog2_bounds(1) [of q] pow2_mono [of e "ilog2 q"] by fastforce

lemma ilog2_mono: "0 < p \<Longrightarrow> p \<le> q \<Longrightarrow> ilog2 p \<le> ilog2 q"
  using ilog2_less [of p "ilog2 q + 1"] ilog2_bounds(2) [of q] by simp

lemma round_pos_mono:
  assumes "p \<le> q"
  shows "round_pos p \<le> round_pos q"
proof (cases "p \<le> 0")
  case True
  then show ?thesis using round_pos_nonneg [of q] by (simp add: round_pos_def)
next
  case False
  then have pos: "0 < p" "0 < q" using assms by simp_all
  let ?a = "ulp_exp p" and ?b = "ulp_exp q"
  have le: "?a \<le> ?b" using ilog2_mono [OF pos(1) assms] by (simp add: ulp_exp_def)
  show ?thesis
  proof (cases "?a = ?b")
    case True
    then show ?thesis using pos assms
      by (simp add: round_pos_def Let_def mult_right_mono round_half_even_mono divide_right_mono
          order_less_imp_le [OF pow2_pos])
  next
    case False
    with le have lt: "?a + 1 \<le> ?b" by simp
    have "p < pow2 (?a + 53)"
      using ilog2_bounds(2) [OF pos(1)] pow2_mono [of "ilog2 p + 1" "?a + 53"] by (simp add: ulp_exp_def)
    then have "p / pow2 ?a \<le> of_int (2 ^ 53)"
      by (simp add: pow2_add pow2_nat pos_divide_le_eq mult.commute)
    then have "round_half_even (p / pow2 ?a) \<le> 2 ^ 53"
      using round_half_even_mono [of "p / pow2 ?a" "of_int (2 ^ 53)"] round_half_even_of_int [of "2 ^ 53"] by simp
    then have "round_pos p \<le> of_int (2 ^ 53) * pow2 ?a"
      using pos by (simp add: round_pos_def Let_def mult_right_mono order_less_imp_le [OF pow2_pos] del: of_int_power)
    then have p: "round_pos p \<le> pow2 (?a + 53)" by (simp add: pow2_add pow2_nat mult.commute)
    have "ilog2 q = ?b + 52" using lt by (auto simp: ulp_exp_def max_def split: if_splits)
    then have "pow2 (?b + 52) \<le> q" using ilog2_bounds(1) [OF pos(2)] by simp
    then have "of_int (2 ^ 52) \<le> q / pow2 ?b"
      by (simp add: pow2_add pow2_nat pos_le_divide_eq mult.commute)
    then have "2 ^ 52 \<le> round_half_even (q / pow2 ?b)"
      using round_half_even_mono [of "of_int (2 ^ 52)" "q / pow2 ?b"] round_half_even_of_int [of "2 ^ 52"] by simp
    then have "of_int (2 ^ 52) * pow2 ?b \<le> round_pos q"
      using pos by (simp add: round_pos_def Let_def mult_right_mono order_less_imp_le [OF pow2_pos] del: of_int_power)
    then have "pow2 (?b + 52) \<le> round_pos q" by (simp add: pow2_add pow2_nat mult.commute)
    with p lt show ?thesis using pow2_mono [of "?a + 53" "?b + 52"] by linarith
  qed
qed

text \<open>A value with at most 53 significant bits is kept.\<close>

lemma round_pos_exact:
  assumes "0 \<le> m" "m < 2 ^ 53" "- 1074 \<le> e"
  shows "round_pos (of_int m * pow2 e) = of_int m * pow2 e"
proof (cases "m = 0")
  case False
  let ?q = "of_int m * pow2 e"
  have pos: "0 < ?q" using False assms(1) by simp
  have "?q < of_int (2 ^ 53) * pow2 e" using assms(2) by (intro mult_strict_right_mono) simp_all
  then have "?q < pow2 (e + 53)" by (simp add: pow2_add pow2_nat mult.commute)
  then have "ilog2 ?q < e + 53" by (rule ilog2_less [OF pos])
  then have u: "ulp_exp ?q \<le> e" using assms(3) by (simp add: ulp_exp_def)
  then have "?q / pow2 (ulp_exp ?q) = of_int m * pow2 (e - ulp_exp ?q)" by (simp add: pow2_diff)
  also have "\<dots> = of_int (m * 2 ^ nat (e - ulp_exp ?q))" using u by (simp add: pow2_nat)
  finally have i: "?q / pow2 (ulp_exp ?q) = of_int (m * 2 ^ nat (e - ulp_exp ?q))" .
  have "round_pos ?q = of_int (round_half_even (?q / pow2 (ulp_exp ?q))) * pow2 (ulp_exp ?q)"
    using pos by (simp add: round_pos_def Let_def)
  also have "\<dots> = ?q / pow2 (ulp_exp ?q) * pow2 (ulp_exp ?q)" unfolding i round_half_even_of_int ..
  finally show ?thesis by simp
qed (simp add: round_pos_def)

lemma round64_small: "0 \<le> q \<Longrightarrow> q \<le> 2 ^ 64 \<Longrightarrow> round64 q = Float (round_pos q)"
proof -
  assume q: "0 \<le> q" "q \<le> 2 ^ 64"
  have "round_pos (of_int 1 * pow2 64) = of_int 1 * pow2 64" by (rule round_pos_exact) simp_all
  then have "round_pos q \<le> pow2 64" using round_pos_mono [OF q(2)] by (simp add: pow2_nat)
  moreover have "pow2 64 < pow2 1024" by (simp add: pow2_powi power_int_strict_increasing)
  ultimately show "round64 q = Float (round_pos q)" using q by (simp add: round64_def Let_def)
qed

lemma of_int64_exact:
  assumes "0 \<le> n" "n < 2 ^ 53"
  shows "of_int64 n = Float (of_int n)"
proof -
  have r: "round_pos (of_int n * pow2 0) = of_int n * pow2 0" by (rule round_pos_exact [OF assms]) simp
  have "(of_int n :: rat) \<le> of_int (2 ^ 64)" using assms by (subst of_int_le_iff) simp
  then have "round64 (of_int n) = Float (round_pos (of_int n))"
    using assms by (intro round64_small) simp_all
  then show ?thesis using r by (simp add: of_int64_def pow2_def)
qed

end
