(* ===== verification/Stock_Logic.thy ===== *)
theory Stock_Logic
  imports Go_Float Go_Time
begin

text \<open>
  The arithmetic of the Shopee stock synchronisation (\<open>services/shopeestock/logic.go\<close>): how much
  stock a shop may show for a balance of the accounting system, exactly over decimal texts and
  over \<open>float64\<close>, the division of one balance among several products, the checks of what the
  accounting system answered, and the circuit breaker against a sudden drop to zero. The lemmas
  show that the exact computation never offers more than there is.
\<close>

section \<open>Exact targets\<close>

datatype stock_error =
    InvalidExactQuantity string
  | OutsideSafeBounds
  | TargetExceedsInt64

definition parse_exact :: "string \<Rightarrow> stock_error + rat" where
  "parse_exact raw = of_option (InvalidExactQuantity raw) (rat_set_string (trim_space raw))"

definition CalculateTargetExact :: "string \<Rightarrow> string \<Rightarrow> string \<Rightarrow> string \<Rightarrow> stock_error + int" where
  "CalculateTargetExact balance pending stockPct unitFactor =
     and_then (parse_exact balance) (\<lambda>b.
     and_then (parse_exact pending) (\<lambda>p.
     and_then (parse_exact stockPct) (\<lambda>pct.
     and_then (parse_exact unitFactor) (\<lambda>factor.
       if b < 0 \<or> p < 0 \<or> pct \<le> 0 \<or> pct > 100 \<or> factor \<le> 0 then Inl OutsideSafeBounds
       else
         let available = b - p in
         if available \<le> 0 then Inr 0
         else
           let target = available * pct / 100 / factor;
               integer = int_quo (rat_num target) (rat_den target)
           in if \<not> is_int64 integer then Inl TargetExceedsInt64 else Inr integer))))"

text \<open>\<open>maxExactDecimalPlaces\<close>: what follows the first point, whatever it is.\<close>

definition exact_places :: "string \<Rightarrow> nat" where
  "exact_places value =
     (let v = trim_space value; rest = dropWhile (\<lambda>c. c \<noteq> CHR ''.'') v
      in if rest = [] then 0 else length rest - 1)"

definition maxExactDecimalPlaces :: "string list \<Rightarrow> nat" where
  "maxExactDecimalPlaces values = foldl (\<lambda>places value. max places (exact_places value)) 0 values"

definition exactSubtractClamp :: "string \<Rightarrow> string \<Rightarrow> string" where
  "exactSubtractClamp balance pending =
     (case rat_set_string (trim_space balance) of None \<Rightarrow> []
      | Some left \<Rightarrow>
          (case rat_set_string (trim_space pending) of None \<Rightarrow> []
           | Some right \<Rightarrow>
               if left - right \<le> 0 then ''0''
               else float_string (left - right) (maxExactDecimalPlaces [balance, pending])))"

section \<open>Targets over floating point\<close>

definition f_const :: "rat \<Rightarrow> float64" where "f_const q = round64 q"

definition CalculateTarget :: "float64 \<Rightarrow> float64 \<Rightarrow> float64 \<Rightarrow> int" where
  "CalculateTarget balance stockPct unitFactor =
     (if f_le balance (Float 0) \<or> f_le stockPct (Float 0) \<or> f_le unitFactor (Float 0) then 0
      else to_int64 (f_floor (f_div (f_div (f_mul balance stockPct) (Float 100)) unitFactor)))"

definition decimalFromFloat :: "float64 \<Rightarrow> string" where
  "decimalFromFloat value = format_float value"

section \<open>Shared pools\<close>

record SharedPoolAllocation =
  alloc_ItemID :: int
  alloc_ModelID :: int
  alloc_UnitFactor :: float64
  alloc_UnitFactorExact :: string
  alloc_AllocationPct :: float64

definition stockProductKey :: "int \<Rightarrow> int \<Rightarrow> string" where
  "stockProductKey itemID modelID = dec_of_int itemID @ '':'' @ dec_of_int modelID"

definition alloc_key :: "SharedPoolAllocation \<Rightarrow> string" where
  "alloc_key m = stockProductKey (alloc_ItemID m) (alloc_ModelID m)"

text \<open>The targets by product key, the pool's base target and the warnings; no targets with a warning.\<close>

type_synonym pool_targets = "(string \<times> int) list \<times> int \<times> string list"

definition pool_invalid :: pool_targets where
  "pool_invalid = ([], 0, [''shared_pool_invalid''])"

fun floatMembers :: "string list \<Rightarrow> float64 \<Rightarrow> SharedPoolAllocation list \<Rightarrow> float64 option" where
  "floatMembers seen totalPct [] = Some totalPct"
| "floatMembers seen totalPct (m # rest) =
     (if alloc_key m \<in> set seen \<or> f_le (alloc_UnitFactor m) (Float 0) \<or> is_nan (alloc_UnitFactor m)
         \<or> is_inf (alloc_UnitFactor m) \<or> f_le (alloc_AllocationPct m) (Float 0)
         \<or> f_lt (Float 100) (alloc_AllocationPct m) \<or> is_nan (alloc_AllocationPct m)
         \<or> is_inf (alloc_AllocationPct m)
      then None
      else floatMembers (alloc_key m # seen) (f_add totalPct (alloc_AllocationPct m)) rest)"

definition CalculateSharedPoolTargets ::
    "float64 \<Rightarrow> float64 \<Rightarrow> float64 \<Rightarrow> SharedPoolAllocation list \<Rightarrow> pool_targets" where
  "CalculateSharedPoolTargets balance pendingBase stockPct members =
     (if length members < 2 \<or> f_le stockPct (Float 0) \<or> f_lt (Float 100) stockPct \<or> is_nan stockPct
         \<or> is_inf stockPct
      then pool_invalid
      else
        case floatMembers [] (Float 0) members of None \<Rightarrow> pool_invalid
        | Some totalPct \<Rightarrow>
            if f_lt (f_const (1 / 1000)) (f_abs (f_sub totalPct (Float 100))) then pool_invalid
            else
              let availableBase = f_max (f_sub balance (f_max pendingBase (Float 0))) (Float 0);
                  poolBaseTarget = to_int64 (f_floor (f_div (f_mul availableBase stockPct) (Float 100)))
              in (map (\<lambda>m. (alloc_key m,
                     to_int64 (f_floor (f_div (f_div (f_mul (of_int64 poolBaseTarget)
                       (alloc_AllocationPct m)) (Float 100)) (alloc_UnitFactor m))))) members,
                  poolBaseTarget, []))"

text \<open>The exact version: the allocations and factors of the members, in order.\<close>

definition memberFactor :: "SharedPoolAllocation \<Rightarrow> rat option" where
  "memberFactor m =
     (let exact = trim_space (alloc_UnitFactorExact m) in
      rat_set_string (if exact = [] then decimalFromFloat (alloc_UnitFactor m) else exact))"

fun exactMembers :: "string list \<Rightarrow> SharedPoolAllocation list \<Rightarrow> (rat \<times> rat) list option" where
  "exactMembers seen [] = Some []"
| "exactMembers seen (m # rest) =
     (if alloc_key m \<in> set seen then None
      else
        case (rat_set_string (decimalFromFloat (alloc_AllocationPct m)), memberFactor m) of
          (Some allocation, Some factor) \<Rightarrow>
            if allocation \<le> 0 \<or> allocation > 100 \<or> factor \<le> 0 then None
            else map_option ((#) (allocation, factor)) (exactMembers (alloc_key m # seen) rest)
        | _ \<Rightarrow> None)"

fun exactTargets :: "int \<Rightarrow> SharedPoolAllocation list \<Rightarrow> (rat \<times> rat) list \<Rightarrow> (string \<times> int) list option" where
  "exactTargets pool (m # ms) ((allocation, factor) # rest) =
     (let allocated = of_int pool * allocation / 100 / factor;
          quantity = int_quo (rat_num allocated) (rat_den allocated)
      in if \<not> is_int64 quantity then None
         else map_option ((#) (alloc_key m, quantity)) (exactTargets pool ms rest))"
| "exactTargets pool _ _ = Some []"

definition CalculateSharedPoolTargetsExact ::
    "string \<Rightarrow> string \<Rightarrow> string \<Rightarrow> SharedPoolAllocation list \<Rightarrow> pool_targets" where
  "CalculateSharedPoolTargetsExact balance pendingBase stockPct members =
     (if length members < 2 then pool_invalid
      else
        case (rat_set_string (trim_space balance), rat_set_string (trim_space pendingBase),
              rat_set_string (trim_space stockPct)) of
          (Some available, Some pending, Some percentage) \<Rightarrow>
            if available < 0 \<or> pending < 0 \<or> percentage \<le> 0 \<or> percentage > 100 then pool_invalid
            else
              (case exactMembers [] members of None \<Rightarrow> pool_invalid
               | Some shares \<Rightarrow>
                   if sum_list (map fst shares) \<noteq> 100 then pool_invalid
                   else
                     let available = max 0 (available - pending);
                         poolTarget = available * percentage / 100;
                         poolInteger = int_quo (rat_num poolTarget) (rat_den poolTarget)
                     in if \<not> is_int64 poolInteger then pool_invalid
                        else
                          (case exactTargets poolInteger members shares of None \<Rightarrow> pool_invalid
                           | Some targets \<Rightarrow> (targets, poolInteger, [])))
        | _ \<Rightarrow> pool_invalid)"

section \<open>What the accounting system answers\<close>

record StockCapabilities =
  cap_AvailabilityModes :: "string list"
  cap_SchemaVersion :: string
  cap_SourceSemanticsFingerprint :: string
  cap_DecimalQuantityFormat :: string
  cap_MaxItemCodes :: int

record StockBalanceLocation =
  loc_WarehouseCode :: string
  loc_WarehouseName :: string
  loc_LocationCode :: string
  loc_LocationName :: string
  loc_UnitCode :: string
  loc_BalanceQty :: float64

record StockBalanceItem =
  bal_ItemCode :: string
  bal_ItemName :: string
  bal_UnitCode :: string
  bal_RawBalanceQty :: float64
  bal_BalanceQty :: float64
  bal_PhysicalBalanceQty :: float64
  bal_OutstandingSalesOrderQty :: float64
  bal_AvailableBalanceQty :: float64
  bal_PhysicalBalanceQtyExact :: string
  bal_OutstandingSalesOrderQtyExact :: string
  bal_AvailableBalanceQtyExact :: string
  bal_BalanceQtyExact :: string
  bal_AvailabilityStatus :: string
  bal_AvailabilityReason :: string
  bal_ExcludedBalanceQty :: float64
  bal_ExcludedLocations :: "StockBalanceLocation list"
  bal_MinQty :: float64
  bal_MaxQty :: float64
  bal_NegativeClamped :: bool

record StockBalanceScopeResult =
  scope_ScopeID :: string
  scope_Items :: "StockBalanceItem list"
  scope_ExcludedLocations :: "StockBalanceLocation list"

record StockBalanceBatchResponse =
  batch_AsOfDate :: string
  batch_Scopes :: "StockBalanceScopeResult list"
  batch_CheckedAt :: string
  batch_ModeApplied :: string
  batch_SchemaVersion :: string
  batch_SourceSnapshotAt :: string
  batch_SourceSemanticsFingerprint :: string

datatype availability_error =
    CapabilityMissing
  | CapabilityUnsupported
  | FingerprintNotApproved
  | NetSemanticsNotApplied
  | FingerprintChanged
  | SnapshotTimeInvalid
  | NotReady string
  | InvalidPhysical
  | InvalidOutstanding
  | InvalidUsable
  | InvalidBalance
  | InconsistentAvailability

definition validateAvailabilityCapabilities ::
    "StockCapabilities option \<Rightarrow> string \<Rightarrow> availability_error + unit" where
  "validateAvailabilityCapabilities capability expectedFingerprint =
     (case capability of None \<Rightarrow> Inl CapabilityMissing
      | Some c \<Rightarrow>
          if ''net_sale_order_v1'' \<notin> set (cap_AvailabilityModes c)
             \<or> cap_SchemaVersion c \<noteq> ''stock-availability-v1''
             \<or> cap_DecimalQuantityFormat c \<noteq> ''string'' \<or> cap_MaxItemCodes c < 1
          then Inl CapabilityUnsupported
          else
            let expected = trim_space expectedFingerprint in
            if expected = [] \<or> cap_SourceSemanticsFingerprint c \<noteq> expected
            then Inl FingerprintNotApproved else Inr ())"

text \<open>\<open>parse_time\<close> is \<open>time.Parse(time.RFC3339Nano, _)\<close>.\<close>

definition validateNetAvailabilityResponse ::
    "(string \<Rightarrow> instant option) \<Rightarrow> StockBalanceBatchResponse option \<Rightarrow> string \<Rightarrow> availability_error + instant"
  where
  "validateNetAvailabilityResponse parse_time response expectedFingerprint =
     (case response of None \<Rightarrow> Inl NetSemanticsNotApplied
      | Some r \<Rightarrow>
          if batch_ModeApplied r \<noteq> ''net_sale_order_v1'' \<or> batch_SchemaVersion r \<noteq> ''stock-availability-v1''
          then Inl NetSemanticsNotApplied
          else
            let expected = trim_space expectedFingerprint in
            if expected = [] \<or> batch_SourceSemanticsFingerprint r \<noteq> expected then Inl FingerprintChanged
            else of_option SnapshotTimeInvalid (parse_time (trim_space (batch_SourceSnapshotAt r))))"

definition non_negative :: "availability_error \<Rightarrow> string \<Rightarrow> availability_error + rat" where
  "non_negative e raw =
     and_then (of_option e (rat_set_string (trim_space raw))) (\<lambda>q. if q < 0 then Inl e else Inr q)"

definition validateNetAvailabilityItem :: "StockBalanceItem \<Rightarrow> availability_error + unit" where
  "validateNetAvailabilityItem item =
     (if trim_space (bal_AvailabilityStatus item) \<noteq> ''ready''
      then
        let reason = trim_space (bal_AvailabilityReason item)
        in Inl (NotReady (if reason = [] then ''availability_not_ready'' else reason))
      else
        and_then (non_negative InvalidPhysical (bal_PhysicalBalanceQtyExact item)) (\<lambda>physical.
        and_then (non_negative InvalidOutstanding (bal_OutstandingSalesOrderQtyExact item)) (\<lambda>outstanding.
        and_then (non_negative InvalidUsable (bal_AvailableBalanceQtyExact item)) (\<lambda>available.
        and_then (non_negative InvalidBalance (bal_BalanceQtyExact item)) (\<lambda>balance.
          let expected = max 0 (physical - outstanding) in
          if available \<noteq> expected \<or> balance \<noteq> available then Inl InconsistentAvailability
          else Inr ())))))"

text \<open>The instants of the lines' sources; the line itself holds nothing else that matters here.\<close>

definition stockLinesSourceFresh :: "instant option list \<Rightarrow> instant \<Rightarrow> duration \<Rightarrow> bool" where
  "stockLinesSourceFresh lines now maxAge \<longleftrightarrow>
     \<not> (lines = [] \<or> maxAge \<le> 0)
     \<and> list_all (\<lambda>snapshot. case snapshot of None \<Rightarrow> False
          | Some t \<Rightarrow> \<not> (t > now + minute \<or> time_sub now t > maxAge)) lines"

section \<open>The circuit breaker\<close>

record drop_count =
  drop_previousPositive :: int
  drop_droppedToZero :: int
  drop_previousTotal :: int
  drop_nextTotal :: int

definition dropStep :: "drop_count \<Rightarrow> int \<times> int \<Rightarrow> drop_count" where
  "dropStep st pn =
     (let (p, n) = pn; st = st\<lparr>drop_previousTotal := wrap64 (drop_previousTotal st + p),
                            drop_nextTotal := wrap64 (drop_nextTotal st + n)\<rparr>
      in if p > 0
         then st\<lparr>drop_previousPositive := drop_previousPositive st + 1,
                 drop_droppedToZero := drop_droppedToZero st + (if n = 0 then 1 else 0)\<rparr>
         else st)"

definition ZeroDropCircuit :: "int list \<Rightarrow> int list \<Rightarrow> string" where
  "ZeroDropCircuit previousTargets nextTargets =
     (if length previousTargets \<noteq> length nextTargets \<or> previousTargets = [] then []
      else
        let st = foldl dropStep \<lparr>drop_previousPositive = 0, drop_droppedToZero = 0,
                   drop_previousTotal = 0, drop_nextTotal = 0\<rparr> (zip previousTargets nextTargets)
        in if drop_previousTotal st > 0 \<and> drop_nextTotal st = 0 then ''all_stock_became_zero''
           else if drop_previousPositive st \<ge> 10
                  \<and> f_lt (Float (1 / 2))
                      (f_div (of_int64 (drop_droppedToZero st)) (of_int64 (drop_previousPositive st)))
           then ''mass_zero_drop''
           else [])"

section \<open>Properties\<close>

lemma parse_exact_Inr: "parse_exact s = Inr q \<longleftrightarrow> rat_set_string (trim_space s) = Some q"
  by (simp add: parse_exact_def result_simps)

lemma floor_share:
  assumes "0 \<le> (x::rat)" "0 < f"
  shows "of_int \<lfloor>x / f\<rfloor> * f \<le> x" "x < (of_int \<lfloor>x / f\<rfloor> + 1) * f" "0 \<le> \<lfloor>x / f\<rfloor>"
proof -
  have "of_int \<lfloor>x / f\<rfloor> \<le> x / f" by (rule of_int_floor_le)
  then show "of_int \<lfloor>x / f\<rfloor> * f \<le> x" by (simp only: pos_le_divide_eq [OF assms(2)])
  have "x / f < of_int \<lfloor>x / f\<rfloor> + 1" by linarith
  then show "x < (of_int \<lfloor>x / f\<rfloor> + 1) * f" by (simp only: pos_divide_less_eq [OF assms(2)])
  show "0 \<le> \<lfloor>x / f\<rfloor>" using assms by simp
qed

lemma CalculateTargetExact_bound:
  assumes "CalculateTargetExact balance pending stockPct unitFactor = Inr target"
  shows "\<exists>b p pct f. rat_set_string (trim_space balance) = Some b
     \<and> rat_set_string (trim_space pending) = Some p
     \<and> rat_set_string (trim_space stockPct) = Some pct \<and> rat_set_string (trim_space unitFactor) = Some f
     \<and> 0 \<le> target \<and> target < 2 ^ 63
     \<and> of_int target * f \<le> max 0 (b - p) * pct / 100 \<and> max 0 (b - p) * pct / 100 < (of_int target + 1) * f"
proof -
  obtain b p pct f where parse: "rat_set_string (trim_space balance) = Some b"
      "rat_set_string (trim_space pending) = Some p"
      "rat_set_string (trim_space stockPct) = Some pct" "rat_set_string (trim_space unitFactor) = Some f"
    and bounds: "0 < pct" "0 < f"
    and t: "(if b - p \<le> 0 then Inr 0
       else let target = (b - p) * pct / 100 / f; integer = int_quo (rat_num target) (rat_den target)
            in if \<not> is_int64 integer then Inl TargetExceedsInt64 else Inr integer) = Inr target"
    using assms
    by (auto simp: CalculateTargetExact_def result_simps parse_exact_Inr Let_def split: if_splits)
  let ?x = "max 0 (b - p) * pct / 100"
  have x: "0 \<le> ?x" using bounds by simp
  have "target = \<lfloor>?x / f\<rfloor> \<and> target < 2 ^ 63"
  proof (cases "b - p \<le> 0")
    case True
    then show ?thesis using t bounds by (simp add: max_def)
  next
    case False
    then have m: "max 0 (b - p) = b - p" by simp
    have "int_quo (rat_num (?x / f)) (rat_den (?x / f)) = \<lfloor>?x / f\<rfloor>"
      using x bounds by (intro int_quo_floor) simp
    define n where "n = int_quo (rat_num (?x / f)) (rat_den (?x / f))"
    have "(if \<not> is_int64 n then Inl TargetExceedsInt64 else Inr n) = Inr target"
      using t False by (simp only: m n_def Let_def if_False)
    then have "target = n" "n < 2 ^ 63" by (auto simp: is_int64_def split: if_splits)
    then show ?thesis using \<open>int_quo _ _ = _\<close> by (simp only: n_def)
  qed
  with floor_share [OF x bounds(2)] parse show ?thesis by auto
qed

text \<open>
  C40. The exact target is the largest whole number of units that the permitted share of the
  available stock covers: with \<open>available\<close> the balance less the pending demand, not below zero,
  \<open>target * factor\<close> is at most \<open>available * pct / 100\<close> and one more unit would exceed it.
\<close>
theorem CalculateTargetExact_safe:
  assumes "CalculateTargetExact balance pending stockPct unitFactor = Inr target"
  shows "\<exists>b p pct f. rat_set_string (trim_space balance) = Some b
     \<and> rat_set_string (trim_space pending) = Some p
     \<and> rat_set_string (trim_space stockPct) = Some pct \<and> rat_set_string (trim_space unitFactor) = Some f
     \<and> 0 \<le> target \<and> target < 2 ^ 63
     \<and> of_int target * f \<le> max 0 (b - p) * pct / 100 \<and> max 0 (b - p) * pct / 100 < (of_int target + 1) * f"
  using assms by (rule CalculateTargetExact_bound)

theorem CalculateTargetExact_safe_witness:
  "CalculateTargetExact ''10'' ''1'' ''50'' ''2'' = Inr 2 \<and> (2::int) < 2 ^ 63"
proof -
  have *: "CalculateTargetExact ''10'' ''1'' ''50'' ''2'' = Inr 2" by code_simp
  with CalculateTargetExact_safe [OF *] show ?thesis by blast
qed

text \<open>
  An accounting item passes the availability check exactly when it is ready and its four
  quantities are decimals, none negative, with the available quantity equal to the physical one
  less the outstanding sales orders (not below zero) and the balance equal to the available one.
\<close>
theorem validateNetAvailabilityItem_spec:
  "validateNetAvailabilityItem item = Inr () \<longleftrightarrow>
     trim_space (bal_AvailabilityStatus item) = ''ready''
     \<and> (\<exists>physical outstanding.
          rat_set_string (trim_space (bal_PhysicalBalanceQtyExact item)) = Some physical \<and> 0 \<le> physical
          \<and> rat_set_string (trim_space (bal_OutstandingSalesOrderQtyExact item)) = Some outstanding
          \<and> 0 \<le> outstanding
          \<and> rat_set_string (trim_space (bal_AvailableBalanceQtyExact item)) = Some (max 0 (physical - outstanding))
          \<and> rat_set_string (trim_space (bal_BalanceQtyExact item)) = Some (max 0 (physical - outstanding)))"
proof -
  have n: "non_negative e s = Inr q \<longleftrightarrow> rat_set_string (trim_space s) = Some q \<and> 0 \<le> q" for e s q
    by (cases "rat_set_string (trim_space s)") (auto simp: non_negative_def)
  show ?thesis
    unfolding validateNetAvailabilityItem_def
    by (auto simp: result_simps n Let_def split: if_splits)
qed

subsection \<open>Shared pools\<close>

lemma exactMembers_Some:
  "exactMembers seen ms = Some shares \<Longrightarrow>
     length shares = length ms \<and> distinct (map alloc_key ms) \<and> set (map alloc_key ms) \<inter> set seen = {}
     \<and> (\<forall>(a, f)\<in>set shares. 0 < a \<and> 0 < f)
     \<and> list_all2 (\<lambda>m (a, f). memberFactor m = Some f) ms shares"
proof (induction ms arbitrary: seen shares)
  case Nil
  then show ?case by simp
next
  case (Cons m ms)
  obtain a f rest where m: "alloc_key m \<notin> set seen"
      "rat_set_string (decimalFromFloat (alloc_AllocationPct m)) = Some a" "memberFactor m = Some f"
      "0 < a" "0 < f" "exactMembers (alloc_key m # seen) ms = Some rest" "shares = (a, f) # rest"
    using Cons.prems by (auto split: if_splits option.splits)
  from Cons.IH [OF m(6)] m show ?case by auto
qed

definition committed :: "(string \<times> int) list \<Rightarrow> (rat \<times> rat) list \<Rightarrow> rat" where
  "committed targets shares = sum_list (map2 (\<lambda>(_, t) (_, f). of_int t * f) targets shares)"

lemma exactTargets_Some:
  assumes "exactTargets pool ms shares = Some targets" "0 \<le> pool" "length ms = length shares"
    "\<forall>(a, f)\<in>set shares. 0 < a \<and> 0 < f"
  shows "map fst targets = map alloc_key ms \<and> (\<forall>(k, t)\<in>set targets. 0 \<le> t)
     \<and> committed targets shares \<le> of_int pool * sum_list (map fst shares) / 100"
  using assms
proof (induction pool ms shares arbitrary: targets rule: exactTargets.induct)
  case (1 pool m ms a f shares)
  let ?x = "of_int pool * a / 100"
  have pos: "0 < a" "0 < f" "0 \<le> ?x" using 1 by auto
  have q: "int_quo (rat_num (?x / f)) (rat_den (?x / f)) = \<lfloor>?x / f\<rfloor>"
    using pos by (intro int_quo_floor) simp
  obtain rest where t: "targets = (alloc_key m, \<lfloor>?x / f\<rfloor>) # rest" "exactTargets pool ms shares = Some rest"
      "is_int64 \<lfloor>?x / f\<rfloor>"
    using 1(2) q by (auto simp: Let_def split: if_splits)
  have ih: "map fst rest = map alloc_key ms \<and> (\<forall>(k, t)\<in>set rest. 0 \<le> t)
     \<and> committed rest shares \<le> of_int pool * sum_list (map fst shares) / 100"
    using 1 t q by (auto simp: Let_def)
  have "committed targets ((a, f) # shares) = of_int \<lfloor>?x / f\<rfloor> * f + committed rest shares"
    by (simp add: committed_def t)
  also have "\<dots> \<le> ?x + of_int pool * sum_list (map fst shares) / 100"
    using floor_share(1) [OF pos(3,2)] ih by linarith
  finally show ?case using ih t floor_share(3) [OF pos(3,2)] by (simp add: algebra_simps add_divide_distrib)
qed (simp_all add: committed_def)

text \<open>
  C11. The exact division of one balance never overcommits it: when the calculation accepts a
  pool, every member gets one non-negative target under its own key, the units it commits,
  counted in the base unit, sum up to at most the pool, and the pool is at most the permitted
  share of the balance less the pending demand.
\<close>
theorem CalculateSharedPoolTargetsExact_no_overcommit:
  assumes "CalculateSharedPoolTargetsExact balance pendingBase stockPct members = (targets, pool, [])"
  shows "\<exists>b p pct shares. rat_set_string (trim_space balance) = Some b
     \<and> rat_set_string (trim_space pendingBase) = Some p \<and> rat_set_string (trim_space stockPct) = Some pct
     \<and> list_all2 (\<lambda>m (a, f). memberFactor m = Some f) members shares
     \<and> map fst targets = map alloc_key members \<and> distinct (map alloc_key members)
     \<and> (\<forall>(k, t)\<in>set targets. 0 \<le> t)
     \<and> committed targets shares \<le> of_int pool \<and> of_int pool \<le> max 0 (b - p) * pct / 100"
proof -
  obtain b p pct shares where parse: "rat_set_string (trim_space balance) = Some b"
      "rat_set_string (trim_space pendingBase) = Some p" "rat_set_string (trim_space stockPct) = Some pct"
    and pct: "0 < pct" and shares: "exactMembers [] members = Some shares" "sum_list (map fst shares) = 100"
    and pool: "pool = int_quo (rat_num (max 0 (b - p) * pct / 100)) (rat_den (max 0 (b - p) * pct / 100))"
    and targets: "exactTargets pool members shares = Some targets"
    using assms
    by (auto simp: CalculateSharedPoolTargetsExact_def pool_invalid_def Let_def split: if_splits option.splits)
  let ?x = "max 0 (b - p) * pct / 100"
  have x: "0 \<le> ?x" using pct by simp
  have p: "pool = \<lfloor>?x\<rfloor>" unfolding pool by (rule int_quo_floor [OF x])
  have pos: "0 \<le> pool" unfolding p using x by (simp only: zero_le_floor)
  have le: "of_int pool \<le> ?x" unfolding p by (rule of_int_floor_le)
  note m = exactMembers_Some [OF shares(1)]
  have f: "\<forall>(a, f)\<in>set shares. 0 < a \<and> 0 < f" and len: "length members = length shares"
    using m by simp_all
  have "committed targets shares \<le> of_int pool * 100 / 100" and
    t: "map fst targets = map alloc_key members" "\<forall>(k, t)\<in>set targets. 0 \<le> t"
    using exactTargets_Some [OF targets pos len f] unfolding shares(2) by blast+
  then have c: "committed targets shares \<le> of_int pool" by simp
  have d: "distinct (map alloc_key members)"
    and l: "list_all2 (\<lambda>m (a, f). memberFactor m = Some f) members shares"
    using m by blast+
  from parse l t(1) d t(2) c le show ?thesis by (intro exI conjI)
qed

text \<open>Two products that share a balance half and half, for the witnesses.\<close>

definition sample_member :: "int \<Rightarrow> rat \<Rightarrow> SharedPoolAllocation" where
  "sample_member i pct =
     \<lparr>alloc_ItemID = i, alloc_ModelID = 1, alloc_UnitFactor = Float 1, alloc_UnitFactorExact = ''3'',
      alloc_AllocationPct = Float pct\<rparr>"

theorem CalculateSharedPoolTargetsExact_no_overcommit_witness:
  "CalculateSharedPoolTargetsExact ''21'' ''1'' ''100'' [sample_member 5 50, sample_member 6 50]
     = ([(''5:1'', 3), (''6:1'', 3)], 20, [])
   \<and> (\<exists>shares. committed [(''5:1'', 3), (''6:1'', 3)] shares \<le> of_int 20)"
proof -
  have *: "CalculateSharedPoolTargetsExact ''21'' ''1'' ''100'' [sample_member 5 50, sample_member 6 50]
     = ([(''5:1'', 3), (''6:1'', 3)], 20, [])" by code_simp
  with CalculateSharedPoolTargetsExact_no_overcommit [OF *] show ?thesis by blast
qed

text \<open>Floating-point values that are exact: small multiples of powers of two.\<close>

lemma round64_exact:
  assumes "0 \<le> m" "m < 2 ^ 53" "- 1074 \<le> e" "e \<le> 0"
  shows "round64 (of_int m * pow2 e) = Float (of_int m * pow2 e)"
proof -
  have "(of_int m :: rat) \<le> of_int (2 ^ 64)" using assms by (subst of_int_le_iff) simp
  moreover have "pow2 e \<le> 1" using pow2_mono [OF assms(4)] by (simp add: pow2_def)
  ultimately have "of_int m * pow2 e \<le> 2 ^ 64 * 1"
    using assms(1) by (intro mult_mono) simp_all
  then have "round64 (of_int m * pow2 e) = Float (round_pos (of_int m * pow2 e))"
    using assms(1) by (intro round64_small) simp_all
  with round_pos_exact [OF assms(1-3)] show ?thesis by simp
qed

lemma round64_exact_rat:
  assumes "q = of_int m / of_int (2 ^ k)" "0 \<le> m" "m < 2 ^ 53" "k \<le> 1074"
  shows "round64 q = Float q"
proof -
  have "q = of_int m * pow2 (- int k)" using assms(1) by (simp add: pow2_def)
  then show ?thesis using round64_exact [OF assms(2,3), of "- int k"] assms(4) by simp
qed

text \<open>
  The floating-point division does not keep that promise: it tolerates allocations that add
  up to 100 give or take 0.001, and here two halves of 50.00048828125 percent of a pool of 204800
  pieces commit 204802.
\<close>
theorem CalculateSharedPoolTargets_overcommits:
  "CalculateSharedPoolTargets (Float 204800) (Float 0) (Float 100)
     [sample_member 5 (102401 / 2048), sample_member 6 (102401 / 2048)]
   = ([(''5:1'', 102401), (''6:1'', 102401)], 204800, [])"
proof -
  have keys: "alloc_key (sample_member 5 q) = ''5:1''" "alloc_key (sample_member 6 q) = ''6:1''" for q
  proof -
    have "stockProductKey 5 1 = ''5:1''" "stockProductKey 6 1 = ''6:1''" by code_simp+
    then show "alloc_key (sample_member 5 q) = ''5:1''" "alloc_key (sample_member 6 q) = ''6:1''"
      by (simp_all add: alloc_key_def sample_member_def)
  qed
  have r: "round64 (102401 / 2048) = Float (102401 / 2048)" "round64 (102401 / 1024) = Float (102401 / 1024)"
    "round64 (1 / 1024) = Float (1 / 1024)" "round64 204800 = Float 204800"
    "round64 20480000 = Float 20480000" "round64 10240100 = Float 10240100" "round64 102401 = Float 102401"
    by (rule round64_exact_rat [where m = 102401 and k = 11], simp_all)
       (rule round64_exact_rat [where m = 102401 and k = 10], simp_all,
        rule round64_exact_rat [where m = 1 and k = 10], simp_all,
        rule round64_exact_rat [where m = 204800 and k = 0], simp_all,
        rule round64_exact_rat [where m = 20480000 and k = 0], simp_all,
        rule round64_exact_rat [where m = 10240100 and k = 0], simp_all,
        rule round64_exact_rat [where m = 102401 and k = 0], simp_all)
  have "round_pos (1 / 1024) \<le> round_pos (1 / 1000)" by (rule round_pos_mono) simp
  moreover have "round_pos (1 / 1024) = 1 / 1024"
    using r(3) round64_small [of "1 / 1024"] by simp
  moreover have "f_const (1 / 1000) = Float (round_pos (1 / 1000))"
    unfolding f_const_def by (rule round64_small) simp_all
  ultimately have tol: "\<not> f_lt (f_const (1 / 1000)) (Float (1 / 1024))" by simp
  have m: "alloc_UnitFactor (sample_member i q) = Float 1" "alloc_AllocationPct (sample_member i q) = Float q" for i q
    by (simp_all add: sample_member_def)
  show ?thesis
    by (simp add: CalculateSharedPoolTargets_def keys m r tol f_le_def is_nan_def is_inf_def f_sub_def
        f_max_def of_int64_def min_int64_def max_int64_def Let_def)
qed

subsection \<open>The circuit breaker\<close>

lemma half_quotient:
  assumes "0 \<le> d" "d \<le> p" "0 < p" "p < 2 ^ 52"
  shows "f_lt (Float (1 / 2)) (f_div (of_int64 d) (of_int64 p)) \<longleftrightarrow> p < 2 * d"
proof -
  let ?q = "of_int d / of_int p :: rat"
  have q: "0 \<le> ?q" "?q \<le> 1" using assms by simp_all
  have "f_div (of_int64 d) (of_int64 p) = round64 ?q"
    using assms of_int64_exact [of d] of_int64_exact [of p] by simp
  then have r: "f_div (of_int64 d) (of_int64 p) = Float (round_pos ?q)"
    using q round64_small [of ?q] by simp
  show ?thesis
  proof (cases "p < 2 * d")
    case True
    let ?h = "of_int (2 ^ 52 + 1) * pow2 (- 53)"
    have "p + 1 \<le> 2 * d" using True by simp
    then have "of_int (p + 1) \<le> (of_int (2 * d) :: rat)" by (simp only: of_int_le_iff)
    then have "(of_int p + 1) / 2 \<le> (of_int d :: rat)" by simp
    then have "(of_int p + 1) / 2 / of_int p \<le> ?q" using assms(3) by (intro divide_right_mono) simp_all
    then have "(of_int p + 1) / (2 * of_int p) \<le> ?q" by simp
    moreover have "?h \<le> (of_int p + 1) / (2 * of_int p)"
    proof -
      have "(of_int p :: rat) \<le> of_int (2 ^ 52)" using assms(4) by (subst of_int_le_iff) simp
      then show ?thesis using assms(3) by (simp add: pow2_def field_simps)
    qed
    ultimately have "round_pos ?h \<le> round_pos ?q" by (intro round_pos_mono) simp
    moreover have "round_pos ?h = ?h" by (rule round_pos_exact) simp_all
    moreover have "1 / 2 < ?h" by (simp add: pow2_def)
    ultimately show ?thesis using True r by simp
  next
    case False
    then have "2 * d \<le> p" by simp
    then have "of_int (2 * d) \<le> (of_int p :: rat)" by (simp only: of_int_le_iff)
    then have "?q \<le> of_int 1 * pow2 (- 1)" using assms(3) by (simp add: pow2_def field_simps)
    then have "round_pos ?q \<le> round_pos (of_int 1 * pow2 (- 1))" by (rule round_pos_mono)
    moreover have "round_pos (of_int 1 * pow2 (- 1)) = of_int 1 * pow2 (- 1)" by (rule round_pos_exact) simp_all
    ultimately show ?thesis using False r by (simp add: pow2_def)
  qed
qed

definition positives :: "(int \<times> int) list \<Rightarrow> int" where
  "positives pns = int (length (filter (\<lambda>(p, n). p > 0) pns))"

definition dropped :: "(int \<times> int) list \<Rightarrow> int" where
  "dropped pns = int (length (filter (\<lambda>(p, n). p > 0 \<and> n = 0) pns))"

lemma dropped_le: "0 \<le> dropped pns" "dropped pns \<le> positives pns" "positives pns \<le> int (length pns)"
proof -
  show "0 \<le> dropped pns" by (simp add: dropped_def)
  show "dropped pns \<le> positives pns" by (induction pns) (auto simp: dropped_def positives_def)
  show "positives pns \<le> int (length pns)" by (simp add: positives_def)
qed

lemma foldl_dropStep:
  assumes "\<forall>(p, n)\<in>set pns. 0 \<le> p \<and> 0 \<le> n"
    and "0 \<le> drop_previousTotal st" "drop_previousTotal st + sum_list (map fst pns) < 2 ^ 63"
    and "0 \<le> drop_nextTotal st" "drop_nextTotal st + sum_list (map snd pns) < 2 ^ 63"
  shows "foldl dropStep st pns =
     \<lparr>drop_previousPositive = drop_previousPositive st + positives pns,
      drop_droppedToZero = drop_droppedToZero st + dropped pns,
      drop_previousTotal = drop_previousTotal st + sum_list (map fst pns),
      drop_nextTotal = drop_nextTotal st + sum_list (map snd pns)\<rparr>"
  using assms
proof (induction pns arbitrary: st)
  case Nil
  then show ?case by (simp add: positives_def dropped_def)
next
  case (Cons pn pns)
  obtain p n where pn: "pn = (p, n)" by (cases pn)
  have nn: "0 \<le> p" "0 \<le> n" "0 \<le> sum_list (map fst pns)" "0 \<le> sum_list (map snd pns)"
    using Cons.prems(1) pn by (fastforce intro: sum_list_nonneg)+
  have w: "wrap64 (drop_previousTotal st + p) = drop_previousTotal st + p"
      "wrap64 (drop_nextTotal st + n) = drop_nextTotal st + n"
    using Cons.prems nn pn by (auto intro!: wrap64_id)
  define st1 where "st1 = dropStep st (p, n)"
  have st1: "drop_previousPositive st1 = drop_previousPositive st + (if p > 0 then 1 else 0)"
      "drop_droppedToZero st1 = drop_droppedToZero st + (if p > 0 \<and> n = 0 then 1 else 0)"
      "drop_previousTotal st1 = drop_previousTotal st + p" "drop_nextTotal st1 = drop_nextTotal st + n"
    by (simp_all add: st1_def dropStep_def Let_def w)
  have "foldl dropStep st1 pns =
     \<lparr>drop_previousPositive = drop_previousPositive st1 + positives pns,
      drop_droppedToZero = drop_droppedToZero st1 + dropped pns,
      drop_previousTotal = drop_previousTotal st1 + sum_list (map fst pns),
      drop_nextTotal = drop_nextTotal st1 + sum_list (map snd pns)\<rparr>"
    using Cons.prems nn pn st1 by (intro Cons.IH) simp_all
  moreover have "positives (pn # pns) = (if p > 0 then 1 else 0) + positives pns"
      "dropped (pn # pns) = (if p > 0 \<and> n = 0 then 1 else 0) + dropped pns"
    by (simp_all add: pn positives_def dropped_def)
  moreover have "foldl dropStep st (pn # pns) = foldl dropStep st1 pns" by (simp add: pn st1_def)
  ultimately show ?case by (simp add: st1 pn)
qed

text \<open>
  For non-negative targets whose sums fit in 63 bits the circuit breaker trips exactly when
  all stock of a stocked shop becomes zero, or when at least ten products had stock and more than
  half of them drop to zero; the floating-point quotient decides that comparison exactly.
\<close>
theorem ZeroDropCircuit_spec:
  assumes "length previous = length next" "previous \<noteq> []" "length previous < 2 ^ 52"
    and "\<forall>x\<in>set previous. 0 \<le> x" "\<forall>x\<in>set next. 0 \<le> x"
    and "sum_list previous < 2 ^ 63" "sum_list next < 2 ^ 63"
  shows "ZeroDropCircuit previous next =
     (if sum_list previous > 0 \<and> sum_list next = 0 then ''all_stock_became_zero''
      else if positives (zip previous next) \<ge> 10
              \<and> positives (zip previous next) < 2 * dropped (zip previous next)
      then ''mass_zero_drop'' else [])"
proof -
  let ?z = "zip previous next"
  have z: "\<forall>(p, n)\<in>set ?z. 0 \<le> p \<and> 0 \<le> n" using assms(4,5) by (auto dest: set_zip_leftD set_zip_rightD)
  have sums: "map fst ?z = previous" "map snd ?z = next" using assms(1) by simp_all
  have f: "foldl dropStep \<lparr>drop_previousPositive = 0, drop_droppedToZero = 0, drop_previousTotal = 0,
        drop_nextTotal = 0\<rparr> ?z
      = \<lparr>drop_previousPositive = positives ?z, drop_droppedToZero = dropped ?z,
         drop_previousTotal = sum_list previous, drop_nextTotal = sum_list next\<rparr>"
    using foldl_dropStep [OF z, of "\<lparr>drop_previousPositive = 0, drop_droppedToZero = 0,
        drop_previousTotal = 0, drop_nextTotal = 0\<rparr>"] assms(6,7) by (simp add: sums)
  have "positives ?z < 2 ^ 52" using dropped_le(3) [of ?z] assms(1,3) by simp
  then have "f_lt (Float (1 / 2)) (f_div (of_int64 (dropped ?z)) (of_int64 (positives ?z)))
      \<longleftrightarrow> positives ?z < 2 * dropped ?z" if "10 \<le> positives ?z"
    using that dropped_le [of ?z] by (intro half_quotient) simp_all
  then show ?thesis using assms(1,2) f by (auto simp: ZeroDropCircuit_def Let_def)
qed

theorem ZeroDropCircuit_spec_witness:
  "ZeroDropCircuit (replicate 11 1) (replicate 6 0 @ replicate 5 1) = ''mass_zero_drop''"
proof -
  have p: "positives (zip (replicate 11 1) (replicate 6 0 @ replicate 5 1)) = 11"
    "dropped (zip (replicate 11 1) (replicate 6 0 @ replicate 5 1)) = 6"
    by code_simp+
  show ?thesis
    by (subst ZeroDropCircuit_spec) (simp_all add: p sum_list_replicate)
qed

end
