(* ===== verification/SML_Store.thy ===== *)
theory SML_Store
  imports Stores Go_Strings Go_Time Go_Rat
begin

text \<open>
  The tables on which the sending of bills to SML and the ledger of reserved stock work
  (migrations 085, 087 and 092): bills, the immutable SML attempts, the reservations of a
  marketplace order and their components, the demand revisions, the jobs that recalculate
  stock and the evidence they collect. A nullable column is an option, a \<open>NUMERIC\<close> a rational,
  an instant a number of microseconds; \<open>created_at\<close> and \<open>updated_at\<close> are kept only where a query
  reads them.
\<close>

section \<open>What the code takes from outside\<close>

text \<open>
  \<open>sha256.Sum256\<close> in hexadecimal, \<open>json.Valid\<close>, the text at a path of a JSON value (\<open>#>>\<close>), the
  reading of a \<open>NUMERIC\<close> literal and its text.
\<close>

record sml_env =
  env_sha256 :: "string \<Rightarrow> string"
  env_json_valid :: "string \<Rightarrow> bool"
  env_json_path :: "string \<Rightarrow> string list \<Rightarrow> string option"
  env_numeric :: "string \<Rightarrow> rat option"
  env_numeric_text :: "rat \<Rightarrow> string"

datatype sml_error =
    ErrSMLAttemptBusy | ErrSMLAttemptExists | ErrSMLAttemptLeaseLost | ErrSMLAttemptNotReplayable
  | ErrBillNotSendable | ErrBillMutationConflict | ErrBillDependencyStale
  | IncompleteAttempt | InvalidAttemptJSON | IncompleteClaim | InvalidCompletion
  | InvalidProfileCompletion | ReservationIdentityRequired | EvidenceRequired | EvidenceIncomplete
  | EvidenceMixedFingerprints | EvidenceMissing nat | UnsupportedEvidenceRoute string
  | StockScopeMismatch | ErrNoRows | ConstraintViolation string

section \<open>Bills and SML attempts\<close>

record BillRow =
  bill_ID :: string
  bill_Status :: string
  bill_ArchivedAt :: "instant option"
  bill_CurrentAttempt :: "string option"
  bill_AttemptState :: string
  bill_MutationRevision :: int
  bill_DocNo :: "string option"
  bill_Payload :: "string option"
  bill_Response :: "string option"
  bill_ErrorMsg :: "string option"
  bill_SentAt :: "instant option"

record BillSMLAttempt =
  att_ID :: string
  att_TenantKey :: string
  att_BillID :: string
  att_DocNo :: string
  att_State :: string
  att_Route :: string
  att_PayloadBytes :: string
  att_PayloadJSON :: string
  att_PayloadHash :: string
  att_RouteSettings :: string
  att_MappingRevisions :: string
  att_UnitCatalogGeneration :: "string option"
  att_SetDefinitionHashes :: string
  att_LeaseOwner :: string
  att_LeaseUntil :: "instant option"
  att_RequestStartedAt :: "instant option"
  att_RequestEndedAt :: "instant option"
  att_ResponseBytes :: "string option"
  att_ResponseHash :: string
  att_ErrorMessage :: string
  att_CreatedBy :: "string option"

record SMLAttemptRow = BillSMLAttempt +
  row_CoreStatus :: string
  row_ProfileVersion :: string
  row_ProfileStatus :: string
  row_ProfilePayloadHash :: string
  row_ProfileRequired :: "string list"
  row_ProfileCompleted :: "string list"
  row_ProfileReconcile :: bool

text \<open>The states that the checks of migrations 085 and 092 allow.\<close>

definition attemptStates :: "string list" where
  "attemptStates = [''unattempted'', ''sending'', ''unknown'', ''sent'', ''failed_exact_retry'',
     ''stale_requires_reconciliation'']"

definition profileStatuses :: "string list" where
  "profileStatuses = ['''', ''pending'', ''complete'', ''needs_reconciliation'', ''terminal_failure'']"

record ProfileJobRow =
  pj_ID :: string
  pj_TenantKey :: string
  pj_AttemptID :: string
  pj_Version :: string
  pj_PayloadHash :: string
  pj_Status :: string
  pj_Required :: "string list"
  pj_Completed :: "string list"
  pj_CorrelationID :: string

section \<open>What an attempt depends on\<close>

record CatalogRunRow =
  run_CatalogID :: string
  run_CatalogStatus :: string
  run_ActivatedAt :: "instant option"
  run_CreatedAt :: instant

record ReadinessRow =
  rdy_Catalog :: bool
  rdy_Mapping :: bool
  rdy_Reservation :: bool

record BillItemRow =
  bi_ID :: string
  bi_BillID :: "string option"
  bi_SourceSKU :: "string option"
  bi_AliasID :: "string option"
  bi_MappingRevision :: "int option"
  bi_UnitGeneration :: "string option"
  bi_SetHash :: string

record AliasRow =
  al_ID :: string
  al_ItemCode :: string
  al_MappingRevision :: int
  al_UnitGeneration :: "string option"
  al_ConversionStatus :: string
  al_SalesEnabled :: bool

record CatalogItemRow =
  cat_ItemCode :: string
  cat_ItemType :: "int option"
  cat_SetHash :: string

record SetComponentRow =
  sc_ParentCode :: string
  sc_ItemCode :: string
  sc_DefinitionHash :: string
  sc_Active :: bool
  sc_UnitValid :: bool
  sc_Qty :: rat
  sc_UnitFactor :: rat

section \<open>The stock ledger\<close>

record ReservationRow =
  rsv_ID :: string
  rsv_TenantKey :: string
  rsv_Source :: string
  rsv_AccountKey :: string
  rsv_OrderID :: string
  rsv_SourceLineID :: string
  rsv_ExternalItemID :: string
  rsv_ExternalVariantID :: string
  rsv_BillID :: "string option"
  rsv_AliasID :: "string option"
  rsv_MappingRevision :: "int option"
  rsv_SourceQty :: rat
  rsv_Multiplier :: int
  rsv_UnitCode :: string
  rsv_UnitStand :: "rat option"
  rsv_UnitDivide :: "rat option"
  rsv_BaseQty :: "rat option"
  rsv_ItemCode :: string
  rsv_Warehouse :: string
  rsv_Location :: string
  rsv_SetHash :: string
  rsv_SourceVersion :: string
  rsv_State :: string
  rsv_StateReason :: string
  rsv_IncorporatedAt :: "instant option"
  rsv_ReleasedAt :: "instant option"

record ComponentRow =
  rc_ReservationID :: string
  rc_ItemCode :: string
  rc_Warehouse :: string
  rc_Location :: string
  rc_BaseQty :: rat
  rc_SetHash :: string

record RecalcJobRow =
  rj_ID :: string
  rj_TenantKey :: string
  rj_BillID :: "string option"
  rj_AttemptID :: "string option"
  rj_Status :: string
  rj_AttemptCount :: int
  rj_NextAttemptAt :: instant
  rj_LeaseOwner :: string
  rj_LeaseUntil :: "instant option"
  rj_ProcessSucceededAt :: "instant option"
  rj_BalanceVerifiedAt :: "instant option"
  rj_Error :: string
  rj_CreatedAt :: instant

record EvidenceRow =
  ev_ReservationID :: string
  ev_AttemptID :: string
  ev_DocNo :: string
  ev_Route :: string
  ev_Warehouse :: string
  ev_Location :: string
  ev_ItemCode :: string
  ev_ExpectedQty :: rat
  ev_GroupID :: string
  ev_ScopeQty :: rat
  ev_ActualQty :: "rat option"
  ev_Kind :: string
  ev_Status :: string
  ev_Fingerprint :: string
  ev_Hash :: string
  ev_SnapshotAt :: "instant option"
  ev_VerifiedAt :: "instant option"
  ev_RetryCount :: int
  ev_LastReason :: string

text \<open>
  A resource of the ledger is a warehouse, a location and an item; its revision is \<open>None\<close> when the
  table of demand revisions has no row for it.
\<close>

type_synonym resource = "string \<times> string \<times> string"

record SMLStore =
  db_bills :: "BillRow list"
  db_attempts :: "SMLAttemptRow list"
  db_profile_jobs :: "ProfileJobRow list"
  db_catalog_runs :: "CatalogRunRow list"
  db_readiness :: "ReadinessRow option"
  db_bill_items :: "BillItemRow list"
  db_aliases :: "AliasRow list"
  db_catalog :: "CatalogItemRow list"
  db_set_components :: "SetComponentRow list"
  db_reservations :: "ReservationRow list"
  db_components :: "ComponentRow list"
  db_demand :: "resource \<Rightarrow> int option"
  db_recalc_jobs :: "RecalcJobRow list"
  db_evidence :: "EvidenceRow list"

section \<open>Demand revisions\<close>

text \<open>
  \<open>INSERT ... ON CONFLICT DO UPDATE SET revision = revision + 1\<close> for each resource of a query
  that lists it once.
\<close>

definition bumpDemand :: "resource \<Rightarrow> (resource \<Rightarrow> int option) \<Rightarrow> (resource \<Rightarrow> int option)" where
  "bumpDemand k m = m(k \<mapsto> (case m k of None \<Rightarrow> 1 | Some r \<Rightarrow> r + 1))"

definition bumpAll :: "resource list \<Rightarrow> (resource \<Rightarrow> int option) \<Rightarrow> (resource \<Rightarrow> int option)" where
  "bumpAll ks m = foldl (\<lambda>m k. bumpDemand k m) m (remdups ks)"

definition revision :: "(resource \<Rightarrow> int option) \<Rightarrow> resource \<Rightarrow> int" where
  "revision m k = (case m k of None \<Rightarrow> 0 | Some r \<Rightarrow> r)"

lemma revision_bumpDemand: "revision (bumpDemand k m) k' = revision m k' + (if k' = k then 1 else 0)"
  by (simp add: revision_def bumpDemand_def split: option.splits)

lemma revision_foldl:
  "distinct ks \<Longrightarrow> revision (foldl (\<lambda>m k. bumpDemand k m) m ks) k = revision m k + (if k \<in> set ks then 1 else 0)"
  by (induction ks arbitrary: m) (auto simp: revision_bumpDemand)

text \<open>Each listed resource gains exactly one revision, whatever its multiplicity.\<close>

lemma revision_bumpAll: "revision (bumpAll ks m) k = revision m k + (if k \<in> set ks then 1 else 0)"
  by (simp add: bumpAll_def revision_foldl)

lemma revision_bumpAll_le: "revision m k \<le> revision (bumpAll ks m) k"
  by (simp add: revision_bumpAll)

text \<open>The components of a reservation, and the resources it demands.\<close>

definition componentsOf :: "ComponentRow list \<Rightarrow> ReservationRow \<Rightarrow> ComponentRow list" where
  "componentsOf cs r = filter (\<lambda>c. rc_ReservationID c = rsv_ID r) cs"

definition component_resource :: "ComponentRow \<Rightarrow> resource" where
  "component_resource c = (rc_Warehouse c, rc_Location c, rc_ItemCode c)"

definition own_resource :: "ReservationRow \<Rightarrow> resource" where
  "own_resource r = (rsv_Warehouse r, rsv_Location r, rsv_ItemCode r)"

definition resources_of :: "ComponentRow list \<Rightarrow> ReservationRow \<Rightarrow> resource list" where
  "resources_of cs r =
     (case componentsOf cs r of
        [] \<Rightarrow> if rsv_ItemCode r \<noteq> [] then [own_resource r] else []
      | c # rest \<Rightarrow> map component_resource (c # rest))"

definition demand_of :: "ComponentRow list \<Rightarrow> ReservationRow list \<Rightarrow> resource list" where
  "demand_of cs rs = concat (map (resources_of cs) rs)"

end
