(* ===== verification/SML_Attempt.thy ===== *)
theory SML_Attempt
  imports SML_Store "HOL-Library.Product_Lexorder"
begin

text \<open>
  The immutable SML attempt of a bill (\<open>repository/sml_attempt_repo.go\<close>): its creation, the lease
  under which one process sends it, and its completion together with the stock ledger. Every
  operation is one transaction; the row lock on the bill or on the attempt serialises them. \<open>now\<close> is
  the transaction's \<open>NOW()\<close>, \<open>go_now\<close> the process's \<open>time.Now()\<close>, and the identifiers that the
  database generates are arguments.
\<close>

section \<open>Creation\<close>

record SMLAttemptCreate =
  cre_TenantKey :: string
  cre_BillID :: string
  cre_DocNo :: string
  cre_Route :: string
  cre_PayloadBytes :: string
  cre_PayloadJSON :: string
  cre_PayloadHash :: string
  cre_RouteSettings :: string
  cre_MappingRevisions :: string
  cre_UnitCatalogGeneration :: "string option"
  cre_SetDefinitionHashes :: string
  cre_LeaseOwner :: string
  cre_LeaseDuration :: duration
  cre_CreatedBy :: "string option"
  cre_ExpectedBillRevision :: int

definition shippingSKUs :: "string list" where
  "shippingSKUs = [''__shopee_shipping__'', ''__lazada_shipping__'', ''__tiktok_shipping__'']"

definition jsonObjectOrEmpty :: "string \<Rightarrow> string" where
  "jsonObjectOrEmpty v = (if v = [] \<or> v = ''null'' then ''{}'' else v)"

definition defaultLease :: "duration \<Rightarrow> duration" where
  "defaultLease d = (if d \<le> 0 then 5 * minute else d)"

text \<open>\<open>NOW() + n * INTERVAL '1 second'\<close>, with whole seconds of the duration.\<close>

definition leaseEnd :: "instant \<Rightarrow> duration \<Rightarrow> instant" where
  "leaseEnd now d = now + (d div second) * second"

definition lockBillAttemptState :: "SMLStore \<Rightarrow> string \<Rightarrow> sml_error + BillRow" where
  "lockBillAttemptState db billID = of_option ErrBillNotSendable (lookup_by bill_ID (db_bills db) billID)"

definition updateBill :: "string \<Rightarrow> (BillRow \<Rightarrow> BillRow) \<Rightarrow> SMLStore \<Rightarrow> SMLStore" where
  "updateBill billID f db = db\<lparr>db_bills := map (\<lambda>b. if bill_ID b = billID then f b else b) (db_bills db)\<rparr>"

definition updateReservations :: "(ReservationRow \<Rightarrow> bool) \<Rightarrow> (ReservationRow \<Rightarrow> ReservationRow) \<Rightarrow> SMLStore \<Rightarrow> SMLStore"
  where
  "updateReservations p f db = db\<lparr>db_reservations := map (\<lambda>r. if p r then f r else r) (db_reservations db)\<rparr>"

lemma all_updateReservations:
  "(\<forall>r\<in>set (db_reservations (updateReservations p f db)). P r) \<longleftrightarrow>
     (\<forall>r\<in>set (db_reservations db). if p r then P (f r) else P r)"
  by (auto simp: updateReservations_def)

text \<open>The generation that the newest activation made active.\<close>

definition activeGeneration :: "SMLStore \<Rightarrow> string option" where
  "activeGeneration db =
     (case sort_by (\<lambda>r. (case run_ActivatedAt r of None \<Rightarrow> (1::int, 0) | Some t \<Rightarrow> (0, - t), - run_CreatedAt r))
             (filter (\<lambda>r. run_CatalogStatus r = ''active'') (db_catalog_runs db)) of
        [] \<Rightarrow> None
      | r # _ \<Rightarrow> Some (run_CatalogID r))"

definition isShipping :: "BillItemRow \<Rightarrow> bool" where
  "isShipping bi \<longleftrightarrow> (case bi_SourceSKU bi of None \<Rightarrow> [] | Some s \<Rightarrow> s) \<in> set shippingSKUs"

definition stockLines :: "SMLStore \<Rightarrow> string \<Rightarrow> BillItemRow list" where
  "stockLines db billID =
     filter (\<lambda>bi. bi_BillID bi = Some billID \<and> \<not> isShipping bi) (db_bill_items db)"

text \<open>A line is current when its alias and the catalogue still are what it was computed from.\<close>

definition lineCurrent :: "string \<Rightarrow> BillItemRow \<Rightarrow> AliasRow \<Rightarrow> CatalogItemRow \<Rightarrow> bool" where
  "lineCurrent expected bi a c \<longleftrightarrow>
     bi_AliasID bi = Some (al_ID a) \<and> cat_ItemCode c = al_ItemCode a
     \<and> bi_MappingRevision bi = Some (al_MappingRevision a)
     \<and> bi_UnitGeneration bi = Some expected \<and> al_UnitGeneration a = Some expected
     \<and> al_ConversionStatus a = ''ready'' \<and> al_SalesEnabled a
     \<and> bi_SetHash bi = (if (case cat_ItemType c of None \<Rightarrow> 0 | Some t \<Rightarrow> t) = 3 then cat_SetHash c else [])"

definition lockedLines :: "SMLStore \<Rightarrow> string \<Rightarrow> string \<Rightarrow> nat" where
  "lockedLines db billID expected =
     length [bi. bi \<leftarrow> stockLines db billID, a \<leftarrow> db_aliases db, c \<leftarrow> db_catalog db, lineCurrent expected bi a c]"

definition validateSMLAttemptDependencies ::
    "SMLStore \<Rightarrow> string \<Rightarrow> string option \<Rightarrow> sml_error + unit" where
  "validateSMLAttemptDependencies db billID expectedGeneration =
     (case expectedGeneration of None \<Rightarrow> Inr ()
      | Some g \<Rightarrow>
          let expected = trim_space g in
          if expected = [] then Inr ()
          else if activeGeneration db \<noteq> Some expected then Inl ErrBillDependencyStale
          else
            (case db_readiness db of None \<Rightarrow> Inl ErrBillDependencyStale
             | Some ready \<Rightarrow>
                 if \<not> rdy_Catalog ready \<or> \<not> rdy_Mapping ready \<or> \<not> rdy_Reservation ready
                 then Inl ErrBillDependencyStale
                 else if lockedLines db billID expected \<noteq> length (stockLines db billID)
                 then Inl ErrBillDependencyStale
                 else Inr ()))"

text \<open>The input with its defaults filled in.\<close>

definition completeCreate :: "sml_env \<Rightarrow> SMLAttemptCreate \<Rightarrow> SMLAttemptCreate" where
  "completeCreate env inp =
     inp\<lparr>cre_PayloadJSON := (if cre_PayloadJSON inp = [] then cre_PayloadBytes inp else cre_PayloadJSON inp),
        cre_PayloadHash := (if cre_PayloadHash inp = [] then env_sha256 env (cre_PayloadBytes inp)
                            else cre_PayloadHash inp),
        cre_LeaseDuration := defaultLease (cre_LeaseDuration inp),
        cre_RouteSettings := jsonObjectOrEmpty (cre_RouteSettings inp),
        cre_MappingRevisions := jsonObjectOrEmpty (cre_MappingRevisions inp),
        cre_SetDefinitionHashes := jsonObjectOrEmpty (cre_SetDefinitionHashes inp)\<rparr>"

definition newAttempt :: "string \<Rightarrow> instant \<Rightarrow> SMLAttemptCreate \<Rightarrow> SMLAttemptRow" where
  "newAttempt attemptID now inp =
     \<lparr>att_ID = attemptID, att_TenantKey = cre_TenantKey inp, att_BillID = cre_BillID inp,
      att_DocNo = cre_DocNo inp, att_State = ''sending'', att_Route = cre_Route inp,
      att_PayloadBytes = cre_PayloadBytes inp, att_PayloadJSON = cre_PayloadJSON inp,
      att_PayloadHash = cre_PayloadHash inp, att_RouteSettings = cre_RouteSettings inp,
      att_MappingRevisions = cre_MappingRevisions inp,
      att_UnitCatalogGeneration = cre_UnitCatalogGeneration inp,
      att_SetDefinitionHashes = cre_SetDefinitionHashes inp, att_LeaseOwner = cre_LeaseOwner inp,
      att_LeaseUntil = Some (leaseEnd now (cre_LeaseDuration inp)), att_RequestStartedAt = Some now,
      att_RequestEndedAt = None, att_ResponseBytes = None, att_ResponseHash = [], att_ErrorMessage = [],
      att_CreatedBy = cre_CreatedBy inp, row_CoreStatus = [], row_ProfileVersion = [],
      row_ProfileStatus = [], row_ProfilePayloadHash = [], row_ProfileRequired = [],
      row_ProfileCompleted = [], row_ProfileReconcile = False\<rparr>"

definition insertAttempt :: "SMLAttemptRow \<Rightarrow> SMLStore \<Rightarrow> sml_error + SMLStore" where
  "insertAttempt a db =
     (if att_ID a \<in> att_ID ` set (db_attempts db)
         \<or> (att_BillID a, att_DocNo a) \<in> (\<lambda>q. (att_BillID q, att_DocNo q)) ` set (db_attempts db)
      then Inl (ConstraintViolation ''create SML attempt'')
      else Inr (db\<lparr>db_attempts := db_attempts db @ [a]\<rparr>))"

definition CreateSMLAttempt ::
    "sml_env \<Rightarrow> string \<Rightarrow> instant \<Rightarrow> SMLStore \<Rightarrow> SMLAttemptCreate \<Rightarrow> sml_error + (SMLStore \<times> BillSMLAttempt)"
  where
  "CreateSMLAttempt env attemptID now db inp0 =
     (if cre_BillID inp0 = [] \<or> cre_DocNo inp0 = [] \<or> cre_Route inp0 = [] \<or> cre_PayloadBytes inp0 = []
         \<or> cre_LeaseOwner inp0 = [] then Inl IncompleteAttempt
      else if \<not> env_json_valid env (cre_PayloadBytes inp0)
         \<or> (cre_PayloadJSON inp0 \<noteq> [] \<and> \<not> env_json_valid env (cre_PayloadJSON inp0))
      then Inl InvalidAttemptJSON
      else
        let inp = completeCreate env inp0; billID = cre_BillID inp; a = newAttempt attemptID now inp in
        and_then (lockBillAttemptState db billID) (\<lambda>b.
          if bill_ArchivedAt b \<noteq> None \<or> bill_Status b \<notin> set [''pending'', ''failed'', ''needs_review'']
          then Inl ErrBillNotSendable
          else if (case bill_CurrentAttempt b of None \<Rightarrow> False | Some i \<Rightarrow> i \<noteq> []) then Inl ErrSMLAttemptExists
          else if bill_MutationRevision b \<noteq> cre_ExpectedBillRevision inp then Inl ErrBillMutationConflict
          else
            and_then (validateSMLAttemptDependencies db billID (cre_UnitCatalogGeneration inp)) (\<lambda>_.
            and_then (insertAttempt a db) (\<lambda>db.
              if bill_CurrentAttempt b \<noteq> None then Inl ErrSMLAttemptExists
              else Inr (updateReservations
                     (\<lambda>r. rsv_BillID r = Some billID \<and> rsv_State r = ''active'')
                     (\<lambda>r. r\<lparr>rsv_State := ''sending_sml''\<rparr>)
                     (updateBill billID (\<lambda>b. b\<lparr>bill_CurrentAttempt := Some attemptID,
                        bill_AttemptState := ''sending'', bill_DocNo := Some (cre_DocNo inp),
                        bill_Payload := Some (cre_PayloadJSON inp)\<rparr>) db),
                   BillSMLAttempt.truncate a)))))"

section \<open>The lease\<close>

definition updateAttempt :: "string \<Rightarrow> (SMLAttemptRow \<Rightarrow> SMLAttemptRow) \<Rightarrow> SMLStore \<Rightarrow> SMLStore" where
  "updateAttempt attemptID f db =
     db\<lparr>db_attempts := map (\<lambda>a. if att_ID a = attemptID then f a else a) (db_attempts db)\<rparr>"

text \<open>The row of an attempt that \<open>leaseOwner\<close> is sending.\<close>

definition leased :: "SMLStore \<Rightarrow> string \<Rightarrow> string \<Rightarrow> SMLAttemptRow option" where
  "leased db attemptID leaseOwner =
     (case lookup_by att_ID (db_attempts db) attemptID of None \<Rightarrow> None
      | Some a \<Rightarrow> if att_LeaseOwner a = leaseOwner \<and> att_State a = ''sending'' then Some a else None)"

definition ClaimExistingSMLAttempt ::
    "instant \<Rightarrow> instant \<Rightarrow> SMLStore \<Rightarrow> string \<Rightarrow> string \<Rightarrow> duration \<Rightarrow>
     sml_error + (SMLStore \<times> BillSMLAttempt option)" where
  "ClaimExistingSMLAttempt now go_now db billID leaseOwner leaseDuration =
     (if billID = [] \<or> leaseOwner = [] then Inl IncompleteClaim
      else
        and_then (lockBillAttemptState db billID) (\<lambda>b.
          case bill_CurrentAttempt b of None \<Rightarrow> Inr (db, None)
          | Some currentID \<Rightarrow>
              if currentID = [] then Inr (db, None)
              else and_then (of_option ErrNoRows (lookup_by att_ID (db_attempts db) currentID)) (\<lambda>a.
                if att_State a = ''sent'' then Inr (db, Some (BillSMLAttempt.truncate a))
                else if att_State a = ''stale_requires_reconciliation'' then Inl ErrSMLAttemptNotReplayable
                else if att_State a = ''sending'' \<and> (case att_LeaseUntil a of None \<Rightarrow> False | Some t \<Rightarrow> go_now < t)
                        \<and> att_LeaseOwner a \<noteq> leaseOwner
                then Inl ErrSMLAttemptBusy
                else
                  let claimed = a\<lparr>att_State := ''sending'', att_LeaseOwner := leaseOwner,
                        att_LeaseUntil := Some (leaseEnd now (defaultLease leaseDuration))\<rparr> in
                  Inr (updateBill billID (\<lambda>b. b\<lparr>bill_AttemptState := ''sending''\<rparr>)
                         (updateAttempt currentID (\<lambda>_. claimed) db),
                       Some (BillSMLAttempt.truncate claimed)))))"

definition RenewSMLAttemptLease ::
    "instant \<Rightarrow> SMLStore \<Rightarrow> string \<Rightarrow> string \<Rightarrow> duration \<Rightarrow> sml_error + SMLStore" where
  "RenewSMLAttemptLease now db attemptID leaseOwner leaseDuration =
     (case leased db attemptID leaseOwner of None \<Rightarrow> Inl ErrSMLAttemptLeaseLost
      | Some _ \<Rightarrow> Inr (updateAttempt attemptID
           (\<lambda>a. a\<lparr>att_LeaseUntil := Some (leaseEnd now (defaultLease leaseDuration))\<rparr>) db))"

definition FindCurrentSMLAttempt :: "SMLStore \<Rightarrow> string \<Rightarrow> sml_error + BillSMLAttempt option" where
  "FindCurrentSMLAttempt db billID =
     (if trim_space billID = [] then Inl ErrBillNotSendable
      else Inr (case lookup_by bill_ID (db_bills db) billID of None \<Rightarrow> None
        | Some b \<Rightarrow> (case bill_CurrentAttempt b of None \<Rightarrow> None
            | Some i \<Rightarrow> map_option BillSMLAttempt.truncate (lookup_by att_ID (db_attempts db) i))))"

section \<open>Completion\<close>

record SMLProfileCompletion =
  prof_Version :: string
  prof_PayloadHash :: string
  prof_CoreStatus :: string
  prof_ProfileStatus :: string
  prof_RequiredChecks :: "string list"
  prof_CompletedChecks :: "string list"
  prof_ReconciliationRequired :: bool
  prof_CorrelationID :: string

definition validCompletion :: "string \<Rightarrow> string \<Rightarrow> string \<Rightarrow> string \<Rightarrow> bool" where
  "validCompletion attemptID leaseOwner attemptState billStatus \<longleftrightarrow>
     attemptID \<noteq> [] \<and> leaseOwner \<noteq> []
     \<and> attemptState \<in> set [''unknown'', ''sent'', ''failed_exact_retry'', ''stale_requires_reconciliation'']
     \<and> billStatus \<in> set [''failed'', ''sent'', ''needs_review'']"

definition validProfile :: "SMLProfileCompletion \<Rightarrow> bool" where
  "validProfile p \<longleftrightarrow> trim_space (prof_Version p) \<noteq> []
     \<and> prof_ProfileStatus p \<in> set [''pending'', ''complete'', ''needs_reconciliation'', ''terminal_failure'']"

definition recordProfile :: "string \<Rightarrow> SMLProfileCompletion \<Rightarrow> SMLStore \<Rightarrow> SMLStore" where
  "recordProfile attemptID p = updateAttempt attemptID (\<lambda>a.
     a\<lparr>row_CoreStatus := prof_CoreStatus p, row_ProfileVersion := prof_Version p,
       row_ProfileStatus := prof_ProfileStatus p, row_ProfilePayloadHash := prof_PayloadHash p,
       row_ProfileRequired := prof_RequiredChecks p, row_ProfileCompleted := prof_CompletedChecks p,
       row_ProfileReconcile := prof_ReconciliationRequired p\<rparr>)"

text \<open>\<open>INSERT ... ON CONFLICT (sml_attempt_id, profile_version) DO NOTHING\<close>.\<close>

definition queueProfileJob ::
    "string \<Rightarrow> SMLAttemptRow \<Rightarrow> SMLProfileCompletion \<Rightarrow> SMLStore \<Rightarrow> sml_error + SMLStore" where
  "queueProfileJob jobID a p db =
     (if \<exists>j\<in>set (db_profile_jobs db). pj_AttemptID j = att_ID a \<and> pj_Version j = prof_Version p then Inr db
      else if jobID \<in> pj_ID ` set (db_profile_jobs db) then Inl (ConstraintViolation ''profile job'')
      else Inr (db\<lparr>db_profile_jobs := db_profile_jobs db @
        [\<lparr>pj_ID = jobID, pj_TenantKey = att_TenantKey a, pj_AttemptID = att_ID a, pj_Version = prof_Version p,
          pj_PayloadHash = prof_PayloadHash p, pj_Status = ''queued'', pj_Required = prof_RequiredChecks p,
          pj_Completed = prof_CompletedChecks p, pj_CorrelationID = trim_space (prof_CorrelationID p)\<rparr>]\<rparr>))"

definition applyProfile ::
    "string \<Rightarrow> SMLAttemptRow \<Rightarrow> SMLProfileCompletion option \<Rightarrow> SMLStore \<Rightarrow> sml_error + SMLStore" where
  "applyProfile jobID a profile db =
     (case profile of None \<Rightarrow> Inr db
      | Some p \<Rightarrow>
          let db = recordProfile (att_ID a) p db in
          if prof_ReconciliationRequired p then queueProfileJob jobID a p db else Inr db)"

text \<open>What a bill demands: the resources of its reservations.\<close>

definition billReservations :: "SMLStore \<Rightarrow> string \<Rightarrow> ReservationRow list" where
  "billReservations db billID = filter (\<lambda>r. rsv_BillID r = Some billID) (db_reservations db)"

definition bumpBillDemand :: "string \<Rightarrow> SMLStore \<Rightarrow> SMLStore" where
  "bumpBillDemand billID db =
     db\<lparr>db_demand := bumpAll (demand_of (db_components db) (billReservations db billID)) (db_demand db)\<rparr>"

definition orElse :: "string \<Rightarrow> string option \<Rightarrow> string" where
  "orElse v fallback = (if v \<noteq> [] then v else case fallback of None \<Rightarrow> [] | Some w \<Rightarrow> w)"

text \<open>The reservations of a document that reached SML wait for the stock recalculation, at the
  warehouse and location of the route unless they have their own.\<close>

definition awaitRecalc :: "sml_env \<Rightarrow> string \<Rightarrow> SMLAttemptRow \<Rightarrow> SMLStore \<Rightarrow> SMLStore" where
  "awaitRecalc env billID a = updateReservations
     (\<lambda>r. rsv_BillID r = Some billID \<and> rsv_State r \<in> set [''active'', ''sending_sml''])
     (\<lambda>r. r\<lparr>rsv_State := ''awaiting_stock_recalc'',
            rsv_Warehouse := orElse (rsv_Warehouse r)
              (env_json_path env (att_RouteSettings a) [''config'', ''WHCode'']),
            rsv_Location := orElse (rsv_Location r)
              (env_json_path env (att_RouteSettings a) [''config'', ''ShelfCode''])\<rparr>)"

text \<open>The components follow their reservation; a collision violates their primary key.\<close>

definition component_key :: "ComponentRow \<Rightarrow> string \<times> string \<times> string \<times> string" where
  "component_key c = (rc_ReservationID c, rc_ItemCode c, rc_Warehouse c, rc_Location c)"

definition moveComponents :: "string \<Rightarrow> SMLStore \<Rightarrow> sml_error + SMLStore" where
  "moveComponents billID db =
     (let cs = map (\<lambda>c. case lookup_by rsv_ID (billReservations db billID) (rc_ReservationID c) of
                   None \<Rightarrow> c
                 | Some r \<Rightarrow> c\<lparr>rc_Warehouse := rsv_Warehouse r, rc_Location := rsv_Location r\<rparr>)
               (db_components db) in
      if \<not> distinct (map component_key cs) then Inl (ConstraintViolation ''reservation components'')
      else Inr (db\<lparr>db_components := cs\<rparr>))"

definition queueRecalc :: "string \<Rightarrow> instant \<Rightarrow> string \<Rightarrow> SMLAttemptRow \<Rightarrow> SMLStore \<Rightarrow> sml_error + SMLStore" where
  "queueRecalc jobID now billID a db =
     (if \<exists>j\<in>set (db_recalc_jobs db). rj_AttemptID j = Some (att_ID a) then Inr db
      else if jobID \<in> rj_ID ` set (db_recalc_jobs db) then Inl (ConstraintViolation ''recalc job'')
      else Inr (db\<lparr>db_recalc_jobs := db_recalc_jobs db @
        [\<lparr>rj_ID = jobID, rj_TenantKey = att_TenantKey a, rj_BillID = Some billID,
          rj_AttemptID = Some (att_ID a), rj_Status = ''queued'', rj_AttemptCount = 0,
          rj_NextAttemptAt = now, rj_LeaseOwner = [], rj_LeaseUntil = None,
          rj_ProcessSucceededAt = None, rj_BalanceVerifiedAt = None, rj_Error = [],
          rj_CreatedAt = now\<rparr>]\<rparr>))"

definition settleLedger ::
    "sml_env \<Rightarrow> string \<Rightarrow> instant \<Rightarrow> string \<Rightarrow> SMLAttemptRow \<Rightarrow> string \<Rightarrow> SMLStore \<Rightarrow> sml_error + SMLStore" where
  "settleLedger env jobID now billID a attemptState db =
     (if attemptState = ''sent'' then
        and_then (moveComponents billID (awaitRecalc env billID a (bumpBillDemand billID db)))
          (\<lambda>db. queueRecalc jobID now billID a (bumpBillDemand billID db))
      else if attemptState = ''failed_exact_retry'' then
        Inr (updateReservations (\<lambda>r. rsv_BillID r = Some billID \<and> rsv_State r = ''sending_sml'')
               (\<lambda>r. r\<lparr>rsv_State := ''active''\<rparr>) db)
      else if attemptState = ''stale_requires_reconciliation'' then
        Inr (updateReservations (\<lambda>r. rsv_BillID r = Some billID
                 \<and> rsv_State r \<notin> set [''incorporated_in_sml'', ''released_cancelled''])
               (\<lambda>r. r\<lparr>rsv_State := ''manual_reconciliation'', rsv_StateReason := ''sml_attempt_stale''\<rparr>) db)
      else Inr db)"

text \<open>The rows of the attempt and of its bill after the completion.\<close>

definition finished ::
    "sml_env \<Rightarrow> instant \<Rightarrow> string \<Rightarrow> string \<Rightarrow> string \<Rightarrow> SMLAttemptRow \<Rightarrow> SMLAttemptRow" where
  "finished env now attemptState responseBytes errorMessage a =
     a\<lparr>att_State := attemptState, att_ResponseBytes := (if responseBytes = [] then None else Some responseBytes),
       att_ResponseHash := (if responseBytes = [] then [] else env_sha256 env responseBytes),
       att_ErrorMessage := errorMessage, att_RequestEndedAt := Some now, att_LeaseOwner := [],
       att_LeaseUntil := None\<rparr>"

definition closedBill ::
    "sml_env \<Rightarrow> instant \<Rightarrow> string \<Rightarrow> string \<Rightarrow> string \<Rightarrow> string \<Rightarrow> SMLAttemptRow \<Rightarrow> BillRow \<Rightarrow> BillRow" where
  "closedBill env now billStatus attemptState responseBytes errorMessage a b =
     b\<lparr>bill_Status := billStatus, bill_AttemptState := attemptState, bill_DocNo := Some (att_DocNo a),
       bill_Response := (if env_json_valid env responseBytes then Some responseBytes else None),
       bill_CurrentAttempt := Some (att_ID a),
       bill_ErrorMsg := (if errorMessage = [] then None else Some errorMessage),
       bill_SentAt := (if billStatus = ''sent'' then Some now else bill_SentAt b)\<rparr>"

definition FinishSMLAttempt ::
    "sml_env \<Rightarrow> string \<Rightarrow> string \<Rightarrow> instant \<Rightarrow> SMLStore \<Rightarrow> string \<Rightarrow> string \<Rightarrow> string \<Rightarrow> string \<Rightarrow> string \<Rightarrow>
     string \<Rightarrow> SMLProfileCompletion option \<Rightarrow> sml_error + SMLStore" where
  "FinishSMLAttempt env profileJobID recalcJobID now db attemptID leaseOwner attemptState billStatus
      responseBytes errorMessage profile =
     (if \<not> validCompletion attemptID leaseOwner attemptState billStatus then Inl InvalidCompletion
      else if (case profile of None \<Rightarrow> False | Some p \<Rightarrow> \<not> validProfile p) then Inl InvalidProfileCompletion
      else
        case leased db attemptID leaseOwner of None \<Rightarrow> Inl ErrSMLAttemptLeaseLost
        | Some a \<Rightarrow>
            let billID = att_BillID a;
                ended = finished env now attemptState responseBytes errorMessage a;
                db = updateAttempt attemptID (\<lambda>_. ended) db in
            (case lookup_by bill_ID (db_bills db) billID of None \<Rightarrow> Inl ErrSMLAttemptLeaseLost
             | Some b \<Rightarrow>
                 if bill_CurrentAttempt b \<noteq> Some attemptID then Inl ErrSMLAttemptLeaseLost
                 else
                   and_then (applyProfile profileJobID ended profile
                     (updateBill billID (closedBill env now billStatus attemptState responseBytes errorMessage ended) db))
                     (settleLedger env recalcJobID now billID ended attemptState)))"

end
