(* ===== verification/Leases.thy ===== *)
theory Leases
  imports Prelude
begin

text \<open>
  The contract of a leased piece of work, as a locale: a holder takes the lease, keeps it and drops
  it when the work is done, and nobody but the holder can do the latter two. Every queue of the
  program that hands its work to one process at a time interprets it on its own transactions.
\<close>

datatype ('o, 'i) lease_op = Take 'o 'i | Keep 'o 'i | Drop 'o 'i | Aside

inductive run :: "('l \<Rightarrow> 's \<Rightarrow> 's \<Rightarrow> bool) \<Rightarrow> 'l list \<Rightarrow> 's \<Rightarrow> 's \<Rightarrow> bool" for step where
  run_Nil: "run step [] s s"
| run_Cons: "step l s s' \<Longrightarrow> run step ls s' s'' \<Longrightarrow> run step (l # ls) s s''"

inductive_simps run_Nil_iff [simp]: "run step [] s s'"
inductive_simps run_Cons_iff [simp]: "run step (l # ls) s s'"

lemma run_append: "run step (ls @ ms) s s'' \<longleftrightarrow> (\<exists>s'. run step ls s s' \<and> run step ms s' s'')"
  by (induction ls arbitrary: s) auto

lemma run_invariant:
  assumes "run step ls s s'" "P s" "\<And>l s s'. P s \<Longrightarrow> step l s s' \<Longrightarrow> P s'"
  shows "P s'"
  using assms(1,2) by (induction) (auto intro: assms(3))

fun effect :: "'i \<Rightarrow> ('o, 'i) lease_op \<Rightarrow> 'o option \<Rightarrow> 'o option" where
  "effect i (Take w j) h = (if j = i then Some w else h)"
| "effect i (Keep w j) h = h"
| "effect i (Drop w j) h = (if j = i then None else h)"
| "effect i Aside h = h"

definition touches :: "'i \<Rightarrow> ('o, 'i) lease_op \<Rightarrow> bool" where
  "touches i l \<longleftrightarrow> (case l of Take w j \<Rightarrow> j = i | Drop w j \<Rightarrow> j = i | _ \<Rightarrow> False)"

text \<open>A lease held at the end was taken last by its holder, or held all along.\<close>

lemma last_take:
  assumes "foldl (\<lambda>h l. effect i l h) None ls = Some w"
  shows "\<exists>ls1 ls2. ls = ls1 @ Take w i # ls2 \<and> \<not> list_ex (touches i) ls2"
  using assms
proof (induction ls rule: rev_induct)
  case (snoc l ls)
  show ?case
  proof (cases "touches i l")
    case True
    then have "l = Take w i" using snoc.prems by (auto simp: touches_def split: lease_op.splits)
    then show ?thesis by (intro exI [of _ ls] exI [of _ "[]"]) simp
  next
    case False
    then have "effect i l h = h" for h by (cases l) (auto simp: touches_def)
    then obtain ls1 ls2 where "ls = ls1 @ Take w i # ls2" "\<not> list_ex (touches i) ls2"
      using snoc by auto
    then show ?thesis using False by (intro exI [of _ ls1] exI [of _ "ls2 @ [l]"]) simp
  qed
qed simp

locale lease =
  fixes step :: "('o, 'i) lease_op \<Rightarrow> 's \<Rightarrow> 's \<Rightarrow> bool"
    and holder :: "'s \<Rightarrow> 'i \<Rightarrow> 'o option"
    and ok :: "'s \<Rightarrow> bool"
  assumes ok_step: "ok s \<Longrightarrow> step l s s' \<Longrightarrow> ok s'"
    and take: "ok s \<Longrightarrow> step (Take w i) s s' \<Longrightarrow> holder s' = (holder s)(i := Some w)"
    and keep: "ok s \<Longrightarrow> step (Keep w i) s s' \<Longrightarrow> holder s i = Some w \<and> holder s' = holder s"
    and drop: "ok s \<Longrightarrow> step (Drop w i) s s' \<Longrightarrow> holder s i = Some w \<and> holder s' = (holder s)(i := None)"
    and aside: "ok s \<Longrightarrow> step Aside s s' \<Longrightarrow> holder s' = holder s"
begin

lemma ok_run: "run step ls s s' \<Longrightarrow> ok s \<Longrightarrow> ok s'"
  using run_invariant [of step ls s s' ok] ok_step by blast

lemma holder_step: "ok s \<Longrightarrow> step l s s' \<Longrightarrow> holder s' i = effect i l (holder s i)"
  by (cases l) (auto dest: take keep drop aside)

lemma holder_run: "run step ls s s' \<Longrightarrow> ok s \<Longrightarrow> holder s' i = foldl (\<lambda>h l. effect i l h) (holder s i) ls"
proof (induction ls arbitrary: s)
  case (Cons l ls)
  then obtain t where t: "step l s t" "run step ls t s'" by auto
  have "ok t" using Cons.prems(2) t(1) by (rule ok_step)
  then show ?case using Cons.IH [OF t(2)] holder_step [OF Cons.prems(2) t(1)] by simp
qed simp

text \<open>Work that is completed was taken by the process that completes it, and by nobody since.\<close>

lemma fenced:
  assumes "run step (ls @ [Drop w i]) s s'" "ok s" "holder s i = None"
  shows "\<exists>ls1 ls2. ls = ls1 @ Take w i # ls2 \<and> \<not> list_ex (touches i) ls2"
proof -
  obtain t where t: "run step ls s t" "step (Drop w i) t s'" using assms(1) by (auto simp: run_append)
  have "holder t i = Some w" using drop [OF ok_run [OF t(1) assms(2)] t(2)] by simp
  then show ?thesis using holder_run [OF t(1) assms(2)] assms(3) by (intro last_take) simp
qed

text \<open>And work that is kept alive, too.\<close>

lemma kept:
  assumes "run step (ls @ [Keep w i]) s s'" "ok s" "holder s i = None"
  shows "\<exists>ls1 ls2. ls = ls1 @ Take w i # ls2 \<and> \<not> list_ex (touches i) ls2"
proof -
  obtain t where t: "run step ls s t" "step (Keep w i) t s'" using assms(1) by (auto simp: run_append)
  have "holder t i = Some w" using keep [OF ok_run [OF t(1) assms(2)] t(2)] by simp
  then show ?thesis using holder_run [OF t(1) assms(2)] assms(3) by (intro last_take) simp
qed

text \<open>A process that lost its lease can neither keep nor drop it until it takes it again.\<close>

lemma lost:
  assumes "ok s" "step (Take v i) s s'" "v \<noteq> w"
  shows "\<not> step (Keep w i) s' s''" "\<not> step (Drop w i) s' s''"
proof -
  have "ok s'" "holder s' i = Some v" using assms ok_step take by auto
  then show "\<not> step (Keep w i) s' s''" "\<not> step (Drop w i) s' s''"
    using assms(3) keep drop by fastforce+
qed

end

end
