(* ===== verification/SML_AttemptSafety.thy ===== *)
theory SML_AttemptSafety
  imports SML_Attempt Leases
begin

text \<open>
  What the attempts promise over any run of the program: a bill has at most one attempt, the
  document of an attempt never changes, a sent attempt stays sent, and only the holder of the
  lease completes it.
\<close>

section \<open>Effects on bills and attempts\<close>

lemma ledger_frame [simp]:
  "db_bills (updateReservations p f db) = db_bills db"
  "db_attempts (updateReservations p f db) = db_attempts db"
  "db_bills (updateAttempt i g db) = db_bills db"
  "db_attempts (updateBill j h db) = db_attempts db"
  "db_bills (bumpBillDemand j db) = db_bills db"
  "db_attempts (bumpBillDemand j db) = db_attempts db"
  "db_bills (awaitRecalc env j a db) = db_bills db"
  "db_attempts (awaitRecalc env j a db) = db_attempts db"
  by (simp_all add: updateReservations_def updateAttempt_def updateBill_def bumpBillDemand_def awaitRecalc_def)

lemma settleLedger_frame:
  assumes "settleLedger env jobID now billID a st db = Inr db'"
  shows "db_bills db' = db_bills db \<and> db_attempts db' = db_attempts db"
  using assms
  by (auto simp: settleLedger_def moveComponents_def queueRecalc_def Let_def result_simps
      split: if_splits)

lemma applyProfile_frame:
  assumes "applyProfile jobID a profile db = Inr db'"
  shows "db_bills db' = db_bills db
    \<and> (\<exists>h. db_attempts db' = map (\<lambda>x. if att_ID x = att_ID a then h x else x) (db_attempts db)
        \<and> (\<forall>x. BillSMLAttempt.truncate (h x) = BillSMLAttempt.truncate x))"
proof (cases profile)
  case None
  then have "db' = db" using assms by (simp add: applyProfile_def)
  then show ?thesis by (intro conjI exI [of _ "\<lambda>x. x"]) simp_all
next
  case (Some p)
  let ?h = "\<lambda>a. a\<lparr>row_CoreStatus := prof_CoreStatus p, row_ProfileVersion := prof_Version p,
       row_ProfileStatus := prof_ProfileStatus p, row_ProfilePayloadHash := prof_PayloadHash p,
       row_ProfileRequired := prof_RequiredChecks p, row_ProfileCompleted := prof_CompletedChecks p,
       row_ProfileReconcile := prof_ReconciliationRequired p\<rparr>"
  have "db_bills db' = db_bills db \<and>
     db_attempts db' = map (\<lambda>x. if att_ID x = att_ID a then ?h x else x) (db_attempts db)"
    using assms Some
    by (auto simp: applyProfile_def queueProfileJob_def recordProfile_def updateAttempt_def Let_def
        split: if_splits)
  then show ?thesis by (intro conjI exI [of _ ?h]) (simp_all add: BillSMLAttempt.truncate_def)
qed

lemma truncate_fields [simp]:
  "att_ID (BillSMLAttempt.truncate a) = att_ID a"
  "att_BillID (BillSMLAttempt.truncate a) = att_BillID a"
  "att_State (BillSMLAttempt.truncate a) = att_State a"
  "att_LeaseOwner (BillSMLAttempt.truncate a) = att_LeaseOwner a"
  "att_DocNo (BillSMLAttempt.truncate a) = att_DocNo a"
  "att_Route (BillSMLAttempt.truncate a) = att_Route a"
  "att_PayloadBytes (BillSMLAttempt.truncate a) = att_PayloadBytes a"
  "att_PayloadHash (BillSMLAttempt.truncate a) = att_PayloadHash a"
  by (simp_all add: BillSMLAttempt.truncate_def)

section \<open>The invariant\<close>

definition attempts_ok :: "BillRow list \<Rightarrow> 'a BillSMLAttempt_scheme list \<Rightarrow> bool" where
  "attempts_ok bills attempts \<longleftrightarrow>
     distinct (map bill_ID bills) \<and> distinct (map att_ID attempts)
     \<and> (\<forall>a\<in>set attempts. \<exists>b\<in>set bills. bill_ID b = att_BillID a
          \<and> bill_CurrentAttempt b = Some (att_ID a) \<and> bill_AttemptState b = att_State a)
     \<and> (\<forall>b\<in>set bills. \<forall>i. bill_CurrentAttempt b = Some i \<longrightarrow>
          (\<exists>a\<in>set attempts. att_ID a = i \<and> att_BillID a = bill_ID b))
     \<and> (\<forall>a\<in>set attempts. att_ID a \<noteq> [] \<and> att_State a \<in> set attemptStates
          \<and> (att_State a = ''sending'' \<longleftrightarrow> att_LeaseOwner a \<noteq> []))"

lemma attempts_ok_truncate:
  "attempts_ok bills (map BillSMLAttempt.truncate attempts) = attempts_ok bills attempts"
proof -
  have "map (\<lambda>a. att_ID (BillSMLAttempt.truncate a)) attempts = map att_ID attempts" by simp
  then show ?thesis by (simp add: attempts_ok_def o_def)
qed

lemma attempts_ok_bill:
  assumes "attempts_ok bills attempts" "a \<in> set attempts"
  obtains b where "b \<in> set bills" "bill_ID b = att_BillID a"
    "bill_CurrentAttempt b = Some (att_ID a)" "bill_AttemptState b = att_State a"
  using assms unfolding attempts_ok_def by blast

lemma one_attempt:
  assumes ok: "attempts_ok bills attempts" and a: "a \<in> set attempts" "a' \<in> set attempts"
    and same: "att_BillID a = att_BillID a'"
  shows "a = a'"
proof -
  obtain b where b: "b \<in> set bills" "bill_ID b = att_BillID a" "bill_CurrentAttempt b = Some (att_ID a)"
    using attempts_ok_bill [OF ok a(1)] by blast
  obtain b' where b': "b' \<in> set bills" "bill_ID b' = att_BillID a'" "bill_CurrentAttempt b' = Some (att_ID a')"
    using attempts_ok_bill [OF ok a(2)] by blast
  have "b = b'" using b b' same ok by (auto simp: attempts_ok_def distinct_map inj_on_def)
  then have "att_ID a = att_ID a'" using b b' by simp
  then show ?thesis using a ok by (auto simp: attempts_ok_def distinct_map inj_on_def)
qed

text \<open>A change of one attempt together with the bill that owns it.\<close>

lemma attempts_ok_transition:
  assumes ok: "attempts_ok bills attempts" and a: "a \<in> set attempts"
    and g: "\<And>b. bill_ID (g b) = bill_ID b" "\<And>b. bill_AttemptState (g b) = att_State (f a)"
      "\<And>b. bill_CurrentAttempt b = Some (att_ID a) \<Longrightarrow> bill_CurrentAttempt (g b) = Some (att_ID a)"
    and f: "att_ID (f a) = att_ID a" "att_BillID (f a) = att_BillID a"
      "att_State (f a) \<in> set attemptStates" "att_State (f a) = ''sending'' \<longleftrightarrow> att_LeaseOwner (f a) \<noteq> []"
  shows "attempts_ok (map (\<lambda>b. if bill_ID b = att_BillID a then g b else b) bills)
    (map (\<lambda>x. if att_ID x = att_ID a then f x else x) attempts)" (is "attempts_ok ?B ?A")
proof -
  obtain b0 where b0: "b0 \<in> set bills" "bill_ID b0 = att_BillID a" "bill_CurrentAttempt b0 = Some (att_ID a)"
    using attempts_ok_bill [OF ok a] by blast
  have ids: "map bill_ID ?B = map bill_ID bills" by (simp add: g)
  have only: "x = a" if "x \<in> set attempts" "att_ID x = att_ID a" for x
    using that a ok by (auto simp: attempts_ok_def distinct_map inj_on_def)
  have onlyb: "b = b0" if "b \<in> set bills" "bill_ID b = att_BillID a" for b
    using that b0 ok by (auto simp: attempts_ok_def distinct_map inj_on_def)
  have aids: "map att_ID ?A = map att_ID attempts" using f(1) only by (auto intro!: map_cong)
  have own: "\<exists>b\<in>set ?B. bill_ID b = att_BillID x \<and> bill_CurrentAttempt b = Some (att_ID x)
       \<and> bill_AttemptState b = att_State x" if x: "x \<in> set ?A" for x
  proof -
    obtain y where y: "y \<in> set attempts" "x = (if att_ID y = att_ID a then f y else y)" using x by auto
    show ?thesis
    proof (cases "att_ID y = att_ID a")
      case True
      have "y = a" by (rule only [OF y(1) True])
      then have "x = f a" using y by simp
      moreover have "g b0 \<in> set ?B" using b0 by (auto intro!: rev_image_eqI)
      ultimately show ?thesis using g b0 f by (intro bexI [of _ "g b0"]) simp_all
    next
      case False
      then have xy: "x = y" using y by simp
      obtain b where b: "b \<in> set bills" "bill_ID b = att_BillID y" "bill_CurrentAttempt b = Some (att_ID y)"
        "bill_AttemptState b = att_State y" using attempts_ok_bill [OF ok y(1)] by blast
      have "bill_ID b \<noteq> att_BillID a" using onlyb [OF b(1)] b(3) b0(3) False by auto
      then have "b \<in> set ?B" using b(1) by (auto intro!: rev_image_eqI)
      then show ?thesis using b xy by blast
    qed
  qed
  have cur: "\<exists>x\<in>set ?A. att_ID x = i \<and> att_BillID x = bill_ID b"
    if b: "b \<in> set ?B" and i: "bill_CurrentAttempt b = Some i" for b i
  proof -
    obtain c where c: "c \<in> set bills" "b = (if bill_ID c = att_BillID a then g c else c)" using b by auto
    have "\<exists>y\<in>set attempts. att_ID y = i \<and> att_BillID y = bill_ID b"
    proof (cases "bill_ID c = att_BillID a")
      case True
      then have "b = g b0" "i = att_ID a" using onlyb c b0(3) i g(3) by auto
      then show ?thesis using a b0(2) g(1) by auto
    next
      case False
      then show ?thesis using c i ok by (auto simp: attempts_ok_def)
    qed
    then obtain y where y: "y \<in> set attempts" "att_ID y = i" "att_BillID y = bill_ID b" by blast
    let ?x = "if att_ID y = att_ID a then f y else y"
    have "att_ID ?x = i \<and> att_BillID ?x = bill_ID b"
    proof (cases "att_ID y = att_ID a")
      case True
      then have "y = a" by (rule only [OF y(1)])
      then show ?thesis using y f by simp
    qed (use y in simp)
    moreover have "?x \<in> set ?A" using y(1) by (auto intro!: rev_image_eqI)
    ultimately show ?thesis by blast
  qed
  have st: "att_ID x \<noteq> [] \<and> att_State x \<in> set attemptStates \<and> (att_State x = ''sending'' \<longleftrightarrow> att_LeaseOwner x \<noteq> [])"
    if x: "x \<in> set ?A" for x
  proof -
    obtain y where y: "y \<in> set attempts" "x = (if att_ID y = att_ID a then f y else y)" using x by auto
    have "att_ID y \<noteq> [] \<and> att_State y \<in> set attemptStates \<and> (att_State y = ''sending'' \<longleftrightarrow> att_LeaseOwner y \<noteq> [])"
      using ok y(1) unfolding attempts_ok_def by blast
    then show ?thesis
    proof (cases "att_ID y = att_ID a")
      case True
      then have "y = a" by (rule only [OF y(1)])
      then show ?thesis using y(2) f \<open>att_ID y \<noteq> [] \<and> _\<close> by simp
    qed (use y(2) in simp)
  qed
  show ?thesis
    unfolding attempts_ok_def ids aids using ok own cur st by (auto simp: attempts_ok_def)
qed

section \<open>The operations\<close>

lemma lock_Inr: "lockBillAttemptState db billID = Inr b \<Longrightarrow> b \<in> set (db_bills db) \<and> bill_ID b = billID"
  by (auto simp: lockBillAttemptState_def result_simps dest: lookup_by_Some)

lemma leased_Some:
  "leased db i owner = Some a \<Longrightarrow> a \<in> set (db_attempts db) \<and> att_ID a = i
     \<and> att_LeaseOwner a = owner \<and> att_State a = ''sending''"
  by (auto simp: leased_def dest: lookup_by_Some split: option.splits if_splits)

lemma CreateSMLAttempt_Inr:
  assumes "CreateSMLAttempt env attemptID now db inp = Inr (db', a)"
  shows "\<exists>b\<in>set (db_bills db). \<exists>row. bill_ID b = cre_BillID inp \<and> bill_CurrentAttempt b = None
     \<and> db_attempts db' = db_attempts db @ [row] \<and> a = BillSMLAttempt.truncate row
     \<and> att_ID row = attemptID \<and> att_BillID row = cre_BillID inp \<and> att_State row = ''sending''
     \<and> att_LeaseOwner row = cre_LeaseOwner inp \<and> cre_LeaseOwner inp \<noteq> []
     \<and> att_ID row \<notin> att_ID ` set (db_attempts db)
     \<and> (\<exists>docNo payload. db_bills db' = map (\<lambda>b. if bill_ID b = cre_BillID inp
          then b\<lparr>bill_CurrentAttempt := Some attemptID, bill_AttemptState := ''sending'',
                 bill_DocNo := docNo, bill_Payload := payload\<rparr> else b) (db_bills db))"
proof -
  obtain b where b: "lockBillAttemptState db (cre_BillID inp) = Inr b" and none: "bill_CurrentAttempt b = None"
    and fresh: "attemptID \<notin> att_ID ` set (db_attempts db)" and owner: "cre_LeaseOwner inp \<noteq> []"
    and db': "a = BillSMLAttempt.truncate (newAttempt attemptID now (completeCreate env inp))"
      "db_attempts db' = db_attempts db @ [newAttempt attemptID now (completeCreate env inp)]"
      "db_bills db' = map (\<lambda>b. if bill_ID b = cre_BillID inp
          then b\<lparr>bill_CurrentAttempt := Some attemptID, bill_AttemptState := ''sending'',
                 bill_DocNo := Some (cre_DocNo (completeCreate env inp)),
                 bill_Payload := Some (cre_PayloadJSON (completeCreate env inp))\<rparr> else b) (db_bills db)"
    using assms
    by (auto simp: CreateSMLAttempt_def insertAttempt_def Let_def result_simps updateBill_def
        newAttempt_def completeCreate_def split: if_splits)
  have "att_BillID (newAttempt attemptID now (completeCreate env inp)) = cre_BillID inp"
    by (simp add: newAttempt_def completeCreate_def)
  then show ?thesis using lock_Inr [OF b] none fresh owner db'
    by (intro bexI [of _ b] exI [of _ "newAttempt attemptID now (completeCreate env inp)"])
      (auto simp: newAttempt_def completeCreate_def)
qed

definition claimed :: "instant \<Rightarrow> string \<Rightarrow> duration \<Rightarrow> SMLAttemptRow \<Rightarrow> SMLAttemptRow" where
  "claimed now owner d a = a\<lparr>att_State := ''sending'', att_LeaseOwner := owner,
     att_LeaseUntil := Some (leaseEnd now (defaultLease d))\<rparr>"

lemma ClaimExistingSMLAttempt_Inr:
  assumes "ClaimExistingSMLAttempt now go_now db billID owner d = Inr (db', r)"
  shows "(db' = db \<and> (\<forall>a. r = Some a \<longrightarrow> att_State a = ''sent''))
    \<or> (\<exists>b\<in>set (db_bills db). \<exists>a\<in>set (db_attempts db). bill_ID b = billID
        \<and> bill_CurrentAttempt b = Some (att_ID a) \<and> owner \<noteq> []
        \<and> att_State a \<notin> {''sent'', ''stale_requires_reconciliation''}
        \<and> r = Some (BillSMLAttempt.truncate (claimed now owner d a))
        \<and> db' = updateBill billID (\<lambda>b. b\<lparr>bill_AttemptState := ''sending''\<rparr>)
                   (updateAttempt (att_ID a) (\<lambda>_. claimed now owner d a) db))"
proof -
  obtain b where b: "lockBillAttemptState db billID = Inr b" and owner: "owner \<noteq> []"
    using assms by (auto simp: ClaimExistingSMLAttempt_def result_simps split: if_splits)
  show ?thesis
  proof (cases "bill_CurrentAttempt b")
    case None
    then show ?thesis using assms b owner
      by (auto simp: ClaimExistingSMLAttempt_def lockBillAttemptState_def result_simps split: if_splits)
  next
    case (Some i)
    define row where "row = lookup_by att_ID (db_attempts db) i"
    have step: "(if i = [] then Inr (db, None) else and_then (of_option ErrNoRows row) (\<lambda>a.
        if att_State a = ''sent'' then Inr (db, Some (BillSMLAttempt.truncate a))
        else if att_State a = ''stale_requires_reconciliation'' then Inl ErrSMLAttemptNotReplayable
        else if att_State a = ''sending'' \<and> (case att_LeaseUntil a of None \<Rightarrow> False | Some t \<Rightarrow> go_now < t)
              \<and> att_LeaseOwner a \<noteq> owner then Inl ErrSMLAttemptBusy
        else Inr (updateBill billID (\<lambda>b. b\<lparr>bill_AttemptState := ''sending''\<rparr>)
               (updateAttempt i (\<lambda>_. claimed now owner d a) db),
             Some (BillSMLAttempt.truncate (claimed now owner d a))))) = Inr (db', r)"
      using assms b Some owner
      unfolding ClaimExistingSMLAttempt_def claimed_def row_def Let_def
      by (simp split: if_split_asm)
    show ?thesis
    proof (cases "i = []")
      case True
      then show ?thesis using step by simp
    next
      case False
      then obtain a where a: "row = Some a" using step by (cases row) simp_all
      have mem: "a \<in> set (db_attempts db)" "att_ID a = i"
        using lookup_by_Some [of att_ID "db_attempts db" i a] a by (simp_all add: row_def)
      show ?thesis
      proof (cases "att_State a = ''sent''")
        case True
        then have "db' = db" "r = Some (BillSMLAttempt.truncate a)" using step a False by simp_all
        then show ?thesis using True by (intro disjI1 conjI allI impI) auto
      next
        case unsent: False
        then have *: "att_State a \<noteq> ''stale_requires_reconciliation''"
          "db' = updateBill billID (\<lambda>b. b\<lparr>bill_AttemptState := ''sending''\<rparr>)
               (updateAttempt i (\<lambda>_. claimed now owner d a) db)"
          "r = Some (BillSMLAttempt.truncate (claimed now owner d a))"
          using step a False by (simp_all split: if_split_asm)
        have "b \<in> set (db_bills db)" "bill_ID b = billID" using lock_Inr [OF b] by simp_all
        then show ?thesis using * unsent mem Some owner
          by (intro disjI2 bexI [of _ b] bexI [of _ a]) simp_all
      qed
    qed
  qed
qed

lemma RenewSMLAttemptLease_Inr:
  assumes "RenewSMLAttemptLease now db i owner d = Inr db'"
  shows "\<exists>a. leased db i owner = Some a \<and> db' = updateAttempt i
     (\<lambda>a. a\<lparr>att_LeaseUntil := Some (leaseEnd now (defaultLease d))\<rparr>) db"
  using assms by (simp add: RenewSMLAttemptLease_def split: option.splits)

lemma FinishSMLAttempt_Inr:
  assumes "FinishSMLAttempt env pj rj now db i owner st bst resp msg profile = Inr db'"
  shows "validCompletion i owner st bst \<and> (\<exists>a g. leased db i owner = Some a
     \<and> db_bills db' = map (\<lambda>b. if bill_ID b = att_BillID a then g b else b) (db_bills db)
     \<and> (\<forall>b. bill_ID (g b) = bill_ID b \<and> bill_AttemptState (g b) = st \<and> bill_CurrentAttempt (g b) = Some i)
     \<and> map BillSMLAttempt.truncate (db_attempts db') = map BillSMLAttempt.truncate
          (map (\<lambda>x. if att_ID x = i then finished env now st resp msg a else x) (db_attempts db)))"
proof -
  obtain a b where valid: "validCompletion i owner st bst" and a: "leased db i owner = Some a"
    and rest: "and_then (applyProfile pj (finished env now st resp msg a) profile
        (updateBill (att_BillID a) (closedBill env now bst st resp msg (finished env now st resp msg a))
          (updateAttempt i (\<lambda>_. finished env now st resp msg a) db)))
      (settleLedger env rj now (att_BillID a) (finished env now st resp msg a) st) = Inr db'"
    using assms unfolding FinishSMLAttempt_def Let_def
    by (simp split: if_split_asm option.splits)
  let ?e = "finished env now st resp msg a"
  let ?g = "closedBill env now bst st resp msg ?e"
  let ?db1 = "updateBill (att_BillID a) ?g (updateAttempt i (\<lambda>_. ?e) db)"
  have e: "att_ID ?e = i" using leased_Some [OF a] by (simp add: finished_def)
  obtain db2 where p: "applyProfile pj ?e profile ?db1 = Inr db2"
    and l: "settleLedger env rj now (att_BillID a) ?e st db2 = Inr db'"
    using rest by (auto simp: result_simps)
  obtain h where h: "db_attempts db2 = map (\<lambda>x. if att_ID x = i then h x else x) (db_attempts ?db1)"
      "\<forall>x. BillSMLAttempt.truncate (h x) = BillSMLAttempt.truncate x"
    using applyProfile_frame [OF p] e by auto
  have bills: "db_bills db' = map (\<lambda>b. if bill_ID b = att_BillID a then ?g b else b) (db_bills db)"
    using settleLedger_frame [OF l] applyProfile_frame [OF p] by (simp add: updateBill_def updateAttempt_def)
  have "map BillSMLAttempt.truncate (db_attempts db2) = map BillSMLAttempt.truncate (db_attempts ?db1)"
    using h by simp
  then have "map BillSMLAttempt.truncate (db_attempts db') = map BillSMLAttempt.truncate
      (map (\<lambda>x. if att_ID x = i then ?e else x) (db_attempts db))"
    using settleLedger_frame [OF l] by (simp add: updateBill_def updateAttempt_def)
  with valid a bills show ?thesis
    by (intro conjI exI [of _ a] exI [of _ ?g]) (simp_all add: closedBill_def e)
qed

section \<open>Runs of the program\<close>

text \<open>
  What the rest of the program may do: anything but change the attempts (other than their
  profile columns), the link of a bill to its attempt, or bring in bills that have one. No other
  code writes \<open>current_sml_attempt_id\<close> or \<open>sml_attempt_state\<close>, and the foreign key keeps a bill with
  an attempt from being deleted.
\<close>

definition same_link :: "BillRow \<Rightarrow> BillRow \<Rightarrow> bool" where
  "same_link b b' \<longleftrightarrow> bill_ID b' = bill_ID b \<and> bill_CurrentAttempt b' = bill_CurrentAttempt b
     \<and> bill_AttemptState b' = bill_AttemptState b"

definition outside :: "SMLStore \<Rightarrow> SMLStore \<Rightarrow> bool" where
  "outside db db' \<longleftrightarrow>
     map BillSMLAttempt.truncate (db_attempts db') = map BillSMLAttempt.truncate (db_attempts db)
     \<and> distinct (map bill_ID (db_bills db'))
     \<and> list_all (\<lambda>b'. bill_CurrentAttempt b' = None \<or> list_ex (\<lambda>b. same_link b b') (db_bills db)) (db_bills db')
     \<and> list_all (\<lambda>b. bill_CurrentAttempt b = None \<or> list_ex (same_link b) (db_bills db')) (db_bills db)"

inductive sml_step :: "(string, string) lease_op \<Rightarrow> SMLStore \<Rightarrow> SMLStore \<Rightarrow> bool" where
  step_create: "CreateSMLAttempt env i now db inp = Inr (db', a) \<Longrightarrow> i \<noteq> [] \<Longrightarrow>
     sml_step (Take (cre_LeaseOwner inp) i) db db'"
| step_claim: "ClaimExistingSMLAttempt now go_now db billID owner d = Inr (db', Some a) \<Longrightarrow>
     att_State a = ''sending'' \<Longrightarrow> sml_step (Take owner (att_ID a)) db db'"
| step_claim_nothing: "ClaimExistingSMLAttempt now go_now db billID owner d = Inr (db', r) \<Longrightarrow>
     (\<forall>a. r = Some a \<longrightarrow> att_State a \<noteq> ''sending'') \<Longrightarrow> sml_step Aside db db'"
| step_renew: "RenewSMLAttemptLease now db i owner d = Inr db' \<Longrightarrow> owner \<noteq> [] \<Longrightarrow>
     sml_step (Keep owner i) db db'"
| step_finish: "FinishSMLAttempt env pj rj now db i owner st bst resp msg profile = Inr db' \<Longrightarrow>
     sml_step (Drop owner i) db db'"
| step_outside: "outside db db' \<Longrightarrow> sml_step Aside db db'"

definition store_ok :: "SMLStore \<Rightarrow> bool" where
  "store_ok db \<longleftrightarrow> attempts_ok (db_bills db) (db_attempts db)"

lemma only_id:
  assumes "store_ok db" "a \<in> set (db_attempts db)" "x \<in> set (db_attempts db)" "att_ID x = att_ID a"
  shows "x = a"
  using assms by (auto simp: store_ok_def attempts_ok_def distinct_map inj_on_def)

lemma store_ok_outside:
  assumes "store_ok db" "outside db db'"
  shows "store_ok db'"
proof -
  let ?A = "map BillSMLAttempt.truncate (db_attempts db)"
  have o: "map BillSMLAttempt.truncate (db_attempts db') = ?A" "distinct (map bill_ID (db_bills db'))"
    "\<forall>b'\<in>set (db_bills db'). bill_CurrentAttempt b' = None \<or> (\<exists>b\<in>set (db_bills db). same_link b b')"
    "\<forall>b\<in>set (db_bills db). bill_CurrentAttempt b = None \<or> (\<exists>b'\<in>set (db_bills db'). same_link b b')"
    using assms(2) by (auto simp: outside_def list_all_iff list_ex_iff)
  have ok: "attempts_ok (db_bills db) ?A" using assms(1) by (simp add: store_ok_def attempts_ok_truncate)
  have "\<exists>b'\<in>set (db_bills db'). bill_ID b' = att_BillID a \<and> bill_CurrentAttempt b' = Some (att_ID a)
      \<and> bill_AttemptState b' = att_State a" if "a \<in> set ?A" for a
  proof -
    obtain b where b: "b \<in> set (db_bills db)" "bill_ID b = att_BillID a" "bill_CurrentAttempt b = Some (att_ID a)"
      "bill_AttemptState b = att_State a" using attempts_ok_bill [OF ok \<open>a \<in> set ?A\<close>] by blast
    then obtain b' where "b' \<in> set (db_bills db')" "same_link b b'" using o(4) by fastforce
    then show ?thesis using b by (auto simp: same_link_def)
  qed
  moreover have "\<exists>a\<in>set ?A. att_ID a = i \<and> att_BillID a = bill_ID b'"
    if b': "b' \<in> set (db_bills db')" "bill_CurrentAttempt b' = Some i" for b' i
  proof -
    obtain b where b: "b \<in> set (db_bills db)" "same_link b b'" using o(3) b' by fastforce
    then have "bill_CurrentAttempt b = Some i" "bill_ID b' = bill_ID b" using b'(2) by (auto simp: same_link_def)
    then show ?thesis using ok b(1) unfolding attempts_ok_def by metis
  qed
  ultimately have "attempts_ok (db_bills db') ?A" using o(2) ok unfolding attempts_ok_def by blast
  then show ?thesis using o(1) attempts_ok_truncate [of "db_bills db'" "db_attempts db'"]
    by (simp only: store_ok_def)
qed

lemma store_ok_create:
  assumes ok: "store_ok db" and c: "CreateSMLAttempt env i now db inp = Inr (db', a)" and i: "i \<noteq> []"
  shows "store_ok db'"
proof -
  obtain b row docNo payload where b: "b \<in> set (db_bills db)" "bill_ID b = cre_BillID inp"
      "bill_CurrentAttempt b = None"
    and row: "db_attempts db' = db_attempts db @ [row]" "att_ID row = i" "att_BillID row = cre_BillID inp"
      "att_State row = ''sending''" "att_LeaseOwner row = cre_LeaseOwner inp" "cre_LeaseOwner inp \<noteq> []"
      "att_ID row \<notin> att_ID ` set (db_attempts db)"
    and bills: "db_bills db' = map (\<lambda>b. if bill_ID b = cre_BillID inp
          then b\<lparr>bill_CurrentAttempt := Some i, bill_AttemptState := ''sending'',
                 bill_DocNo := docNo, bill_Payload := payload\<rparr> else b) (db_bills db)"
    using CreateSMLAttempt_Inr [OF c] by blast
  let ?g = "\<lambda>b. b\<lparr>bill_CurrentAttempt := Some i, bill_AttemptState := ''sending'',
                 bill_DocNo := docNo, bill_Payload := payload\<rparr>"
  have okd: "attempts_ok (db_bills db) (db_attempts db)" using ok by (simp add: store_ok_def)
  have uniq: "c = b" if "c \<in> set (db_bills db)" "bill_ID c = cre_BillID inp" for c
    using that b okd by (auto simp: attempts_ok_def distinct_map inj_on_def)
  have old: "att_BillID x \<noteq> cre_BillID inp" if x: "x \<in> set (db_attempts db)" for x
  proof
    assume "att_BillID x = cre_BillID inp"
    moreover obtain c where "c \<in> set (db_bills db)" "bill_ID c = att_BillID x"
        "bill_CurrentAttempt c = Some (att_ID x)" using attempts_ok_bill [OF okd x] by blast
    ultimately show False using uniq b(3) by auto
  qed
  have ids: "map bill_ID (db_bills db') = map bill_ID (db_bills db)" by (simp add: bills)
  have mem: "c \<in> set (db_bills db')" if "c \<in> set (db_bills db)" "bill_ID c \<noteq> cre_BillID inp" for c
    using that by (auto simp: bills intro!: rev_image_eqI)
  have gb: "?g b \<in> set (db_bills db')" using b by (auto simp: bills intro!: rev_image_eqI)
  have own: "\<exists>c\<in>set (db_bills db'). bill_ID c = att_BillID x \<and> bill_CurrentAttempt c = Some (att_ID x)
      \<and> bill_AttemptState c = att_State x" if x: "x \<in> set (db_attempts db')" for x
  proof (cases "x = row")
    case True
    then show ?thesis using gb row b by (intro bexI [of _ "?g b"]) simp_all
  next
    case False
    then have m: "x \<in> set (db_attempts db)" using x row(1) by simp
    then show ?thesis using attempts_ok_bill [OF okd m] old [OF m] mem by metis
  qed
  have cur: "\<exists>x\<in>set (db_attempts db'). att_ID x = j \<and> att_BillID x = bill_ID c"
    if c: "c \<in> set (db_bills db')" "bill_CurrentAttempt c = Some j" for c j
  proof (cases "bill_ID c = cre_BillID inp")
    case True
    then have "j = i" using c by (auto simp: bills split: if_splits)
    then show ?thesis using row True by simp
  next
    case False
    then have "c \<in> set (db_bills db)" using c(1) by (auto simp: bills split: if_splits)
    then show ?thesis using okd c(2) row(1) unfolding attempts_ok_def by fastforce
  qed
  have "att_ID x \<noteq> [] \<and> att_State x \<in> set attemptStates \<and> (att_State x = ''sending'' \<longleftrightarrow> att_LeaseOwner x \<noteq> [])"
    if x: "x \<in> set (db_attempts db')" for x
    using x row i okd by (auto simp: attempts_ok_def attemptStates_def)
  then show ?thesis
    unfolding store_ok_def attempts_ok_def ids using okd row own cur by (auto simp: attempts_ok_def)
qed

text \<open>The invariant reads only the identity, the bill, the state and the owner of an attempt.\<close>

definition attempt_key :: "'a BillSMLAttempt_scheme \<Rightarrow> string \<times> string \<times> string \<times> string" where
  "attempt_key a = (att_ID a, att_BillID a, att_State a, att_LeaseOwner a)"

lemma attempts_ok_cong:
  assumes "map attempt_key as = map attempt_key bs" "attempts_ok bills as"
  shows "attempts_ok bills bs"
proof -
  have ids: "map att_ID as = map att_ID bs"
    using arg_cong [OF assms(1), of "map fst"] by (simp add: attempt_key_def o_def)
  have fwd: "\<exists>y\<in>set bs. attempt_key y = attempt_key x" if "x \<in> set as" for x
    using that arg_cong [OF assms(1), of set] by (metis (no_types, lifting) image_iff list.set_map)
  have bwd: "\<exists>x\<in>set as. attempt_key x = attempt_key y" if "y \<in> set bs" for y
    using that arg_cong [OF assms(1), of set] by (metis (no_types, lifting) image_iff list.set_map)
  show ?thesis
    unfolding attempts_ok_def
  proof (intro conjI ballI allI impI)
    show "distinct (map bill_ID bills)" "distinct (map att_ID bs)"
      using assms(2) ids by (simp_all add: attempts_ok_def)
  next
    fix y assume "y \<in> set bs"
    then obtain x where "x \<in> set as" "attempt_key x = attempt_key y" using bwd by blast
    then show "\<exists>b\<in>set bills. bill_ID b = att_BillID y \<and> bill_CurrentAttempt b = Some (att_ID y)
        \<and> bill_AttemptState b = att_State y"
      using assms(2) unfolding attempts_ok_def attempt_key_def by fastforce
  next
    fix b i assume "b \<in> set bills" "bill_CurrentAttempt b = Some i"
    then obtain x where "x \<in> set as" "att_ID x = i" "att_BillID x = bill_ID b"
      using assms(2) unfolding attempts_ok_def by blast
    then show "\<exists>y\<in>set bs. att_ID y = i \<and> att_BillID y = bill_ID b"
      using fwd unfolding attempt_key_def by fastforce
  next
    fix y assume "y \<in> set bs"
    then obtain x where x: "x \<in> set as" "attempt_key x = attempt_key y" using bwd by blast
    then have "att_ID x \<noteq> [] \<and> att_State x \<in> set attemptStates \<and> (att_State x = ''sending'' \<longleftrightarrow> att_LeaseOwner x \<noteq> [])"
      using assms(2) unfolding attempts_ok_def by blast
    then show "att_ID y \<noteq> []" "att_State y \<in> set attemptStates"
      "att_State y = ''sending'' \<longleftrightarrow> att_LeaseOwner y \<noteq> []"
      using x(2) by (simp_all add: attempt_key_def)
  qed
qed

lemma store_ok_claim:
  assumes "store_ok db" "ClaimExistingSMLAttempt now go_now db billID owner d = Inr (db', r)"
  shows "store_ok db'"
  using ClaimExistingSMLAttempt_Inr [OF assms(2)]
proof
  assume "db' = db \<and> (\<forall>a. r = Some a \<longrightarrow> att_State a = ''sent'')"
  then show ?thesis using assms(1) by simp
next
  assume "\<exists>b\<in>set (db_bills db). \<exists>a\<in>set (db_attempts db). bill_ID b = billID
        \<and> bill_CurrentAttempt b = Some (att_ID a) \<and> owner \<noteq> []
        \<and> att_State a \<notin> {''sent'', ''stale_requires_reconciliation''}
        \<and> r = Some (BillSMLAttempt.truncate (claimed now owner d a))
        \<and> db' = updateBill billID (\<lambda>b. b\<lparr>bill_AttemptState := ''sending''\<rparr>)
                   (updateAttempt (att_ID a) (\<lambda>_. claimed now owner d a) db)"
  then obtain b a where b: "b \<in> set (db_bills db)" "bill_ID b = billID" "bill_CurrentAttempt b = Some (att_ID a)"
    and a: "a \<in> set (db_attempts db)" and o: "owner \<noteq> []"
    and db': "db' = updateBill billID (\<lambda>b. b\<lparr>bill_AttemptState := ''sending''\<rparr>)
                   (updateAttempt (att_ID a) (\<lambda>_. claimed now owner d a) db)" by blast
  have ok: "attempts_ok (db_bills db) (db_attempts db)" using assms(1) by (simp add: store_ok_def)
  obtain x where "x \<in> set (db_attempts db)" "att_ID x = att_ID a" "att_BillID x = bill_ID b"
    using ok b(1,3) unfolding attempts_ok_def by blast
  then have bill: "billID = att_BillID a" using only_id [OF assms(1) a] b(2) by metis
  have "attempts_ok (map (\<lambda>b. if bill_ID b = att_BillID a then b\<lparr>bill_AttemptState := ''sending''\<rparr> else b) (db_bills db))
      (map (\<lambda>x. if att_ID x = att_ID a then (\<lambda>_. claimed now owner d a) x else x) (db_attempts db))"
    using o by (intro attempts_ok_transition [OF ok a]) (simp_all add: claimed_def attemptStates_def)
  then show ?thesis by (simp add: store_ok_def db' bill updateBill_def updateAttempt_def)
qed

lemma store_ok_renew:
  assumes "store_ok db" "RenewSMLAttemptLease now db i owner d = Inr db'"
  shows "store_ok db'"
proof -
  have db': "db' = updateAttempt i (\<lambda>a. a\<lparr>att_LeaseUntil := Some (leaseEnd now (defaultLease d))\<rparr>) db"
    using RenewSMLAttemptLease_Inr [OF assms(2)] by blast
  have "map attempt_key (db_attempts db) = map attempt_key (db_attempts db')"
    by (simp add: db' updateAttempt_def attempt_key_def)
  then show ?thesis using attempts_ok_cong assms(1) by (fastforce simp: store_ok_def db')
qed

lemma store_ok_finish:
  assumes "store_ok db" "FinishSMLAttempt env pj rj now db i owner st bst resp msg profile = Inr db'"
  shows "store_ok db'"
proof -
  obtain a g where v: "validCompletion i owner st bst" and l: "leased db i owner = Some a"
    and bills: "db_bills db' = map (\<lambda>b. if bill_ID b = att_BillID a then g b else b) (db_bills db)"
    and g: "\<And>b. bill_ID (g b) = bill_ID b \<and> bill_AttemptState (g b) = st \<and> bill_CurrentAttempt (g b) = Some i"
    and atts: "map BillSMLAttempt.truncate (db_attempts db') = map BillSMLAttempt.truncate
          (map (\<lambda>x. if att_ID x = i then finished env now st resp msg a else x) (db_attempts db))"
    using FinishSMLAttempt_Inr [OF assms(2)] by blast
  have a: "a \<in> set (db_attempts db)" "att_ID a = i" using leased_Some [OF l] by simp_all
  have ok: "attempts_ok (db_bills db) (db_attempts db)" using assms(1) by (simp add: store_ok_def)
  have "attempts_ok (map (\<lambda>b. if bill_ID b = att_BillID a then g b else b) (db_bills db))
      (map (\<lambda>x. if att_ID x = att_ID a then (\<lambda>_. finished env now st resp msg a) x else x) (db_attempts db))"
    using v g a(2) by (intro attempts_ok_transition [OF ok a(1)])
      (auto simp: finished_def attemptStates_def validCompletion_def)
  then have "attempts_ok (db_bills db') (map BillSMLAttempt.truncate
      (map (\<lambda>x. if att_ID x = i then finished env now st resp msg a else x) (db_attempts db)))"
    unfolding attempts_ok_truncate bills a(2) by simp
  then show ?thesis unfolding store_ok_def atts [symmetric] attempts_ok_truncate .
qed

lemma store_ok_step: "store_ok db \<Longrightarrow> sml_step l db db' \<Longrightarrow> store_ok db'"
  by (erule sml_step.cases)
    (auto intro: store_ok_create store_ok_claim store_ok_renew store_ok_finish store_ok_outside)

section \<open>The lease\<close>

definition holder :: "SMLStore \<Rightarrow> string \<Rightarrow> string option" where
  "holder db i = (case lookup_by att_ID (db_attempts db) i of None \<Rightarrow> None
     | Some a \<Rightarrow> if att_State a = ''sending'' then Some (att_LeaseOwner a) else None)"

lemma holder_leased: "holder db i = Some w \<longleftrightarrow> (\<exists>a. leased db i w = Some a)"
  by (auto simp: holder_def leased_def split: option.splits)

lemma holder_truncate:
  "holder db i = (case lookup_by att_ID (map BillSMLAttempt.truncate (db_attempts db)) i of None \<Rightarrow> None
     | Some a \<Rightarrow> if att_State a = ''sending'' then Some (att_LeaseOwner a) else None)"
proof -
  have "lookup_by att_ID (map BillSMLAttempt.truncate xs) i =
      map_option BillSMLAttempt.truncate (lookup_by att_ID xs i)" for xs :: "SMLAttemptRow list"
    by (induction xs) simp_all
  then show ?thesis by (simp add: holder_def split: option.splits)
qed

lemma holder_update:
  assumes "store_ok db" "a \<in> set (db_attempts db)" "att_ID x = att_ID a"
    "map BillSMLAttempt.truncate (db_attempts db') = map BillSMLAttempt.truncate
       (map (\<lambda>y. if att_ID y = att_ID a then x else y) (db_attempts db))"
  shows "holder db' = (holder db)(att_ID a := if att_State x = ''sending'' then Some (att_LeaseOwner x) else None)"
proof
  fix j
  have "holder db' j = holder (db\<lparr>db_attempts := map (\<lambda>y. if att_ID y = att_ID a then x else y) (db_attempts db)\<rparr>) j"
    by (simp add: holder_truncate assms(4))
  moreover have "lookup_by att_ID (db_attempts db) (att_ID a) = Some a"
    using assms(1,2) by (intro lookup_by_distinct) (simp_all add: store_ok_def attempts_ok_def)
  ultimately show "holder db' j =
      ((holder db)(att_ID a := if att_State x = ''sending'' then Some (att_LeaseOwner x) else None)) j"
    using assms(3) by (simp add: holder_def lookup_by_update)
qed

lemma holder_create:
  assumes "CreateSMLAttempt env i now db inp = Inr (db', a)"
  shows "holder db' = (holder db)(i := Some (cre_LeaseOwner inp))"
proof
  fix j
  obtain row where row: "db_attempts db' = db_attempts db @ [row]" "att_ID row = i"
      "att_State row = ''sending''" "att_LeaseOwner row = cre_LeaseOwner inp"
      "att_ID row \<notin> att_ID ` set (db_attempts db)"
    using CreateSMLAttempt_Inr [OF assms] by blast
  have "lookup_by att_ID (xs @ [row]) j = (if j = i \<and> i \<notin> att_ID ` set xs then Some row else lookup_by att_ID xs j)"
    for xs using row(2) by (induction xs) auto
  then show "holder db' j = ((holder db)(i := Some (cre_LeaseOwner inp))) j"
    using row by (simp add: holder_def)
qed

lemma holder_claim:
  assumes "store_ok db" "ClaimExistingSMLAttempt now go_now db billID owner d = Inr (db', r)"
  shows "(case r of None \<Rightarrow> db' = db
     | Some a \<Rightarrow> if att_State a = ''sending'' then holder db' = (holder db)(att_ID a := Some owner) else db' = db)"
  using ClaimExistingSMLAttempt_Inr [OF assms(2)]
proof
  assume "db' = db \<and> (\<forall>a. r = Some a \<longrightarrow> att_State a = ''sent'')"
  then show ?thesis by (auto split: option.splits)
next
  assume "\<exists>b\<in>set (db_bills db). \<exists>a\<in>set (db_attempts db). bill_ID b = billID
        \<and> bill_CurrentAttempt b = Some (att_ID a) \<and> owner \<noteq> []
        \<and> att_State a \<notin> {''sent'', ''stale_requires_reconciliation''}
        \<and> r = Some (BillSMLAttempt.truncate (claimed now owner d a))
        \<and> db' = updateBill billID (\<lambda>b. b\<lparr>bill_AttemptState := ''sending''\<rparr>)
                   (updateAttempt (att_ID a) (\<lambda>_. claimed now owner d a) db)"
  then obtain a where a: "a \<in> set (db_attempts db)" and r: "r = Some (BillSMLAttempt.truncate (claimed now owner d a))"
    and db': "db' = updateBill billID (\<lambda>b. b\<lparr>bill_AttemptState := ''sending''\<rparr>)
                   (updateAttempt (att_ID a) (\<lambda>_. claimed now owner d a) db)" by blast
  have "holder db' = (holder db)(att_ID a := if att_State (claimed now owner d a) = ''sending''
      then Some (att_LeaseOwner (claimed now owner d a)) else None)"
    by (rule holder_update [OF assms(1) a]) (simp_all add: claimed_def db' updateAttempt_def)
  then show ?thesis by (simp add: r claimed_def)
qed

lemma holder_renew:
  assumes "RenewSMLAttemptLease now db i owner d = Inr db'"
  shows "holder db i = Some owner \<and> holder db' = holder db"
proof -
  obtain a where a: "leased db i owner = Some a" and
    db': "db' = updateAttempt i (\<lambda>a. a\<lparr>att_LeaseUntil := Some (leaseEnd now (defaultLease d))\<rparr>) db"
    using RenewSMLAttemptLease_Inr [OF assms] by blast
  have "holder db' j = holder db j" for j
    by (simp add: holder_def db' updateAttempt_def lookup_by_update split: option.splits)
  then show ?thesis using a by (auto simp: holder_leased)
qed

lemma holder_finish:
  assumes "store_ok db" "FinishSMLAttempt env pj rj now db i owner st bst resp msg profile = Inr db'"
  shows "holder db i = Some owner \<and> holder db' = (holder db)(i := None)"
proof -
  obtain a where v: "validCompletion i owner st bst" and l: "leased db i owner = Some a"
    and atts: "map BillSMLAttempt.truncate (db_attempts db') = map BillSMLAttempt.truncate
          (map (\<lambda>x. if att_ID x = i then finished env now st resp msg a else x) (db_attempts db))"
    using FinishSMLAttempt_Inr [OF assms(2)] by blast
  have a: "a \<in> set (db_attempts db)" "att_ID a = i" using leased_Some [OF l] by simp_all
  have "holder db' = (holder db)(att_ID a := if att_State (finished env now st resp msg a) = ''sending''
      then Some (att_LeaseOwner (finished env now st resp msg a)) else None)"
    using atts a(2) by (intro holder_update [OF assms(1) a(1)]) (simp_all add: finished_def)
  then show ?thesis using v l a(2) by (auto simp: finished_def validCompletion_def holder_leased)
qed

lemma holder_outside: "outside db db' \<Longrightarrow> holder db' = holder db"
  by (rule ext) (simp add: holder_truncate outside_def)

interpretation sml: lease sml_step holder store_ok
proof
  show "store_ok s \<Longrightarrow> sml_step l s s' \<Longrightarrow> store_ok s'" for s l s' by (rule store_ok_step)
  show "store_ok s \<Longrightarrow> sml_step (Take w i) s s' \<Longrightarrow> holder s' = (holder s)(i := Some w)" for s w i s'
    by (erule sml_step.cases) (auto dest: holder_create holder_claim)
  show "store_ok s \<Longrightarrow> sml_step (Keep w i) s s' \<Longrightarrow> holder s i = Some w \<and> holder s' = holder s" for s w i s'
    by (erule sml_step.cases) (auto dest: holder_renew)
  show "store_ok s \<Longrightarrow> sml_step (Drop w i) s s' \<Longrightarrow> holder s i = Some w \<and> holder s' = (holder s)(i := None)"
    for s w i s' by (erule sml_step.cases) (auto dest: holder_finish)
  show "store_ok s \<Longrightarrow> sml_step Aside s s' \<Longrightarrow> holder s' = holder s" for s s'
    by (erule sml_step.cases) (auto dest: holder_outside holder_claim split: option.splits if_splits)
qed

end
