(* ===== verification/SML_Samples.thy ===== *)
theory SML_Samples
  imports SML_Attempt
begin

text \<open>
  A small store for the witnesses: one bill of a marketplace order with one reservation, an
  environment whose digest and JSON access are simple functions, and a send that SML refuses once.
\<close>

definition sample_env :: sml_env where
  "sample_env = \<lparr>env_sha256 = (\<lambda>s. ''digest of '' @ s), env_json_valid = (\<lambda>s. s \<noteq> []),
     env_json_path = (\<lambda>s p. if last p = ''WHCode'' then Some ''W1'' else Some ''L1''),
     env_numeric = rat_set_string, env_numeric_text = (\<lambda>q. float_string q 2)\<rparr>"

definition sample_reservation :: ReservationRow where
  "sample_reservation = \<lparr>rsv_ID = ''R1'', rsv_TenantKey = ''T'', rsv_Source = ''shopee'', rsv_AccountKey = ''shop'',
     rsv_OrderID = ''O1'', rsv_SourceLineID = ''1'', rsv_ExternalItemID = ''5'', rsv_ExternalVariantID = [],
     rsv_BillID = Some ''B1'', rsv_AliasID = Some ''AL'', rsv_MappingRevision = Some 1, rsv_SourceQty = 2,
     rsv_Multiplier = 1, rsv_UnitCode = ''EA'', rsv_UnitStand = Some 1, rsv_UnitDivide = Some 1,
     rsv_BaseQty = Some 2, rsv_ItemCode = ''P1'', rsv_Warehouse = [], rsv_Location = [], rsv_SetHash = [],
     rsv_SourceVersion = [], rsv_State = ''active'', rsv_StateReason = [], rsv_IncorporatedAt = None,
     rsv_ReleasedAt = None\<rparr>"

definition sample_bill :: BillRow where
  "sample_bill = \<lparr>bill_ID = ''B1'', bill_Status = ''pending'', bill_ArchivedAt = None, bill_CurrentAttempt = None,
     bill_AttemptState = ''unattempted'', bill_MutationRevision = 0, bill_DocNo = None, bill_Payload = None,
     bill_Response = None, bill_ErrorMsg = None, bill_SentAt = None\<rparr>"

definition sample_create :: SMLAttemptCreate where
  "sample_create = \<lparr>cre_TenantKey = ''T'', cre_BillID = ''B1'', cre_DocNo = ''SO1'', cre_Route = ''SaleOrder'',
     cre_PayloadBytes = ''{}'', cre_PayloadJSON = [], cre_PayloadHash = [], cre_RouteSettings = ''cfg'',
     cre_MappingRevisions = [], cre_UnitCatalogGeneration = None, cre_SetDefinitionHashes = [],
     cre_LeaseOwner = ''w1'', cre_LeaseDuration = 0, cre_CreatedBy = None, cre_ExpectedBillRevision = 0\<rparr>"

definition sample_store :: SMLStore where
  "sample_store = \<lparr>db_bills = [sample_bill], db_attempts = [], db_profile_jobs = [], db_catalog_runs = [],
     db_readiness = None, db_bill_items = [], db_aliases = [], db_catalog = [], db_set_components = [],
     db_reservations = [sample_reservation], db_components = [], db_demand = (\<lambda>_. None), db_recalc_jobs = [],
     db_evidence = []\<rparr>"


definition sample_finish :: "string \<Rightarrow> string \<Rightarrow> string \<Rightarrow> SMLStore \<Rightarrow> sml_error + SMLStore" where
  "sample_finish owner st bst db =
     FinishSMLAttempt sample_env ''PJ1'' ''RJ1'' second db ''A1'' owner st bst ''{}'' [] None"

text \<open>A send that SML refuses, and its retry by another process.\<close>

definition sample_1 where
  "sample_1 = projr (CreateSMLAttempt sample_env ''A1'' 0 sample_store sample_create)"

definition sample_2 where
  "sample_2 = projr (sample_finish ''w1'' ''failed_exact_retry'' ''failed'' (fst sample_1))"

definition sample_3 where
  "sample_3 = projr (ClaimExistingSMLAttempt (2 * second) (2 * second) sample_2 ''B1'' ''w2'' 0)"

definition sample_4 where
  "sample_4 = projr (sample_finish ''w2'' ''sent'' ''sent'' (fst sample_3))"

lemma projr_Inr: "\<not> isl r \<Longrightarrow> r = Inr (projr r)"
  by (cases r) simp_all

lemma sample_calls:
  "CreateSMLAttempt sample_env ''A1'' 0 sample_store sample_create = Inr sample_1"
  "sample_finish ''w1'' ''failed_exact_retry'' ''failed'' (fst sample_1) = Inr sample_2"
  "ClaimExistingSMLAttempt (2 * second) (2 * second) sample_2 ''B1'' ''w2'' 0 = Inr sample_3"
  "sample_finish ''w2'' ''sent'' ''sent'' (fst sample_3) = Inr sample_4"
proof -
  have *: "\<not> isl (CreateSMLAttempt sample_env ''A1'' 0 sample_store sample_create)"
    "\<not> isl (sample_finish ''w1'' ''failed_exact_retry'' ''failed'' (fst sample_1))"
    "\<not> isl (ClaimExistingSMLAttempt (2 * second) (2 * second) sample_2 ''B1'' ''w2'' 0)"
    "\<not> isl (sample_finish ''w2'' ''sent'' ''sent'' (fst sample_3))"
    by code_simp+
  show "CreateSMLAttempt sample_env ''A1'' 0 sample_store sample_create = Inr sample_1"
    unfolding sample_1_def by (rule projr_Inr [OF *(1)])
  show "sample_finish ''w1'' ''failed_exact_retry'' ''failed'' (fst sample_1) = Inr sample_2"
    unfolding sample_2_def by (rule projr_Inr [OF *(2)])
  show "ClaimExistingSMLAttempt (2 * second) (2 * second) sample_2 ''B1'' ''w2'' 0 = Inr sample_3"
    unfolding sample_3_def by (rule projr_Inr [OF *(3)])
  show "sample_finish ''w2'' ''sent'' ''sent'' (fst sample_3) = Inr sample_4"
    unfolding sample_4_def by (rule projr_Inr [OF *(4)])
qed

lemma sample_states:
  "map att_State (db_attempts (fst sample_1)) = [''sending'']"
  "map att_State (db_attempts sample_2) = [''failed_exact_retry'']"
  "map_option (\<lambda>a. (att_ID a, att_State a)) (snd sample_3) = Some (''A1'', ''sending'')"
  "map (\<lambda>a. (att_ID a, att_BillID a, att_DocNo a, att_State a)) (db_attempts sample_4)
     = [(''A1'', ''B1'', ''SO1'', ''sent'')]"
  by code_simp+

end
