(* ===== verification/SML_AttemptDocs.thy ===== *)
theory SML_AttemptDocs
  imports SML_AttemptSafety SML_Samples
begin

text \<open>
  What a bill sends to SML, over any run of the program: one document, always the same, and never
  again once it is sent; and what a completion does to the stock ledger.
\<close>

section \<open>One document\<close>

definition same_document :: "'a BillSMLAttempt_scheme \<Rightarrow> 'b BillSMLAttempt_scheme \<Rightarrow> bool" where
  "same_document a a' \<longleftrightarrow> att_ID a' = att_ID a \<and> att_BillID a' = att_BillID a \<and> att_DocNo a' = att_DocNo a
     \<and> att_Route a' = att_Route a \<and> att_PayloadBytes a' = att_PayloadBytes a
     \<and> att_PayloadHash a' = att_PayloadHash a"

definition settled :: "string \<Rightarrow> bool" where
  "settled st \<longleftrightarrow> st = ''sent'' \<or> st = ''stale_requires_reconciliation''"

definition continues :: "'a BillSMLAttempt_scheme \<Rightarrow> 'b BillSMLAttempt_scheme \<Rightarrow> bool" where
  "continues a a' \<longleftrightarrow> same_document a a' \<and> (settled (att_State a) \<longrightarrow> att_State a' = att_State a)"

definition evolves :: "SMLStore \<Rightarrow> SMLStore \<Rightarrow> bool" where
  "evolves db db' \<longleftrightarrow> (\<forall>a\<in>set (db_attempts db). \<exists>a'\<in>set (db_attempts db'). continues a a')"

lemma continues_refl [simp]: "continues a a"
  by (simp add: continues_def same_document_def)

lemma continues_truncate [simp]:
  "continues (BillSMLAttempt.truncate a) a' = continues a a'"
  "continues a (BillSMLAttempt.truncate a') = continues a a'"
  by (simp_all add: continues_def same_document_def)

lemma evolves_mono: "set (db_attempts db) \<subseteq> set (db_attempts db') \<Longrightarrow> evolves db db'"
  unfolding evolves_def by (intro ballI, rule bexI [where P = "continues a" and x = a for a]) auto

lemma evolves_refl: "evolves db db"
  by (rule evolves_mono) simp

lemma evolves_map:
  "db_attempts db' = map f (db_attempts db) \<Longrightarrow> (\<And>a. continues a (f a)) \<Longrightarrow> evolves db db'"
  by (auto simp: evolves_def)

lemma continues_trans: "continues a b \<Longrightarrow> continues b c \<Longrightarrow> continues a c"
  by (auto simp: continues_def same_document_def)

lemma evolves_trans: "evolves db db' \<Longrightarrow> evolves db' db'' \<Longrightarrow> evolves db db''"
  unfolding evolves_def by (meson continues_trans)

lemma evolves_truncate:
  assumes "map BillSMLAttempt.truncate (db_attempts db') = map BillSMLAttempt.truncate ys"
    "\<forall>a\<in>set (db_attempts db). \<exists>a'\<in>set ys. continues a a'"
  shows "evolves db db'"
  unfolding evolves_def
proof
  fix a assume "a \<in> set (db_attempts db)"
  then obtain a' where a': "a' \<in> set ys" "continues a a'" using assms(2) by blast
  then have "BillSMLAttempt.truncate a' \<in> BillSMLAttempt.truncate ` set (db_attempts db')"
    using arg_cong [OF assms(1), of set] by simp
  then obtain c where "c \<in> set (db_attempts db')" "BillSMLAttempt.truncate c = BillSMLAttempt.truncate a'"
    by auto
  then show "\<exists>c\<in>set (db_attempts db'). continues a c"
    using a'(2) continues_truncate(2) [of a c] continues_truncate(2) [of a a'] by (intro bexI [of _ c]) simp_all
qed

text \<open>Replacing the row of one attempt by a continuation of it.\<close>

lemma continues_replace:
  assumes "store_ok db" "a \<in> set (db_attempts db)" "continues a x"
  shows "\<forall>y\<in>set (db_attempts db). \<exists>z\<in>set (map (\<lambda>y. if att_ID y = att_ID a then x else y) (db_attempts db)).
    continues y z"
proof
  fix y assume y: "y \<in> set (db_attempts db)"
  let ?z = "if att_ID y = att_ID a then x else y"
  have "?z \<in> set (map (\<lambda>y. if att_ID y = att_ID a then x else y) (db_attempts db))" using y by auto
  moreover have "continues y ?z"
  proof (cases "att_ID y = att_ID a")
    case True
    then have "y = a" by (rule only_id [OF assms(1,2) y])
    then show ?thesis using assms(3) by simp
  qed simp
  ultimately show "\<exists>z\<in>set (map (\<lambda>y. if att_ID y = att_ID a then x else y) (db_attempts db)). continues y z"
    by blast
qed

lemma evolves_create:
  assumes "CreateSMLAttempt env i now db inp = Inr (db', a)"
  shows "evolves db db'"
proof -
  obtain row where "db_attempts db' = db_attempts db @ [row]" using CreateSMLAttempt_Inr [OF assms] by blast
  then show ?thesis by (intro evolves_mono) auto
qed

lemma evolves_claim:
  assumes ok: "store_ok db" and c: "ClaimExistingSMLAttempt now go_now db billID owner d = Inr (db', r)"
  shows "evolves db db'"
  using ClaimExistingSMLAttempt_Inr [OF c]
proof
  assume "db' = db \<and> (\<forall>a. r = Some a \<longrightarrow> att_State a = ''sent'')"
  then show ?thesis by (simp add: evolves_refl)
next
  assume "\<exists>b\<in>set (db_bills db). \<exists>a\<in>set (db_attempts db). bill_ID b = billID
        \<and> bill_CurrentAttempt b = Some (att_ID a) \<and> owner \<noteq> []
        \<and> att_State a \<notin> {''sent'', ''stale_requires_reconciliation''}
        \<and> r = Some (BillSMLAttempt.truncate (claimed now owner d a))
        \<and> db' = updateBill billID (\<lambda>b. b\<lparr>bill_AttemptState := ''sending''\<rparr>)
                   (updateAttempt (att_ID a) (\<lambda>_. claimed now owner d a) db)"
  then obtain a where a: "a \<in> set (db_attempts db)" "att_State a \<notin> {''sent'', ''stale_requires_reconciliation''}"
    "db' = updateBill billID (\<lambda>b. b\<lparr>bill_AttemptState := ''sending''\<rparr>)
                   (updateAttempt (att_ID a) (\<lambda>_. claimed now owner d a) db)" by blast
  have "continues a (claimed now owner d a)"
    using a(2) by (auto simp: continues_def same_document_def settled_def claimed_def)
  then have "\<forall>y\<in>set (db_attempts db). \<exists>z\<in>set (db_attempts db'). continues y z"
    using continues_replace [OF ok a(1)] by (simp add: a(3) updateAttempt_def)
  then show ?thesis by (simp only: evolves_def)
qed

lemma evolves_renew:
  assumes "RenewSMLAttemptLease now db i owner d = Inr db'"
  shows "evolves db db'"
proof -
  let ?f = "\<lambda>a. if att_ID a = i then a\<lparr>att_LeaseUntil := Some (leaseEnd now (defaultLease d))\<rparr> else a"
  have "db_attempts db' = map ?f (db_attempts db)"
    using RenewSMLAttemptLease_Inr [OF assms] by (auto simp: updateAttempt_def)
  then show ?thesis by (rule evolves_map) (simp add: continues_def same_document_def)
qed

lemma evolves_finish:
  assumes ok: "store_ok db" and f: "FinishSMLAttempt env pj rj now db i owner st bst resp msg profile = Inr db'"
  shows "evolves db db'"
proof -
  obtain a where l: "leased db i owner = Some a"
    and atts: "map BillSMLAttempt.truncate (db_attempts db') = map BillSMLAttempt.truncate
          (map (\<lambda>x. if att_ID x = i then finished env now st resp msg a else x) (db_attempts db))"
    using FinishSMLAttempt_Inr [OF f] by blast
  have a: "a \<in> set (db_attempts db)" "att_ID a = i" "att_State a = ''sending''"
    using leased_Some [OF l] by simp_all
  have "continues a (finished env now st resp msg a)"
    using a(3) by (simp add: continues_def same_document_def settled_def finished_def)
  from continues_replace [OF ok a(1) this] show ?thesis
    unfolding a(2) by (rule evolves_truncate [OF atts])
qed

lemma evolves_outside: "outside db db' \<Longrightarrow> evolves db db'"
  by (rule evolves_truncate [of db' "db_attempts db"]) (use evolves_refl in \<open>simp_all add: outside_def evolves_def\<close>)

lemma evolves_step: "store_ok db \<Longrightarrow> sml_step l db db' \<Longrightarrow> evolves db db'"
  by (erule sml_step.cases)
    (auto intro: evolves_create evolves_claim evolves_renew evolves_finish evolves_outside)

lemma evolves_run: "run sml_step ls db db' \<Longrightarrow> store_ok db \<Longrightarrow> evolves db db'"
proof (induction ls arbitrary: db)
  case (Cons l ls)
  then obtain t where t: "sml_step l db t" "run sml_step ls t db'" by auto
  show ?case
    using evolves_trans [OF evolves_step [OF Cons.prems(2) t(1)]
        Cons.IH [OF t(2) store_ok_step [OF Cons.prems(2) t(1)]]] .
qed (simp add: evolves_refl)

lemma one_document:
  assumes ok: "store_ok db" and run: "run sml_step ls db db'"
    and a: "a \<in> set (db_attempts db)" "a' \<in> set (db_attempts db')" "att_BillID a' = att_BillID a"
  shows "continues a a'"
proof -
  obtain c where c: "c \<in> set (db_attempts db')" "continues a c"
    using evolves_run [OF run ok] a(1) by (auto simp: evolves_def)
  have "attempts_ok (db_bills db') (db_attempts db')"
    using sml.ok_run [OF run ok] by (simp add: store_ok_def)
  then have "a' = c" using a(2,3) c by (intro one_attempt) (auto simp: continues_def same_document_def)
  then show ?thesis using c(2) by simp
qed

text \<open>
  C8. A bill sends one document to SML. Over any run of the program (creating, claiming, renewing
  and finishing attempts, and whatever the rest of the program does outside them) an attempt of the
  bill seen later is the attempt seen before: the same document number, route and payload; and once
  it is sent, or stopped for reconciliation, it stays so.
\<close>

theorem SMLAttempt_one_document:
  assumes "store_ok db0" "run sml_step ls db0 db" "run sml_step ms db db'"
    and "a \<in> set (db_attempts db)" "a' \<in> set (db_attempts db')" "att_BillID a' = att_BillID a"
  shows "att_ID a' = att_ID a \<and> att_DocNo a' = att_DocNo a \<and> att_Route a' = att_Route a
    \<and> att_PayloadBytes a' = att_PayloadBytes a \<and> att_PayloadHash a' = att_PayloadHash a
    \<and> (settled (att_State a) \<longrightarrow> att_State a' = att_State a)"
  using one_document [OF sml.ok_run [OF assms(2,1)] assms(3-6)]
  by (simp add: continues_def same_document_def)

lemma sample_store_ok: "store_ok sample_store"
  by (simp add: store_ok_def attempts_ok_def sample_store_def sample_bill_def)

lemma sample_steps:
  "sml_step (Take ''w1'' ''A1'') sample_store (fst sample_1)"
  "sml_step (Drop ''w1'' ''A1'') (fst sample_1) sample_2"
  "sml_step (Take ''w2'' ''A1'') sample_2 (fst sample_3)"
  "sml_step (Drop ''w2'' ''A1'') (fst sample_3) sample_4"
proof -
  have owner: "cre_LeaseOwner sample_create = ''w1''" by (simp add: sample_create_def)
  have "CreateSMLAttempt sample_env ''A1'' 0 sample_store sample_create = Inr (fst sample_1, snd sample_1)"
    by (simp add: sample_calls)
  then show "sml_step (Take ''w1'' ''A1'') sample_store (fst sample_1)"
    unfolding owner [symmetric] by (rule step_create) simp
  obtain a where a: "snd sample_3 = Some a" "att_ID a = ''A1''" "att_State a = ''sending''"
    using sample_states(3) by auto
  then have "ClaimExistingSMLAttempt (2 * second) (2 * second) sample_2 ''B1'' ''w2'' 0 = Inr (fst sample_3, Some a)"
    by (simp add: sample_calls flip: a(1))
  from step_claim [OF this a(3)] show "sml_step (Take ''w2'' ''A1'') sample_2 (fst sample_3)" by (simp add: a(2))
  show "sml_step (Drop ''w1'' ''A1'') (fst sample_1) sample_2" "sml_step (Drop ''w2'' ''A1'') (fst sample_3) sample_4"
    using sample_calls(2,4) unfolding sample_finish_def by (auto intro: step_finish)
qed

theorem SMLAttempt_one_document_witness:
  "\<exists>a\<in>set (db_attempts sample_2). \<exists>a'\<in>set (db_attempts sample_4). att_State a' = ''sent''
     \<and> att_DocNo a' = ''SO1'' \<and> att_ID a' = att_ID a \<and> att_DocNo a' = att_DocNo a
     \<and> att_PayloadBytes a' = att_PayloadBytes a"
proof -
  have r: "run sml_step [Take ''w1'' ''A1'', Drop ''w1'' ''A1''] sample_store sample_2"
    "run sml_step [Take ''w2'' ''A1'', Drop ''w2'' ''A1''] sample_2 sample_4"
    using sample_steps by auto
  have "map att_BillID (db_attempts sample_2) = [''B1'']" by code_simp
  then obtain a where a: "a \<in> set (db_attempts sample_2)" "att_BillID a = ''B1''" by auto
  obtain a' where a': "a' \<in> set (db_attempts sample_4)" "att_BillID a' = ''B1''" "att_DocNo a' = ''SO1''"
    "att_State a' = ''sent''" using sample_states(4) by auto
  have "att_BillID a' = att_BillID a" using a a' by simp
  from SMLAttempt_one_document [OF sample_store_ok r a(1) a'(1) this] show ?thesis using a a' by blast
qed

text \<open>
  Only the process that holds the lease completes an attempt: in any run in which the attempt
  was free at the start, the process that finishes it created or claimed it before, and no other
  process claimed or finished it in between.
\<close>

theorem FinishSMLAttempt_fenced:
  assumes "store_ok db" "holder db i = None" "run sml_step ls db db'"
    and "FinishSMLAttempt env pj rj now db' i owner st bst resp msg profile = Inr db''"
  shows "\<exists>ls1 ls2. ls = ls1 @ Take owner i # ls2 \<and> \<not> list_ex (touches i) ls2"
  using assms by (intro sml.fenced [of ls owner i db db'']) (auto simp: run_append intro: step_finish)

theorem FinishSMLAttempt_fenced_witness:
  "\<exists>ls1 ls2. [Take ''w1'' ''A1'', Drop ''w1'' ''A1'', Take ''w2'' ''A1''] = ls1 @ Take ''w2'' ''A1'' # ls2
     \<and> \<not> list_ex (touches ''A1'') ls2"
proof -
  have r: "run sml_step [Take ''w1'' ''A1'', Drop ''w1'' ''A1'', Take ''w2'' ''A1''] sample_store (fst sample_3)"
    using sample_steps by auto
  have h: "holder sample_store ''A1'' = None" by (simp add: holder_def sample_store_def)
  show ?thesis by (rule FinishSMLAttempt_fenced [OF sample_store_ok h r sample_calls(4) [unfolded sample_finish_def]])
qed

text \<open>
  C31. A process whose lease was taken over is told so: it cannot renew the lease, and none of its
  completions succeeds, so the outcome it saw changes nothing.
\<close>

theorem ClaimExistingSMLAttempt_fences:
  assumes "store_ok db" "ClaimExistingSMLAttempt now go_now db billID w d = Inr (db', Some a)"
    and "att_State a = ''sending''" "v \<noteq> w"
  shows "RenewSMLAttemptLease now' db' (att_ID a) v d' = Inl ErrSMLAttemptLeaseLost
    \<and> isl (FinishSMLAttempt env pj rj now' db' (att_ID a) v st bst resp msg profile)"
proof -
  have "holder db' (att_ID a) = Some w" using holder_claim [OF assms(1,2)] assms(3) by simp
  then have "leased db' (att_ID a) v = None"
    using assms(4) by (auto simp: holder_def leased_def split: option.splits if_splits)
  then show ?thesis by (simp add: RenewSMLAttemptLease_def FinishSMLAttempt_def)
qed

theorem ClaimExistingSMLAttempt_fences_witness:
  "RenewSMLAttemptLease 0 (fst sample_3) ''A1'' ''w1'' 0 = Inl ErrSMLAttemptLeaseLost"
proof -
  obtain a where a: "snd sample_3 = Some a" "att_ID a = ''A1''" "att_State a = ''sending''"
    using sample_states(3) by auto
  have "ClaimExistingSMLAttempt (2 * second) (2 * second) sample_2 ''B1'' ''w2'' 0 = Inr (fst sample_3, Some a)"
    by (simp add: sample_calls flip: a(1))
  moreover have "run sml_step [Take ''w1'' ''A1'', Drop ''w1'' ''A1''] sample_store sample_2" using sample_steps by auto
  then have "store_ok sample_2" using sample_store_ok by (rule sml.ok_run)
  ultimately show ?thesis
    using ClaimExistingSMLAttempt_fences [of sample_2 "2 * second" "2 * second" "''B1''" "''w2''" 0 "fst sample_3" a
      "''w1''" 0 0] a(2,3) by simp
qed

end
