(* ===== verification/Stock_Reservation.thy ===== *)
theory Stock_Reservation
  imports SML_Samples Go_Float
begin

text \<open>
  The reservations of a marketplace order (\<open>repository/stock_reservation_repo.go\<close>): what a line of a
  bill reserves, how the reservations of a new bill enter the ledger, and how a cancelled order
  releases them. The raw data of a bill is given decoded: the text at each key of the JSON object
  (\<open>None\<close> for a value that is not text), or \<open>None\<close> when it is no object, and its order number.
\<close>

section \<open>The snapshot of a line\<close>

record BillItem =
  item_ID :: string
  item_SourceSKU :: string
  item_SourceItemID :: string
  item_SourceVariantID :: string
  item_SourceLineID :: string
  item_MarketplaceAliasID :: "string option"
  item_ItemCode :: "string option"
  item_Qty :: float64
  item_SourceQty :: "float64 option"
  item_QuantityMultiplier :: "int option"
  item_UnitStand :: "string option"
  item_UnitDivide :: "string option"
  item_BaseQty :: "string option"
  item_MappingRevision :: "int option"
  item_SetHash :: string
  item_ConversionIssue :: string
  item_UnitCode :: "string option"

record marketplaceReservationSnapshot =
  snp_Source :: string
  snp_AccountKey :: string
  snp_OrderID :: string
  snp_SourceLineID :: string
  snp_ExternalItemID :: string
  snp_ExternalVariantID :: string
  snp_MarketplaceAliasID :: "string option"
  snp_MappingRevision :: "int option"
  snp_SourceQty :: string
  snp_QuantityMultiplier :: int
  snp_UnitCode :: string
  snp_UnitStandValue :: "string option"
  snp_UnitDivideValue :: "string option"
  snp_BaseQty :: string
  snp_SMLItemCode :: string
  snp_SetDefinitionHash :: string
  snp_State :: string
  snp_StateReason :: string

definition positiveRationalText :: "string \<Rightarrow> bool" where
  "positiveRationalText value = (case rat_set_string (trim_space value) of None \<Rightarrow> False | Some r \<Rightarrow> r > 0)"

fun firstNonEmptyRepository :: "string list \<Rightarrow> string" where
  "firstNonEmptyRepository [] = []"
| "firstNonEmptyRepository (value # rest) =
     (let v = trim_space value in if v \<noteq> [] then v else firstNonEmptyRepository rest)"

definition text_of :: "string option \<Rightarrow> string" where
  "text_of v = (case v of None \<Rightarrow> [] | Some s \<Rightarrow> s)"

text \<open>The fields that do not depend on the checks.\<close>

definition lineSnapshot :: "string \<Rightarrow> string \<Rightarrow> string \<Rightarrow> BillItem \<Rightarrow> marketplaceReservationSnapshot" where
  "lineSnapshot source accountKey orderID item =
     \<lparr>snp_Source = source, snp_AccountKey = firstNonEmptyRepository [accountKey, ''default''],
      snp_OrderID = trim_space orderID,
      snp_SourceLineID = (let lineID = trim_space (item_SourceLineID item) in
         if lineID = [] then item_ID item else lineID),
      snp_ExternalItemID = trim_space (item_SourceItemID item),
      snp_ExternalVariantID = trim_space (item_SourceVariantID item),
      snp_MarketplaceAliasID = item_MarketplaceAliasID item,
      snp_MappingRevision = item_MappingRevision item,
      snp_SourceQty = format_float (case item_SourceQty item of None \<Rightarrow> item_Qty item | Some q \<Rightarrow> q),
      snp_QuantityMultiplier = (case item_QuantityMultiplier item of None \<Rightarrow> 1 | Some m \<Rightarrow> m),
      snp_UnitCode = trim_space (text_of (item_UnitCode item)),
      snp_UnitStandValue = item_UnitStand item, snp_UnitDivideValue = item_UnitDivide item,
      snp_BaseQty = trim_space (text_of (item_BaseQty item)),
      snp_SMLItemCode = trim_space (text_of (item_ItemCode item)),
      snp_SetDefinitionHash = trim_space (item_SetHash item),
      snp_State = ''blocked_mapping'',
      snp_StateReason = (let reason = trim_space (item_ConversionIssue item) in
         if reason = [] then ''conversion_snapshot_missing'' else reason)\<rparr>"

definition buildMarketplaceReservation ::
    "string \<Rightarrow> string \<Rightarrow> string \<Rightarrow> BillItem \<Rightarrow> marketplaceReservationSnapshot option" where
  "buildMarketplaceReservation source accountKey orderID item =
     (if item_SourceSKU item \<in> set shippingSKUs then None
      else
        let snapshot = lineSnapshot source accountKey orderID item in
        if item_MarketplaceAliasID item = None \<or> item_MappingRevision item = None
           \<or> item_QuantityMultiplier item = None \<or> item_UnitStand item = None \<or> item_UnitDivide item = None
           \<or> snp_SMLItemCode snapshot = [] \<or> snp_BaseQty snapshot = []
        then Some snapshot
        else if snp_QuantityMultiplier snapshot < 1 \<or> \<not> positiveRationalText (text_of (item_UnitStand item))
           \<or> \<not> positiveRationalText (text_of (item_UnitDivide item)) \<or> \<not> positiveRationalText (snp_BaseQty snapshot)
        then Some (snapshot\<lparr>snp_StateReason := ''conversion_snapshot_invalid''\<rparr>)
        else if item_ConversionIssue item \<noteq> [] then Some snapshot
        else Some (snapshot\<lparr>snp_State := ''active'', snp_StateReason := []\<rparr>))"

section \<open>The raw data of an order\<close>

type_synonym raw_object = "(string \<Rightarrow> string option) option"

definition raw_text :: "(string \<Rightarrow> string option) \<Rightarrow> string \<Rightarrow> string" where
  "raw_text raw key = text_of (raw key)"

definition marketplaceOrderUnpaid :: "raw_object \<Rightarrow> bool" where
  "marketplaceOrderUnpaid raw =
     (case raw of None \<Rightarrow> False
      | Some raw \<Rightarrow> list_ex (\<lambda>key. equal_fold (trim_space (raw_text raw key)) ''UNPAID'')
          [''order_status'', ''status'', ''payment_status''])"

definition marketplaceSourceVersion :: "raw_object \<Rightarrow> string" where
  "marketplaceSourceVersion raw =
     (case raw of None \<Rightarrow> []
      | Some raw \<Rightarrow> firstNonEmptyRepository
          [raw_text raw ''event_version'', raw_text raw ''amount_source_fingerprint'', raw_text raw ''import_run_id''])"

record MarketplaceBill =
  mb_ID :: string
  mb_Source :: string
  mb_AccountKey :: string
  mb_SMLOrderID :: string
  mb_Raw :: raw_object
  mb_RawOrderID :: string

section \<open>Entering the ledger\<close>

definition marketplaces :: "string list" where
  "marketplaces = [''shopee'', ''lazada'', ''tiktok'']"

definition reservation_key :: "ReservationRow \<Rightarrow> string list" where
  "reservation_key r = [rsv_Source r, rsv_AccountKey r, rsv_OrderID r, rsv_SourceLineID r,
     rsv_ExternalItemID r, rsv_ExternalVariantID r]"

text \<open>The checks of migration 085 on a row; \<open>btrim\<close> removes blanks only.\<close>

definition blank :: "string \<Rightarrow> bool" where
  "blank s \<longleftrightarrow> list_all (\<lambda>c. c = CHR '' '') s"

definition positive :: "rat option \<Rightarrow> bool" where
  "positive q = (case q of None \<Rightarrow> False | Some x \<Rightarrow> 0 < x)"

definition pendingStates :: "string list" where
  "pendingStates = [''active'', ''sending_sml'', ''awaiting_stock_recalc'']"

definition reservationChecks :: "ReservationRow \<Rightarrow> bool" where
  "reservationChecks r \<longleftrightarrow>
     rsv_Source r \<in> set marketplaces \<and> \<not> blank (rsv_AccountKey r) \<and> \<not> blank (rsv_OrderID r)
     \<and> \<not> blank (rsv_SourceLineID r) \<and> 0 < rsv_SourceQty r
     \<and> 1 \<le> rsv_Multiplier r \<and> rsv_Multiplier r \<le> 1000000
     \<and> (rsv_UnitStand r = None \<and> rsv_UnitDivide r = None \<or> positive (rsv_UnitStand r) \<and> positive (rsv_UnitDivide r))
     \<and> (rsv_BaseQty r = None \<or> positive (rsv_BaseQty r))
     \<and> (rsv_State r \<notin> set pendingStates \<or>
          rsv_AliasID r \<noteq> None \<and> (case rsv_MappingRevision r of None \<Rightarrow> False | Some n \<Rightarrow> 1 \<le> n)
          \<and> positive (rsv_UnitStand r) \<and> positive (rsv_UnitDivide r) \<and> positive (rsv_BaseQty r)
          \<and> \<not> blank (rsv_ItemCode r))"

text \<open>A numeric parameter: a null stays null, a text that is no number is refused.\<close>

definition numericOption :: "sml_env \<Rightarrow> string option \<Rightarrow> sml_error + rat option" where
  "numericOption env v =
     (case v of None \<Rightarrow> Inr None
      | Some s \<Rightarrow> (case env_numeric env s of None \<Rightarrow> Inl (ConstraintViolation ''numeric'') | Some q \<Rightarrow> Inr (Some q)))"

definition reservationRow ::
    "sml_env \<Rightarrow> string \<Rightarrow> string \<Rightarrow> string \<Rightarrow> string \<Rightarrow> marketplaceReservationSnapshot \<Rightarrow> sml_error + ReservationRow"
  where
  "reservationRow env reservationID tenantKey billID sourceVersion snapshot =
     and_then (numericOption env (Some (snp_SourceQty snapshot))) (\<lambda>sourceQty.
     and_then (numericOption env (snp_UnitStandValue snapshot)) (\<lambda>stand.
     and_then (numericOption env (snp_UnitDivideValue snapshot)) (\<lambda>divide.
     and_then (numericOption env (if snp_BaseQty snapshot = [] then None else Some (snp_BaseQty snapshot))) (\<lambda>baseQty.
       Inr \<lparr>rsv_ID = reservationID, rsv_TenantKey = trim_space tenantKey, rsv_Source = snp_Source snapshot,
            rsv_AccountKey = snp_AccountKey snapshot, rsv_OrderID = snp_OrderID snapshot,
            rsv_SourceLineID = snp_SourceLineID snapshot, rsv_ExternalItemID = snp_ExternalItemID snapshot,
            rsv_ExternalVariantID = snp_ExternalVariantID snapshot, rsv_BillID = Some billID,
            rsv_AliasID = snp_MarketplaceAliasID snapshot, rsv_MappingRevision = snp_MappingRevision snapshot,
            rsv_SourceQty = (case sourceQty of None \<Rightarrow> 0 | Some q \<Rightarrow> q), rsv_Multiplier = snp_QuantityMultiplier snapshot,
            rsv_UnitCode = snp_UnitCode snapshot, rsv_UnitStand = stand, rsv_UnitDivide = divide,
            rsv_BaseQty = baseQty, rsv_ItemCode = snp_SMLItemCode snapshot, rsv_Warehouse = [],
            rsv_Location = [], rsv_SetHash = snp_SetDefinitionHash snapshot, rsv_SourceVersion = sourceVersion,
            rsv_State = snp_State snapshot, rsv_StateReason = snp_StateReason snapshot,
            rsv_IncorporatedAt = None, rsv_ReleasedAt = None\<rparr>))))"

text \<open>The merge of the conflict clause, and the upsert, which returns the stored row.\<close>

definition mergeReservation :: "ReservationRow \<Rightarrow> ReservationRow \<Rightarrow> ReservationRow" where
  "mergeReservation new old =
     old\<lparr>rsv_BillID := (case rsv_BillID old of None \<Rightarrow> rsv_BillID new | Some b \<Rightarrow> Some b),
         rsv_SourceVersion := (if rsv_SourceVersion new \<noteq> [] then rsv_SourceVersion new else rsv_SourceVersion old)\<rparr>"

definition upsertReservation ::
    "ReservationRow \<Rightarrow> SMLStore \<Rightarrow> sml_error + SMLStore \<times> ReservationRow" where
  "upsertReservation new db =
     (if \<not> reservationChecks new then Inl (ConstraintViolation ''reservation'')
      else case lookup_by reservation_key (db_reservations db) (reservation_key new) of
        Some old \<Rightarrow>
          Inr (updateReservations (\<lambda>r. reservation_key r = reservation_key new) (mergeReservation new) db,
               mergeReservation new old)
      | None \<Rightarrow>
          if rsv_ID new \<in> rsv_ID ` set (db_reservations db) then Inl (ConstraintViolation ''reservation id'')
          else Inr (db\<lparr>db_reservations := db_reservations db @ [new]\<rparr>, new))"

definition bumpDemandVersionTx :: "string \<Rightarrow> string \<Rightarrow> string \<Rightarrow> SMLStore \<Rightarrow> SMLStore" where
  "bumpDemandVersionTx warehouse location itemCode db =
     db\<lparr>db_demand := bumpDemand (warehouse, location, itemCode) (db_demand db)\<rparr>"

text \<open>The components of a set, with the base quantity of each component's rows summed up.\<close>

definition setRows :: "SMLStore \<Rightarrow> string \<Rightarrow> string \<Rightarrow> SetComponentRow list" where
  "setRows db parentCode definitionHash =
     filter (\<lambda>c. sc_ParentCode c = parentCode \<and> sc_DefinitionHash c = definitionHash
                 \<and> sc_Active c \<and> sc_UnitValid c) (db_set_components db)"

definition setComponents ::
    "SMLStore \<Rightarrow> string \<Rightarrow> rat \<Rightarrow> string \<Rightarrow> string \<Rightarrow> ComponentRow list" where
  "setComponents db reservationID baseQty definitionHash parentCode =
     map (\<lambda>code. \<lparr>rc_ReservationID = reservationID, rc_ItemCode = code, rc_Warehouse = [], rc_Location = [],
            rc_BaseQty = sum_list (map (\<lambda>c. baseQty * sc_Qty c * sc_UnitFactor c)
              (filter (\<lambda>c. sc_ItemCode c = code) (setRows db parentCode definitionHash))),
            rc_SetHash = definitionHash\<rparr>)
       (remdups (map sc_ItemCode (setRows db parentCode definitionHash)))"

text \<open>\<open>ON CONFLICT DO NOTHING\<close>: only the components that have no row yet are inserted.\<close>

definition newComponents :: "SMLStore \<Rightarrow> ComponentRow list \<Rightarrow> ComponentRow list" where
  "newComponents db cs = filter (\<lambda>c. component_key c \<notin> component_key ` set (db_components db)) cs"

definition reserveSet ::
    "sml_env \<Rightarrow> string \<Rightarrow> marketplaceReservationSnapshot \<Rightarrow> SMLStore \<Rightarrow> sml_error + SMLStore" where
  "reserveSet env reservationID snapshot db =
     and_then (numericOption env (Some (snp_BaseQty snapshot))) (\<lambda>baseQty.
       let cs = setComponents db reservationID (case baseQty of None \<Rightarrow> 0 | Some q \<Rightarrow> q)
                  (snp_SetDefinitionHash snapshot) (snp_SMLItemCode snapshot);
           fresh = newComponents db cs in
       if list_ex (\<lambda>c. rc_BaseQty c \<le> 0) cs then Inl (ConstraintViolation ''component quantity'')
       else if fresh = [] then
         Inr (updateReservations (\<lambda>r. rsv_ID r = reservationID)
                (\<lambda>r. r\<lparr>rsv_State := ''blocked_mapping'', rsv_StateReason := ''set_definition_unavailable''\<rparr>) db)
       else
         let db = db\<lparr>db_components := db_components db @ fresh\<rparr> in
         Inr (db\<lparr>db_demand := bumpAll
               (map (\<lambda>c. ([], [], rc_ItemCode c)) (filter (\<lambda>c. rc_ReservationID c = reservationID) (db_components db)))
               (db_demand db)\<rparr>))"

text \<open>One line of the bill; each line comes with the identifier its row would get.\<close>

definition reserveLine ::
    "sml_env \<Rightarrow> string \<Rightarrow> MarketplaceBill \<Rightarrow> string \<Rightarrow> string \<times> BillItem \<Rightarrow> SMLStore \<Rightarrow> sml_error + SMLStore" where
  "reserveLine env tenantKey bill orderID line db =
     (case buildMarketplaceReservation (mb_Source bill) (mb_AccountKey bill) orderID (snd line) of
        None \<Rightarrow> Inr db
      | Some snapshot \<Rightarrow>
          and_then (reservationRow env (fst line) tenantKey (mb_ID bill)
                      (marketplaceSourceVersion (mb_Raw bill)) snapshot) (\<lambda>new.
          and_then (upsertReservation new db) (\<lambda>(db, stored).
            if rsv_State stored \<noteq> ''active'' \<or> snp_SMLItemCode snapshot = [] then Inr db
            else if snp_SetDefinitionHash snapshot = []
            then Inr (bumpDemandVersionTx [] [] (snp_SMLItemCode snapshot) db)
            else reserveSet env (rsv_ID stored) snapshot db)))"

fun reserveLines ::
    "sml_env \<Rightarrow> string \<Rightarrow> MarketplaceBill \<Rightarrow> string \<Rightarrow> (string \<times> BillItem) list \<Rightarrow> SMLStore \<Rightarrow> sml_error + SMLStore"
  where
  "reserveLines env tenantKey bill orderID [] db = Inr db"
| "reserveLines env tenantKey bill orderID (line # rest) db =
     and_then (reserveLine env tenantKey bill orderID line db) (reserveLines env tenantKey bill orderID rest)"

definition insertMarketplaceReservationsTx ::
    "sml_env \<Rightarrow> string \<Rightarrow> MarketplaceBill option \<Rightarrow> (string \<times> BillItem) list \<Rightarrow> SMLStore \<Rightarrow> sml_error + SMLStore"
  where
  "insertMarketplaceReservationsTx env tenantKey bill items db =
     (case bill of None \<Rightarrow> Inr db
      | Some bill \<Rightarrow>
          if mb_Source bill \<notin> set marketplaces \<or> marketplaceOrderUnpaid (mb_Raw bill) then Inr db
          else
            let orderID = trim_space (mb_SMLOrderID bill);
                orderID = (if orderID = [] then trim_space (mb_RawOrderID bill) else orderID) in
            if orderID = [] then Inr db else reserveLines env tenantKey bill orderID items db)"

section \<open>Cancellation\<close>

definition cancelled :: "instant \<Rightarrow> ReservationRow \<Rightarrow> ReservationRow" where
  "cancelled now r =
     (if rsv_State r \<in> set [''active'', ''blocked_mapping'']
      then r\<lparr>rsv_State := ''released_cancelled'', rsv_StateReason := ''marketplace_cancelled'',
             rsv_ReleasedAt := Some now\<rparr>
      else r\<lparr>rsv_State := ''manual_reconciliation'',
             rsv_StateReason := ''cancelled_during_sml_reconciliation''\<rparr>)"

definition ofOrder :: "string \<Rightarrow> string \<Rightarrow> string \<Rightarrow> string list \<Rightarrow> ReservationRow \<Rightarrow> bool" where
  "ofOrder source accountKey orderID states r \<longleftrightarrow>
     rsv_Source r = source \<and> rsv_AccountKey r = accountKey \<and> rsv_OrderID r = orderID \<and> rsv_State r \<in> set states"

text \<open>The resources of reservations without components, and those of their components.\<close>

definition plainDemand :: "SMLStore \<Rightarrow> ReservationRow list \<Rightarrow> resource list" where
  "plainDemand db rs = map own_resource
     (filter (\<lambda>r. rsv_ItemCode r \<noteq> [] \<and> componentsOf (db_components db) r = []) rs)"

definition componentDemand :: "SMLStore \<Rightarrow> ReservationRow list \<Rightarrow> resource list" where
  "componentDemand db rs = map component_resource (concat (map (componentsOf (db_components db)) rs))"

definition ReconcileMarketplaceReservationCancelled ::
    "instant \<Rightarrow> SMLStore \<Rightarrow> string \<Rightarrow> string \<Rightarrow> string \<Rightarrow> sml_error + SMLStore" where
  "ReconcileMarketplaceReservationCancelled now db source accountKey orderID =
     (let source = trim_space (to_lower source); accountKey = trim_space accountKey;
          orderID = trim_space orderID in
      if source = [] \<or> accountKey = [] \<or> orderID = [] then Inl ReservationIdentityRequired
      else
        let released = filter (ofOrder source accountKey orderID [''active'', ''blocked_mapping'']) (db_reservations db);
            db = db\<lparr>db_demand := bumpAll (componentDemand db released) (bumpAll (plainDemand db released) (db_demand db))\<rparr> in
        Inr (updateReservations
               (ofOrder source accountKey orderID [''active'', ''blocked_mapping'', ''sending_sml'', ''awaiting_stock_recalc''])
               (cancelled now) db))"

section \<open>Properties\<close>

lemma positiveRationalText_iff: "positiveRationalText v \<longleftrightarrow> (\<exists>q. rat_set_string (trim_space v) = Some q \<and> 0 < q)"
  by (simp add: positiveRationalText_def split: option.splits)

text \<open>
  A line reserves stock at once exactly when it carries a complete conversion: it is no shipping
  line, it has an alias, a mapping revision, a multiplier of at least one, positive unit values and
  a positive base quantity, an item code and no conversion issue. Everything else that is reserved
  stays blocked until its mapping is repaired.
\<close>

theorem buildMarketplaceReservation_active:
  "(\<exists>s. buildMarketplaceReservation source accountKey orderID item = Some s \<and> snp_State s = ''active'') \<longleftrightarrow>
     item_SourceSKU item \<notin> set shippingSKUs \<and> item_MarketplaceAliasID item \<noteq> None
     \<and> item_MappingRevision item \<noteq> None \<and> (\<exists>m. item_QuantityMultiplier item = Some m \<and> 1 \<le> m)
     \<and> (\<exists>v q. item_UnitStand item = Some v \<and> rat_set_string (trim_space v) = Some q \<and> 0 < q)
     \<and> (\<exists>v q. item_UnitDivide item = Some v \<and> rat_set_string (trim_space v) = Some q \<and> 0 < q)
     \<and> (\<exists>v q. item_BaseQty item = Some v \<and> trim_space v \<noteq> [] \<and> rat_set_string (trim_space v) = Some q \<and> 0 < q)
     \<and> (\<exists>v. item_ItemCode item = Some v \<and> trim_space v \<noteq> []) \<and> item_ConversionIssue item = []"
  (is "?l \<longleftrightarrow> ?r")
proof -
  let ?s = "lineSnapshot source accountKey orderID item"
  have f: "snp_State ?s = ''blocked_mapping''" "snp_BaseQty ?s = trim_space (text_of (item_BaseQty item))"
    "snp_SMLItemCode ?s = trim_space (text_of (item_ItemCode item))"
    "snp_QuantityMultiplier ?s = (case item_QuantityMultiplier item of None \<Rightarrow> 1 | Some m \<Rightarrow> m)"
    by (simp_all add: lineSnapshot_def)
  have t: "trim_space [] = []" by (rule trim_space_Nil)
  have "?l \<longleftrightarrow> item_SourceSKU item \<notin> set shippingSKUs \<and> item_MarketplaceAliasID item \<noteq> None
     \<and> item_MappingRevision item \<noteq> None \<and> item_QuantityMultiplier item \<noteq> None
     \<and> item_UnitStand item \<noteq> None \<and> item_UnitDivide item \<noteq> None \<and> snp_SMLItemCode ?s \<noteq> []
     \<and> snp_BaseQty ?s \<noteq> [] \<and> 1 \<le> snp_QuantityMultiplier ?s
     \<and> positiveRationalText (text_of (item_UnitStand item)) \<and> positiveRationalText (text_of (item_UnitDivide item))
     \<and> positiveRationalText (snp_BaseQty ?s) \<and> item_ConversionIssue item = []"
    unfolding buildMarketplaceReservation_def Let_def using f(1) by (auto simp: not_less)
  also have "\<dots> \<longleftrightarrow> ?r"
    unfolding f(2-4) positiveRationalText_iff trim_space_idem
    by (cases "item_QuantityMultiplier item"; cases "item_UnitStand item"; cases "item_UnitDivide item";
        cases "item_BaseQty item"; cases "item_ItemCode item") (auto simp: text_of_def t)
  finally show ?thesis .
qed

lemma newComponents_covers:
  "component_key ` set cs \<subseteq> component_key ` (set (db_components db) \<union> set (newComponents db cs))"
proof
  fix k assume "k \<in> component_key ` set cs"
  then obtain c where c: "c \<in> set cs" "k = component_key c" by blast
  show "k \<in> component_key ` (set (db_components db) \<union> set (newComponents db cs))"
  proof (cases "k \<in> component_key ` set (db_components db)")
    case False
    then have "c \<in> set (newComponents db cs)" using c by (simp add: newComponents_def)
    then show ?thesis using c(2) by blast
  qed blast
qed

lemma reserveSet_eq:
  assumes "numericOption env (Some (snp_BaseQty snapshot)) = Inr q"
    and "cs = setComponents db reservationID (case q of None \<Rightarrow> 0 | Some x \<Rightarrow> x)
           (snp_SetDefinitionHash snapshot) (snp_SMLItemCode snapshot)"
  shows "reserveSet env reservationID snapshot db =
    (if list_ex (\<lambda>c. rc_BaseQty c \<le> 0) cs then Inl (ConstraintViolation ''component quantity'')
     else if newComponents db cs = [] then
       Inr (updateReservations (\<lambda>r. rsv_ID r = reservationID)
              (\<lambda>r. r\<lparr>rsv_State := ''blocked_mapping'', rsv_StateReason := ''set_definition_unavailable''\<rparr>) db)
     else
       let db = db\<lparr>db_components := db_components db @ newComponents db cs\<rparr> in
       Inr (db\<lparr>db_demand := bumpAll
             (map (\<lambda>c. ([], [], rc_ItemCode c)) (filter (\<lambda>c. rc_ReservationID c = reservationID) (db_components db)))
             (db_demand db)\<rparr>))"
  using assms by (simp add: reserveSet_def Let_def)

text \<open>
  Reserving the same set line a second time blocks it: no component row is new, so the code
  takes the definition for unavailable, whatever the state of the reservation and of the
  definition. The conflict clauses of both inserts are there for exactly this repetition.
\<close>

theorem reserveSet_again:
  assumes "reserveSet env reservationID snapshot db = Inr db1"
  shows "\<exists>db2. reserveSet env reservationID snapshot db1 = Inr db2
    \<and> (\<forall>r\<in>set (db_reservations db2). rsv_ID r = reservationID \<longrightarrow> rsv_State r = ''blocked_mapping''
         \<and> rsv_StateReason r = ''set_definition_unavailable'')"
proof -
  obtain q where q: "numericOption env (Some (snp_BaseQty snapshot)) = Inr q"
    using assms by (auto simp: reserveSet_def result_simps)
  define cs where "cs d = setComponents d reservationID (case q of None \<Rightarrow> 0 | Some x \<Rightarrow> x)
     (snp_SetDefinitionHash snapshot) (snp_SMLItemCode snapshot)" for d
  have same: "cs d = cs db" if "db_set_components d = db_set_components db" for d
    using that by (simp add: cs_def setComponents_def setRows_def)
  have pos: "\<not> list_ex (\<lambda>c. rc_BaseQty c \<le> 0) (cs db)"
    using assms by (auto simp: reserveSet_eq [OF q cs_def [of db]] split: if_splits)
  have "db_set_components db1 = db_set_components db
     \<and> set (db_components db1) = set (db_components db) \<union> set (newComponents db (cs db))"
    using assms pos
    by (auto simp: reserveSet_eq [OF q cs_def [of db]] Let_def updateReservations_def split: if_splits)
  then have c: "cs db1 = cs db" "set (db_components db1) = set (db_components db) \<union> set (newComponents db (cs db))"
    using same [of db1] by simp_all
  have n: "newComponents db1 (cs db) = []"
    using newComponents_covers [of "cs db" db]
    unfolding newComponents_def [of db1] filter_empty_conv c(2) by blast
  define db2 where "db2 = updateReservations (\<lambda>r. rsv_ID r = reservationID)
      (\<lambda>r. r\<lparr>rsv_State := ''blocked_mapping'', rsv_StateReason := ''set_definition_unavailable''\<rparr>) db1"
  have "\<forall>r\<in>set (db_reservations db2). rsv_ID r = reservationID \<longrightarrow> rsv_State r = ''blocked_mapping''
         \<and> rsv_StateReason r = ''set_definition_unavailable''"
    by (simp add: db2_def all_updateReservations)
  moreover have "reserveSet env reservationID snapshot db1 = Inr db2"
    using pos c(1) n by (simp add: reserveSet_eq [OF q cs_def [of db1]] db2_def)
  ultimately show ?thesis by blast
qed

definition sample_set_store :: SMLStore where
  "sample_set_store = sample_store\<lparr>db_set_components :=
     [\<lparr>sc_ParentCode = ''P1'', sc_ItemCode = ''C1'', sc_DefinitionHash = ''h'', sc_Active = True,
       sc_UnitValid = True, sc_Qty = 3, sc_UnitFactor = 1\<rparr>]\<rparr>"

definition sample_snapshot :: marketplaceReservationSnapshot where
  "sample_snapshot = (lineSnapshot ''shopee'' ''shop'' ''O1''
     \<lparr>item_ID = ''L1'', item_SourceSKU = [], item_SourceItemID = ''5'', item_SourceVariantID = [],
      item_SourceLineID = ''1'', item_MarketplaceAliasID = Some ''AL'', item_ItemCode = Some ''P1'',
      item_Qty = Float 2, item_SourceQty = None, item_QuantityMultiplier = Some 1, item_UnitStand = Some ''1'',
      item_UnitDivide = Some ''1'', item_BaseQty = Some ''2'', item_MappingRevision = Some 1,
      item_SetHash = ''h'', item_ConversionIssue = [], item_UnitCode = None\<rparr>)\<lparr>snp_State := ''active''\<rparr>"

lemma sample_reserveSet:
  "\<not> isl (reserveSet sample_env ''R1'' sample_snapshot sample_set_store)"
  "map rsv_State (db_reservations (projr (reserveSet sample_env ''R1'' sample_snapshot sample_set_store))) = [''active'']"
  "map rsv_ID (db_reservations (projr (reserveSet sample_env ''R1'' sample_snapshot
     (projr (reserveSet sample_env ''R1'' sample_snapshot sample_set_store))))) = [''R1'']"
  by code_simp+

theorem reserveSet_again_witness:
  "map rsv_State (db_reservations (projr (reserveSet sample_env ''R1'' sample_snapshot sample_set_store))) = [''active'']
   \<and> map rsv_State (db_reservations (projr (reserveSet sample_env ''R1'' sample_snapshot
        (projr (reserveSet sample_env ''R1'' sample_snapshot sample_set_store))))) = [''blocked_mapping'']"
  using reserveSet_again [OF projr_Inr [OF sample_reserveSet(1)]] sample_reserveSet(2,3) by auto

text \<open>
  A cancelled order releases exactly the demand that is not on its way to SML: its active and
  blocked reservations are released, those that are being sent or wait for the recalculation are
  handed to an operator, all others are untouched; and the revision of every resource that a
  released reservation demanded goes up.
\<close>

theorem ReconcileMarketplaceReservationCancelled_spec:
  assumes "ReconcileMarketplaceReservationCancelled now db source accountKey orderID = Inr db'"
    and "src = trim_space (to_lower source)" "acc = trim_space accountKey" "ord = trim_space orderID"
  shows "db_reservations db' = map (\<lambda>r.
       if ofOrder src acc ord [''active'', ''blocked_mapping''] r
       then r\<lparr>rsv_State := ''released_cancelled'', rsv_StateReason := ''marketplace_cancelled'', rsv_ReleasedAt := Some now\<rparr>
       else if ofOrder src acc ord [''sending_sml'', ''awaiting_stock_recalc''] r
       then r\<lparr>rsv_State := ''manual_reconciliation'', rsv_StateReason := ''cancelled_during_sml_reconciliation''\<rparr>
       else r) (db_reservations db)
     \<and> (\<forall>k. revision (db_demand db) k \<le> revision (db_demand db') k)
     \<and> (\<forall>k\<in>set (demand_of (db_components db) (filter (ofOrder src acc ord [''active'', ''blocked_mapping'']) (db_reservations db))).
          revision (db_demand db) k < revision (db_demand db') k)"
proof -
  let ?open = "filter (ofOrder src acc ord [''active'', ''blocked_mapping'']) (db_reservations db)"
  let ?all = "ofOrder src acc ord [''active'', ''blocked_mapping'', ''sending_sml'', ''awaiting_stock_recalc'']"
  have db': "db_reservations db' = map (\<lambda>r. if ?all r then cancelled now r else r) (db_reservations db)"
    "db_demand db' = bumpAll (componentDemand db ?open) (bumpAll (plainDemand db ?open) (db_demand db))"
    using assms by (auto simp: ReconcileMarketplaceReservationCancelled_def Let_def updateReservations_def split: if_splits)
  have "set (demand_of (db_components db) ?open) \<subseteq> set (componentDemand db ?open) \<union> set (plainDemand db ?open)"
  proof
    fix k assume "k \<in> set (demand_of (db_components db) ?open)"
    then obtain r where r: "r \<in> set ?open" "k \<in> set (resources_of (db_components db) r)"
      by (auto simp: demand_of_def)
    show "k \<in> set (componentDemand db ?open) \<union> set (plainDemand db ?open)"
    proof (cases "componentsOf (db_components db) r = []")
      case True
      then have "rsv_ItemCode r \<noteq> []" "k = own_resource r" using r(2) by (auto simp: resources_of_def split: if_splits)
      then show ?thesis using r(1) True by (auto simp: plainDemand_def)
    next
      case False
      then have "k \<in> component_resource ` set (componentsOf (db_components db) r)"
        using r(2) by (auto simp: resources_of_def split: list.splits)
      then show ?thesis using r(1) by (auto simp: componentDemand_def)
    qed
  qed
  then have up: "revision (db_demand db) k < revision (db_demand db') k"
    if "k \<in> set (demand_of (db_components db) ?open)" for k
    using that by (auto simp: db'(2) revision_bumpAll)
  have mono: "revision (db_demand db) k \<le> revision (db_demand db') k" for k
    by (simp add: db'(2) revision_bumpAll)
  have "(if ?all r then cancelled now r else r) =
     (if ofOrder src acc ord [''active'', ''blocked_mapping''] r
       then r\<lparr>rsv_State := ''released_cancelled'', rsv_StateReason := ''marketplace_cancelled'', rsv_ReleasedAt := Some now\<rparr>
       else if ofOrder src acc ord [''sending_sml'', ''awaiting_stock_recalc''] r
       then r\<lparr>rsv_State := ''manual_reconciliation'', rsv_StateReason := ''cancelled_during_sml_reconciliation''\<rparr>
       else r)" for r
    by (auto simp: ofOrder_def cancelled_def)
  then show ?thesis using db'(1) mono up by simp
qed

theorem ReconcileMarketplaceReservationCancelled_spec_witness:
  "\<exists>db'. ReconcileMarketplaceReservationCancelled 0 sample_store ''Shopee'' ''shop'' ''O1'' = Inr db'
     \<and> revision (db_demand db') ([], [], ''P1'') = 1
     \<and> revision (db_demand sample_store) ([], [], ''P1'') < revision (db_demand db') ([], [], ''P1'')"
proof -
  let ?r = "ReconcileMarketplaceReservationCancelled 0 sample_store ''Shopee'' ''shop'' ''O1''"
  have *: "\<not> isl ?r" "revision (db_demand (projr ?r)) ([], [], ''P1'') = 1"
    "([], [], ''P1'') \<in> set (demand_of (db_components sample_store)
       (filter (ofOrder ''shopee'' ''shop'' ''O1'' [''active'', ''blocked_mapping'']) (db_reservations sample_store)))"
    "''shopee'' = trim_space (to_lower ''Shopee'')" "''shop'' = trim_space ''shop''" "''O1'' = trim_space ''O1''"
    by code_simp+
  have "?r = Inr (projr ?r)" by (rule projr_Inr [OF *(1)])
  from ReconcileMarketplaceReservationCancelled_spec [OF this *(4-6)] this show ?thesis using *(2,3) by blast
qed


end
