(* ===== verification/Stock_RecalcStore.thy ===== *)
theory Stock_RecalcStore
  imports Stock_Reservation "HOL-Library.List_Lexorder" "HOL-Library.Char_ord"
begin

text \<open>
  The queue of stock recalculations (\<open>repository/stock_reservation_repo.go\<close>): a sent document waits
  until SML has recalculated its items and reports evidence for every line of demand; only then do
  its reservations leave the ledger. Every operation is one transaction.
\<close>

section \<open>Claiming a job\<close>

record StockRecalcJob =
  job_ID :: string
  job_BillID :: string
  job_SMLAttemptID :: string
  job_AttemptCount :: int
  job_LeaseOwner :: string
  job_LeaseUntil :: "instant option"
  job_ProcessSucceededAt :: "instant option"

definition claimable :: "instant \<Rightarrow> RecalcJobRow \<Rightarrow> bool" where
  "claimable now j \<longleftrightarrow> rj_Status j \<in> set [''queued'', ''failed''] \<and> rj_NextAttemptAt j \<le> now
     \<and> (case rj_LeaseUntil j of None \<Rightarrow> True | Some t \<Rightarrow> t < now)"

definition updateJob :: "string \<Rightarrow> (RecalcJobRow \<Rightarrow> RecalcJobRow) \<Rightarrow> SMLStore \<Rightarrow> SMLStore" where
  "updateJob jobID f db =
     db\<lparr>db_recalc_jobs := map (\<lambda>j. if rj_ID j = jobID then f j else j) (db_recalc_jobs db)\<rparr>"

definition claimedJob :: "instant \<Rightarrow> string \<Rightarrow> duration \<Rightarrow> RecalcJobRow \<Rightarrow> RecalcJobRow" where
  "claimedJob now leaseOwner d j =
     j\<lparr>rj_Status := ''running'', rj_AttemptCount := rj_AttemptCount j + 1, rj_LeaseOwner := leaseOwner,
       rj_LeaseUntil := Some (leaseEnd now (defaultLease d))\<rparr>"

definition jobOf :: "RecalcJobRow \<Rightarrow> StockRecalcJob" where
  "jobOf j = \<lparr>job_ID = rj_ID j, job_BillID = text_of (rj_BillID j), job_SMLAttemptID = text_of (rj_AttemptID j),
     job_AttemptCount = rj_AttemptCount j, job_LeaseOwner = rj_LeaseOwner j, job_LeaseUntil = rj_LeaseUntil j,
     job_ProcessSucceededAt = rj_ProcessSucceededAt j\<rparr>"

definition ClaimStockRecalcJob ::
    "instant \<Rightarrow> SMLStore \<Rightarrow> string \<Rightarrow> duration \<Rightarrow> SMLStore \<times> StockRecalcJob option" where
  "ClaimStockRecalcJob now db leaseOwner leaseDuration =
     (case sort_by (\<lambda>j. (rj_NextAttemptAt j, rj_CreatedAt j, rj_ID j))
             (filter (claimable now) (db_recalc_jobs db)) of
        [] \<Rightarrow> (db, None)
      | j # _ \<Rightarrow>
          (updateJob (rj_ID j) (claimedJob now leaseOwner leaseDuration) db,
           Some (jobOf (claimedJob now leaseOwner leaseDuration j))))"

text \<open>\<open>UPDATE ... WHERE id = $1 AND lease_owner = $2 AND status = 'running'\<close>.\<close>

definition runningJob :: "SMLStore \<Rightarrow> string \<Rightarrow> string \<Rightarrow> RecalcJobRow option" where
  "runningJob db jobID leaseOwner =
     (case lookup_by rj_ID (db_recalc_jobs db) jobID of None \<Rightarrow> None
      | Some j \<Rightarrow> if rj_LeaseOwner j = leaseOwner \<and> rj_Status j = ''running'' then Some j else None)"

definition MarkStockRecalcProcessed ::
    "instant \<Rightarrow> SMLStore \<Rightarrow> string \<Rightarrow> string \<Rightarrow> sml_error + SMLStore" where
  "MarkStockRecalcProcessed now db jobID leaseOwner =
     (case runningJob db jobID leaseOwner of None \<Rightarrow> Inl ErrSMLAttemptLeaseLost
      | Some _ \<Rightarrow> Inr (updateJob jobID (\<lambda>j. j\<lparr>rj_ProcessSucceededAt := Some now\<rparr>) db))"

section \<open>The demand of a job\<close>

record StockRecalcDemandLine =
  dl_EvidenceID :: string
  dl_ReservationID :: string
  dl_SMLAttemptID :: string
  dl_DocNo :: string
  dl_Route :: string
  dl_ItemCode :: string
  dl_Warehouse :: string
  dl_Location :: string
  dl_ExpectedBaseQtyExact :: string
  dl_EvidenceKind :: string

record StockRecalcDemand =
  dem_ItemCodes :: "string list"
  dem_Warehouse :: string
  dem_Location :: string
  dem_Lines :: "StockRecalcDemandLine list"

text \<open>What a reservation demands, with quantities: its components, or itself when it has none.\<close>

definition demandRows :: "ComponentRow list \<Rightarrow> ReservationRow \<Rightarrow> (resource \<times> rat option) list" where
  "demandRows cs r =
     (case componentsOf cs r of
        [] \<Rightarrow> if rsv_ItemCode r \<noteq> [] then [(own_resource r, rsv_BaseQty r)] else []
      | c # rest \<Rightarrow> map (\<lambda>c. (component_resource c, Some (rc_BaseQty c))) (c # rest))"

definition awaiting :: "SMLStore \<Rightarrow> RecalcJobRow \<Rightarrow> ReservationRow list" where
  "awaiting db j = filter (\<lambda>r. rj_BillID j \<noteq> None \<and> rsv_BillID r = rj_BillID j
     \<and> rsv_State r = ''awaiting_stock_recalc'') (db_reservations db)"

definition jobAttempt :: "SMLStore \<Rightarrow> RecalcJobRow \<Rightarrow> SMLAttemptRow option" where
  "jobAttempt db j = (case rj_AttemptID j of None \<Rightarrow> None | Some i \<Rightarrow> lookup_by att_ID (db_attempts db) i)"

text \<open>The rows of the query in its order, and the loop that turns them into lines.\<close>

definition demandQuery :: "SMLStore \<Rightarrow> RecalcJobRow \<Rightarrow> (ReservationRow \<times> resource \<times> rat option) list" where
  "demandQuery db j =
     sort_by (\<lambda>(r, (w, l, item), q). (rsv_ID r, item, w, l))
       (concat (map (\<lambda>r. map (Pair r) (demandRows (db_components db) r)) (awaiting db j)))"

definition evidenceKind :: "string \<Rightarrow> string option" where
  "evidenceKind route =
     (if route = ''saleorder'' then Some ''sale_order_demand''
      else if route = ''saleinvoice'' then Some ''stock_movement'' else None)"

fun demandLoop ::
    "sml_env \<Rightarrow> SMLAttemptRow \<Rightarrow> (ReservationRow \<times> resource \<times> rat option) list \<Rightarrow> StockRecalcDemand \<Rightarrow>
     sml_error + StockRecalcDemand" where
  "demandLoop env a [] result = Inr result"
| "demandLoop env a ((r, (warehouse, location, code), q) # rows) result =
     (case q of None \<Rightarrow> Inl (ConstraintViolation ''scan'')
      | Some qty \<Rightarrow>
          let route = to_lower (trim_space (att_Route a)) in
          (case evidenceKind route of None \<Rightarrow> Inl (UnsupportedEvidenceRoute route)
           | Some kind \<Rightarrow>
               let line = \<lparr>dl_EvidenceID = join [rsv_ID r, code, warehouse, location] '':'',
                     dl_ReservationID = rsv_ID r, dl_SMLAttemptID = att_ID a, dl_DocNo = att_DocNo a,
                     dl_Route = route, dl_ItemCode = code, dl_Warehouse = warehouse, dl_Location = location,
                     dl_ExpectedBaseQtyExact = env_numeric_text env qty, dl_EvidenceKind = kind\<rparr> in
               if \<not> (dem_Warehouse result = [] \<and> dem_Location result = [])
                  \<and> (dem_Warehouse result \<noteq> warehouse \<or> dem_Location result \<noteq> location)
               then Inl StockScopeMismatch
               else demandLoop env a rows
                 \<lparr>dem_ItemCodes = (if code \<in> set (dem_ItemCodes result) then dem_ItemCodes result
                                  else dem_ItemCodes result @ [code]),
                  dem_Warehouse = warehouse, dem_Location = location,
                  dem_Lines = dem_Lines result @ [line]\<rparr>))"

definition emptyDemand :: StockRecalcDemand where
  "emptyDemand = \<lparr>dem_ItemCodes = [], dem_Warehouse = [], dem_Location = [], dem_Lines = []\<rparr>"

definition StockRecalcDemandOf :: "sml_env \<Rightarrow> SMLStore \<Rightarrow> string \<Rightarrow> sml_error + StockRecalcDemand" where
  "StockRecalcDemandOf env db jobID =
     (case lookup_by rj_ID (db_recalc_jobs db) jobID of None \<Rightarrow> Inr emptyDemand
      | Some j \<Rightarrow>
          (case jobAttempt db j of None \<Rightarrow> Inr emptyDemand
           | Some a \<Rightarrow> demandLoop env a (demandQuery db j) emptyDemand))"

section \<open>Completion with evidence\<close>

record VerifiedStockEvidence = StockRecalcDemandLine +
  ve_EvidenceGroupID :: string
  ve_ScopeExpectedQtyExact :: string
  ve_ActualBaseQtyExact :: string
  ve_SourceFingerprint :: string
  ve_EvidenceHash :: string
  ve_VerifiedSourceSnapshotAt :: instant

definition evidenceComplete :: "VerifiedStockEvidence \<Rightarrow> bool" where
  "evidenceComplete e \<longleftrightarrow> trim_space (ve_SourceFingerprint e) \<noteq> [] \<and> trim_space (ve_EvidenceHash e) \<noteq> []
     \<and> ve_VerifiedSourceSnapshotAt e \<noteq> zero_time \<and> trim_space (ve_ActualBaseQtyExact e) \<noteq> []
     \<and> trim_space (dl_ExpectedBaseQtyExact e) \<noteq> [] \<and> trim_space (ve_EvidenceGroupID e) \<noteq> []
     \<and> trim_space (ve_ScopeExpectedQtyExact e) \<noteq> []"

fun checkEvidence :: "string \<Rightarrow> VerifiedStockEvidence list \<Rightarrow> sml_error + unit" where
  "checkEvidence fingerprint [] = Inr ()"
| "checkEvidence fingerprint (e # es) =
     (if \<not> evidenceComplete e then Inl EvidenceIncomplete
      else if trim_space (ve_SourceFingerprint e) \<noteq> fingerprint then Inl EvidenceMixedFingerprints
      else checkEvidence fingerprint es)"

definition evidence_key :: "EvidenceRow \<Rightarrow> string list" where
  "evidence_key e = [ev_ReservationID e, ev_AttemptID e, ev_Warehouse e, ev_Location e, ev_ItemCode e, ev_Kind e]"

text \<open>The row of the insert, with the checks of migration 087, and the merge of its conflict clause.\<close>

definition numericValue :: "sml_env \<Rightarrow> string \<Rightarrow> sml_error + rat" where
  "numericValue env s = of_option (ConstraintViolation ''numeric'') (env_numeric env s)"

definition evidenceRow :: "sml_env \<Rightarrow> instant \<Rightarrow> string \<Rightarrow> VerifiedStockEvidence \<Rightarrow> sml_error + EvidenceRow" where
  "evidenceRow env now attemptID e =
     and_then (numericValue env (dl_ExpectedBaseQtyExact e)) (\<lambda>expected.
     and_then (numericValue env (ve_ScopeExpectedQtyExact e)) (\<lambda>scope.
     and_then (numericValue env (ve_ActualBaseQtyExact e)) (\<lambda>actual.
       if expected \<le> 0 \<or> scope \<le> 0 \<or> dl_EvidenceKind e \<notin> set [''sale_order_demand'', ''stock_movement'']
       then Inl (ConstraintViolation ''evidence'')
       else Inr \<lparr>ev_ReservationID = dl_ReservationID e, ev_AttemptID = attemptID, ev_DocNo = dl_DocNo e,
         ev_Route = dl_Route e, ev_Warehouse = dl_Warehouse e, ev_Location = dl_Location e,
         ev_ItemCode = dl_ItemCode e, ev_ExpectedQty = expected, ev_GroupID = ve_EvidenceGroupID e,
         ev_ScopeQty = scope, ev_ActualQty = Some actual, ev_Kind = dl_EvidenceKind e, ev_Status = ''verified'',
         ev_Fingerprint = ve_SourceFingerprint e, ev_Hash = ve_EvidenceHash e,
         ev_SnapshotAt = Some (ve_VerifiedSourceSnapshotAt e), ev_VerifiedAt = Some now, ev_RetryCount = 1,
         ev_LastReason = []\<rparr>)))"

definition mergeEvidence :: "EvidenceRow \<Rightarrow> EvidenceRow \<Rightarrow> EvidenceRow" where
  "mergeEvidence new old =
     old\<lparr>ev_GroupID := ev_GroupID new, ev_ScopeQty := ev_ScopeQty new, ev_ActualQty := ev_ActualQty new,
         ev_Status := ''verified'', ev_Fingerprint := ev_Fingerprint new, ev_Hash := ev_Hash new,
         ev_SnapshotAt := ev_SnapshotAt new, ev_VerifiedAt := ev_VerifiedAt new,
         ev_RetryCount := ev_RetryCount old + 1, ev_LastReason := []\<rparr>"

fun upsertEvidence :: "EvidenceRow \<Rightarrow> EvidenceRow list \<Rightarrow> EvidenceRow list" where
  "upsertEvidence new [] = [new]"
| "upsertEvidence new (e # es) =
     (if evidence_key e = evidence_key new then mergeEvidence new e # es else e # upsertEvidence new es)"

text \<open>The row comes from a join: without the leased job, its attempt or the awaiting reservation
  there is nothing to insert.\<close>

definition evidenceSource :: "SMLStore \<Rightarrow> string \<Rightarrow> string \<Rightarrow> VerifiedStockEvidence \<Rightarrow> RecalcJobRow option" where
  "evidenceSource db jobID leaseOwner e =
     (case runningJob db jobID leaseOwner of None \<Rightarrow> None
      | Some j \<Rightarrow>
          if rj_ProcessSucceededAt j \<noteq> None \<and> rj_AttemptID j = Some (dl_SMLAttemptID e)
             \<and> list_ex (\<lambda>r. rsv_ID r = dl_ReservationID e) (awaiting db j)
          then Some j else None)"

fun insertEvidence ::
    "sml_env \<Rightarrow> instant \<Rightarrow> string \<Rightarrow> string \<Rightarrow> VerifiedStockEvidence list \<Rightarrow> SMLStore \<Rightarrow> sml_error + SMLStore" where
  "insertEvidence env now jobID leaseOwner [] db = Inr db"
| "insertEvidence env now jobID leaseOwner (e # es) db =
     (case evidenceSource db jobID leaseOwner e of None \<Rightarrow> Inl ErrSMLAttemptLeaseLost
      | Some j \<Rightarrow>
          and_then (evidenceRow env now (dl_SMLAttemptID e) e) (\<lambda>row.
            insertEvidence env now jobID leaseOwner es (db\<lparr>db_evidence := upsertEvidence row (db_evidence db)\<rparr>)))"

text \<open>A line of demand is represented by a verified row of evidence for exactly its quantity.\<close>

definition represents ::
    "string \<Rightarrow> string \<Rightarrow> string \<Rightarrow> ReservationRow \<Rightarrow> resource \<times> rat option \<Rightarrow> EvidenceRow \<Rightarrow> bool" where
  "represents fingerprint attemptID kind r line e \<longleftrightarrow>
     (case line of ((warehouse, location, code), qty) \<Rightarrow>
       ev_ReservationID e = rsv_ID r \<and> ev_AttemptID e = attemptID \<and> ev_ItemCode e = code
       \<and> ev_Warehouse e = warehouse \<and> ev_Location e = location \<and> ev_Kind e = kind
       \<and> qty = Some (ev_ExpectedQty e) \<and> ev_Status e = ''verified'' \<and> ev_Fingerprint e = fingerprint
       \<and> ev_GroupID e \<noteq> [] \<and> ev_ActualQty e = Some (ev_ScopeQty e))"

definition missingEvidence :: "SMLStore \<Rightarrow> string \<Rightarrow> RecalcJobRow \<Rightarrow> nat" where
  "missingEvidence db fingerprint j =
     (case jobAttempt db j of None \<Rightarrow> 0
      | Some a \<Rightarrow>
          let kind = (if to_lower (att_Route a) = ''saleorder'' then ''sale_order_demand'' else ''stock_movement'') in
          length (filter (\<lambda>(r, line). \<not> list_ex (represents fingerprint (att_ID a) kind r line) (db_evidence db))
            (concat (map (\<lambda>r. map (Pair r) (demandRows (db_components db) r)) (awaiting db j)))))"

definition CompleteStockRecalcJob ::
    "sml_env \<Rightarrow> instant \<Rightarrow> SMLStore \<Rightarrow> string \<Rightarrow> string \<Rightarrow> VerifiedStockEvidence list \<Rightarrow> sml_error + SMLStore" where
  "CompleteStockRecalcJob env now db jobID leaseOwner evidence =
     (case evidence of [] \<Rightarrow> Inl EvidenceRequired
      | first # _ \<Rightarrow>
          let fingerprint = trim_space (ve_SourceFingerprint first) in
          and_then (checkEvidence fingerprint evidence) (\<lambda>_.
          and_then (insertEvidence env now jobID leaseOwner evidence db) (\<lambda>db.
            case runningJob db jobID leaseOwner of None \<Rightarrow> Inl ErrSMLAttemptLeaseLost
            | Some j \<Rightarrow>
                if missingEvidence db fingerprint j \<noteq> 0 then Inl (EvidenceMissing (missingEvidence db fingerprint j))
                else if rj_ProcessSucceededAt j = None then Inl ErrSMLAttemptLeaseLost
                else if rj_BillID j = None then Inl (ConstraintViolation ''scan'')
                else
                  let rs = awaiting db j;
                      db = updateJob jobID (\<lambda>j. j\<lparr>rj_Status := ''completed'', rj_BalanceVerifiedAt := Some now,
                             rj_LeaseOwner := [], rj_LeaseUntil := None, rj_Error := []\<rparr>) db;
                      db = db\<lparr>db_demand := bumpAll (plainDemand db rs) (bumpAll (componentDemand db rs) (db_demand db))\<rparr> in
                  Inr (updateReservations
                    (\<lambda>r. rsv_BillID r = rj_BillID j \<and> rsv_State r = ''awaiting_stock_recalc'')
                    (\<lambda>r. r\<lparr>rsv_State := ''incorporated_in_sml'', rsv_IncorporatedAt := Some now\<rparr>) db))))"

section \<open>Failure\<close>

text \<open>Seconds until the next attempt: 15 doubled for every attempt, at most an hour.\<close>

definition recalcBackoff :: "int \<Rightarrow> int" where
  "recalcBackoff attemptCount = min 3600 (2 ^ nat (min attemptCount 8) * 15)"

definition FailStockRecalcJob ::
    "instant \<Rightarrow> SMLStore \<Rightarrow> string \<Rightarrow> string \<Rightarrow> string \<Rightarrow> sml_error + SMLStore" where
  "FailStockRecalcJob now db jobID leaseOwner message =
     (case runningJob db jobID leaseOwner of None \<Rightarrow> Inl ErrSMLAttemptLeaseLost
      | Some j \<Rightarrow>
          let status = (if rj_AttemptCount j \<ge> 10 then ''manual_reconciliation'' else ''failed'');
              db = updateJob jobID (\<lambda>_. j\<lparr>rj_Status := status,
                     rj_NextAttemptAt := now + recalcBackoff (rj_AttemptCount j) * second,
                     rj_LeaseOwner := [], rj_LeaseUntil := None, rj_Error := message\<rparr>) db in
          if status = ''manual_reconciliation'' \<and> rj_BillID j \<noteq> None then
            Inr (updateReservations
              (\<lambda>r. rsv_BillID r = rj_BillID j \<and> rsv_State r = ''awaiting_stock_recalc'')
              (\<lambda>r. r\<lparr>rsv_State := ''manual_reconciliation'', rsv_StateReason := ''stock_recalc_verification_failed''\<rparr>) db)
          else Inr db)"

end
