(* ===== verification/Stock_RecalcSafety.thy ===== *)
theory Stock_RecalcSafety
  imports Stock_RecalcStore SML_AttemptSafety
begin

text \<open>
  What the recalculation queue promises: its jobs are leased, tried at most ten times, and complete
  only with evidence for every line of demand; and what it does not promise, that a job whose
  worker died is ever taken up again.
\<close>

section \<open>The jobs\<close>

lemma updateJob_frame [simp]:
  "db_recalc_jobs (updateReservations p f db) = db_recalc_jobs db"
  "db_reservations (updateJob i g db) = db_reservations db"
  "db_components (updateJob i g db) = db_components db"
  "db_demand (updateJob i g db) = db_demand db"
  by (simp_all add: updateReservations_def updateJob_def)

lemma ClaimStockRecalcJob_Some:
  assumes "ClaimStockRecalcJob now db w d = (db', Some job)"
  shows "\<exists>j\<in>set (db_recalc_jobs db). claimable now j \<and> job = jobOf (claimedJob now w d j)
     \<and> db' = updateJob (rj_ID j) (claimedJob now w d) db"
proof -
  let ?q = "sort_by (\<lambda>j. (rj_NextAttemptAt j, rj_CreatedAt j, rj_ID j)) (filter (claimable now) (db_recalc_jobs db))"
  obtain j js where q: "?q = j # js" using assms by (auto simp: ClaimStockRecalcJob_def split: list.splits)
  have "j \<in> set ?q" by (simp add: q)
  then have "j \<in> set (db_recalc_jobs db)" "claimable now j" by (simp_all only: set_sort_by set_filter mem_Collect_eq)
  then show ?thesis using assms q by (auto simp: ClaimStockRecalcJob_def)
qed

lemma ClaimStockRecalcJob_None: "ClaimStockRecalcJob now db w d = (db', None) \<Longrightarrow> db' = db"
  by (auto simp: ClaimStockRecalcJob_def split: list.splits)

lemma runningJob_Some:
  "runningJob db i w = Some j \<Longrightarrow> j \<in> set (db_recalc_jobs db) \<and> rj_ID j = i \<and> rj_LeaseOwner j = w
     \<and> rj_Status j = ''running''"
  by (auto simp: runningJob_def dest: lookup_by_Some split: option.splits if_splits)

lemma insertEvidence_frame:
  "insertEvidence env now i w es db = Inr db' \<Longrightarrow>
     db_recalc_jobs db' = db_recalc_jobs db \<and> db_reservations db' = db_reservations db
     \<and> db_components db' = db_components db \<and> db_demand db' = db_demand db \<and> db_attempts db' = db_attempts db"
  by (induction es arbitrary: db) (fastforce simp: result_simps split: option.splits)+

definition completedJob :: "instant \<Rightarrow> RecalcJobRow \<Rightarrow> RecalcJobRow" where
  "completedJob now j = j\<lparr>rj_Status := ''completed'', rj_BalanceVerifiedAt := Some now,
     rj_LeaseOwner := [], rj_LeaseUntil := None, rj_Error := []\<rparr>"

text \<open>The intermediate store, with the evidence of the call, and the checks that passed on it.\<close>

lemma CompleteStockRecalcJob_Inr:
  assumes "CompleteStockRecalcJob env now db i w evidence = Inr db'"
  shows "\<exists>db1 j. evidence \<noteq> [] \<and> insertEvidence env now i w evidence db = Inr db1
     \<and> runningJob db1 i w = Some j \<and> rj_ProcessSucceededAt j \<noteq> None \<and> rj_BillID j \<noteq> None
     \<and> missingEvidence db1 (trim_space (ve_SourceFingerprint (hd evidence))) j = 0
     \<and> db' = updateReservations (\<lambda>r. rsv_BillID r = rj_BillID j \<and> rsv_State r = ''awaiting_stock_recalc'')
          (\<lambda>r. r\<lparr>rsv_State := ''incorporated_in_sml'', rsv_IncorporatedAt := Some now\<rparr>)
          ((updateJob i (completedJob now) db1)\<lparr>db_demand := bumpAll (plainDemand db1 (awaiting db1 j))
             (bumpAll (componentDemand db1 (awaiting db1 j)) (db_demand db1))\<rparr>)"
proof -
  have p: "plainDemand (updateJob i g d) rs = plainDemand d rs" "componentDemand (updateJob i g d) rs = componentDemand d rs"
    for g d rs by (simp_all add: plainDemand_def componentDemand_def)
  obtain e es where ev: "evidence = e # es"
    using assms by (auto simp: CompleteStockRecalcJob_def split: list.splits)
  obtain db1 where 1: "insertEvidence env now i w (e # es) db = Inr db1"
    and r: "(case runningJob db1 i w of None \<Rightarrow> Inl ErrSMLAttemptLeaseLost
            | Some j \<Rightarrow>
                if missingEvidence db1 (trim_space (ve_SourceFingerprint e)) j \<noteq> 0
                then Inl (EvidenceMissing (missingEvidence db1 (trim_space (ve_SourceFingerprint e)) j))
                else if rj_ProcessSucceededAt j = None then Inl ErrSMLAttemptLeaseLost
                else if rj_BillID j = None then Inl (ConstraintViolation ''scan'')
                else Inr (updateReservations (\<lambda>r. rsv_BillID r = rj_BillID j \<and> rsv_State r = ''awaiting_stock_recalc'')
                  (\<lambda>r. r\<lparr>rsv_State := ''incorporated_in_sml'', rsv_IncorporatedAt := Some now\<rparr>)
                  ((updateJob i (completedJob now) db1)\<lparr>db_demand := bumpAll (plainDemand db1 (awaiting db1 j))
                     (bumpAll (componentDemand db1 (awaiting db1 j)) (db_demand db1))\<rparr>))) = Inr db'"
    using assms unfolding CompleteStockRecalcJob_def ev list.case Let_def completedJob_def [symmetric] p and_then_eq_Inr updateJob_frame
    by (elim exE conjE) (rule that)
  obtain j where "runningJob db1 i w = Some j" using r by (cases "runningJob db1 i w") simp_all
  then show ?thesis using r 1 ev
    by (intro exI [of _ db1] exI [of _ j]) (simp split: if_split_asm)
qed

definition failedJob :: "instant \<Rightarrow> string \<Rightarrow> RecalcJobRow \<Rightarrow> RecalcJobRow" where
  "failedJob now message j =
     j\<lparr>rj_Status := (if rj_AttemptCount j \<ge> 10 then ''manual_reconciliation'' else ''failed''),
       rj_NextAttemptAt := now + recalcBackoff (rj_AttemptCount j) * second,
       rj_LeaseOwner := [], rj_LeaseUntil := None, rj_Error := message\<rparr>"

lemma FailStockRecalcJob_Inr:
  assumes "FailStockRecalcJob now db i w message = Inr db'"
  shows "\<exists>j. runningJob db i w = Some j \<and>
     (db' = updateJob i (\<lambda>_. failedJob now message j) db \<and> (rj_AttemptCount j < 10 \<or> rj_BillID j = None)
      \<or> db' = updateReservations (\<lambda>r. rsv_BillID r = rj_BillID j \<and> rsv_State r = ''awaiting_stock_recalc'')
           (\<lambda>r. r\<lparr>rsv_State := ''manual_reconciliation'', rsv_StateReason := ''stock_recalc_verification_failed''\<rparr>)
           (updateJob i (\<lambda>_. failedJob now message j) db) \<and> 10 \<le> rj_AttemptCount j)"
  using assms
  by (auto simp: FailStockRecalcJob_def Let_def failedJob_def split: option.splits if_splits)

section \<open>The invariant\<close>

definition job_ok :: "RecalcJobRow \<Rightarrow> bool" where
  "job_ok j \<longleftrightarrow> 0 \<le> rj_AttemptCount j \<and> rj_AttemptCount j \<le> 10
     \<and> (rj_Status j \<in> {''queued'', ''failed''} \<longrightarrow> rj_AttemptCount j < 10)"

definition jobs_ok :: "SMLStore \<Rightarrow> bool" where
  "jobs_ok db \<longleftrightarrow> distinct (map rj_ID (db_recalc_jobs db)) \<and> (\<forall>j\<in>set (db_recalc_jobs db). job_ok j)"

text \<open>The rest of the program adds queued jobs and touches no other.\<close>

definition queuedJob :: "RecalcJobRow \<Rightarrow> bool" where
  "queuedJob j \<longleftrightarrow> rj_Status j = ''queued'' \<and> rj_AttemptCount j = 0"

definition recalc_outside :: "SMLStore \<Rightarrow> SMLStore \<Rightarrow> bool" where
  "recalc_outside db db' \<longleftrightarrow> distinct (map rj_ID (db_recalc_jobs db'))
     \<and> (\<exists>new. db_recalc_jobs db' = db_recalc_jobs db @ new \<and> list_all queuedJob new)"

inductive recalc_step :: "(string, string) lease_op \<Rightarrow> SMLStore \<Rightarrow> SMLStore \<Rightarrow> bool" where
  recalc_claim: "ClaimStockRecalcJob now db w d = (db', Some job) \<Longrightarrow> recalc_step (Take w (job_ID job)) db db'"
| recalc_idle: "ClaimStockRecalcJob now db w d = (db', None) \<Longrightarrow> recalc_step Aside db db'"
| recalc_mark: "MarkStockRecalcProcessed now db i w = Inr db' \<Longrightarrow> recalc_step (Keep w i) db db'"
| recalc_complete: "CompleteStockRecalcJob env now db i w evidence = Inr db' \<Longrightarrow> recalc_step (Drop w i) db db'"
| recalc_fail: "FailStockRecalcJob now db i w message = Inr db' \<Longrightarrow> recalc_step (Drop w i) db db'"
| recalc_other: "recalc_outside db db' \<Longrightarrow> recalc_step Aside db db'"

text \<open>Each transaction as a change of one row: the jobs after it, for the proofs below.\<close>

definition job_change :: "SMLStore \<Rightarrow> SMLStore \<Rightarrow> string \<Rightarrow> (RecalcJobRow \<Rightarrow> RecalcJobRow) \<Rightarrow> bool" where
  "job_change db db' i f \<longleftrightarrow>
     db_recalc_jobs db' = map (\<lambda>j. if rj_ID j = i then f j else j) (db_recalc_jobs db)"

lemma claim_change:
  assumes "ClaimStockRecalcJob now db w d = (db', Some job)"
  shows "job_change db db' (job_ID job) (claimedJob now w d)
    \<and> (\<exists>j\<in>set (db_recalc_jobs db). rj_ID j = job_ID job \<and> rj_Status j \<in> {''queued'', ''failed''})"
  using ClaimStockRecalcJob_Some [OF assms]
  by (auto simp: job_change_def updateJob_def jobOf_def claimedJob_def claimable_def)

lemma mark_change:
  assumes "MarkStockRecalcProcessed now db i w = Inr db'"
  shows "job_change db db' i (\<lambda>j. j\<lparr>rj_ProcessSucceededAt := Some now\<rparr>) \<and> (\<exists>j. runningJob db i w = Some j)"
  using assms by (auto simp: MarkStockRecalcProcessed_def job_change_def updateJob_def split: option.splits)

lemma complete_change:
  assumes "CompleteStockRecalcJob env now db i w evidence = Inr db'"
  shows "job_change db db' i (completedJob now) \<and> (\<exists>j. runningJob db i w = Some j)"
proof -
  obtain db1 j where 1: "insertEvidence env now i w evidence db = Inr db1" "runningJob db1 i w = Some j"
    and db': "db' = updateReservations (\<lambda>r. rsv_BillID r = rj_BillID j \<and> rsv_State r = ''awaiting_stock_recalc'')
          (\<lambda>r. r\<lparr>rsv_State := ''incorporated_in_sml'', rsv_IncorporatedAt := Some now\<rparr>)
          ((updateJob i (completedJob now) db1)\<lparr>db_demand := bumpAll (plainDemand db1 (awaiting db1 j))
             (bumpAll (componentDemand db1 (awaiting db1 j)) (db_demand db1))\<rparr>)"
    using CompleteStockRecalcJob_Inr [OF assms] by blast
  have "db_recalc_jobs db1 = db_recalc_jobs db" using insertEvidence_frame [OF 1(1)] by simp
  then show ?thesis using 1(2) by (simp add: db' job_change_def updateJob_def runningJob_def)
qed

lemma fail_change:
  assumes "FailStockRecalcJob now db i w message = Inr db'"
  shows "\<exists>j. runningJob db i w = Some j \<and> job_change db db' i (\<lambda>_. failedJob now message j)"
  using FailStockRecalcJob_Inr [OF assms] by (auto simp: job_change_def updateJob_def)

lemma jobs_ok_change:
  assumes "jobs_ok db" "job_change db db' i f"
    and "\<And>j. j \<in> set (db_recalc_jobs db) \<Longrightarrow> rj_ID j = i \<Longrightarrow> rj_ID (f j) = i \<and> job_ok (f j)"
  shows "jobs_ok db'"
proof -
  have "map rj_ID (db_recalc_jobs db') = map rj_ID (db_recalc_jobs db)"
    using assms(2,3) by (auto simp: job_change_def intro!: map_cong)
  moreover have "job_ok j" if j: "j \<in> set (db_recalc_jobs db')" for j
    using j assms by (auto simp: jobs_ok_def job_change_def)
  ultimately show ?thesis using assms(1) by (simp add: jobs_ok_def)
qed

lemma one_job:
  assumes "jobs_ok db" "j \<in> set (db_recalc_jobs db)" "k \<in> set (db_recalc_jobs db)" "rj_ID j = rj_ID k"
  shows "j = k"
  using assms by (auto simp: jobs_ok_def distinct_map inj_on_def)

lemma jobs_ok_step: "jobs_ok db \<Longrightarrow> recalc_step l db db' \<Longrightarrow> jobs_ok db'"
proof (erule recalc_step.cases)
  fix now dba w d db'a job
  assume ok: "jobs_ok db" and *: "db = dba" "db' = db'a" "ClaimStockRecalcJob now dba w d = (db'a, Some job)"
  obtain k where k: "k \<in> set (db_recalc_jobs db)" "rj_ID k = job_ID job" "rj_Status k \<in> {''queued'', ''failed''}"
    using claim_change [OF *(3)] * by blast
  have "job_ok k" using ok k(1) by (simp add: jobs_ok_def)
  then have "job_ok (claimedJob now w d k)" using k(3) by (auto simp: job_ok_def claimedJob_def)
  moreover have "j = k" if "j \<in> set (db_recalc_jobs db)" "rj_ID j = job_ID job" for j
    using one_job [OF ok that(1) k(1)] that(2) k(2) by simp
  ultimately show "jobs_ok db'"
    using claim_change [OF *(3)] * by (intro jobs_ok_change [OF ok, of db' "job_ID job"]) (auto simp: claimedJob_def)
next
  fix now dba w d db'a
  assume "jobs_ok db" "db = dba" "db' = db'a" "ClaimStockRecalcJob now dba w d = (db'a, None)"
  then show "jobs_ok db'" by (auto dest: ClaimStockRecalcJob_None)
next
  fix now dba i w db'a
  assume ok: "jobs_ok db" and *: "db = dba" "db' = db'a" "MarkStockRecalcProcessed now dba i w = Inr db'a"
  show "jobs_ok db'"
    using mark_change [OF *(3)] ok * by (intro jobs_ok_change [OF ok, of db' i]) (auto simp: jobs_ok_def job_ok_def)
next
  fix env now dba i w evidence db'a
  assume ok: "jobs_ok db" and *: "db = dba" "db' = db'a" "CompleteStockRecalcJob env now dba i w evidence = Inr db'a"
  show "jobs_ok db'"
    using complete_change [OF *(3)] ok *
    by (intro jobs_ok_change [OF ok, of db' i]) (auto simp: jobs_ok_def job_ok_def completedJob_def)
next
  fix now dba i w message db'a
  assume ok: "jobs_ok db" and *: "db = dba" "db' = db'a" "FailStockRecalcJob now dba i w message = Inr db'a"
  obtain j where j: "runningJob db i w = Some j" "job_change db db' i (\<lambda>_. failedJob now message j)"
    using fail_change [OF *(3)] * by blast
  have "j \<in> set (db_recalc_jobs db)" "rj_ID j = i" using runningJob_Some [OF j(1)] by simp_all
  then have "job_ok (failedJob now message j) \<and> rj_ID (failedJob now message j) = i"
    using ok by (auto simp: jobs_ok_def job_ok_def failedJob_def)
  then show "jobs_ok db'" using j(2) by (intro jobs_ok_change [OF ok, of db' i]) auto
next
  fix dba db'a
  assume "jobs_ok db" "db = dba" "db' = db'a" "recalc_outside dba db'a"
  then show "jobs_ok db'"
    by (auto simp: jobs_ok_def recalc_outside_def queuedJob_def job_ok_def list_all_iff)
qed

section \<open>The lease\<close>

definition job_holder :: "SMLStore \<Rightarrow> string \<Rightarrow> string option" where
  "job_holder db i = (case lookup_by rj_ID (db_recalc_jobs db) i of None \<Rightarrow> None
     | Some j \<Rightarrow> if rj_Status j = ''running'' then Some (rj_LeaseOwner j) else None)"

lemma job_holder_running: "runningJob db i w = Some j \<Longrightarrow> job_holder db i = Some w"
  by (auto simp: job_holder_def runningJob_def split: option.splits if_splits)

lemma job_holder_change:
  assumes "jobs_ok db" "job_change db db' i f" "k \<in> set (db_recalc_jobs db)" "rj_ID k = i"
    "\<And>j. rj_ID j = i \<Longrightarrow> rj_ID (f j) = i"
  shows "job_holder db' = (job_holder db)(i := if rj_Status (f k) = ''running'' then Some (rj_LeaseOwner (f k)) else None)"
proof
  fix x
  have k: "lookup_by rj_ID (db_recalc_jobs db) i = Some k"
    using assms(1,3,4) lookup_by_distinct [of rj_ID "db_recalc_jobs db" k] by (simp add: jobs_ok_def)
  have "lookup_by rj_ID (db_recalc_jobs db') x =
      (if x = i then map_option f (lookup_by rj_ID (db_recalc_jobs db) i) else lookup_by rj_ID (db_recalc_jobs db) x)"
    using assms(2,5) unfolding job_change_def by (simp add: lookup_by_update)
  then show "job_holder db' x =
      ((job_holder db)(i := if rj_Status (f k) = ''running'' then Some (rj_LeaseOwner (f k)) else None)) x"
    using k by (simp add: job_holder_def)
qed

lemma job_holder_outside:
  assumes "recalc_outside db db'"
  shows "job_holder db' = job_holder db"
proof
  fix i
  obtain new where new: "db_recalc_jobs db' = db_recalc_jobs db @ new" "list_all queuedJob new"
    using assms by (auto simp: recalc_outside_def)
  have "lookup_by rj_ID (xs @ new) i =
      (case lookup_by rj_ID xs i of None \<Rightarrow> lookup_by rj_ID new i | Some j \<Rightarrow> Some j)" for xs
    by (induction xs) simp_all
  moreover have "lookup_by rj_ID new i = Some j \<Longrightarrow> rj_Status j = ''queued''" for j
    using new(2) by (auto simp: queuedJob_def list_all_iff dest: lookup_by_Some)
  ultimately show "job_holder db' i = job_holder db i"
    by (auto simp: job_holder_def new(1) split: option.splits)
qed

interpretation recalc: lease recalc_step job_holder jobs_ok
proof
  show "jobs_ok s \<Longrightarrow> recalc_step l s s' \<Longrightarrow> jobs_ok s'" for s l s' by (rule jobs_ok_step)
next
  fix s w i s' assume ok: "jobs_ok s" and st: "recalc_step (Take w i) s s'"
  obtain now d job where c: "ClaimStockRecalcJob now s w d = (s', Some job)" "i = job_ID job"
    using st by (auto elim: recalc_step.cases)
  obtain k where k: "k \<in> set (db_recalc_jobs s)" "rj_ID k = i" using claim_change [OF c(1)] c(2) by blast
  show "job_holder s' = (job_holder s)(i := Some w)"
    using job_holder_change [OF ok _ k, of s' "claimedJob now w d"] claim_change [OF c(1)] c(2)
    by (simp add: claimedJob_def)
next
  fix s w i s' assume ok: "jobs_ok s" and st: "recalc_step (Keep w i) s s'"
  obtain now where m: "MarkStockRecalcProcessed now s i w = Inr s'" using st by (auto elim: recalc_step.cases)
  obtain k where k: "runningJob s i w = Some k" using mark_change [OF m] by blast
  have r: "k \<in> set (db_recalc_jobs s)" "rj_ID k = i" "rj_LeaseOwner k = w" "rj_Status k = ''running''"
    using runningJob_Some [OF k] by simp_all
  show "job_holder s i = Some w \<and> job_holder s' = job_holder s"
    using job_holder_change [OF ok _ r(1,2), of s' "\<lambda>j. j\<lparr>rj_ProcessSucceededAt := Some now\<rparr>"]
      mark_change [OF m] r(3,4) job_holder_running [OF k] by (simp add: fun_upd_idem)
next
  fix s w i s' assume ok: "jobs_ok s" and st: "recalc_step (Drop w i) s s'"
  from st obtain k f where k: "runningJob s i w = Some k" and f: "job_change s s' i f" "rj_Status (f k) \<noteq> ''running''"
      "\<And>j. rj_ID j = i \<Longrightarrow> rj_ID (f j) = i"
  proof (cases rule: recalc_step.cases)
    case (recalc_complete env now evidence)
    show ?thesis using complete_change [OF recalc_complete] that [of _ "completedJob now"]
      by (auto simp: completedJob_def)
  next
    case (recalc_fail now message)
    obtain k where "runningJob s i w = Some k" "job_change s s' i (\<lambda>_. failedJob now message k)"
      using fail_change [OF recalc_fail] by blast
    then show ?thesis using that [of k "\<lambda>_. failedJob now message k"] runningJob_Some [of s i w k]
      by (simp add: failedJob_def)
  qed
  have r: "k \<in> set (db_recalc_jobs s)" "rj_ID k = i" using runningJob_Some [OF k] by simp_all
  show "job_holder s i = Some w \<and> job_holder s' = (job_holder s)(i := None)"
    using job_holder_change [OF ok f(1) r f(3)] f(2) job_holder_running [OF k] by simp
next
  fix s s' assume "jobs_ok s" "recalc_step Aside s s'"
  then show "job_holder s' = job_holder s"
    by (auto elim!: recalc_step.cases dest: ClaimStockRecalcJob_None job_holder_outside)
qed

section \<open>Properties\<close>

text \<open>
  C9. The reservations of a document leave the ledger only with proof: when a recalculation
  completes, SML has processed the request, and every line of demand of every waiting reservation of
  the bill has a verified row of evidence for exactly its item, place, kind and quantity, under the
  approved fingerprint; these reservations become incorporated, all others keep their state, and
  every resource they demanded gets a new revision.
\<close>

theorem CompleteStockRecalcJob_proven:
  assumes "CompleteStockRecalcJob env now db jobID leaseOwner evidence = Inr db'"
    and "lookup_by rj_ID (db_recalc_jobs db) jobID = Some j" "jobAttempt db j = Some a"
  shows "rj_LeaseOwner j = leaseOwner \<and> rj_Status j = ''running'' \<and> rj_ProcessSucceededAt j \<noteq> None
     \<and> (\<forall>r\<in>set (awaiting db j). \<forall>line\<in>set (demandRows (db_components db) r). \<exists>e\<in>set (db_evidence db').
          represents (trim_space (ve_SourceFingerprint (hd evidence))) (att_ID a)
            (if to_lower (att_Route a) = ''saleorder'' then ''sale_order_demand'' else ''stock_movement'') r line e)
     \<and> db_reservations db' = map (\<lambda>r. if r \<in> set (awaiting db j)
          then r\<lparr>rsv_State := ''incorporated_in_sml'', rsv_IncorporatedAt := Some now\<rparr> else r) (db_reservations db)
     \<and> (\<forall>r\<in>set (awaiting db j). \<forall>k\<in>set (resources_of (db_components db) r).
          revision (db_demand db) k < revision (db_demand db') k)"
proof -
  let ?fp = "trim_space (ve_SourceFingerprint (hd evidence))"
  let ?kind = "if to_lower (att_Route a) = ''saleorder'' then ''sale_order_demand'' else ''stock_movement''"
  obtain db1 j1 where 1: "insertEvidence env now jobID leaseOwner evidence db = Inr db1"
    "runningJob db1 jobID leaseOwner = Some j1" "rj_ProcessSucceededAt j1 \<noteq> None" "rj_BillID j1 \<noteq> None"
    "missingEvidence db1 ?fp j1 = 0"
    and db': "db' = updateReservations (\<lambda>r. rsv_BillID r = rj_BillID j1 \<and> rsv_State r = ''awaiting_stock_recalc'')
          (\<lambda>r. r\<lparr>rsv_State := ''incorporated_in_sml'', rsv_IncorporatedAt := Some now\<rparr>)
          ((updateJob jobID (completedJob now) db1)\<lparr>db_demand := bumpAll (plainDemand db1 (awaiting db1 j1))
             (bumpAll (componentDemand db1 (awaiting db1 j1)) (db_demand db1))\<rparr>)"
    using CompleteStockRecalcJob_Inr [OF assms(1)] by blast
  have f: "db_recalc_jobs db1 = db_recalc_jobs db" "db_reservations db1 = db_reservations db"
    "db_components db1 = db_components db" "db_demand db1 = db_demand db" "db_attempts db1 = db_attempts db"
    using insertEvidence_frame [OF 1(1)] by simp_all
  have j: "j1 = j" using 1(2) assms(2) by (simp add: runningJob_def f split: if_splits)
  have aw: "awaiting db1 = awaiting db" by (rule ext) (simp add: awaiting_def f)
  have own: "rj_LeaseOwner j = leaseOwner" "rj_Status j = ''running''" using runningJob_Some [OF 1(2)] j by simp_all
  have "jobAttempt db1 j = Some a" using assms(3) by (simp add: jobAttempt_def f split: option.splits)
  then have "\<forall>r\<in>set (awaiting db j). \<forall>line\<in>set (demandRows (db_components db) r).
      list_ex (represents ?fp (att_ID a) ?kind r line) (db_evidence db1)"
    using 1(5) unfolding missingEvidence_def j aw f Let_def by (auto simp: filter_empty_conv)
  moreover have "db_evidence db' = db_evidence db1" by (simp add: db' updateReservations_def updateJob_def)
  ultimately have ev: "\<forall>r\<in>set (awaiting db j). \<forall>line\<in>set (demandRows (db_components db) r).
      \<exists>e\<in>set (db_evidence db'). represents ?fp (att_ID a) ?kind r line e" by (simp add: list_ex_iff)
  have "r \<in> set (awaiting db j) \<longleftrightarrow> rsv_BillID r = rj_BillID j \<and> rsv_State r = ''awaiting_stock_recalc''"
    if "r \<in> set (db_reservations db)" for r
    using that 1(4) j by (auto simp: awaiting_def)
  then have rs: "db_reservations db' = map (\<lambda>r. if r \<in> set (awaiting db j)
      then r\<lparr>rsv_State := ''incorporated_in_sml'', rsv_IncorporatedAt := Some now\<rparr> else r) (db_reservations db)"
    by (simp add: db' updateReservations_def j f)
  have dm: "db_demand db' = bumpAll (plainDemand db (awaiting db j)) (bumpAll (componentDemand db (awaiting db j)) (db_demand db))"
    by (simp add: db' updateReservations_def j aw f plainDemand_def componentDemand_def)
  have "revision (db_demand db) k < revision (db_demand db') k"
    if r: "r \<in> set (awaiting db j)" "k \<in> set (resources_of (db_components db) r)" for r k
  proof (cases "componentsOf (db_components db) r = []")
    case True
    then have "k \<in> set (plainDemand db (awaiting db j))"
      using r by (auto simp: resources_of_def plainDemand_def split: if_splits)
    then show ?thesis by (simp add: dm revision_bumpAll)
  next
    case False
    then have "k \<in> component_resource ` set (componentsOf (db_components db) r)"
      using r(2) by (auto simp: resources_of_def split: list.splits)
    then have "k \<in> set (componentDemand db (awaiting db j))" using r(1) by (auto simp: componentDemand_def)
    then show ?thesis by (simp add: dm revision_bumpAll)
  qed
  then show ?thesis using own 1(3) j ev rs by simp
qed

text \<open>The sample document's recalculation, from its claim to its completion.\<close>

definition sample_5 where
  "sample_5 = ClaimStockRecalcJob (2 * second) sample_4 ''rw'' 0"

definition sample_6 where
  "sample_6 = projr (MarkStockRecalcProcessed (3 * second) (fst sample_5) ''RJ1'' ''rw'')"

definition sample_evidence :: VerifiedStockEvidence where
  "sample_evidence = \<lparr>dl_EvidenceID = ''R1:P1:W1:L1'', dl_ReservationID = ''R1'', dl_SMLAttemptID = ''A1'',
     dl_DocNo = ''SO1'', dl_Route = ''saleorder'', dl_ItemCode = ''P1'', dl_Warehouse = ''W1'', dl_Location = ''L1'',
     dl_ExpectedBaseQtyExact = ''2'', dl_EvidenceKind = ''sale_order_demand'', ve_EvidenceGroupID = ''g'',
     ve_ScopeExpectedQtyExact = ''2'', ve_ActualBaseQtyExact = ''2'', ve_SourceFingerprint = ''fp'',
     ve_EvidenceHash = ''h'', ve_VerifiedSourceSnapshotAt = 0\<rparr>"

definition sample_7 where
  "sample_7 = projr (CompleteStockRecalcJob sample_env (4 * second) sample_6 ''RJ1'' ''rw'' [sample_evidence])"

lemma sample_recalc:
  "map_option (\<lambda>j. (job_ID j, job_AttemptCount j)) (snd sample_5) = Some (''RJ1'', 1)"
  "map (\<lambda>j. (rj_ID j, rj_Status j)) (db_recalc_jobs sample_4) = [(''RJ1'', ''queued'')]"
  "map (\<lambda>j. (rj_ID j, rj_Status j, rj_LeaseOwner j)) (db_recalc_jobs (fst sample_5)) = [(''RJ1'', ''running'', ''rw'')]"
  "\<not> isl (MarkStockRecalcProcessed (3 * second) (fst sample_5) ''RJ1'' ''rw'')"
  "\<not> isl (CompleteStockRecalcJob sample_env (4 * second) sample_6 ''RJ1'' ''rw'' [sample_evidence])"
  "map_option (\<lambda>j. map_option att_ID (jobAttempt sample_6 j)) (lookup_by rj_ID (db_recalc_jobs sample_6) ''RJ1'')
     = Some (Some ''A1'')"
  "map rsv_State (db_reservations sample_6) = [''awaiting_stock_recalc'']"
  "map rsv_State (db_reservations sample_7) = [''incorporated_in_sml'']"
  by code_simp+

theorem CompleteStockRecalcJob_proven_witness:
  "\<exists>j a. lookup_by rj_ID (db_recalc_jobs sample_6) ''RJ1'' = Some j \<and> jobAttempt sample_6 j = Some a
     \<and> rj_LeaseOwner j = ''rw'' \<and> rj_Status j = ''running''
     \<and> map rsv_State (db_reservations sample_7) = [''incorporated_in_sml'']"
proof -
  obtain j a where ja: "lookup_by rj_ID (db_recalc_jobs sample_6) ''RJ1'' = Some j" "jobAttempt sample_6 j = Some a"
    using sample_recalc(6) by auto
  have c: "CompleteStockRecalcJob sample_env (4 * second) sample_6 ''RJ1'' ''rw'' [sample_evidence] = Inr sample_7"
    unfolding sample_7_def by (rule projr_Inr [OF sample_recalc(5)])
  from CompleteStockRecalcJob_proven [OF c ja] have "rj_LeaseOwner j = ''rw''" "rj_Status j = ''running''" by blast+
  then show ?thesis using ja sample_recalc(8) by (intro exI conjI)
qed

text \<open>
  Only the worker that claimed a recalculation completes it or gives it up, and no other worker
  had it in between.
\<close>

theorem CompleteStockRecalcJob_fenced:
  assumes "jobs_ok db" "job_holder db i = None" "run recalc_step ls db db'"
    and "CompleteStockRecalcJob env now db' i w evidence = Inr db'' \<or> FailStockRecalcJob now db' i w message = Inr db''"
  shows "\<exists>ls1 ls2. ls = ls1 @ Take w i # ls2 \<and> \<not> list_ex (touches i) ls2"
  using assms by (intro recalc.fenced [of ls w i db db'']) (auto simp: run_append intro: recalc_complete recalc_fail)

lemma sample_jobs_ok: "jobs_ok sample_4"
proof -
  obtain j where j: "db_recalc_jobs sample_4 = [j]" using sample_recalc(2) by auto
  have "map (\<lambda>j. (rj_AttemptCount j)) (db_recalc_jobs sample_4) = [0]" by code_simp
  then show ?thesis using j by (simp add: jobs_ok_def job_ok_def)
qed

lemma sample_recalc_steps:
  "recalc_step (Take ''rw'' ''RJ1'') sample_4 (fst sample_5)"
  "recalc_step (Keep ''rw'' ''RJ1'') (fst sample_5) sample_6"
  "recalc_step (Drop ''rw'' ''RJ1'') sample_6 sample_7"
proof -
  obtain job where job: "snd sample_5 = Some job" "job_ID job = ''RJ1''" using sample_recalc(1) by auto
  have "ClaimStockRecalcJob (2 * second) sample_4 ''rw'' 0 = (fst sample_5, Some job)"
    by (simp add: sample_5_def flip: job(1))
  from recalc_claim [OF this] show "recalc_step (Take ''rw'' ''RJ1'') sample_4 (fst sample_5)" by (simp add: job(2))
  show "recalc_step (Keep ''rw'' ''RJ1'') (fst sample_5) sample_6"
    unfolding sample_6_def by (rule recalc_mark [OF projr_Inr [OF sample_recalc(4)]])
  show "recalc_step (Drop ''rw'' ''RJ1'') sample_6 sample_7"
    unfolding sample_7_def by (rule recalc_complete [OF projr_Inr [OF sample_recalc(5)]])
qed

theorem CompleteStockRecalcJob_fenced_witness:
  "\<exists>ls1 ls2. [Take ''rw'' ''RJ1'', Keep ''rw'' ''RJ1''] = ls1 @ Take ''rw'' ''RJ1'' # ls2 \<and> \<not> list_ex (touches ''RJ1'') ls2"
proof -
  have h: "job_holder sample_4 ''RJ1'' = None" using sample_recalc(2) by (auto simp: job_holder_def)
  have r: "run recalc_step [Take ''rw'' ''RJ1'', Keep ''rw'' ''RJ1''] sample_4 sample_6"
    using sample_recalc_steps by auto
  have c: "CompleteStockRecalcJob sample_env (4 * second) sample_6 ''RJ1'' ''rw'' [sample_evidence] = Inr sample_7"
    unfolding sample_7_def by (rule projr_Inr [OF sample_recalc(5)])
  show ?thesis by (rule CompleteStockRecalcJob_fenced [OF sample_jobs_ok h r disjI1 [OF c]])
qed

text \<open>
  A recalculation is tried at most ten times: over any run of the queue no job's attempt count
  exceeds ten, and a job that may still be claimed has used fewer. The pause after a failure is
  between thirty seconds (fifteen before the first attempt) and an hour and never shrinks as the
  count grows.
\<close>

theorem recalc_attempts_bounded:
  assumes "jobs_ok db" "run recalc_step ls db db'" "j \<in> set (db_recalc_jobs db')"
  shows "0 \<le> rj_AttemptCount j \<and> rj_AttemptCount j \<le> 10
    \<and> (rj_Status j \<in> {''queued'', ''failed''} \<longrightarrow> rj_AttemptCount j < 10)
    \<and> 15 \<le> recalcBackoff (rj_AttemptCount j) \<and> recalcBackoff (rj_AttemptCount j) \<le> 3600
    \<and> recalcBackoff (rj_AttemptCount j) \<le> recalcBackoff (rj_AttemptCount j + 1)"
proof -
  have "jobs_ok db'" by (rule recalc.ok_run [OF assms(2,1)])
  then have j: "job_ok j" using assms(3) by (simp add: jobs_ok_def)
  have "(2::int) ^ nat (min c 8) \<le> 2 ^ nat (min (c + 1) 8)" for c :: int
    by (intro power_increasing) auto
  then have "recalcBackoff c \<le> recalcBackoff (c + 1)" for c
    unfolding recalcBackoff_def by (intro min.mono) auto
  moreover have "15 \<le> recalcBackoff c" for c by (simp add: recalcBackoff_def)
  moreover have "recalcBackoff c \<le> 3600" for c by (simp add: recalcBackoff_def)
  ultimately show ?thesis using j by (simp add: job_ok_def)
qed

theorem recalc_attempts_bounded_witness:
  "\<exists>j\<in>set (db_recalc_jobs sample_7). rj_ID j = ''RJ1'' \<and> rj_AttemptCount j \<le> 10"
proof -
  have r: "run recalc_step [Take ''rw'' ''RJ1'', Keep ''rw'' ''RJ1'', Drop ''rw'' ''RJ1''] sample_4 sample_7"
    using sample_recalc_steps by auto
  have "map rj_ID (db_recalc_jobs sample_7) = [''RJ1'']" by code_simp
  then obtain j where "j \<in> set (db_recalc_jobs sample_7)" "rj_ID j = ''RJ1''" by auto
  with recalc_attempts_bounded [OF sample_jobs_ok r] show ?thesis by blast
qed

text \<open>
  C33. A recalculation whose worker died is lost: as long as the worker that holds it does nothing,
  no run of the queue changes the row of the job, however long ago its lease ended, so its
  reservations wait for ever. The claim looks for queued and failed jobs only, although it checks
  the end of their lease.
\<close>

theorem running_recalc_never_reclaimed:
  assumes "jobs_ok db" "j \<in> set (db_recalc_jobs db)" "rj_Status j = ''running''"
    and "run recalc_step ls db db'" "Keep (rj_LeaseOwner j) (rj_ID j) \<notin> set ls" "Drop (rj_LeaseOwner j) (rj_ID j) \<notin> set ls"
  shows "j \<in> set (db_recalc_jobs db')"
  using assms(4,1,2,5,6)
proof (induction ls arbitrary: db)
  case (Cons l ls)
  then obtain t where t: "recalc_step l db t" "run recalc_step ls t db'" by auto
  have run: "lookup_by rj_ID (db_recalc_jobs db) (rj_ID j) = Some j"
    using Cons.prems(2,3) lookup_by_distinct [of rj_ID "db_recalc_jobs db" j] by (simp add: jobs_ok_def)
  have keep: "j \<in> set (db_recalc_jobs t)" if "job_change db t i f" "i \<noteq> rj_ID j" for i f
    using that Cons.prems(3) by (auto simp: job_change_def intro!: rev_image_eqI)
  have owner: "w = rj_LeaseOwner j" if "runningJob db (rj_ID j) w = Some k" for w k
    using that run by (simp add: runningJob_def split: if_splits)
  have "j \<in> set (db_recalc_jobs t)"
    using t(1)
  proof (cases rule: recalc_step.cases)
    case (recalc_claim now w d job)
    obtain k where "k \<in> set (db_recalc_jobs db)" "rj_ID k = job_ID job" "rj_Status k \<in> {''queued'', ''failed''}"
      using claim_change [OF recalc_claim(2)] by blast
    then have "job_ID job \<noteq> rj_ID j" using one_job [OF Cons.prems(2) Cons.prems(3), of k] assms(3) by auto
    then show ?thesis using claim_change [OF recalc_claim(2)] by (blast intro: keep)
  next
    case (recalc_idle now w d)
    then show ?thesis using Cons.prems(3) by (auto dest: ClaimStockRecalcJob_None)
  next
    case (recalc_mark now i w)
    then have "i \<noteq> rj_ID j" using mark_change [OF recalc_mark(2)] owner Cons.prems(4) by auto
    then show ?thesis using mark_change [OF recalc_mark(2)] by (blast intro: keep)
  next
    case (recalc_complete env now i w evidence)
    then have "i \<noteq> rj_ID j" using complete_change [OF recalc_complete(2)] owner Cons.prems(5) by auto
    then show ?thesis using complete_change [OF recalc_complete(2)] by (blast intro: keep)
  next
    case (recalc_fail now i w message)
    then have "i \<noteq> rj_ID j" using fail_change [OF recalc_fail(2)] owner Cons.prems(5) by auto
    then show ?thesis using fail_change [OF recalc_fail(2)] by (blast intro: keep)
  next
    case recalc_other
    then show ?thesis using Cons.prems(3) by (auto simp: recalc_outside_def)
  qed
  then show ?case using Cons.IH [OF t(2) jobs_ok_step [OF Cons.prems(2) t(1)]] Cons.prems(4,5) by simp
qed simp

theorem running_recalc_never_reclaimed_witness:
  "\<exists>j\<in>set (db_recalc_jobs (fst sample_5)). rj_Status j = ''running''
     \<and> j \<in> set (db_recalc_jobs (fst (ClaimStockRecalcJob (100000 * second) (fst sample_5) ''rw2'' 0)))"
proof -
  let ?c = "ClaimStockRecalcJob (100000 * second) (fst sample_5) ''rw2'' 0"
  obtain j where j: "j \<in> set (db_recalc_jobs (fst sample_5))" "rj_Status j = ''running''"
    using sample_recalc(3) by auto
  have ok: "jobs_ok (fst sample_5)" by (rule jobs_ok_step [OF sample_jobs_ok sample_recalc_steps(1)])
  have "snd ?c = None" by code_simp
  then have "?c = (fst ?c, None)" by (metis prod.collapse)
  from recalc_idle [OF this] have r: "run recalc_step [Aside] (fst sample_5) (fst ?c)" by auto
  have "j \<in> set (db_recalc_jobs (fst ?c))"
    using running_recalc_never_reclaimed [OF ok j r] by simp
  then show ?thesis using j by blast
qed

end
