(* ===== verification/Stock_RecalcWorker.thy ===== *)
theory Stock_RecalcWorker
  imports Stock_RecalcStore Stock_Logic Conversion
begin

text \<open>
  The worker of the recalculation queue (\<open>services/stockrecalc/worker.go\<close>): it asks SML to recalculate
  the items of a sent document, checks that their balances are there, groups the demand by document
  and resource, and verifies the evidence that SML reports for every group before it completes the
  job. The services it calls are functions of the model's parameter.
\<close>

section \<open>Evidence requests and answers\<close>

record StockDemandEvidenceRequestLine =
  erq_EvidenceID :: string
  erq_DocNo :: string
  erq_Route :: string
  erq_ItemCode :: string
  erq_WarehouseCode :: string
  erq_LocationCode :: string
  erq_ExpectedBaseQtyExact :: string

record StockDemandEvidenceResultLine =
  ers_EvidenceID :: string
  ers_DocNo :: string
  ers_Route :: string
  ers_ItemCode :: string
  ers_WarehouseCode :: string
  ers_LocationCode :: string
  ers_ExpectedBaseQtyExact :: string
  ers_ActualBaseQtyExact :: string
  ers_Status :: string
  ers_Reason :: string
  ers_EvidenceHash :: string

record StockDemandEvidenceBatchResponse =
  ebr_SchemaVersion :: string
  ebr_SourceSemanticsFingerprint :: string
  ebr_SourceSnapshotAt :: string
  ebr_Lines :: "StockDemandEvidenceResultLine list"

record stockDemandEvidenceGroup =
  grp_Request :: StockDemandEvidenceRequestLine
  grp_Members :: "StockRecalcDemandLine list"

datatype recalc_error =
    LoadDemandFailed sml_error | NoAwaitingDemand | StockScopeMissing | RuntimeSettingsFailed
  | RuntimeIncomplete | ProcessRequestFailed | PersistFailed sml_error | BalanceCallFailed
  | BalanceOtherScope | BalanceMissing string | EvidenceCallFailed | EvidenceNotApproved
  | EvidenceStale | DuplicateExpected string | UnexpectedEvidence string | DuplicateEvidence string
  | EvidenceNotVerified string | EvidenceQuantityMismatch string | EvidenceIncompleteResponse
  | InvalidDemandQuantity string | ReleaseFailed sml_error

section \<open>Exact decimals\<close>

text \<open>
  The denominator is stripped of twos and fives as in \<open>RatFiniteDecimal\<close>; 18 digits are kept when
  something else remains.
\<close>

definition exactDecimalString :: "rat option \<Rightarrow> string" where
  "exactDecimalString value =
     (case value of None \<Rightarrow> ''0''
      | Some q \<Rightarrow>
          if q = 0 then ''0''
          else
            (case strip_factor 2 (rat_den q) 0 of (d2, twos) \<Rightarrow>
               (case strip_factor 5 d2 0 of (d5, fives) \<Rightarrow>
                  let scale = (if fives > twos then fives else twos);
                      scale = (if d5 \<noteq> 1 then 18 else scale);
                      formatted = float_string q scale in
                  if CHR ''.'' \<notin> set formatted then formatted
                  else trim_right_char (trim_right_char formatted CHR ''0'') CHR ''.'')))"

section \<open>Grouping the demand\<close>

record accumulator =
  acc_Request :: StockDemandEvidenceRequestLine
  acc_Total :: rat
  acc_Members :: "StockRecalcDemandLine list"

definition groupKey :: "StockRecalcDemandLine \<Rightarrow> string" where
  "groupKey line = join [dl_SMLAttemptID line, dl_DocNo line, dl_Route line, dl_ItemCode line,
     dl_Warehouse line, dl_Location line] [CHR 0x1F]"

definition newGroup :: "sml_env \<Rightarrow> StockRecalcDemandLine \<Rightarrow> accumulator" where
  "newGroup env line =
     \<lparr>acc_Request = \<lparr>erq_EvidenceID = ''demand:'' @ env_sha256 env (groupKey line), erq_DocNo = dl_DocNo line,
        erq_Route = dl_Route line, erq_ItemCode = dl_ItemCode line, erq_WarehouseCode = dl_Warehouse line,
        erq_LocationCode = dl_Location line, erq_ExpectedBaseQtyExact = []\<rparr>,
      acc_Total = 0, acc_Members = []\<rparr>"

definition lineQuantity :: "StockRecalcDemandLine \<Rightarrow> rat option" where
  "lineQuantity line =
     (case rat_set_string (trim_space (dl_ExpectedBaseQtyExact line)) of None \<Rightarrow> None
      | Some q \<Rightarrow> if q \<le> 0 then None else Some q)"

fun groupLoop ::
    "sml_env \<Rightarrow> StockRecalcDemandLine list \<Rightarrow> (string \<times> accumulator) list \<Rightarrow>
     recalc_error + (string \<times> accumulator) list" where
  "groupLoop env [] values = Inr values"
| "groupLoop env (line # lines) values =
     (case lineQuantity line of None \<Rightarrow> Inl (InvalidDemandQuantity (dl_EvidenceID line))
      | Some quantity \<Rightarrow>
          let key = groupKey line;
              group = (case map_of values key of None \<Rightarrow> newGroup env line | Some g \<Rightarrow> g);
              group = group\<lparr>acc_Total := acc_Total group + quantity, acc_Members := acc_Members group @ [line]\<rparr> in
          groupLoop env lines (assoc_update key group values))"

definition finishGroup :: "accumulator \<Rightarrow> stockDemandEvidenceGroup" where
  "finishGroup g =
     \<lparr>grp_Request = (acc_Request g)\<lparr>erq_ExpectedBaseQtyExact := exactDecimalString (Some (acc_Total g))\<rparr>,
      grp_Members = acc_Members g\<rparr>"

definition groupDemandEvidence ::
    "sml_env \<Rightarrow> StockRecalcDemandLine list \<Rightarrow> recalc_error + stockDemandEvidenceGroup list" where
  "groupDemandEvidence env lines =
     and_then (groupLoop env lines []) (\<lambda>values. Inr (map (finishGroup \<circ> snd) (sort_by fst values)))"

section \<open>Verifying the answers\<close>

definition verifyBalanceChunk ::
    "StockBalanceBatchResponse option \<Rightarrow> string \<Rightarrow> string list \<Rightarrow> recalc_error + unit" where
  "verifyBalanceChunk response scopeID requested =
     (case response of None \<Rightarrow> Inl BalanceOtherScope
      | Some r \<Rightarrow>
          (case batch_Scopes r of
             [scope] \<Rightarrow>
               if scope_ScopeID scope \<noteq> scopeID then Inl BalanceOtherScope
               else
                 let seen = map (\<lambda>item. trim_space (bal_ItemCode item)) (scope_Items scope) in
                 (case find (\<lambda>code. trim_space code \<notin> set seen) requested of
                    None \<Rightarrow> Inr () | Some code \<Rightarrow> Inl (BalanceMissing code))
           | _ \<Rightarrow> Inl BalanceOtherScope))"

text \<open>The map of the expected groups by identity; \<open>Inl\<close> for a repeated one.\<close>

fun expectedGroups ::
    "stockDemandEvidenceGroup list \<Rightarrow> (string \<times> stockDemandEvidenceGroup) list \<Rightarrow>
     recalc_error + (string \<times> stockDemandEvidenceGroup) list" where
  "expectedGroups [] expected = Inr expected"
| "expectedGroups (g # gs) expected =
     (let i = erq_EvidenceID (grp_Request g) in
      if map_of expected i \<noteq> None then Inl (DuplicateExpected i)
      else expectedGroups gs (expected @ [(i, g)]))"

definition answers :: "stockDemandEvidenceGroup \<Rightarrow> StockDemandEvidenceResultLine \<Rightarrow> bool" where
  "answers g actual \<longleftrightarrow>
     ers_Status actual = ''verified'' \<and> trim_space (ers_EvidenceHash actual) \<noteq> []
     \<and> ers_DocNo actual = erq_DocNo (grp_Request g) \<and> ers_Route actual = erq_Route (grp_Request g)
     \<and> ers_ItemCode actual = erq_ItemCode (grp_Request g)
     \<and> ers_WarehouseCode actual = erq_WarehouseCode (grp_Request g)
     \<and> ers_LocationCode actual = erq_LocationCode (grp_Request g)"

definition sameQuantity :: "stockDemandEvidenceGroup \<Rightarrow> StockDemandEvidenceResultLine \<Rightarrow> bool" where
  "sameQuantity g actual \<longleftrightarrow>
     (case (rat_set_string (erq_ExpectedBaseQtyExact (grp_Request g)), rat_set_string (ers_ExpectedBaseQtyExact actual),
            rat_set_string (ers_ActualBaseQtyExact actual)) of
        (Some expected, Some actualExpected, Some actualQty) \<Rightarrow> expected = actualExpected \<and> expected = actualQty
      | _ \<Rightarrow> False)"

definition verifiedMember ::
    "string \<Rightarrow> instant \<Rightarrow> stockDemandEvidenceGroup \<Rightarrow> StockDemandEvidenceResultLine \<Rightarrow> StockRecalcDemandLine \<Rightarrow>
     VerifiedStockEvidence" where
  "verifiedMember fingerprint snapshot g actual member =
     StockRecalcDemandLine.extend member
       (VerifiedStockEvidence.fields (erq_EvidenceID (grp_Request g)) (erq_ExpectedBaseQtyExact (grp_Request g))
          (ers_ActualBaseQtyExact actual) fingerprint (ers_EvidenceHash actual) snapshot)"

fun verifyLines ::
    "string \<Rightarrow> instant \<Rightarrow> (string \<times> stockDemandEvidenceGroup) list \<Rightarrow> StockDemandEvidenceResultLine list \<Rightarrow>
     string list \<Rightarrow> recalc_error + string list \<times> VerifiedStockEvidence list" where
  "verifyLines fingerprint snapshot expected [] seen = Inr (seen, [])"
| "verifyLines fingerprint snapshot expected (actual # rest) seen =
     (let i = ers_EvidenceID actual in
      case map_of expected i of None \<Rightarrow> Inl (UnexpectedEvidence i)
      | Some g \<Rightarrow>
          if i \<in> set seen then Inl (DuplicateEvidence i)
          else if \<not> answers g actual then Inl (EvidenceNotVerified i)
          else if \<not> sameQuantity g actual then Inl (EvidenceQuantityMismatch i)
          else and_then (verifyLines fingerprint snapshot expected rest (i # seen)) (\<lambda>(seen, verified).
            Inr (seen, map (verifiedMember fingerprint snapshot g actual) (grp_Members g) @ verified)))"

definition verifyDemandEvidence ::
    "(string \<Rightarrow> instant option) \<Rightarrow> stockDemandEvidenceGroup list \<Rightarrow> StockDemandEvidenceBatchResponse option \<Rightarrow>
     string \<Rightarrow> instant \<Rightarrow> recalc_error + VerifiedStockEvidence list" where
  "verifyDemandEvidence parse_time groups response expectedFingerprint0 now =
     (let expectedFingerprint = trim_space expectedFingerprint0 in
      case response of None \<Rightarrow> Inl EvidenceNotApproved
      | Some r \<Rightarrow>
          if expectedFingerprint = [] \<or> ebr_SchemaVersion r \<noteq> ''stock-demand-evidence-v1''
             \<or> ebr_SourceSemanticsFingerprint r \<noteq> expectedFingerprint then Inl EvidenceNotApproved
          else
            (case parse_time (trim_space (ebr_SourceSnapshotAt r)) of None \<Rightarrow> Inl EvidenceStale
             | Some snapshot \<Rightarrow>
                 if now + minute < snapshot \<or> time_sub now snapshot > 5 * minute then Inl EvidenceStale
                 else
                   and_then (expectedGroups groups []) (\<lambda>expected.
                   and_then (verifyLines expectedFingerprint snapshot expected (ebr_Lines r) []) (\<lambda>(seen, verified).
                     if length seen \<noteq> length expected then Inl EvidenceIncompleteResponse else Inr verified))))"

section \<open>One job\<close>

text \<open>
  What the worker is given: the SML settings (request address, provider and database; \<open>None\<close> when
  they cannot be loaded), the services, the approved fingerprint, and the clocks of the process and
  of the two transactions. A call that fails returns \<open>None\<close>.
\<close>

record recalc_env =
  re_Runtime :: "(string \<times> string \<times> string) option"
  re_ProcessStockRequest :: "string list \<Rightarrow> bool"
  re_BalancesBatch :: "string \<Rightarrow> string list \<Rightarrow> string \<times> string \<Rightarrow> StockBalanceBatchResponse option option"
  re_DemandEvidenceBatch :: "StockDemandEvidenceRequestLine list \<Rightarrow> StockDemandEvidenceBatchResponse option option"
  re_ParseTime :: "string \<Rightarrow> instant option"
  re_Fingerprint :: string
  re_Now :: instant
  re_ProcessedAt :: instant
  re_CompletedAt :: instant
  re_FailedAt :: instant

definition recalcBalanceChunk :: nat where "recalcBalanceChunk = 500"
definition recalcEvidenceChunk :: nat where "recalcEvidenceChunk = 500"
definition recalcLeaseDuration :: duration where "recalcLeaseDuration = 5 * minute"

fun checkBalances ::
    "recalc_env \<Rightarrow> string \<Rightarrow> string \<times> string \<Rightarrow> string list list \<Rightarrow> recalc_error + unit" where
  "checkBalances renv scopeID place [] = Inr ()"
| "checkBalances renv scopeID place (chunk # chunks) =
     (case re_BalancesBatch renv scopeID chunk place of None \<Rightarrow> Inl BalanceCallFailed
      | Some response \<Rightarrow> and_then (verifyBalanceChunk response scopeID chunk)
          (\<lambda>_. checkBalances renv scopeID place chunks))"

fun collectEvidence ::
    "recalc_env \<Rightarrow> stockDemandEvidenceGroup list list \<Rightarrow> recalc_error + VerifiedStockEvidence list" where
  "collectEvidence renv [] = Inr []"
| "collectEvidence renv (groups # rest) =
     (case re_DemandEvidenceBatch renv (map grp_Request groups) of None \<Rightarrow> Inl EvidenceCallFailed
      | Some response \<Rightarrow>
          and_then (verifyDemandEvidence (re_ParseTime renv) groups response (re_Fingerprint renv) (re_Now renv)) (\<lambda>verified.
          and_then (collectEvidence renv rest) (\<lambda>more. Inr (verified @ more))))"

text \<open>The request to SML, once for each job: its success is recorded before anything else is tried.\<close>

definition requestProcessing ::
    "recalc_env \<Rightarrow> string \<Rightarrow> StockRecalcJob \<Rightarrow> string list \<Rightarrow> SMLStore \<Rightarrow> recalc_error + SMLStore" where
  "requestProcessing renv workerID job itemCodes db =
     (if job_ProcessSucceededAt job \<noteq> None then Inr db
      else case re_Runtime renv of None \<Rightarrow> Inl RuntimeSettingsFailed
        | Some (url, provider, database) \<Rightarrow>
            if trim_space url = [] \<or> trim_space provider = [] \<or> trim_space database = [] then Inl RuntimeIncomplete
            else if \<not> re_ProcessStockRequest renv itemCodes then Inl ProcessRequestFailed
            else case MarkStockRecalcProcessed (re_ProcessedAt renv) db (job_ID job) workerID of
                Inl e \<Rightarrow> Inl (PersistFailed e) | Inr db \<Rightarrow> Inr db)"

definition verifyAndComplete ::
    "sml_env \<Rightarrow> recalc_env \<Rightarrow> string \<Rightarrow> StockRecalcJob \<Rightarrow> StockRecalcDemand \<Rightarrow> string list \<Rightarrow> SMLStore \<Rightarrow>
     recalc_error + SMLStore" where
  "verifyAndComplete env renv workerID job demand itemCodes db =
     and_then (checkBalances renv (''recalc:'' @ job_ID job) (dem_Warehouse demand, dem_Location demand)
        (chunksOf recalcBalanceChunk itemCodes)) (\<lambda>_.
     and_then (groupDemandEvidence env (dem_Lines demand)) (\<lambda>groups.
     and_then (collectEvidence renv (chunksOf recalcEvidenceChunk groups)) (\<lambda>verified.
       case CompleteStockRecalcJob env (re_CompletedAt renv) db (job_ID job) workerID verified of
         Inl e \<Rightarrow> Inl (ReleaseFailed e) | Inr db \<Rightarrow> Inr db)))"

text \<open>A failure keeps what was committed before it: the store is returned in either case.\<close>

definition process ::
    "sml_env \<Rightarrow> recalc_env \<Rightarrow> string \<Rightarrow> SMLStore \<Rightarrow> StockRecalcJob \<Rightarrow> SMLStore \<times> (recalc_error + unit)" where
  "process env renv workerID db job =
     (case StockRecalcDemandOf env db (job_ID job) of Inl e \<Rightarrow> (db, Inl (LoadDemandFailed e))
      | Inr demand \<Rightarrow>
          if dem_ItemCodes demand = [] then (db, Inl NoAwaitingDemand)
          else if trim_space (dem_Warehouse demand) = [] \<or> trim_space (dem_Location demand) = []
          then (db, Inl StockScopeMissing)
          else
            let itemCodes = sort_by (\<lambda>c. c) (dem_ItemCodes demand) in
            (case requestProcessing renv workerID job itemCodes db of Inl e \<Rightarrow> (db, Inl e)
             | Inr db \<Rightarrow>
                 (case verifyAndComplete env renv workerID job demand itemCodes db of
                    Inl e \<Rightarrow> (db, Inl e) | Inr db \<Rightarrow> (db, Inr ()))))"

text \<open>The round of a tick: at most \<open>limit\<close> jobs, each with the environment it meets.\<close>

fun drain ::
    "sml_env \<Rightarrow> (recalc_error \<Rightarrow> string) \<Rightarrow> string \<Rightarrow> (instant \<times> recalc_env) list \<Rightarrow> SMLStore \<Rightarrow> SMLStore" where
  "drain env message workerID [] db = db"
| "drain env message workerID ((now, renv) # rest) db =
     (case ClaimStockRecalcJob now db workerID recalcLeaseDuration of
        (db, None) \<Rightarrow> db
      | (db, Some job) \<Rightarrow>
          (case process env renv workerID db job of
             (db, Inr _) \<Rightarrow> drain env message workerID rest db
           | (db, Inl e) \<Rightarrow>
               drain env message workerID rest
                 (case FailStockRecalcJob (re_FailedAt renv) db (job_ID job) workerID (message e) of
                    Inl _ \<Rightarrow> db | Inr db \<Rightarrow> db)))"

end
