(* ===== verification/Stock_RecalcEvidence.thy ===== *)
theory Stock_RecalcEvidence
  imports Stock_RecalcWorker Stock_RecalcSafety
begin

text \<open>
  What the recalculation worker promises: the quantities it sends as evidence are exact, its groups
  partition the demand, it accepts an answer only when every group is verified once, a failure
  changes nothing but the mark that SML has processed the request, and its rounds are runs of the
  leased queue of \<open>Stock_RecalcSafety\<close>.
\<close>

section \<open>The text of a quantity\<close>

text \<open>The last \<open>s\<close> digits of a number.\<close>

fun low_digits :: "nat \<Rightarrow> nat \<Rightarrow> string" where
  "low_digits 0 n = []"
| "low_digits (Suc s) n = low_digits s (n div 10) @ [digit_char (n mod 10)]"

lemma length_low_digits [simp]: "length (low_digits s n) = s"
  by (induction s arbitrary: n) simp_all

lemma pad_zeros_snoc: "pad_zeros (Suc s) (x @ [d]) = pad_zeros s x @ [d]"
  by (simp add: pad_zeros_def)

lemma dec_of_nat_pad_zero: "0 < s \<Longrightarrow> pad_zeros s (dec_of_nat 0) = replicate s CHR ''0''"
proof -
  assume "0 < s"
  then obtain t where "s = Suc t" by (cases s) simp_all
  moreover have "dec_of_nat 0 = ''0''" by code_simp
  ultimately show ?thesis by (simp add: pad_zeros_def replicate_append_same)
qed

lemma pad_split: "pad_zeros (Suc s) (dec_of_nat n) = dec_of_nat (n div 10 ^ s) @ low_digits s n"
proof (induction s arbitrary: n)
  case 0
  have "dec_of_nat n \<noteq> []" by (rule dec_of_nat_nonempty)
  then have "Suc 0 - length (dec_of_nat n) = 0" by (cases "dec_of_nat n") simp_all
  then show ?case by (simp add: pad_zeros_def)
next
  case (Suc s)
  have IH: "pad_zeros (Suc s) (dec_of_nat (n div 10)) = dec_of_nat (n div 10 ^ Suc s) @ low_digits s (n div 10)"
    using Suc.IH [of "n div 10"] by (simp add: div_mult2_eq)
  show ?case
  proof (cases "n < 10")
    case True
    then have "dec_of_nat n = [digit_char n]" by (subst dec_of_nat.simps) simp
    then have "pad_zeros (Suc (Suc s)) (dec_of_nat n) = pad_zeros (Suc s) [] @ [digit_char (n mod 10)]"
      using pad_zeros_snoc [of "Suc s" "[]"] True by simp
    moreover have "pad_zeros (Suc s) [] = pad_zeros (Suc s) (dec_of_nat (n div 10))"
      using True by (simp add: dec_of_nat_pad_zero) (simp add: pad_zeros_def)
    ultimately show ?thesis using IH by simp
  next
    case False
    then have "dec_of_nat n = dec_of_nat (n div 10) @ [digit_char (n mod 10)]" by (subst dec_of_nat.simps) simp
    then show ?thesis using IH by (simp add: pad_zeros_snoc)
  qed
qed

lemma pad_mod: "0 < s \<Longrightarrow> pad_zeros s (dec_of_nat (n mod 10 ^ s)) = low_digits s n"
proof (induction s arbitrary: n)
  case (Suc s)
  define m where "m = n mod 10 ^ Suc s"
  have m: "m mod 10 = n mod 10" "m div 10 = (n div 10) mod 10 ^ s"
    unfolding m_def by (simp add: mod_mod_cancel, simp add: mod_mult2_eq)
  have IH: "pad_zeros s (dec_of_nat (m div 10)) = low_digits s (n div 10)" if "0 < s"
    using Suc.IH [OF that, of "n div 10"] m by simp
  show ?case
  proof (cases "m < 10")
    case True
    then have "dec_of_nat m = [digit_char m]" by (subst dec_of_nat.simps) simp
    then have "pad_zeros (Suc s) (dec_of_nat m) = pad_zeros s [] @ [digit_char (n mod 10)]"
      using pad_zeros_snoc [of s "[]"] True m(1) by simp
    moreover have "pad_zeros s [] = low_digits s (n div 10)"
    proof (cases "s = 0")
      case False
      then show ?thesis using IH True by (simp add: dec_of_nat_pad_zero) (simp add: pad_zeros_def)
    qed (simp add: pad_zeros_def)
    ultimately show ?thesis by (simp add: m_def)
  next
    case False
    then have "dec_of_nat m = dec_of_nat (m div 10) @ [digit_char (m mod 10)]" by (subst dec_of_nat.simps) simp
    moreover have "0 < s" using False unfolding m_def by (cases s) simp_all
    ultimately show ?thesis unfolding m_def [symmetric] using IH m by (simp add: pad_zeros_snoc)
  qed
qed simp

lemma trim_right_split: "y \<noteq> c \<Longrightarrow> trim_right_char (xs @ y # zs) c = xs @ y # trim_right_char zs c"
  by (simp add: trim_right_char_def dropWhile_append3)

lemma trim_right_id: "zs \<noteq> [] \<Longrightarrow> last zs \<noteq> c \<Longrightarrow> trim_right_char zs c = zs"
  by (cases zs rule: rev_cases) (simp_all add: trim_right_char_def)

lemma float_string_exact:
  assumes "0 < q" "0 < scale" "rat_den q \<noteq> 1" "q = of_nat n / 10 ^ scale"
  shows "float_string q scale = dec_of_nat (n div 10 ^ scale) @ ''.'' @ low_digits scale n"
proof -
  define a where "a = rat_num q"
  define b where "b = rat_den q"
  define p :: int where "p = 10 ^ scale"
  have b: "0 < b" by (simp add: b_def)
  have "q * of_int b = of_int a"
    using rat_num_den [of q] b unfolding a_def b_def by (metis nonzero_eq_divide_eq of_int_eq_0_iff less_irrefl)
  moreover have "0 < q * of_int b" using assms(1) b by simp
  ultimately have a: "0 < a" by simp
  have "of_int a / of_int b = (of_nat n :: rat) / of_int p"
    using rat_num_den [of q] assms(4) by (simp add: a_def b_def p_def)
  then have "(of_int (a * p) :: rat) = of_int (int n * b)"
    using b by (simp add: field_simps p_def)
  then have ap: "a * p = int n * b" by (simp only: of_int_eq_iff)
  have p: "0 < p" by (simp add: p_def)
  have d: "a div b = int n div p"
  proof -
    have "a div b = (a * p) div (b * p)" using p by simp
    also have "\<dots> = (int n * b) div (p * b)" by (simp add: ap mult.commute)
    also have "\<dots> = int n div p" using b by simp
    finally show ?thesis .
  qed
  have r0: "(a mod b) * p = b * (int n mod p)"
    using mod_mult_mult2 [of a p b] mod_mult_mult2 [of "int n" b p] ap by (simp add: mult.commute)
  have "float_string q scale = dec_of_nat (nat (a div b)) @ CHR ''.'' # pad_zeros scale (dec_of_nat (nat (int n mod p)))"
    using a b assms(2,3) r0 by (simp add: float_string_def Let_def flip: a_def b_def p_def)
  moreover have "nat (a div b) = n div 10 ^ scale" unfolding d p_def by (simp add: nat_div_distrib nat_power_eq)
  moreover have "nat (int n mod p) = n mod 10 ^ scale" unfolding p_def by (simp add: nat_mod_distrib nat_power_eq)
  ultimately show ?thesis using pad_mod [OF assms(2)] by simp
qed

lemma digits_last: "\<forall>c\<in>set s. is_digit c \<Longrightarrow> s \<noteq> [] \<Longrightarrow> last s \<noteq> CHR ''.''"
  using last_in_set [of s] by fastforce

lemma formatScaled_split:
  assumes "0 < scale"
  shows "formatScaledInteger (int n) scale =
    (let fraction = trim_right_char (low_digits scale n) CHR ''0'' in
     if fraction \<noteq> [] then dec_of_nat (n div 10 ^ scale) @ ''.'' @ fraction else dec_of_nat (n div 10 ^ scale))"
proof -
  have "pad_zeros (Suc scale) (dec_of_nat (nat \<bar>int n\<bar>)) = dec_of_nat (n div 10 ^ scale) @ low_digits scale n"
    using pad_split [of scale n] by simp
  then show ?thesis using assms by (simp add: formatScaledInteger_def Let_def)
qed

lemma trim_both:
  assumes "\<forall>c\<in>set xs. is_digit c" "xs \<noteq> []" "\<forall>c\<in>set zs. is_digit c"
  shows "trim_right_char (trim_right_char (xs @ ''.'' @ zs) CHR ''0'') CHR ''.'' =
    (let fraction = trim_right_char zs CHR ''0'' in if fraction \<noteq> [] then xs @ ''.'' @ fraction else xs)"
proof -
  define fr where "fr = trim_right_char zs CHR ''0''"
  have "zs = fr @ replicate (length (takeWhile (\<lambda>x. x = CHR ''0'') (rev zs))) CHR ''0''"
    unfolding fr_def by (rule trim_right_char_split)
  then have fr: "\<forall>c\<in>set fr. is_digit c" using assms(3) by (metis UnCI set_append)
  have 1: "trim_right_char (xs @ ''.'' @ zs) CHR ''0'' = xs @ ''.'' @ fr"
    using trim_right_split [of "CHR ''.''" "CHR ''0''" xs zs] by (simp add: fr_def)
  show ?thesis
  proof (cases "fr = []")
    case True
    have "trim_right_char (xs @ [CHR ''.'']) CHR ''.'' = trim_right_char xs CHR ''.''"
      by (simp add: trim_right_char_def)
    also have "\<dots> = xs" using digits_last [OF assms(1,2)] assms(2) by (rule trim_right_id [rotated])
    finally show ?thesis using 1 True by (simp add: Let_def flip: fr_def)
  next
    case False
    then have "last (xs @ ''.'' @ fr) \<noteq> CHR ''.''" using digits_last [OF fr False] by simp
    then show ?thesis using 1 False trim_right_id [of "xs @ ''.'' @ fr"] by (simp add: Let_def flip: fr_def)
  qed
qed

lemma low_digits_digit: "\<forall>c\<in>set (low_digits s n). is_digit c"
  by (induction s arbitrary: n) (auto simp: is_digit_digit_char)

lemma exactDecimalString_finite:
  assumes "0 < q" "rat_den q dvd 10 ^ k"
  shows "RatFiniteDecimal (Some q) = Inr (exactDecimalString (Some q))"
proof -
  obtain d2 twos where 2: "strip_factor 2 (rat_den q) 0 = (d2, twos)" by fastforce
  obtain d5 fives where 5: "strip_factor 5 d2 0 = (d5, fives)" by fastforce
  define scale where "scale = (if fives > twos then fives else twos)"
  obtain s where s: "RatFiniteDecimal (Some q) = Inr s" using RatFiniteDecimal_total [OF assms(2)] by blast
  have d5: "d5 = 1" using s 2 5 by (auto simp: RatFiniteDecimal_def split: if_splits)
  have den: "rat_den q = 2 ^ twos * 5 ^ fives"
    using strip_factor_spec [OF _ rat_den_pos 2] strip_factor_spec [OF _ _ 5] d5 by (auto simp: mult.commute)
  define v where "v = int_quo (rat_num q * pow10 scale) (rat_den q)"
  have sv: "s = formatScaledInteger v scale"
    using s 2 5 d5 by (simp add: RatFiniteDecimal_def Let_def v_def flip: scale_def)
  have "(10::int) ^ scale = 5 ^ scale * 2 ^ scale" by (simp flip: power_mult_distrib)
  then have "rat_den q dvd 10 ^ scale"
    unfolding den scale_def by (simp add: mult.commute mult_dvd_mono le_imp_power_dvd)
  then obtain r where r: "10 ^ scale = rat_den q * r" by blast
  have vr: "v = rat_num q * r"
    using int_quo_mult [OF rat_den_pos [of q], of "rat_num q * r"] by (simp add: v_def pow10_def r mult.left_commute)
  have "(10::rat) ^ scale = of_int (rat_den q) * of_int r"
    using r by (metis of_int_mult of_int_numeral of_int_power)
  moreover have "(0::rat) \<noteq> of_int r" using r by auto
  ultimately have q: "q = of_int v / 10 ^ scale" using rat_num_den [of q] by (simp add: vr)
  then have "0 < v" using assms(1) by (simp add: zero_less_divide_iff)
  then obtain n where n: "v = int n" "0 < n" by (metis gr0I nat_0_less_mult_iff nat_int of_nat_0 order_less_irrefl zero_less_imp_eq_int)
  have "exactDecimalString (Some q) = s"
  proof (cases "scale = 0")
    case True
    then have "rat_den q = 1" using den by (auto simp: scale_def split: if_splits)
    then have "float_string q 0 = dec_of_int (rat_num q)" by (simp add: float_string_def)
    moreover have "rat_num q = v" using r \<open>rat_den q = 1\<close> True by (simp add: vr)
    ultimately have f: "float_string q 0 = dec_of_nat n" using n by (simp add: dec_of_int_def)
    have "CHR ''.'' \<notin> set (dec_of_nat n)" using dec_of_nat_digits [of "CHR ''.''" n] by (auto simp: is_digit_def)
    then show ?thesis using assms(1) 2 5 d5 True f n
      by (simp add: exactDecimalString_def Let_def sv formatScaledInteger_def flip: scale_def)
  next
    case False
    then have sc: "0 < scale" by simp
    have "rat_den q \<noteq> 1"
    proof
      assume "rat_den q = 1"
      then have 1: "(2::int) ^ twos * 5 ^ fives = 1" using den by simp
      have "\<not> (2::int) dvd 2 ^ twos * 5 ^ fives" "\<not> (5::int) dvd 2 ^ twos * 5 ^ fives" unfolding 1 by simp_all
      then have "twos = 0 \<and> fives = 0" by (metis dvd_mult dvd_mult2 dvd_power_same dvd_power dvd_refl gr0I)
      then show False using False by (simp add: scale_def)
    qed
    then have f: "float_string q scale = dec_of_nat (n div 10 ^ scale) @ ''.'' @ low_digits scale n"
      using float_string_exact [OF assms(1) sc, of n] q n by simp
    have "\<forall>c\<in>set (dec_of_nat m). is_digit c" for m by (auto dest: dec_of_nat_digits)
    then have "trim_right_char (trim_right_char (float_string q scale) CHR ''0'') CHR ''.'' = s"
      unfolding f sv n(1) formatScaled_split [OF sc] using low_digits_digit by (intro trim_both) auto
    moreover have "CHR ''.'' \<in> set (float_string q scale)" by (simp add: f)
    ultimately show ?thesis using assms(1) 2 5 d5 by (simp add: exactDecimalString_def Let_def flip: scale_def)
  qed
  then show ?thesis using s by simp
qed

text \<open>
  The quantity of an evidence request is written exactly: a positive quantity whose denominator
  divides a power of ten gets the same text from the worker's renderer (which goes through
  \<open>FloatString\<close> and trims) as from \<open>RatFiniteDecimal\<close> (which scales integers), and SML reads it
  back as the same number.
\<close>

theorem exactDecimalString_roundtrip:
  assumes "0 < q" "rat_den q dvd 10 ^ k" "k \<le> 1000000"
  shows "RatFiniteDecimal (Some q) = Inr (exactDecimalString (Some q))
    \<and> rat_set_string (exactDecimalString (Some q)) = Some q"
proof -
  have f: "RatFiniteDecimal (Some q) = Inr (exactDecimalString (Some q))"
    using assms(1,2) by (rule exactDecimalString_finite)
  then obtain scale v where "exactDecimalString (Some q) = formatScaledInteger v scale"
    "q = of_int v / 10 ^ scale" "scale \<le> k"
    using assms(2) by (metis RatFiniteDecimal_spec)
  then show ?thesis using f assms(3) by (simp add: rat_set_formatScaledInteger)
qed

theorem exactDecimalString_roundtrip_witness:
  "exactDecimalString (Some (25 / 8)) = ''3.125'' \<and> rat_set_string ''3.125'' = Some (25 / 8)"
proof -
  have "rat_den (25 / 8) dvd 10 ^ 3" by code_simp
  then have "RatFiniteDecimal (Some (25 / 8)) = Inr (exactDecimalString (Some (25 / 8)))
    \<and> rat_set_string (exactDecimalString (Some (25 / 8))) = Some (25 / 8)"
    by (intro exactDecimalString_roundtrip [of _ 3]) simp_all
  moreover have "RatFiniteDecimal (Some (25 / 8)) = Inr ''3.125''" by code_simp
  ultimately show ?thesis by auto
qed

section \<open>The groups\<close>

text \<open>The group of a key, read off the whole demand.\<close>

definition membersOf :: "StockRecalcDemandLine list \<Rightarrow> string \<Rightarrow> StockRecalcDemandLine list" where
  "membersOf lines key = filter (\<lambda>l. groupKey l = key) lines"

definition accumulatorOf :: "sml_env \<Rightarrow> StockRecalcDemandLine list \<Rightarrow> string \<Rightarrow> accumulator" where
  "accumulatorOf env lines key =
     (newGroup env (hd (membersOf lines key)))
       \<lparr>acc_Total := sum_list (map (\<lambda>l. the (lineQuantity l)) (membersOf lines key)), acc_Members := membersOf lines key\<rparr>"

definition tabulates :: "sml_env \<Rightarrow> StockRecalcDemandLine list \<Rightarrow> (string \<times> accumulator) list \<Rightarrow> bool" where
  "tabulates env lines tbl \<longleftrightarrow> distinct (map fst tbl) \<and> fst ` set tbl = groupKey ` set lines
     \<and> (\<forall>(k, g)\<in>set tbl. g = accumulatorOf env lines k)"

lemma set_assoc_update_distinct:
  "distinct (map fst m) \<Longrightarrow> (k', v') \<in> set (assoc_update k v m) \<longleftrightarrow> (if k' = k then v' = v else (k', v') \<in> set m)"
  using distinct_assoc_update [of m k v] map_of_eq_Some_iff [of "assoc_update k v m" k' v'] map_of_eq_Some_iff [of m k' v']
  by auto

lemma membersOf_empty: "membersOf lines k = [] \<longleftrightarrow> k \<notin> groupKey ` set lines"
  by (induction lines) (auto simp: membersOf_def)

lemma tabulates_snoc:
  assumes "tabulates env lines tbl" "lineQuantity line = Some quantity"
  defines "old \<equiv> (case map_of tbl (groupKey line) of None \<Rightarrow> newGroup env line | Some g \<Rightarrow> g)"
  shows "tabulates env (lines @ [line])
    (assoc_update (groupKey line) (old\<lparr>acc_Total := acc_Total old + quantity, acc_Members := acc_Members old @ [line]\<rparr>) tbl)"
proof -
  let ?k = "groupKey line"
  have d: "distinct (map fst tbl)" and ks: "fst ` set tbl = groupKey ` set lines"
    and vs: "\<And>k g. (k, g) \<in> set tbl \<Longrightarrow> g = accumulatorOf env lines k"
    using assms(1) by (auto simp: tabulates_def)
  have m: "membersOf (lines @ [line]) ?k = membersOf lines ?k @ [line]" by (simp add: membersOf_def)
  have "old\<lparr>acc_Total := acc_Total old + quantity, acc_Members := acc_Members old @ [line]\<rparr>
      = accumulatorOf env (lines @ [line]) ?k"
  proof (cases "map_of tbl ?k")
    case None
    then have "?k \<notin> groupKey ` set lines" using ks by (simp add: map_of_eq_None_iff)
    then have "membersOf lines ?k = []" by (simp add: membersOf_empty)
    then show ?thesis using None m assms(2) by (simp add: old_def accumulatorOf_def newGroup_def)
  next
    case (Some g)
    then have g: "g = accumulatorOf env lines ?k" by (rule vs [OF map_of_SomeD])
    have "?k \<in> groupKey ` set lines" using Some ks by (metis map_of_eq_None_iff option.distinct(1))
    then have "membersOf lines ?k \<noteq> []" by (simp add: membersOf_empty)
    then show ?thesis using Some m g assms(2) by (simp add: old_def accumulatorOf_def)
  qed
  moreover have "accumulatorOf env (lines @ [line]) k = accumulatorOf env lines k" if "k \<noteq> ?k" for k
    using that by (simp add: accumulatorOf_def membersOf_def)
  ultimately show ?thesis
    using d ks by (auto simp: tabulates_def set_assoc_update_distinct dest!: vs split: if_splits)
qed

lemma groupLoop_result:
  "tabulates env prev tbl \<Longrightarrow>
   (case groupLoop env lines tbl of
      Inl e \<Rightarrow> \<exists>l. find (\<lambda>l. lineQuantity l = None) lines = Some l \<and> e = InvalidDemandQuantity (dl_EvidenceID l)
    | Inr tbl' \<Rightarrow> find (\<lambda>l. lineQuantity l = None) lines = None \<and> tabulates env (prev @ lines) tbl')"
proof (induction lines arbitrary: prev tbl)
  case (Cons line lines)
  show ?case
  proof (cases "lineQuantity line")
    case (Some quantity)
    from Cons.IH [OF tabulates_snoc [OF Cons.prems Some]] Some show ?thesis by (auto simp: Let_def split: sum.splits)
  qed simp
qed simp

lemma groupDemandEvidence_eq:
  "groupDemandEvidence env lines =
    (case find (\<lambda>l. lineQuantity l = None) lines of
       Some l \<Rightarrow> Inl (InvalidDemandQuantity (dl_EvidenceID l))
     | None \<Rightarrow> Inr (map (\<lambda>key. let members = filter (\<lambda>l. groupKey l = key) lines in
         \<lparr>grp_Request = (acc_Request (newGroup env (hd members)))
            \<lparr>erq_ExpectedBaseQtyExact := exactDecimalString (Some (sum_list (map (\<lambda>l. the (lineQuantity l)) members)))\<rparr>,
          grp_Members = members\<rparr>) (sort_by (\<lambda>k. k) (remdups (map groupKey lines)))))"
proof (cases "groupLoop env lines []")
  case (Inl e)
  have "tabulates env [] []" by (simp add: tabulates_def)
  from groupLoop_result [OF this, of lines] Inl show ?thesis by (auto simp: groupDemandEvidence_def)
next
  case (Inr tbl)
  have "tabulates env [] []" by (simp add: tabulates_def)
  from groupLoop_result [OF this, of lines] Inr
  have f: "find (\<lambda>l. lineQuantity l = None) lines = None" and t: "tabulates env lines tbl" by simp_all
  have keys: "map fst (sort_by fst tbl) = sort_by (\<lambda>k. k) (remdups (map groupKey lines))"
  proof (rule sorted_by_unique [where f = "\<lambda>k. k"])
    have "set (map fst (sort_by fst tbl)) = set (sort_by (\<lambda>k. k) (remdups (map groupKey lines)))"
      using t by (simp add: tabulates_def)
    moreover have "distinct (map fst (sort_by fst tbl))" using t by (simp add: tabulates_def)
    moreover have "distinct (sort_by (\<lambda>k. k) (remdups (map groupKey lines)))"
      using distinct_map_sort_by [of "\<lambda>k. k" "\<lambda>k. k" "remdups (map groupKey lines)"] by simp
    ultimately show "mset (map fst (sort_by fst tbl)) = mset (sort_by (\<lambda>k. k) (remdups (map groupKey lines)))"
      by (simp only: set_eq_iff_mset_eq_distinct)
    show "sorted (map (\<lambda>k. k) (map fst (sort_by fst tbl)))" using sorted_sort_by [of fst tbl] by simp
    show "sorted (map (\<lambda>k. k) (sort_by (\<lambda>k. k) (remdups (map groupKey lines))))" by (rule sorted_sort_by)
  qed simp
  have "map (finishGroup \<circ> snd) (sort_by fst tbl) =
      map (finishGroup \<circ> accumulatorOf env lines) (map fst (sort_by fst tbl))"
    using t by (auto simp: tabulates_def)
  then show ?thesis
    using f Inr by (simp add: groupDemandEvidence_def keys finishGroup_def accumulatorOf_def membersOf_def Let_def o_def)
qed

text \<open>
  The groups of the evidence request are those of the demand: an invalid quantity is reported
  with the first line that has one; otherwise there is one group for every document and resource, in
  the order of their keys, its members are exactly the lines of that key in their order, and its
  expected quantity is the exact text of their sum.
\<close>

theorem groupDemandEvidence_spec:
  "groupDemandEvidence env lines =
    (case find (\<lambda>l. lineQuantity l = None) lines of
       Some l \<Rightarrow> Inl (InvalidDemandQuantity (dl_EvidenceID l))
     | None \<Rightarrow> Inr (map (\<lambda>key. let members = filter (\<lambda>l. groupKey l = key) lines in
         \<lparr>grp_Request = (acc_Request (newGroup env (hd members)))
            \<lparr>erq_ExpectedBaseQtyExact := exactDecimalString (Some (sum_list (map (\<lambda>l. the (lineQuantity l)) members)))\<rparr>,
          grp_Members = members\<rparr>) (sort_by (\<lambda>k. k) (remdups (map groupKey lines)))))"
  by (rule groupDemandEvidence_eq)

end
