(* ===== verification/Stock_RecalcRounds.thy ===== *)
theory Stock_RecalcRounds
  imports Stock_RecalcEvidence
begin

text \<open>
  The rounds of the recalculation worker: which answers it accepts, what a round leaves behind when
  it fails and when it succeeds, and that its ticks are runs of the leased queue.
\<close>

section \<open>The answers\<close>

lemma expectedGroups_Inr:
  "expectedGroups gs expected = Inr expected' \<Longrightarrow> distinct (map fst expected) \<Longrightarrow>
     expected' = expected @ map (\<lambda>g. (erq_EvidenceID (grp_Request g), g)) gs \<and> distinct (map fst expected')"
  by (induction gs arbitrary: expected) (fastforce simp: Let_def map_of_eq_None_iff split: if_splits)+

definition accepted ::
    "string \<Rightarrow> instant \<Rightarrow> stockDemandEvidenceGroup \<Rightarrow> StockDemandEvidenceResultLine \<Rightarrow> bool" where
  "accepted fingerprint snapshot g actual \<longleftrightarrow>
     ers_EvidenceID actual = erq_EvidenceID (grp_Request g) \<and> answers g actual \<and> sameQuantity g actual"

lemma verifyLines_Inr:
  "verifyLines fp snap expected ls seen = Inr (seen', verified) \<Longrightarrow> distinct seen \<Longrightarrow>
     seen' = rev (map ers_EvidenceID ls) @ seen \<and> distinct seen'
     \<and> list_all (\<lambda>l. \<exists>g. map_of expected (ers_EvidenceID l) = Some g \<and> answers g l \<and> sameQuantity g l) ls
     \<and> verified = concat (map (\<lambda>l. let g = the (map_of expected (ers_EvidenceID l)) in
         map (verifiedMember fp snap g l) (grp_Members g)) ls)"
proof (induction ls arbitrary: seen seen' verified)
  case (Cons l ls)
  let ?i = "ers_EvidenceID l"
  obtain g where g: "map_of expected ?i = Some g" using Cons.prems(1) by (cases "map_of expected ?i") simp_all
  have c: "?i \<notin> set seen" "answers g l" "sameQuantity g l"
    using Cons.prems(1) g by (simp_all add: Let_def split: if_split_asm)
  then obtain rest where r: "verifyLines fp snap expected ls (?i # seen) = Inr (seen', rest)"
    and v: "verified = map (verifiedMember fp snap g l) (grp_Members g) @ rest"
    using Cons.prems(1) g by (auto simp: Let_def result_simps)
  have "distinct (?i # seen)" using Cons.prems(2) c(1) by simp
  from Cons.IH [OF r this] show ?case using g c v by (elim conjE) auto
qed simp

lemma mset_concat_map: "mset (concat (map f xs)) = (\<Sum>x\<in>#mset xs. mset (f x))"
  by (induction xs) simp_all

lemma truncate_verifiedMember: "StockRecalcDemandLine.truncate (verifiedMember fp snap g l m) = m"
  by (simp add: verifiedMember_def StockRecalcDemandLine.truncate_def StockRecalcDemandLine.extend_def
      VerifiedStockEvidence.fields_def)

lemma verifyDemandEvidence_Inr:
  assumes "verifyDemandEvidence parse_time groups (Some r) fingerprint now = Inr verified"
  shows "trim_space fingerprint \<noteq> [] \<and> ebr_SourceSemanticsFingerprint r = trim_space fingerprint
    \<and> ebr_SchemaVersion r = ''stock-demand-evidence-v1''
    \<and> (\<exists>snapshot. parse_time (trim_space (ebr_SourceSnapshotAt r)) = Some snapshot \<and> snapshot \<le> now + minute
         \<and> time_sub now snapshot \<le> 5 * minute
         \<and> list_all (\<lambda>v. ve_VerifiedSourceSnapshotAt v = snapshot \<and> ve_SourceFingerprint v = trim_space fingerprint) verified)
    \<and> mset (map ers_EvidenceID (ebr_Lines r)) = mset (map (\<lambda>g. erq_EvidenceID (grp_Request g)) groups)
    \<and> list_all (\<lambda>g. list_ex (\<lambda>l. ers_EvidenceID l = erq_EvidenceID (grp_Request g) \<and> answers g l \<and> sameQuantity g l)
         (ebr_Lines r)) groups
    \<and> mset (map StockRecalcDemandLine.truncate verified) = mset (concat (map grp_Members groups))"
proof -
  let ?fp = "trim_space fingerprint" and ?id = "\<lambda>g. erq_EvidenceID (grp_Request g)"
  let ?ex = "map (\<lambda>g. (?id g, g)) groups" and ?ls = "ebr_Lines r"
  obtain snap where head: "?fp \<noteq> []" "ebr_SourceSemanticsFingerprint r = ?fp"
      "ebr_SchemaVersion r = ''stock-demand-evidence-v1''"
      "parse_time (trim_space (ebr_SourceSnapshotAt r)) = Some snap" "snap \<le> now + minute"
      "time_sub now snap \<le> 5 * minute"
    and b: "and_then (expectedGroups groups []) (\<lambda>expected.
        and_then (verifyLines ?fp snap expected ?ls []) (\<lambda>(seen, verified).
          if length seen \<noteq> length expected then Inl EvidenceIncompleteResponse else Inr verified)) = Inr verified"
    using assms by (auto simp: verifyDemandEvidence_def Let_def not_less split: option.splits if_splits)
  obtain expected where e: "expectedGroups groups [] = Inr expected" using b by (auto simp: result_simps)
  have ex: "expected = ?ex" "distinct (map ?id groups)"
    using expectedGroups_Inr [OF e] by (auto simp: o_def)
  obtain seen where v: "verifyLines ?fp snap ?ex ?ls [] = Inr (seen, verified)" and n: "length seen = length groups"
    using b e ex(1) by (auto simp: result_simps split: if_splits)
  from verifyLines_Inr [OF v] have s: "seen = rev (map ers_EvidenceID ?ls)" "distinct (map ers_EvidenceID ?ls)"
    and ok: "list_all (\<lambda>l. \<exists>g. map_of ?ex (ers_EvidenceID l) = Some g \<and> answers g l \<and> sameQuantity g l) ?ls"
    and vs: "verified = concat (map (\<lambda>l. let g = the (map_of ?ex (ers_EvidenceID l)) in
         map (verifiedMember ?fp snap g l) (grp_Members g)) ?ls)" by auto
  have of: "map_of ?ex i = Some g \<longleftrightarrow> g \<in> set groups \<and> ?id g = i" for i g
    using ex(2) by (subst map_of_eq_Some_iff) (auto simp: o_def)
  have "set (map ers_EvidenceID ?ls) \<subseteq> set (map ?id groups)" using ok by (force simp: list_all_iff of)
  moreover have "card (set (map ers_EvidenceID ?ls)) = card (set (map ?id groups))"
    using n s ex(2) by (simp add: distinct_card del: set_map)
  ultimately have ids: "set (map ers_EvidenceID ?ls) = set (map ?id groups)" by (intro card_subset_eq) auto
  have ids': "mset (map ers_EvidenceID ?ls) = mset (map ?id groups)"
    using ids s(2) ex(2) by (simp only: set_eq_iff_mset_eq_distinct)
  have "list_ex (\<lambda>l. ers_EvidenceID l = ?id g \<and> answers g l \<and> sameQuantity g l) ?ls" if g: "g \<in> set groups" for g
  proof -
    obtain l where l: "l \<in> set ?ls" "ers_EvidenceID l = ?id g" using g ids by (metis (no_types, lifting) image_iff list.set_map)
    then obtain g' where "map_of ?ex (ers_EvidenceID l) = Some g'" "answers g' l" "sameQuantity g' l"
      using ok by (auto simp: list_all_iff)
    moreover have "map_of ?ex (?id g) = Some g" using g by (simp only: of)
    ultimately have "answers g l" "sameQuantity g l" using l(2) by simp_all
    then show ?thesis using l by (auto simp: list_ex_iff)
  qed
  then have cover: "list_all (\<lambda>g. list_ex (\<lambda>l. ers_EvidenceID l = ?id g \<and> answers g l \<and> sameQuantity g l) ?ls) groups"
    by (simp add: list_all_iff)
  define mem where "mem i = grp_Members (the (map_of ?ex i))" for i
  have "map StockRecalcDemandLine.truncate verified = concat (map mem (map ers_EvidenceID ?ls))"
    unfolding vs by (simp add: map_concat o_def Let_def truncate_verifiedMember mem_def)
  then have "mset (map StockRecalcDemandLine.truncate verified) = mset (concat (map mem (map ers_EvidenceID ?ls)))"
    by simp
  also have "\<dots> = mset (concat (map mem (map ?id groups)))"
    by (simp only: mset_concat_map ids')
  also have "map mem (map ?id groups) = map grp_Members groups"
  proof -
    have "mem (?id g) = grp_Members g" if "g \<in> set groups" for g
    proof -
      have "map_of ?ex (?id g) = Some g" using that by (simp only: of)
      then show ?thesis by (simp add: mem_def)
    qed
    then show ?thesis by simp
  qed
  finally have ms: "mset (map StockRecalcDemandLine.truncate verified) = mset (concat (map grp_Members groups))" .
  have "list_all (\<lambda>v. ve_VerifiedSourceSnapshotAt v = snap \<and> ve_SourceFingerprint v = ?fp) verified"
    unfolding vs by (auto simp: list_all_iff Let_def verifiedMember_def StockRecalcDemandLine.extend_def VerifiedStockEvidence.fields_def)
  then show ?thesis using head ids' cover ms by blast
qed

text \<open>
  Services for the sample document: SML accepts the request, reports the balances it is asked for,
  and verifies every group.
\<close>

definition sample_item :: "string \<Rightarrow> StockBalanceItem" where
  "sample_item code = \<lparr>bal_ItemCode = code, bal_ItemName = [], bal_UnitCode = [], bal_RawBalanceQty = Float 0,
     bal_BalanceQty = Float 0, bal_PhysicalBalanceQty = Float 0, bal_OutstandingSalesOrderQty = Float 0,
     bal_AvailableBalanceQty = Float 0, bal_PhysicalBalanceQtyExact = [], bal_OutstandingSalesOrderQtyExact = [],
     bal_AvailableBalanceQtyExact = [], bal_BalanceQtyExact = [], bal_AvailabilityStatus = [],
     bal_AvailabilityReason = [], bal_ExcludedBalanceQty = Float 0, bal_ExcludedLocations = [],
     bal_MinQty = Float 0, bal_MaxQty = Float 0, bal_NegativeClamped = False\<rparr>"

definition sample_answer :: "StockDemandEvidenceRequestLine \<Rightarrow> StockDemandEvidenceResultLine" where
  "sample_answer q = \<lparr>ers_EvidenceID = erq_EvidenceID q, ers_DocNo = erq_DocNo q, ers_Route = erq_Route q,
     ers_ItemCode = erq_ItemCode q, ers_WarehouseCode = erq_WarehouseCode q, ers_LocationCode = erq_LocationCode q,
     ers_ExpectedBaseQtyExact = erq_ExpectedBaseQtyExact q, ers_ActualBaseQtyExact = erq_ExpectedBaseQtyExact q,
     ers_Status = ''verified'', ers_Reason = [], ers_EvidenceHash = ''h''\<rparr>"

definition sample_response :: "StockDemandEvidenceRequestLine list \<Rightarrow> StockDemandEvidenceBatchResponse" where
  "sample_response qs = \<lparr>ebr_SchemaVersion = ''stock-demand-evidence-v1'', ebr_SourceSemanticsFingerprint = ''fp'',
     ebr_SourceSnapshotAt = ''t'', ebr_Lines = map sample_answer qs\<rparr>"

definition sample_renv :: "bool \<Rightarrow> recalc_env" where
  "sample_renv stock = \<lparr>re_Runtime = Some (''url'', ''SML'', ''DB''), re_ProcessStockRequest = (\<lambda>_. True),
     re_BalancesBatch = (\<lambda>scope codes place. Some (Some \<lparr>batch_AsOfDate = [],
       batch_Scopes = [\<lparr>scope_ScopeID = scope, scope_Items = (if stock then map sample_item codes else []),
         scope_ExcludedLocations = []\<rparr>],
       batch_CheckedAt = [], batch_ModeApplied = [], batch_SchemaVersion = [], batch_SourceSnapshotAt = [],
       batch_SourceSemanticsFingerprint = []\<rparr>)),
     re_DemandEvidenceBatch = (\<lambda>qs. Some (Some (sample_response qs))),
     re_ParseTime = (\<lambda>s. if s = ''t'' then Some (2 * second) else None), re_Fingerprint = ''fp '',
     re_Now = 3 * second, re_ProcessedAt = 3 * second, re_CompletedAt = 4 * second, re_FailedAt = 4 * second\<rparr>"

text \<open>
  C29. An answer is accepted only when it is complete: it carries the approved fingerprint and
  schema and a snapshot of the last five minutes, every group of the request has exactly one line in
  it, verified, for the same document, item and place, with the expected and the actual quantity
  equal to the one asked for, and nothing else is in it; the verified lines are then exactly the
  members of the groups.
\<close>

theorem verifyDemandEvidence_complete:
  assumes "verifyDemandEvidence parse_time groups (Some r) fingerprint now = Inr verified"
  shows "trim_space fingerprint \<noteq> [] \<and> ebr_SourceSemanticsFingerprint r = trim_space fingerprint
    \<and> ebr_SchemaVersion r = ''stock-demand-evidence-v1''
    \<and> (\<exists>snapshot. parse_time (trim_space (ebr_SourceSnapshotAt r)) = Some snapshot \<and> snapshot \<le> now + minute
         \<and> time_sub now snapshot \<le> 5 * minute
         \<and> list_all (\<lambda>v. ve_VerifiedSourceSnapshotAt v = snapshot \<and> ve_SourceFingerprint v = trim_space fingerprint) verified)
    \<and> mset (map ers_EvidenceID (ebr_Lines r)) = mset (map (\<lambda>g. erq_EvidenceID (grp_Request g)) groups)
    \<and> list_all (\<lambda>g. list_ex (\<lambda>l. ers_EvidenceID l = erq_EvidenceID (grp_Request g) \<and> answers g l \<and> sameQuantity g l)
         (ebr_Lines r)) groups
    \<and> mset (map StockRecalcDemandLine.truncate verified) = mset (concat (map grp_Members groups))"
  using assms by (rule verifyDemandEvidence_Inr)

definition sample_groups where
  "sample_groups = projr (groupDemandEvidence sample_env
     (dem_Lines (projr (StockRecalcDemandOf sample_env (fst sample_5) ''RJ1''))))"

definition sample_verification where
  "sample_verification = verifyDemandEvidence (re_ParseTime (sample_renv True)) sample_groups
     (Some (sample_response (map grp_Request sample_groups))) ''fp '' (3 * second)"

theorem verifyDemandEvidence_complete_witness:
  "map dl_ExpectedBaseQtyExact (projr sample_verification) = [''2.00'']
     \<and> mset (map StockRecalcDemandLine.truncate (projr sample_verification))
        = mset (concat (map grp_Members sample_groups))"
proof
  have "\<not> isl sample_verification" by code_simp
  from projr_Inr [OF this] have v: "verifyDemandEvidence (re_ParseTime (sample_renv True)) sample_groups
     (Some (sample_response (map grp_Request sample_groups))) ''fp '' (3 * second) = Inr (projr sample_verification)"
    unfolding sample_verification_def .
  show "mset (map StockRecalcDemandLine.truncate (projr sample_verification))
      = mset (concat (map grp_Members sample_groups))"
    using verifyDemandEvidence_complete [OF v] by (elim conjE)
  show "map dl_ExpectedBaseQtyExact (projr sample_verification) = [''2.00'']" by code_simp
qed

section \<open>One job\<close>

lemma sum_over_keys:
  "distinct ks \<Longrightarrow> f ` set xs \<subseteq> set ks \<Longrightarrow> mset (concat (map (\<lambda>k. filter (\<lambda>x. f x = k) xs) ks)) = mset xs"
proof (induction ks arbitrary: xs)
  case (Cons k ks)
  let ?ys = "filter (\<lambda>x. f x \<noteq> k) xs"
  have "filter (\<lambda>x. f x = j) xs = filter (\<lambda>x. f x = j) ?ys" if "j \<in> set ks" for j
    using that Cons.prems(1) by (auto simp: filter_filter intro!: filter_cong)
  then have "map (\<lambda>j. filter (\<lambda>x. f x = j) xs) ks = map (\<lambda>j. filter (\<lambda>x. f x = j) ?ys) ks" by simp
  moreover have "mset (concat (map (\<lambda>j. filter (\<lambda>x. f x = j) ?ys) ks)) = mset ?ys"
    using Cons.prems by (intro Cons.IH) auto
  ultimately have "mset (concat (map (\<lambda>j. filter (\<lambda>x. f x = j) xs) (k # ks))) = mset (filter (\<lambda>x. f x = k) xs) + mset ?ys"
    by (simp only: list.map concat.simps mset_append)
  also have "\<dots> = mset xs" by (simp only: mset_filter) (rule multiset_partition [symmetric])
  finally show ?case .
qed simp

lemma groupDemandEvidence_members:
  assumes "groupDemandEvidence env lines = Inr groups"
  shows "mset (concat (map grp_Members groups)) = mset lines"
proof -
  let ?ks = "sort_by (\<lambda>k. k) (remdups (map groupKey lines))"
  have "map grp_Members groups = map (\<lambda>k. filter (\<lambda>l. groupKey l = k) lines) ?ks"
    using assms groupDemandEvidence_eq [of env lines] by (auto simp: Let_def split: option.splits)
  moreover have "distinct ?ks"
    using distinct_map_sort_by [of "\<lambda>k. k" "\<lambda>k. k" "remdups (map groupKey lines)"] by simp
  ultimately show ?thesis using sum_over_keys [of ?ks groupKey lines] by simp
qed

lemma collectEvidence_members:
  "collectEvidence renv gss = Inr verified \<Longrightarrow>
     mset (map StockRecalcDemandLine.truncate verified) = mset (concat (map grp_Members (concat gss)))"
proof (induction gss arbitrary: verified)
  case (Cons groups gss)
  obtain response where r: "re_DemandEvidenceBatch renv (map grp_Request groups) = Some response"
    using Cons.prems by (cases "re_DemandEvidenceBatch renv (map grp_Request groups)") simp_all
  obtain v more where v: "verifyDemandEvidence (re_ParseTime renv) groups response (re_Fingerprint renv) (re_Now renv) = Inr v"
    and m: "collectEvidence renv gss = Inr more" "verified = v @ more"
    using Cons.prems r by (auto simp: result_simps)
  obtain r' where "response = Some r'" using v by (cases response) (simp_all add: verifyDemandEvidence_def)
  then have "mset (map StockRecalcDemandLine.truncate v) = mset (concat (map grp_Members groups))"
    using verifyDemandEvidence_Inr v by blast
  then show ?case using Cons.IH [OF m(1)] m(2) by simp
qed simp

lemma requestProcessing_Inr:
  "requestProcessing renv w job codes db = Inr db' \<Longrightarrow>
     db' = db \<or> MarkStockRecalcProcessed (re_ProcessedAt renv) db (job_ID job) w = Inr db'"
  by (auto simp: requestProcessing_def split: if_splits option.splits sum.splits)

lemma mark_frame:
  assumes "MarkStockRecalcProcessed now db i w = Inr db'"
  shows "db' = db\<lparr>db_recalc_jobs := db_recalc_jobs db'\<rparr>"
  using assms by (auto simp: MarkStockRecalcProcessed_def updateJob_def split: option.splits)

lemma process_cases:
  assumes "process env renv w db job = (db', r)"
  obtains (early) e where "r = Inl e" "db' = db"
  | (late) e where "r = Inl e" "db' = db \<or> MarkStockRecalcProcessed (re_ProcessedAt renv) db (job_ID job) w = Inr db'"
  | (done_) demand codes db1 where "r = Inr ()" "StockRecalcDemandOf env db (job_ID job) = Inr demand"
      "db1 = db \<or> MarkStockRecalcProcessed (re_ProcessedAt renv) db (job_ID job) w = Inr db1"
      "verifyAndComplete env renv w job demand codes db1 = Inr db'"
  using assms
  by (auto simp: process_def Let_def split: sum.splits if_splits dest!: requestProcessing_Inr)

lemma relabel_Inr: "(case r of Inl e \<Rightarrow> Inl (f e) | Inr x \<Rightarrow> Inr x) = Inr y \<longleftrightarrow> r = Inr y"
  by (cases r) simp_all

lemma verifyAndComplete_Inr:
  assumes "verifyAndComplete env renv w job demand codes db = Inr db'"
  shows "\<exists>evidence. CompleteStockRecalcJob env (re_CompletedAt renv) db (job_ID job) w evidence = Inr db'
    \<and> mset (map StockRecalcDemandLine.truncate evidence) = mset (dem_Lines demand)"
proof -
  obtain groups evidence where g: "groupDemandEvidence env (dem_Lines demand) = Inr groups"
    and c: "collectEvidence renv (chunksOf recalcEvidenceChunk groups) = Inr evidence"
    and s: "CompleteStockRecalcJob env (re_CompletedAt renv) db (job_ID job) w evidence = Inr db'"
    using assms by (auto simp: verifyAndComplete_def result_simps relabel_Inr)
  have "concat (chunksOf recalcEvidenceChunk groups) = groups" by (simp add: concat_chunksOf recalcEvidenceChunk_def)
  then have "mset (map StockRecalcDemandLine.truncate evidence) = mset (dem_Lines demand)"
    using collectEvidence_members [OF c] groupDemandEvidence_members [OF g] by simp
  then show ?thesis using s by blast
qed

definition sample_round where
  "sample_round stock = process sample_env (sample_renv stock) ''rw'' (fst sample_5) (the (snd sample_5))"

lemma sample_rounds:
  "snd (sample_round True) = Inr ()"
  "map rsv_State (db_reservations (fst (sample_round True))) = [''incorporated_in_sml'']"
  "snd (sample_round False) = Inl (BalanceMissing ''P1'')"
  by code_simp+

text \<open>
  A round that fails, whatever the failure, leaves the ledger alone: the reservations, their
  components, the demand revisions and the evidence are those before it; the only change it may
  leave is the mark that SML has processed the request, and then SML has.
\<close>

theorem process_failure:
  assumes "process env renv workerID db job = (db', Inl e)"
  shows "db_reservations db' = db_reservations db \<and> db_components db' = db_components db
    \<and> db_demand db' = db_demand db \<and> db_evidence db' = db_evidence db
    \<and> (db' = db \<or> MarkStockRecalcProcessed (re_ProcessedAt renv) db (job_ID job) workerID = Inr db')"
proof -
  have c: "db' = db \<or> MarkStockRecalcProcessed (re_ProcessedAt renv) db (job_ID job) workerID = Inr db'"
    using assms by (cases rule: process_cases) auto
  then have "db' = db \<or> db' = db\<lparr>db_recalc_jobs := db_recalc_jobs db'\<rparr>" by (auto dest: mark_frame)
  then have "db_reservations db' = db_reservations db \<and> db_components db' = db_components db
    \<and> db_demand db' = db_demand db \<and> db_evidence db' = db_evidence db"
    by (elim disjE) (simp, metis SMLStore.select_convs SMLStore.surjective SMLStore.update_convs)
  then show ?thesis using c by blast
qed

theorem process_failure_witness:
  "map rsv_State (db_reservations (fst (sample_round False))) = [''awaiting_stock_recalc'']"
proof -
  have "process sample_env (sample_renv False) ''rw'' (fst sample_5) (the (snd sample_5))
      = (fst (sample_round False), Inl (BalanceMissing ''P1''))"
    unfolding sample_rounds(3) [symmetric] by (simp add: sample_round_def)
  from process_failure [OF this] have "db_reservations (fst (sample_round False)) = db_reservations (fst sample_5)" by blast
  moreover have "map rsv_State (db_reservations (fst sample_5)) = [''awaiting_stock_recalc'']" by code_simp
  ultimately show ?thesis by simp
qed

text \<open>
  C28. A round that succeeds completes the job with evidence for exactly its demand: the lines that
  \<open>CompleteStockRecalcJob\<close> receives are, as a multiset, the lines of demand that were read at the
  start, none left out and none added.
\<close>

theorem process_success:
  assumes "process env renv workerID db job = (db', Inr u)"
  shows "\<exists>demand db1 evidence. StockRecalcDemandOf env db (job_ID job) = Inr demand
    \<and> (db1 = db \<or> MarkStockRecalcProcessed (re_ProcessedAt renv) db (job_ID job) workerID = Inr db1)
    \<and> CompleteStockRecalcJob env (re_CompletedAt renv) db1 (job_ID job) workerID evidence = Inr db'
    \<and> mset (map StockRecalcDemandLine.truncate evidence) = mset (dem_Lines demand)"
  using assms
proof (cases rule: process_cases)
  case (done_ demand codes db1)
  then show ?thesis using verifyAndComplete_Inr [OF done_(4)] by blast
qed simp_all

theorem process_success_witness:
  "\<exists>demand. StockRecalcDemandOf sample_env (fst sample_5) (job_ID (the (snd sample_5))) = Inr demand
     \<and> map rsv_State (db_reservations (fst (sample_round True))) = [''incorporated_in_sml'']"
proof -
  have "process sample_env (sample_renv True) ''rw'' (fst sample_5) (the (snd sample_5)) = (fst (sample_round True), Inr ())"
    unfolding sample_rounds(1) [symmetric] by (simp add: sample_round_def)
  from process_success [OF this]
  obtain demand where "StockRecalcDemandOf sample_env (fst sample_5) (job_ID (the (snd sample_5))) = Inr demand"
    by (elim exE conjE) (rule that)
  then show ?thesis using sample_rounds(2) by (intro exI conjI)
qed






end
