(* ===== verification/Stock_Types.thy ===== *)
theory Stock_Types
  imports Stock_Logic
begin

text \<open>
  The data of the Shopee stock synchronisation (\<open>services/shopeestock/types.go\<close> and
  \<open>services/sml/stock_sync_client.go\<close>): the catalog of the accounting system, the settings of a shop,
  its products with their mappings, and the lines of a preview. A pointer is an \<open>option\<close>.
\<close>

section \<open>The catalog of the accounting system\<close>

record StockCatalogUnit =
  unit_Code :: string
  unit_Name :: string
  unit_StandValue :: float64
  unit_DivideValue :: float64
  unit_Ratio :: float64
  unit_RowOrder :: int
  unit_LineNumber :: int
  unit_StandValueExact :: string
  unit_DivideValueExact :: string

record StockCatalogBarcode =
  bar_Barcode :: string
  bar_UnitCode :: string
  bar_Warehouse :: string
  bar_Location :: string

record StockSetComponent =
  comp_LineNumber :: int
  comp_RowOrder :: int
  comp_ItemCode :: string
  comp_ItemName :: string
  comp_ItemType :: int
  comp_UnitCode :: string
  comp_Qty :: float64
  comp_Price :: float64
  comp_SumAmount :: float64
  comp_PriceRatio :: float64
  comp_UnitFactor :: float64
  comp_Active :: bool
  comp_UnitValid :: bool

record StockSetDefinition =
  setd_ItemCode :: string
  setd_ComponentCount :: int
  setd_DocumentValid :: bool
  setd_StockValid :: bool
  setd_WarningCodes :: "string list"
  setd_Hash :: string
  setd_Components :: "StockSetComponent list"

record StockCatalogItem =
  item_ItemCode :: string
  item_ItemName :: string
  item_ItemType :: int
  item_StandardUnit :: string
  item_UpdatedAt :: instant
  item_Units :: "StockCatalogUnit list"
  item_Barcodes :: "StockCatalogBarcode list"
  item_SetDefinition :: "StockSetDefinition option"
  item_SetComponents :: "StockSetComponent list"

section \<open>Settings, products and previews\<close>

record LocationPair =
  pair_Warehouse :: string
  pair_Location :: string

record Settings =
  cfg_ShopID :: int
  cfg_ShopName :: string
  cfg_ConnectionID :: string
  cfg_CredentialMode :: string
  cfg_Enabled :: bool
  cfg_StockPct :: float64
  cfg_IntervalSeconds :: int
  cfg_ScheduleMode :: string
  cfg_MonthlyInterval :: int
  cfg_MonthlyDay :: int
  cfg_MonthlyTime :: string
  cfg_ScheduleRiskAcknowledged :: bool
  cfg_NextRunAt :: "instant option"
  cfg_ScopeMode :: string
  cfg_Locations :: "LocationPair list"
  cfg_AllScopeWarningAcknowledged :: bool
  cfg_DryRunRequired :: bool
  cfg_PausedReason :: string
  cfg_LastCatalogSyncAt :: "instant option"
  cfg_LastFullCatalogSyncAt :: "instant option"
  cfg_LastCatalogAttemptAt :: "instant option"
  cfg_LastPreviewAt :: "instant option"
  cfg_LastSyncAt :: "instant option"
  cfg_LastSuccessAt :: "instant option"
  cfg_LastError :: string
  cfg_UpdatedAt :: instant

record SettingsUpdate =
  upd_Enabled :: bool
  upd_StockPct :: float64
  upd_IntervalSeconds :: int
  upd_ScheduleMode :: string
  upd_MonthlyInterval :: int
  upd_MonthlyDay :: int
  upd_MonthlyTime :: string
  upd_ScheduleRiskAcknowledged :: bool
  upd_NextRunAt :: "instant option"
  upd_ScopeMode :: string
  upd_Locations :: "LocationPair list"
  upd_AcknowledgeAllScopeWarnings :: bool

record Location =
  place_WarehouseCode :: string
  place_WarehouseName :: string
  place_LocationCode :: string
  place_LocationName :: string

record ExcludedStockLocation =
  exc_ItemCode :: string
  exc_ItemName :: string
  exc_WarehouseCode :: string
  exc_WarehouseName :: string
  exc_LocationCode :: string
  exc_LocationName :: string
  exc_UnitCode :: string
  exc_BalanceQty :: float64

record SetStockComponentPreview =
  scp_ItemCode :: string
  scp_ItemName :: string
  scp_ComponentQty :: float64
  scp_UnitCode :: string
  scp_BalanceUnitCode :: string
  scp_BalanceQty :: float64
  scp_RequiredBase :: float64
  scp_PossibleSets :: int
  scp_Bottleneck :: bool

record ProductRow =
  prod_ShopID :: int
  prod_ItemID :: int
  prod_ModelID :: int
  prod_ItemName :: string
  prod_ModelName :: string
  prod_ItemSKU :: string
  prod_ModelSKU :: string
  prod_ShopeeAvailable :: int
  prod_ShopeeReserved :: int
  prod_SMLItemCode :: string
  prod_SMLItemName :: string
  prod_SMLUnitCode :: string
  prod_SMLUnitName :: string
  prod_SMLBaseUnitCode :: string
  prod_SMLBaseUnitName :: string
  prod_SMLItemType :: int
  prod_SetComponentCount :: int
  prod_SetDefinitionHash :: string
  prod_MappingSetDefinitionHash :: string
  prod_SetDocumentValid :: bool
  prod_SetStockValid :: bool
  prod_SetComponents :: "StockSetComponent list"
  prod_UnitFactor :: float64
  prod_UnitFactorExact :: string
  prod_ManualUnitFactor :: "float64 option"
  prod_MatchSource :: string
  prod_SharedPoolEnabled :: bool
  prod_PoolAllocationPct :: float64
  prod_MarketplaceAliasID :: string
  prod_MarketplaceAliasUpdatedAt :: "instant option"
  prod_MarketplaceConversionStatus :: string
  prod_MarketplaceStockPolicy :: string
  prod_MarketplaceSalesEnabled :: bool
  prod_MarketplaceQuantityMultiplier :: int
  prod_Excluded :: bool
  prod_WarningCodes :: "string list"
  prod_LastPreviewBalance :: "float64 option"
  prod_LastPreviewExcludedBalance :: "float64 option"
  prod_LastPreviewExcludedLocations :: "ExcludedStockLocation list"
  prod_LastPreviewMinQty :: "float64 option"
  prod_LastPreviewMaxQty :: "float64 option"
  prod_LastPreviewTarget :: "int option"
  prod_LastPreviewPendingQty :: "float64 option"
  prod_LastPreviewPoolBaseTarget :: "int option"
  prod_LastPreviewSMLPhysicalQty :: "float64 option"
  prod_LastPreviewSMLOutstandingSOQty :: "float64 option"
  prod_LastPreviewSMLUsableQty :: "float64 option"
  prod_LastPreviewCalculationUsableQty :: "float64 option"
  prod_LastPreviewAvailabilityVersion :: string
  prod_LastPreviewSourceSnapshotAt :: "instant option"
  prod_LastPreviewSourceFingerprint :: string
  prod_LastPreviewAvailabilityReason :: string
  prod_LastSuccessTarget :: "int option"
  prod_UpdatedAt :: instant

record PreviewLine =
  line_ItemID :: int
  line_ModelID :: int
  line_ProductName :: string
  line_VariantName :: string
  line_SMLItemCode :: string
  line_SMLUnitCode :: string
  line_ScopeBalance :: float64
  line_ExcludedBalance :: float64
  line_ExcludedLocations :: "ExcludedStockLocation list"
  line_MinQty :: float64
  line_MaxQty :: float64
  line_UnitFactor :: float64
  line_UnitFactorExact :: string
  line_CurrentStock :: int
  line_ReservedStock :: int
  line_PendingNexflowQty :: float64
  line_PendingBaseQty :: float64
  line_SMLPhysicalQty :: float64
  line_SMLOutstandingSOQty :: float64
  line_SMLUsableQty :: float64
  line_CalculationUsableQty :: float64
  line_SMLPhysicalQtyExact :: string
  line_SMLOutstandingSOQtyExact :: string
  line_SMLUsableQtyExact :: string
  line_CalculationUsableQtyExact :: string
  line_AvailabilityVersion :: string
  line_SourceSnapshotAt :: "instant option"
  line_SourceFingerprint :: string
  line_AvailabilityReason :: string
  line_TargetStock :: int
  line_SharedPoolEnabled :: bool
  line_PoolAllocationPct :: float64
  line_PoolBaseTarget :: int
  line_Changed :: bool
  line_Blocked :: bool
  line_WarningCodes :: "string list"
  line_ItemType :: int
  line_SetDefinitionHash :: string
  line_SetComponents :: "SetStockComponentPreview list"
  line_BottleneckItemCode :: string

record PreviewResult =
  res_RunID :: string
  res_ShopID :: int
  res_AsOfDate :: string
  res_TotalCount :: int
  res_ChangedCount :: int
  res_SkippedCount :: int
  res_BlockedCount :: int
  res_ExcludedBalance :: float64
  res_ExcludedLocations :: "ExcludedStockLocation list"
  res_ExcludedItems :: "ExcludedStockLocation list"
  res_ExcludedItemsTotal :: int
  res_ExcludedNegativeItemsTotal :: int
  res_CircuitBreaker :: string
  res_AvailabilityMode :: string
  res_AvailabilityVersion :: string
  res_SourceFingerprint :: string
  res_SourceSnapshotMinAt :: "instant option"
  res_SourceSnapshotMaxAt :: "instant option"
  res_Lines :: "PreviewLine list"

record SyncResult =
  sync_RunID :: string
  sync_ShopID :: int
  sync_ChangedCount :: int
  sync_BlockedCount :: int
  sync_ErrorCount :: int
  sync_UnknownCount :: int

record Config =
  conf_Enabled :: bool
  conf_GatewayMode :: bool
  conf_SetStockEnabled :: bool
  conf_ReservationLedgerEnabled :: bool
  conf_GroupedUIEnabled :: bool
  conf_ConversionMode :: string
  conf_AvailabilityMode :: string
  conf_SourceFingerprint :: string
  conf_Environment :: string
  conf_InstanceID :: string

text \<open>Pending demand of a product, in the marketplace's and in the base unit, and of an item, as
  \<open>float64\<close> and as the decimal it was read from.\<close>

record ReservationDemand =
  rd_SourceQty :: float64
  rd_BaseQty :: float64

record ExactDemand =
  ed_Value :: float64
  ed_Exact :: string

end
