(* ===== verification/Stock_Catalog.thy ===== *)
theory Stock_Catalog
  imports Stock_Types "HOL-Library.Product_Lexorder"
begin

text \<open>
  The rest of \<open>services/shopeestock/logic.go\<close>: the checks before a synchronisation, the summary of
  stock outside the selected place, the products that share a pool, the stock of a set from the
  stock of its components, and the index that finds the item of a marketplace SKU.
\<close>

section \<open>Checks\<close>

datatype service_error =
    ErrUnavailable | ErrGatewayOnly | ErrScopeRequired | ErrSelectedLocation | ErrSyncInProgress
  | ErrBlockedReservations | ErrPreviewStale | ErrUnsafeManagedExclusion | ErrDryRunRequired
  | ErrMappingConflict | ErrInvalidManualFactor | Invalid string | Failed string

definition validateSyncReadiness :: "Settings option \<Rightarrow> string \<Rightarrow> service_error + unit" where
  "validateSyncReadiness settings trigger =
     (case settings of None \<Rightarrow> Inl ErrDryRunRequired
      | Some s \<Rightarrow>
          if cfg_DryRunRequired s \<or> trim_space (cfg_PausedReason s) \<noteq> [] then Inl ErrDryRunRequired
          else if \<not> cfg_Enabled s \<and> \<not> equal_fold (trim_space trigger) ''manual'' then Inl ErrDryRunRequired
          else Inr ())"

definition validatePreviewScope :: "Settings option \<Rightarrow> service_error + unit" where
  "validatePreviewScope settings =
     (case settings of None \<Rightarrow> Inl ErrGatewayOnly
      | Some s \<Rightarrow>
          if cfg_CredentialMode s \<noteq> ''gateway'' then Inl ErrGatewayOnly
          else if cfg_ScopeMode s \<noteq> ''selected'' \<or> length (cfg_Locations s) \<noteq> 1 then Inl ErrScopeRequired
          else Inr ())"

definition normalizeExactKey :: "string \<Rightarrow> string" where
  "normalizeExactKey value = trim_space (trim_prefix [CHR 0xEF, CHR 0xBB, CHR 0xBF] value)"

definition appendUnique :: "string list \<Rightarrow> string \<Rightarrow> string list" where
  "appendUnique values value = (if value \<in> set values then values else values @ [value])"

definition removeWarning :: "string list \<Rightarrow> string \<Rightarrow> string list" where
  "removeWarning warnings remove = filter (\<lambda>w. w \<noteq> remove) warnings"

definition hasSharedComponentStock ::
    "string list \<Rightarrow> (string \<times> string list) list \<Rightarrow> string list \<Rightarrow> bool" where
  "hasSharedComponentStock consumed owners otherShopItems \<longleftrightarrow>
     list_ex (\<lambda>itemCode. (case map_of owners itemCode of None \<Rightarrow> False | Some os \<Rightarrow> length os > 1)
        \<or> itemCode \<in> set otherShopItems) consumed"

section \<open>Stock outside the selected place\<close>

definition maxPreviewExcludedItems :: nat where "maxPreviewExcludedItems = 200"

definition previewExcludedLocations :: "string \<Rightarrow> StockBalanceLocation list \<Rightarrow> ExcludedStockLocation list" where
  "previewExcludedLocations itemCode items =
     map (\<lambda>i. \<lparr>exc_ItemCode = itemCode, exc_ItemName = [], exc_WarehouseCode = loc_WarehouseCode i,
       exc_WarehouseName = loc_WarehouseName i, exc_LocationCode = loc_LocationCode i,
       exc_LocationName = loc_LocationName i, exc_UnitCode = loc_UnitCode i, exc_BalanceQty = loc_BalanceQty i\<rparr>) items"

definition excludedKey :: "ExcludedStockLocation \<Rightarrow> string" where
  "excludedKey i = join [exc_ItemCode i, exc_WarehouseCode i, exc_LocationCode i, exc_UnitCode i] [CHR 0x00]"

definition mergeExcluded ::
    "(string \<times> ExcludedStockLocation) list \<Rightarrow> ExcludedStockLocation \<Rightarrow> (string \<times> ExcludedStockLocation) list" where
  "mergeExcluded values i =
     (case map_of values (excludedKey i) of
        None \<Rightarrow> assoc_update (excludedKey i) i values
      | Some current \<Rightarrow>
          assoc_update (excludedKey i)
            (current\<lparr>exc_ItemName := (if trim_space (exc_ItemName current) = [] then exc_ItemName i else exc_ItemName current),
                     exc_BalanceQty := f_add (exc_BalanceQty current) (exc_BalanceQty i)\<rparr>) values)"

definition mergePreviewExcludedLocations :: "ExcludedStockLocation list list \<Rightarrow> ExcludedStockLocation list" where
  "mergePreviewExcludedLocations groups =
     (let values = foldl mergeExcluded [] (concat groups) in
      map snd (sort_by fst
        (filter (\<lambda>(_, v). f_lt (f_const (1 / 1000000000)) (f_abs (exc_BalanceQty v))) values)))"

definition previewItemExcludedLocations :: "StockBalanceItem list \<Rightarrow> ExcludedStockLocation list" where
  "previewItemExcludedLocations items =
     mergePreviewExcludedLocations (map (\<lambda>item.
       map (\<lambda>l. l\<lparr>exc_ItemName := bal_ItemName item,
                  exc_UnitCode := (if trim_space (exc_UnitCode l) = [] then bal_UnitCode item else exc_UnitCode l)\<rparr>)
         (previewExcludedLocations (bal_ItemCode item) (bal_ExcludedLocations item))) items)"

definition appendPreviewExcludedItemSummary ::
    "ExcludedStockLocation list \<Rightarrow> nat \<Rightarrow> ExcludedStockLocation list \<Rightarrow> ExcludedStockLocation list \<times> nat" where
  "appendPreviewExcludedItemSummary current sofar added =
     (if length current \<ge> maxPreviewExcludedItems then (current, sofar + length added)
      else (current @ take (maxPreviewExcludedItems - length current) added, sofar + length added))"

section \<open>Shared pools\<close>

text \<open>The products of an item, grouped in their order.\<close>

definition groupProducts :: "ProductRow list \<Rightarrow> (string \<times> ProductRow list) list" where
  "groupProducts products =
     foldl (\<lambda>groups p.
       if prod_Excluded p \<or> trim_space (prod_SMLItemCode p) = [] then groups
       else assoc_update (prod_SMLItemCode p)
         ((case map_of groups (prod_SMLItemCode p) of None \<Rightarrow> [] | Some ms \<Rightarrow> ms) @ [p]) groups) [] products"

definition validPool :: "ProductRow list \<Rightarrow> bool" where
  "validPool members \<longleftrightarrow>
     length members \<ge> 2
     \<and> list_all (\<lambda>m. prod_SharedPoolEnabled m \<and> f_lt (Float 0) (prod_PoolAllocationPct m) \<and> f_lt (Float 0) (prod_UnitFactor m)) members
     \<and> \<not> f_lt (f_const (1 / 1000)) (f_abs (f_sub (foldl (\<lambda>t m. f_add t (prod_PoolAllocationPct m)) (Float 0) members) (Float 100)))"

definition validSharedPoolProducts :: "ProductRow list \<Rightarrow> (string \<times> ProductRow list) list" where
  "validSharedPoolProducts products = filter (\<lambda>(_, members). validPool members) (groupProducts products)"

section \<open>Sets\<close>

record set_state =
  ss_Warnings :: "string list"
  ss_AvailableSets :: int
  ss_Components :: "SetStockComponentPreview list"

definition componentWarnings :: "StockSetComponent \<Rightarrow> float64 \<Rightarrow> string list \<Rightarrow> string list" where
  "componentWarnings component required warnings =
     (let warnings = (if comp_ItemType component = 3 then appendUnique warnings ''nested_set_not_supported''
                      else if comp_ItemType component \<noteq> 0 then appendUnique warnings ''set_component_not_stock_item''
                      else warnings);
          warnings = (if \<not> comp_Active component then appendUnique warnings ''set_component_inactive'' else warnings)
      in if \<not> comp_UnitValid component \<or> f_lt (comp_UnitFactor component) (Float 1) \<or> f_le required (Float 0)
            \<or> is_nan required \<or> is_inf required
         then appendUnique warnings ''set_component_unit_invalid'' else warnings)"

definition setStep :: "(string \<Rightarrow> StockBalanceItem option) \<Rightarrow> set_state \<Rightarrow> StockSetComponent \<Rightarrow> set_state" where
  "setStep balances st component =
     (let required = f_mul (comp_Qty component) (comp_UnitFactor component);
          preview = \<lparr>scp_ItemCode = comp_ItemCode component, scp_ItemName = comp_ItemName component,
            scp_ComponentQty = comp_Qty component, scp_UnitCode = comp_UnitCode component, scp_BalanceUnitCode = [],
            scp_BalanceQty = Float 0, scp_RequiredBase = required, scp_PossibleSets = 0, scp_Bottleneck = False\<rparr>;
          warnings = componentWarnings component required (ss_Warnings st) in
      case balances (comp_ItemCode component) of
        None \<Rightarrow> st\<lparr>ss_Warnings := appendUnique warnings ''stock_balance_missing'',
                   ss_Components := ss_Components st @ [preview]\<rparr>
      | Some balance \<Rightarrow>
          let preview = preview\<lparr>scp_BalanceQty := bal_BalanceQty balance, scp_BalanceUnitCode := bal_UnitCode balance\<rparr> in
          if f_lt (Float 0) required then
            let possible = to_int64 (f_floor (f_div (f_max (bal_BalanceQty balance) (Float 0)) required)) in
            \<lparr>ss_Warnings = warnings, ss_AvailableSets = min possible (ss_AvailableSets st),
             ss_Components = ss_Components st @ [preview\<lparr>scp_PossibleSets := possible\<rparr>]\<rparr>
          else st\<lparr>ss_Warnings := warnings, ss_Components := ss_Components st @ [preview]\<rparr>)"

definition CalculateSetTarget ::
    "StockSetDefinition \<Rightarrow> (string \<Rightarrow> StockBalanceItem option) \<Rightarrow> float64 \<Rightarrow> float64 \<Rightarrow>
     int \<times> int \<times> SetStockComponentPreview list \<times> string list" where
  "CalculateSetTarget d balances stockPct parentUnitFactor =
     (let warnings = setd_WarningCodes d in
      if \<not> setd_StockValid d \<or> setd_Components d = []
      then (0, 0, [], if warnings = [] then [''set_stock_invalid''] else warnings)
      else if f_le parentUnitFactor (Float 0) then (0, 0, [], appendUnique warnings ''unit_factor_missing'')
      else
        let st = foldl (setStep balances)
                   \<lparr>ss_Warnings = warnings, ss_AvailableSets = max_int64, ss_Components = []\<rparr> (setd_Components d);
            availableSets = (if ss_AvailableSets st = max_int64 then 0 else ss_AvailableSets st);
            components = map (\<lambda>c. c\<lparr>scp_Bottleneck := scp_PossibleSets c = availableSets\<rparr>) (ss_Components st);
            target = to_int64 (f_floor (f_div (f_div (f_mul (of_int64 availableSets) stockPct) (Float 100)) parentUnitFactor))
        in (if target < 0 then 0 else target, availableSets, components, ss_Warnings st))"

section \<open>Units\<close>

definition unitRatioTolerance :: float64 where "unitRatioTolerance = f_const (1 / 1000000)"

definition UnitWarnings :: "StockCatalogUnit \<Rightarrow> string list" where
  "UnitWarnings unit =
     (if f_le (unit_StandValue unit) (Float 0) \<or> f_le (unit_DivideValue unit) (Float 0) then [''unit_factor_missing'']
      else
        let factor = f_div (unit_StandValue unit) (unit_DivideValue unit) in
        (if f_lt factor (Float 1) then [''unit_factor_below_one''] else [])
        @ (if f_le (unit_Ratio unit) (Float 0)
              \<or> f_lt (f_mul unitRatioTolerance (f_max (Float 1) (f_abs factor))) (f_abs (f_sub (unit_Ratio unit) factor))
           then [''unit_ratio_mismatch''] else []))"

definition UnitFactor :: "StockCatalogUnit \<Rightarrow> float64" where
  "UnitFactor unit =
     (if f_le (unit_StandValue unit) (Float 0) \<or> f_le (unit_DivideValue unit) (Float 0) then Float 0
      else f_div (unit_StandValue unit) (unit_DivideValue unit))"

definition chooseSmallestUnit :: "StockCatalogUnit list \<Rightarrow> StockCatalogUnit option" where
  "chooseSmallestUnit units =
     (case sort_by (\<lambda>u. (unit_RowOrder u, unit_LineNumber u, unit_Code u)) units of [] \<Rightarrow> None | u # _ \<Rightarrow> Some u)"

definition populateProductUnitNames :: "ProductRow \<Rightarrow> StockCatalogUnit list \<Rightarrow> ProductRow" where
  "populateProductUnitNames product units =
     (let product = (case chooseSmallestUnit units of None \<Rightarrow> product
          | Some base \<Rightarrow> product\<lparr>prod_SMLBaseUnitCode := unit_Code base, prod_SMLBaseUnitName := unit_Name base\<rparr>) in
      case find (\<lambda>u. unit_Code u = prod_SMLUnitCode product) units of None \<Rightarrow> product
      | Some u \<Rightarrow> product\<lparr>prod_SMLUnitName := unit_Name u\<rparr>)"

section \<open>The catalog index\<close>

definition PreferredSKU :: "string \<Rightarrow> string \<Rightarrow> string" where
  "PreferredSKU modelSKU itemSKU =
     (let value = normalizeExactKey modelSKU in if value \<noteq> [] then value else normalizeExactKey itemSKU)"

record CatalogMatch =
  match_ItemCode :: string
  match_UnitCode :: string
  match_Factor :: float64
  match_Source :: string
  match_ItemType :: int
  match_SetDefinitionHash :: string
  match_DocumentValid :: bool
  match_Warnings :: "string list"

record CatalogIndex =
  byItemCode :: "(string \<times> StockCatalogItem list) list"
  byBarcode :: "(string \<times> CatalogMatch list) list"

definition stockSetHash :: "StockCatalogItem \<Rightarrow> string" where
  "stockSetHash item = (case item_SetDefinition item of None \<Rightarrow> [] | Some d \<Rightarrow> setd_Hash d)"

definition stockDocumentValid :: "StockCatalogItem \<Rightarrow> bool" where
  "stockDocumentValid item \<longleftrightarrow> item_ItemType item \<noteq> 3
     \<or> (case item_SetDefinition item of None \<Rightarrow> False | Some d \<Rightarrow> setd_DocumentValid d)"

definition stockSetWarnings :: "StockCatalogItem \<Rightarrow> string list" where
  "stockSetWarnings item =
     (if item_ItemType item \<noteq> 3 then []
      else case item_SetDefinition item of None \<Rightarrow> [''set_definition_missing'']
        | Some d \<Rightarrow> if \<not> setd_StockValid d \<and> setd_WarningCodes d = [] then [''set_stock_invalid''] else setd_WarningCodes d)"

definition stockCatalogWarnings :: "StockCatalogItem \<Rightarrow> StockCatalogUnit \<Rightarrow> string list" where
  "stockCatalogWarnings item unit = foldl appendUnique (stockSetWarnings item) (UnitWarnings unit)"

definition zeroUnit :: StockCatalogUnit where
  "zeroUnit = \<lparr>unit_Code = [], unit_Name = [], unit_StandValue = Float 0, unit_DivideValue = Float 0,
     unit_Ratio = Float 0, unit_RowOrder = 0, unit_LineNumber = 0, unit_StandValueExact = [], unit_DivideValueExact = []\<rparr>"

definition unitByCode :: "StockCatalogItem \<Rightarrow> string \<Rightarrow> StockCatalogUnit" where
  "unitByCode item code =
     (case find (\<lambda>u. normalizeExactKey (unit_Code u) = code) (rev (item_Units item)) of None \<Rightarrow> zeroUnit | Some u \<Rightarrow> u)"

definition barcodeMatch :: "StockCatalogItem \<Rightarrow> StockCatalogBarcode \<Rightarrow> CatalogMatch" where
  "barcodeMatch item barcode =
     (let unit = unitByCode item (normalizeExactKey (bar_UnitCode barcode)) in
      \<lparr>match_ItemCode = item_ItemCode item, match_UnitCode = bar_UnitCode barcode, match_Factor = UnitFactor unit,
       match_Source = ''barcode'', match_ItemType = item_ItemType item, match_SetDefinitionHash = stockSetHash item,
       match_DocumentValid = stockDocumentValid item, match_Warnings = stockCatalogWarnings item unit\<rparr>)"

definition appendAt :: "'k \<Rightarrow> 'v \<Rightarrow> ('k \<times> 'v list) list \<Rightarrow> ('k \<times> 'v list) list" where
  "appendAt k v m = assoc_update k ((case map_of m k of None \<Rightarrow> [] | Some vs \<Rightarrow> vs) @ [v]) m"

definition indexBarcode :: "StockCatalogItem \<Rightarrow> CatalogIndex \<Rightarrow> StockCatalogBarcode \<Rightarrow> CatalogIndex" where
  "indexBarcode item index barcode =
     (let key = normalizeExactKey (bar_Barcode barcode) in
      if key = [] then index
      else index\<lparr>byBarcode := appendAt key (barcodeMatch item barcode) (byBarcode index)\<rparr>)"

definition indexItem :: "CatalogIndex \<Rightarrow> StockCatalogItem \<Rightarrow> CatalogIndex" where
  "indexItem index item =
     (let code = normalizeExactKey (item_ItemCode item) in
      if code = [] then index
      else foldl (indexBarcode item) (index\<lparr>byItemCode := appendAt code item (byItemCode index)\<rparr>) (item_Barcodes item))"

definition NewCatalogIndex :: "StockCatalogItem list \<Rightarrow> CatalogIndex" where
  "NewCatalogIndex items = foldl indexItem \<lparr>byItemCode = [], byBarcode = []\<rparr> items"

definition itemMatch :: "StockCatalogItem \<Rightarrow> CatalogMatch" where
  "itemMatch item =
     (case chooseSmallestUnit (item_Units item) of
        None \<Rightarrow> \<lparr>match_ItemCode = item_ItemCode item, match_UnitCode = item_StandardUnit item, match_Factor = Float 0,
          match_Source = ''sku'', match_ItemType = item_ItemType item, match_SetDefinitionHash = stockSetHash item,
          match_DocumentValid = stockDocumentValid item,
          match_Warnings = stockSetWarnings item @ [''unit_factor_missing'']\<rparr>
      | Some unit \<Rightarrow> \<lparr>match_ItemCode = item_ItemCode item, match_UnitCode = unit_Code unit, match_Factor = UnitFactor unit,
          match_Source = ''sku'', match_ItemType = item_ItemType item, match_SetDefinitionHash = stockSetHash item,
          match_DocumentValid = stockDocumentValid item, match_Warnings = stockCatalogWarnings item unit\<rparr>)"

definition Resolve :: "CatalogIndex \<Rightarrow> string \<Rightarrow> CatalogMatch option" where
  "Resolve index sku =
     (let key = normalizeExactKey sku in
      if key = [] then None
      else case map_of (byItemCode index) key of
        Some [item] \<Rightarrow> Some (itemMatch item)
      | _ \<Rightarrow> (case map_of (byBarcode index) key of Some [m] \<Rightarrow> Some m | _ \<Rightarrow> None))"

section \<open>Properties\<close>

definition listAt :: "('k \<times> 'v list) list \<Rightarrow> 'k \<Rightarrow> 'v list" where
  "listAt m k = (case map_of m k of None \<Rightarrow> [] | Some vs \<Rightarrow> vs)"

lemma listAt_Nil: "listAt [] k = []"
  by (simp add: listAt_def)

lemma listAt_appendAt: "listAt (appendAt k v m) j = (if j = k then listAt m j @ [v] else listAt m j)"
  by (simp add: listAt_def appendAt_def)

lemma case_single: "(case m of Some [x] \<Rightarrow> f x | _ \<Rightarrow> d) = (case (case m of None \<Rightarrow> [] | Some vs \<Rightarrow> vs) of [x] \<Rightarrow> f x | _ \<Rightarrow> d)"
  by (simp split: option.splits list.splits)

lemma indexBarcodes:
  "byItemCode (foldl (indexBarcode item) index bs) = byItemCode index
   \<and> (key \<noteq> [] \<longrightarrow> listAt (byBarcode (foldl (indexBarcode item) index bs)) key = listAt (byBarcode index) key
        @ map (barcodeMatch item) (filter (\<lambda>b. normalizeExactKey (bar_Barcode b) = key) bs))"
  by (induction bs arbitrary: index) (auto simp: indexBarcode_def Let_def listAt_appendAt)

lemma indexItems:
  assumes "key \<noteq> []"
  shows "listAt (byItemCode (foldl indexItem index items)) key
      = listAt (byItemCode index) key @ filter (\<lambda>i. normalizeExactKey (item_ItemCode i) = key) items
   \<and> listAt (byBarcode (foldl indexItem index items)) key = listAt (byBarcode index) key
      @ concat (map (\<lambda>i. map (barcodeMatch i) (filter (\<lambda>b. normalizeExactKey (bar_Barcode b) = key) (item_Barcodes i)))
          (filter (\<lambda>i. normalizeExactKey (item_ItemCode i) \<noteq> []) items))"
proof (induction items arbitrary: index)
  case (Cons i items)
  then show ?case using assms indexBarcodes [of i _ "item_Barcodes i" key]
    by (auto simp: indexItem_def Let_def listAt_appendAt)
qed simp

text \<open>
  C34. A SKU is resolved only when it is unambiguous: the index answers with an item exactly when one
  item of the catalog has that code, otherwise with a barcode exactly when one barcode of the coded
  items has that text, and with nothing when the SKU is empty or the choice is not unique. Codes are
  compared after trimming and without a byte order mark.
\<close>

theorem Resolve_unambiguous:
  "Resolve (NewCatalogIndex items) sku =
    (let key = normalizeExactKey sku in
     if key = [] then None
     else case filter (\<lambda>i. normalizeExactKey (item_ItemCode i) = key) items of
       [item] \<Rightarrow> Some (itemMatch item)
     | _ \<Rightarrow> (case concat (map (\<lambda>i. map (barcodeMatch i) (filter (\<lambda>b. normalizeExactKey (bar_Barcode b) = key) (item_Barcodes i)))
                   (filter (\<lambda>i. normalizeExactKey (item_ItemCode i) \<noteq> []) items)) of
              [m] \<Rightarrow> Some m | _ \<Rightarrow> None))"
proof (cases "normalizeExactKey sku = []")
  case False
  let ?e = "\<lparr>byItemCode = [], byBarcode = []\<rparr>" and ?k = "normalizeExactKey sku"
  have e: "listAt (byItemCode ?e) ?k = []" "listAt (byBarcode ?e) ?k = []" by (simp_all add: listAt_Nil)
  note n = indexItems [OF False, of ?e items, unfolded e append_Nil]
  show ?thesis
    unfolding Resolve_def NewCatalogIndex_def Let_def case_single listAt_def [symmetric]
    unfolding conjunct1 [OF n] conjunct2 [OF n] by (rule refl)
qed (simp add: Resolve_def)

text \<open>What a component contributes when nothing is wrong with it.\<close>

definition componentReady :: "(string \<Rightarrow> StockBalanceItem option) \<Rightarrow> StockSetComponent \<Rightarrow> bool" where
  "componentReady balances c \<longleftrightarrow> comp_ItemType c = 0 \<and> comp_Active c \<and> comp_UnitValid c
     \<and> \<not> f_lt (comp_UnitFactor c) (Float 1) \<and> (\<exists>q. f_mul (comp_Qty c) (comp_UnitFactor c) = Float q \<and> 0 < q)
     \<and> balances (comp_ItemCode c) \<noteq> None"

definition possibleSets :: "(string \<Rightarrow> StockBalanceItem option) \<Rightarrow> StockSetComponent \<Rightarrow> int" where
  "possibleSets balances c = to_int64 (f_floor (f_div
     (f_max (bal_BalanceQty (the (balances (comp_ItemCode c)))) (Float 0)) (f_mul (comp_Qty c) (comp_UnitFactor c))))"

lemma appendUnique_neq [simp]: "appendUnique ws w \<noteq> []"
  by (auto simp: appendUnique_def)

lemma finite_positive: "\<not> f_le x (Float 0) \<and> \<not> is_nan x \<and> \<not> is_inf x \<longleftrightarrow> (\<exists>q. x = Float q \<and> 0 < q)"
  by (cases x) (auto simp: f_le_def is_nan_def is_inf_def)

lemma componentWarnings_Nil:
  "componentWarnings c required ws = [] \<longleftrightarrow> ws = [] \<and> comp_ItemType c = 0 \<and> comp_Active c \<and> comp_UnitValid c
     \<and> \<not> f_lt (comp_UnitFactor c) (Float 1) \<and> (\<exists>q. required = Float q \<and> 0 < q)"
  unfolding finite_positive [symmetric] by (auto simp: componentWarnings_def Let_def)

lemma setStep_Nil:
  "ss_Warnings (setStep balances st c) = [] \<longleftrightarrow> ss_Warnings st = [] \<and> componentReady balances c"
  by (auto simp: setStep_def Let_def componentReady_def componentWarnings_Nil split: option.splits)

lemma setStep_ready:
  assumes "ss_Warnings st = []" "componentReady balances c"
  shows "ss_AvailableSets (setStep balances st c) = min (possibleSets balances c) (ss_AvailableSets st)"
    and "map scp_PossibleSets (ss_Components (setStep balances st c))
      = map scp_PossibleSets (ss_Components st) @ [possibleSets balances c]"
  using assms by (auto simp: setStep_def Let_def componentReady_def possibleSets_def split: option.splits)

lemma setSteps_ready:
  "ss_Warnings (foldl (setStep balances) st cs) = [] \<Longrightarrow>
     list_all (componentReady balances) cs
     \<and> ss_AvailableSets (foldl (setStep balances) st cs) = fold min (map (possibleSets balances) cs) (ss_AvailableSets st)
     \<and> map scp_PossibleSets (ss_Components (foldl (setStep balances) st cs))
        = map scp_PossibleSets (ss_Components st) @ map (possibleSets balances) cs"
proof (induction cs rule: rev_induct)
  case (snoc c cs)
  then have c: "ss_Warnings (foldl (setStep balances) st cs) = []" "componentReady balances c"
    by (simp_all add: setStep_Nil)
  then show ?case using snoc.IH [OF c(1)] setStep_ready [OF c] by simp
qed simp

lemma setSteps_initial: "ss_Warnings (foldl (setStep balances) st cs) = [] \<Longrightarrow> ss_Warnings st = []"
  by (induction cs rule: rev_induct) (simp_all add: setStep_Nil)

lemma to_int64_bounds: "min_int64 \<le> to_int64 x" "to_int64 x \<le> max_int64"
  by (cases x; simp add: Let_def min_int64_def max_int64_def)+

lemma fold_min: "xs \<noteq> [] \<Longrightarrow> list_all (\<lambda>x. x \<le> m) xs \<Longrightarrow> fold min xs m = Min (set xs)" for m :: "'a::linorder"
proof -
  assume x: "xs \<noteq> []" "list_all (\<lambda>x. x \<le> m) xs"
  have "fold min xs m = Min (set (m # xs))" by (rule Min.set_eq_fold [symmetric])
  also have "\<dots> = min m (Min (set xs))" using x(1) by simp
  also have "\<dots> = Min (set xs)"
    using x by (intro min_absorb2) (metis Min_in List.finite_set list_all_iff set_empty)
  finally show ?thesis .
qed

text \<open>
  C35. The stock of a set without warnings is the stock of its scarcest component: the definition is
  valid for stock, every component is an active stock item with a valid unit of at least one base
  unit, a positive finite requirement and a balance, the number of sets is the minimum over the
  components of the whole sets that their balance makes (0 when no component limits it), every
  component reports its own number, and the target is not negative.
\<close>

theorem CalculateSetTarget_sound:
  assumes "CalculateSetTarget d balances stockPct parentUnitFactor = (target, availableSets, components, [])"
  shows "setd_StockValid d \<and> setd_Components d \<noteq> [] \<and> setd_WarningCodes d = []
    \<and> list_all (componentReady balances) (setd_Components d)
    \<and> (let m = Min (set (map (possibleSets balances) (setd_Components d))) in
       availableSets = (if m = max_int64 then 0 else m))
    \<and> map scp_PossibleSets components = map (possibleSets balances) (setd_Components d)
    \<and> list_all (\<lambda>c. scp_Bottleneck c \<longleftrightarrow> scp_PossibleSets c = availableSets) components
    \<and> 0 \<le> target"
proof -
  let ?cs = "setd_Components d"
  define st where "st = foldl (setStep balances)
    \<lparr>ss_Warnings = setd_WarningCodes d, ss_AvailableSets = max_int64, ss_Components = []\<rparr> ?cs"
  have v1: "\<not> (\<not> setd_StockValid d \<or> ?cs = [])"
  proof
    assume n: "\<not> setd_StockValid d \<or> ?cs = []"
    have "CalculateSetTarget d balances stockPct parentUnitFactor
        = (0, 0, [], if setd_WarningCodes d = [] then [''set_stock_invalid''] else setd_WarningCodes d)"
      unfolding CalculateSetTarget_def Let_def by (rule if_P [OF n])
    then show False using assms by (simp split: if_split_asm)
  qed
  have v2: "\<not> f_le parentUnitFactor (Float 0)"
  proof
    assume n: "f_le parentUnitFactor (Float 0)"
    have "CalculateSetTarget d balances stockPct parentUnitFactor
        = (0, 0, [], appendUnique (setd_WarningCodes d) ''unit_factor_missing'')"
      unfolding CalculateSetTarget_def Let_def by (simp only: if_not_P [OF v1] if_P [OF n])
    then show False using assms appendUnique_neq by (metis prod.inject)
  qed
  have v: "setd_StockValid d" "?cs \<noteq> []" using v1 by simp_all
  define sets where "sets = (if ss_AvailableSets st = max_int64 then 0 else ss_AvailableSets st)"
  define t where "t = to_int64 (f_floor (f_div (f_div (f_mul (of_int64 sets) stockPct) (Float 100)) parentUnitFactor))"
  have "CalculateSetTarget d balances stockPct parentUnitFactor =
      (if t < 0 then 0 else t, sets,
       map (\<lambda>c. c\<lparr>scp_Bottleneck := scp_PossibleSets c = sets\<rparr>) (ss_Components st), ss_Warnings st)"
    unfolding CalculateSetTarget_def Let_def t_def sets_def st_def by (simp only: if_not_P [OF v1] if_not_P [OF v2])
  from trans [OF this [symmetric] assms] have r: "ss_Warnings st = []" "sets = availableSets"
      "map (\<lambda>c. c\<lparr>scp_Bottleneck := scp_PossibleSets c = sets\<rparr>) (ss_Components st) = components"
      "(if t < 0 then 0 else t) = target"
    unfolding prod.inject by blast+
  have nonneg: "0 \<le> target" unfolding r(4) [symmetric] by simp
  note ready = setSteps_ready [OF r(1) [unfolded st_def], folded st_def]
  have s: "list_all (componentReady balances) ?cs"
      "ss_AvailableSets st = fold min (map (possibleSets balances) ?cs) max_int64"
      "map scp_PossibleSets (ss_Components st) = map (possibleSets balances) ?cs"
    using ready by simp_all
  have "ss_AvailableSets st = Min (set (map (possibleSets balances) ?cs))"
    unfolding s(2) using v(2) by (intro fold_min) (simp_all add: list_all_iff possibleSets_def to_int64_bounds)
  moreover have "setd_WarningCodes d = []" using setSteps_initial [OF r(1) [unfolded st_def]] by simp
  ultimately show ?thesis
    using v s nonneg unfolding r(2) [symmetric] r(3) [symmetric] sets_def by (simp add: Let_def list_all_iff o_def)
qed

definition sample_component :: "string \<Rightarrow> rat \<Rightarrow> StockSetComponent" where
  "sample_component code qty = \<lparr>comp_LineNumber = 1, comp_RowOrder = 1, comp_ItemCode = code, comp_ItemName = [],
     comp_ItemType = 0, comp_UnitCode = ''EA'', comp_Qty = Float qty, comp_Price = Float 0, comp_SumAmount = Float 0,
     comp_PriceRatio = Float 0, comp_UnitFactor = Float 1, comp_Active = True, comp_UnitValid = True\<rparr>"

definition sample_set :: StockSetDefinition where
  "sample_set = \<lparr>setd_ItemCode = ''S'', setd_ComponentCount = 2, setd_DocumentValid = True, setd_StockValid = True,
     setd_WarningCodes = [], setd_Hash = ''h'', setd_Components = [sample_component ''P1'' 2, sample_component ''P2'' 1]\<rparr>"

definition sample_balance :: "string \<Rightarrow> rat \<Rightarrow> StockBalanceItem" where
  "sample_balance code q = \<lparr>bal_ItemCode = code, bal_ItemName = [], bal_UnitCode = ''EA'', bal_RawBalanceQty = Float q,
     bal_BalanceQty = Float q, bal_PhysicalBalanceQty = Float q, bal_OutstandingSalesOrderQty = Float 0,
     bal_AvailableBalanceQty = Float q, bal_PhysicalBalanceQtyExact = [], bal_OutstandingSalesOrderQtyExact = [],
     bal_AvailableBalanceQtyExact = [], bal_BalanceQtyExact = [], bal_AvailabilityStatus = ''ready'',
     bal_AvailabilityReason = [], bal_ExcludedBalanceQty = Float 0, bal_ExcludedLocations = [],
     bal_MinQty = Float 0, bal_MaxQty = Float 0, bal_NegativeClamped = False\<rparr>"

definition sample_balances :: "string \<Rightarrow> StockBalanceItem option" where
  "sample_balances = map_of [(''P1'', sample_balance ''P1'' 7), (''P2'', sample_balance ''P2'' 5)]"

definition sample_set_target where
  "sample_set_target = CalculateSetTarget sample_set sample_balances (Float 100) (Float 1)"

theorem CalculateSetTarget_sound_witness:
  "fst sample_set_target = 3 \<and> possibleSets sample_balances (sample_component ''P1'' 2) = 3
     \<and> map scp_PossibleSets (fst (snd (snd sample_set_target)))
        = map (possibleSets sample_balances) (setd_Components sample_set)"
proof -
  have r: "round64 2 = Float 2" "round64 1 = Float 1" "round64 5 = Float 5" "round64 3 = Float 3"
    "round64 300 = Float 300" "round64 (7 / 2) = Float (7 / 2)"
    by (rule round64_exact_rat [where m = 2 and k = 0], simp_all)
       (rule round64_exact_rat [where m = 1 and k = 0], simp_all,
        rule round64_exact_rat [where m = 5 and k = 0], simp_all,
        rule round64_exact_rat [where m = 3 and k = 0], simp_all,
        rule round64_exact_rat [where m = 300 and k = 0], simp_all,
        rule round64_exact_rat [where m = 7 and k = 1], simp_all)
  have fl: "\<lfloor>7 / 2 :: rat\<rfloor> = 3" by (rule floor_unique) simp_all
  have v: "fst sample_set_target = 3" "snd (snd (snd sample_set_target)) = []"
    "possibleSets sample_balances (sample_component ''P1'' 2) = 3"
    by (simp_all add: sample_set_target_def CalculateSetTarget_def sample_set_def sample_component_def sample_balances_def
        sample_balance_def setStep_def componentWarnings_def possibleSets_def Let_def f_le_def f_max_def is_nan_def
        is_inf_def of_int64_def r fl min_int64_def max_int64_def)
  have "CalculateSetTarget sample_set sample_balances (Float 100) (Float 1)
      = (fst sample_set_target, fst (snd sample_set_target), fst (snd (snd sample_set_target)), [])"
    unfolding v(2) [symmetric] by (simp add: sample_set_target_def)
  from CalculateSetTarget_sound [OF this] show ?thesis using v by blast
qed

end
