(* ===== verification/Go_Calendar.thy ===== *)
theory Go_Calendar
  imports Go_Time
begin

text \<open>
  The calendar of Go's package \<open>time\<close> in a zone with a fixed offset: \<open>time.Date\<close> with its
  normalisation of months and days, \<open>Date\<close> and \<open>Clock\<close> of an instant, and \<open>AddDate\<close> for months. A
  month is counted from the year 0, so \<open>12 * year + month - 1\<close>; a day is counted from 1 January of
  the year 1. The lemmas show that the months are consecutive intervals of days.
\<close>

section \<open>Months and days\<close>

definition leap :: "int \<Rightarrow> bool" where
  "leap y \<longleftrightarrow> 4 dvd y \<and> (\<not> 100 dvd y \<or> 400 dvd y)"

definition days_before_year :: "int \<Rightarrow> int" where
  "days_before_year y = 365 * (y - 1) + (y - 1) div 4 - (y - 1) div 100 + (y - 1) div 400"

definition days_before_month :: "int \<Rightarrow> int" where
  "days_before_month m = [0, 31, 59, 90, 120, 151, 181, 212, 243, 273, 304, 334] ! nat m"

definition month_start :: "int \<Rightarrow> int" where
  "month_start M = (let y = M div 12; m = M mod 12 in
     days_before_year y + days_before_month m + (if leap y \<and> 2 \<le> m then 1 else 0))"

lemma div_pred: "0 < k \<Longrightarrow> y div k = (y - 1) div k + (if k dvd y then 1 else 0)" for k y :: int
proof -
  assume k: "0 < k"
  define q r where "q = (y - 1) div k" and "r = (y - 1) mod k"
  have r: "0 \<le> r" "r < k" using k by (simp_all add: r_def)
  have y: "y = k * q + (r + 1)" unfolding q_def r_def using mult_div_mod_eq [of k "y - 1"] by linarith
  show ?thesis
  proof (cases "r + 1 = k")
    case True
    then have "y = k * (q + 1)" using y by (simp add: algebra_simps)
    then have "y div k = q + 1" "k dvd y" using k by simp_all
    then show ?thesis unfolding q_def by simp
  next
    case False
    then have "r + 1 < k" using r by simp
    then have "y div k = q" "y mod k = r + 1" using r unfolding y by (simp_all add: div_pos_pos_trivial mod_pos_pos_trivial)
    then show ?thesis using r by (simp add: dvd_eq_mod_eq_0 flip: q_def)
  qed
qed

lemma days_before_next_year: "days_before_year (y + 1) = days_before_year y + 365 + (if leap y then 1 else 0)"
proof -
  have d: "100 dvd y \<Longrightarrow> 4 dvd y" using dvd_trans [of 4 100 y] by simp
  have e: "400 dvd y \<Longrightarrow> 100 dvd y" using dvd_trans [of 100 400 y] by simp
  define a b c where "a = (y - 1) div 4" and "b = (y - 1) div 100" and "c = (y - 1) div 400"
  have eqs: "y div 4 = a + (if 4 dvd y then 1 else 0)" "y div 100 = b + (if 100 dvd y then 1 else 0)"
    "y div 400 = c + (if 400 dvd y then 1 else 0)"
    unfolding a_def b_def c_def by (rule div_pred, simp)+
  have A: "days_before_year (y + 1) = 365 * y + y div 4 - y div 100 + y div 400" by (simp add: days_before_year_def)
  have B: "days_before_year y = 365 * (y - 1) + a - b + c" by (simp add: days_before_year_def a_def b_def c_def)
  show ?thesis
    unfolding A B eqs leap_def using d e by (cases "4 dvd y"; cases "100 dvd y"; cases "400 dvd y") simp_all
qed

lemma month_cases: "0 \<le> m \<Longrightarrow> m < 12 \<Longrightarrow> m \<in> {0, 1, 2, 3, 4, 5, 6, 7, 8, 9, 10, 11 :: int}"
  by (simp add: insert_iff del: One_nat_def) presburger

lemma month_start_step: "month_start M + 28 \<le> month_start (M + 1)" "month_start (M + 1) \<le> month_start M + 31"
proof -
  define y m where "y = M div 12" and "m = M mod 12"
  have M: "M = 12 * y + m" by (simp add: y_def m_def)
  have m: "m \<in> {0, 1, 2, 3, 4, 5, 6, 7, 8, 9, 10, 11}" unfolding m_def by (rule month_cases) simp_all
  have "month_start M + 28 \<le> month_start (M + 1) \<and> month_start (M + 1) \<le> month_start M + 31"
  proof (cases "m = 11")
    case True
    then have "M + 1 = 12 * (y + 1) + 0" "M = 12 * y + 11" using M by simp_all
    then show ?thesis
      using days_before_next_year [of y] by (simp add: month_start_def days_before_month_def Let_def add.commute)
  next
    case False
    then have "(M + 1) div 12 = y" "(M + 1) mod 12 = m + 1" using m M by auto
    then show ?thesis
      using m False by (auto simp: month_start_def days_before_month_def Let_def simp flip: y_def m_def)
  qed
  then show "month_start M + 28 \<le> month_start (M + 1)" "month_start (M + 1) \<le> month_start M + 31" by simp_all
qed

lemma month_start_gap: "month_start M + 28 * int k \<le> month_start (M + int k)"
proof (induction k)
  case (Suc k)
  then show ?case using month_start_step(1) [of "M + int k"] by (simp add: algebra_simps)
qed simp

lemma month_start_mono: "M \<le> N \<Longrightarrow> month_start M + 28 * (N - M) \<le> month_start N"
  using month_start_gap [of M "nat (N - M)"] by simp

section \<open>The month of a day\<close>

function month_up :: "int \<Rightarrow> int \<Rightarrow> int" where
  "month_up n M = (if month_start (M + 1) \<le> n then month_up n (M + 1) else M)"
  by pat_completeness auto
termination
proof (relation "measure (\<lambda>(n, M). nat (n - month_start M))", simp, goal_cases)
  case (1 n M)
  then show ?case using month_start_step(1) [of M] by simp
qed

function month_down :: "int \<Rightarrow> int \<Rightarrow> int" where
  "month_down n M = (if n < month_start M then month_down n (M - 1) else M)"
  by pat_completeness auto
termination
proof (relation "measure (\<lambda>(n, M). nat (month_start M - n))", simp, goal_cases)
  case (1 n M)
  then show ?case using month_start_step(1) [of "M - 1"] by simp
qed

declare month_up.simps [simp del] month_down.simps [simp del]

definition month_of :: "int \<Rightarrow> int" where
  "month_of n = month_up n (month_down n (12 + n * 4800 div 146097))"

lemma month_down_le: "month_start (month_down n M) \<le> n"
  by (induction n M rule: month_down.induct) (subst month_down.simps, simp)

lemma month_up_bounds:
  "month_start M \<le> n \<Longrightarrow> month_start (month_up n M) \<le> n \<and> n < month_start (month_up n M + 1)"
proof (induction n M rule: month_up.induct)
  case (1 n M)
  then show ?case by (subst (1 2) month_up.simps) simp
qed

lemma month_of_bounds: "month_start (month_of n) \<le> n" "n < month_start (month_of n + 1)"
  using month_up_bounds [OF month_down_le] by (simp_all add: month_of_def)

lemma month_of_unique:
  assumes "month_start M \<le> n" "n < month_start (M + 1)"
  shows "month_of n = M"
proof (rule antisym)
  show "month_of n \<le> M"
  proof (rule ccontr)
    assume "\<not> month_of n \<le> M"
    then show False using month_start_mono [of "M + 1" "month_of n"] month_of_bounds(1) [of n] assms(2) by simp
  qed
  show "M \<le> month_of n"
  proof (rule ccontr)
    assume "\<not> M \<le> month_of n"
    then show False using month_start_mono [of "month_of n + 1" M] month_of_bounds(2) [of n] assms(1) by simp
  qed
qed

section \<open>Instants in a fixed zone\<close>

definition day :: duration where "day = 24 * hour"
definition epoch_day :: int where "epoch_day = 719162"

text \<open>\<open>time.Date\<close> with a month that counts from the year 0: any day number is taken, and \<open>clock\<close> is
  the time of day.\<close>

definition date_at :: "duration \<Rightarrow> int \<Rightarrow> int \<Rightarrow> duration \<Rightarrow> instant" where
  "date_at offset M d clock = (month_start M + d - 1 - epoch_day) * day + clock - offset"

definition local_day :: "duration \<Rightarrow> instant \<Rightarrow> int" where
  "local_day offset t = (t + offset) div day + epoch_day"

definition local_clock :: "duration \<Rightarrow> instant \<Rightarrow> duration" where
  "local_clock offset t = (t + offset) mod day"

definition local_month :: "duration \<Rightarrow> instant \<Rightarrow> int" where
  "local_month offset t = month_of (local_day offset t)"

definition local_mday :: "duration \<Rightarrow> instant \<Rightarrow> int" where
  "local_mday offset t = local_day offset t - month_start (local_month offset t) + 1"

text \<open>\<open>t.AddDate(0, k, 0)\<close>.\<close>

definition add_months :: "duration \<Rightarrow> int \<Rightarrow> instant \<Rightarrow> instant" where
  "add_months offset k t =
     date_at offset (local_month offset t + k) (local_mday offset t) (local_clock offset t)"

lemma day_pos [simp]: "0 < day"
  by (simp add: day_def duration_defs)

lemma date_at_local: "date_at offset (local_month offset t) (local_mday offset t) (local_clock offset t) = t"
proof -
  have "(t + offset) div day * day + (t + offset) mod day = t + offset" by (rule div_mult_mod_eq)
  then show ?thesis
    by (simp add: date_at_def local_mday_def local_clock_def local_day_def)
qed

lemma local_date_at:
  assumes "1 \<le> d" "d \<le> 28" "0 \<le> clock" "clock < day"
  shows "local_month offset (date_at offset M d clock) = M" "local_mday offset (date_at offset M d clock) = d"
    "local_clock offset (date_at offset M d clock) = clock"
proof -
  let ?n = "month_start M + d - 1"
  have t: "date_at offset M d clock + offset = clock + (?n - epoch_day) * day" by (simp add: date_at_def)
  have n: "local_day offset (date_at offset M d clock) = ?n"
    unfolding local_day_def t using assms(3,4) by (simp add: div_pos_pos_trivial)
  show m: "local_month offset (date_at offset M d clock) = M"
    unfolding local_month_def n using assms(1,2) month_start_step(1) [of M] by (intro month_of_unique) simp_all
  show "local_mday offset (date_at offset M d clock) = d" by (simp add: local_mday_def m n)
  show "local_clock offset (date_at offset M d clock) = clock"
    unfolding local_clock_def t using assms(3,4) by (simp add: mod_pos_pos_trivial)
qed

lemma add_months_gap: "0 \<le> k \<Longrightarrow> t + 28 * k * day \<le> add_months offset k t"
proof -
  assume "0 \<le> k"
  then have "28 * k * day \<le> (month_start (local_month offset t + k) - month_start (local_month offset t)) * day"
    using month_start_mono [of "local_month offset t" "local_month offset t + k"]
    by (intro mult_right_mono) (simp_all add: order.strict_implies_order)
  moreover have "add_months offset k t = t
      + (month_start (local_month offset t + k) - month_start (local_month offset t)) * day"
    using date_at_local [of offset t] by (simp add: add_months_def date_at_def algebra_simps)
  ultimately show ?thesis by simp
qed

end
