(* ===== verification/Stock_Schedule.thy ===== *)
theory Stock_Schedule
  imports Stock_Catalog Go_Calendar
begin

text \<open>
  When a shop is synchronised (\<open>services/shopeestock/schedule.go\<close>): every so many seconds, or every
  so many months on a day at a time in Bangkok. Bangkok is the fixed zone seven hours east, which it
  has been since 1920 and which the code falls back to. The messages of the checks are abbreviated.
\<close>

section \<open>Checking a schedule\<close>

definition minimumStockIntervalSeconds :: int where "minimumStockIntervalSeconds = 5 * 60"
definition maximumStockIntervalSeconds :: int where "maximumStockIntervalSeconds = 12 * 7 * 24 * 60 * 60"

definition bangkok :: duration where "bangkok = 7 * hour"

text \<open>\<open>time.Parse("15:04", s)\<close>: one or two digits, a colon and two digits.\<close>

definition two_digits :: "char \<Rightarrow> char \<Rightarrow> int" where
  "two_digits a b = 10 * int (digit_val a) + int (digit_val b)"

definition parse_minute :: "int \<Rightarrow> string \<Rightarrow> (int \<times> int) option" where
  "parse_minute h s =
     (case s of [c, m1, m2] \<Rightarrow>
        if c = CHR '':'' \<and> is_digit m1 \<and> is_digit m2 \<and> h < 24 \<and> two_digits m1 m2 < 60
        then Some (h, two_digits m1 m2) else None
      | _ \<Rightarrow> None)"

definition parseScheduleTime :: "string \<Rightarrow> (int \<times> int) option" where
  "parseScheduleTime value0 =
     (case trim_space value0 of
        h1 # h2 # rest \<Rightarrow>
          if \<not> is_digit h1 then None
          else if is_digit h2 then parse_minute (two_digits h1 h2) rest
          else parse_minute (int (digit_val h1)) (h2 # rest)
      | _ \<Rightarrow> None)"

definition normalizeSchedule :: "SettingsUpdate \<Rightarrow> service_error + SettingsUpdate" where
  "normalizeSchedule request0 =
     (let mode = to_lower (trim_space (upd_ScheduleMode request0));
          mode = (if mode = [] then ''interval'' else mode);
          request = request0\<lparr>upd_ScheduleMode := mode\<rparr> in
      if mode = ''interval'' then
        if upd_IntervalSeconds request < minimumStockIntervalSeconds
           \<or> upd_IntervalSeconds request > maximumStockIntervalSeconds then Inl (Invalid ''interval'')
        else
          let request = request\<lparr>upd_MonthlyInterval := 1, upd_MonthlyDay := 1, upd_MonthlyTime := ''00:00''\<rparr> in
          if upd_IntervalSeconds request \<ge> 24 * 60 * 60 \<and> \<not> upd_ScheduleRiskAcknowledged request
          then Inl (Invalid ''interval risk'')
          else if upd_IntervalSeconds request < 24 * 60 * 60
          then Inr (request\<lparr>upd_ScheduleRiskAcknowledged := False\<rparr>)
          else Inr request
      else if mode = ''monthly'' then
        if upd_MonthlyInterval request < 1 \<or> upd_MonthlyInterval request > 12 then Inl (Invalid ''monthly interval'')
        else if upd_MonthlyDay request < 1 \<or> upd_MonthlyDay request > 28 then Inl (Invalid ''monthly day'')
        else if parseScheduleTime (upd_MonthlyTime request) = None then Inl (Invalid ''monthly time'')
        else if \<not> upd_ScheduleRiskAcknowledged request then Inl (Invalid ''monthly risk'')
        else Inr (request\<lparr>upd_IntervalSeconds := upd_MonthlyInterval request * 30 * 24 * 60 * 60\<rparr>)
      else Inl (Invalid ''schedule mode''))"

definition preserveScheduleForLegacyRequest :: "SettingsUpdate \<Rightarrow> Settings option \<Rightarrow> SettingsUpdate" where
  "preserveScheduleForLegacyRequest request current =
     (case current of None \<Rightarrow> request
      | Some c \<Rightarrow>
          if trim_space (upd_ScheduleMode request) \<noteq> [] then request
          else if cfg_ScheduleMode c = ''monthly'' then
            request\<lparr>upd_ScheduleMode := cfg_ScheduleMode c, upd_IntervalSeconds := cfg_IntervalSeconds c,
              upd_MonthlyInterval := cfg_MonthlyInterval c, upd_MonthlyDay := cfg_MonthlyDay c,
              upd_MonthlyTime := cfg_MonthlyTime c, upd_ScheduleRiskAcknowledged := cfg_ScheduleRiskAcknowledged c\<rparr>
          else if upd_IntervalSeconds request = cfg_IntervalSeconds c \<and> cfg_IntervalSeconds c \<ge> 24 * 60 * 60
          then request\<lparr>upd_ScheduleRiskAcknowledged := True\<rparr>
          else request)"

section \<open>The next run\<close>

text \<open>A duration of Go is an \<open>int64\<close> of nanoseconds, so a number of seconds may wrap around.\<close>

definition seconds_duration :: "int \<Rightarrow> duration" where
  "seconds_duration s = wrap64 (s * 1000000000) div 1000"

definition nextScheduledRun :: "Settings \<Rightarrow> instant \<Rightarrow> instant" where
  "nextScheduledRun settings since =
     (if cfg_ScheduleMode settings \<noteq> ''monthly'' then
        since + seconds_duration (if cfg_IntervalSeconds settings < minimumStockIntervalSeconds
          then minimumStockIntervalSeconds else cfg_IntervalSeconds settings)
      else
        let interval = (if cfg_MonthlyInterval settings < 1 then 1 else cfg_MonthlyInterval settings);
            d = (if cfg_MonthlyDay settings < 1 \<or> cfg_MonthlyDay settings > 28 then 1 else cfg_MonthlyDay settings);
            (h, m) = (case parseScheduleTime (cfg_MonthlyTime settings) of None \<Rightarrow> (0, 0) | Some hm \<Rightarrow> hm);
            candidate = date_at bangkok (local_month bangkok since) d (h * hour + m * minute)
        in if \<not> candidate > since then add_months bangkok interval candidate else candidate)"

partial_function (option) advance :: "int \<Rightarrow> instant \<Rightarrow> instant \<Rightarrow> instant option" where
  "advance interval since candidate =
     (if candidate > since then Some candidate else advance interval since (add_months bangkok interval candidate))"

definition nextScheduledRunAfter :: "Settings \<Rightarrow> instant \<Rightarrow> instant option" where
  "nextScheduledRunAfter settings since =
     (case cfg_NextRunAt settings of
        Some stored \<Rightarrow>
          if cfg_ScheduleMode settings \<noteq> ''monthly'' then Some (nextScheduledRun settings since)
          else advance (if cfg_MonthlyInterval settings < 1 then 1 else cfg_MonthlyInterval settings) since stored
      | None \<Rightarrow> Some (nextScheduledRun settings since))"

definition scheduleChanged :: "Settings option \<Rightarrow> SettingsUpdate \<Rightarrow> bool" where
  "scheduleChanged current request \<longleftrightarrow>
     (case current of None \<Rightarrow> True
      | Some c \<Rightarrow> cfg_ScheduleMode c \<noteq> upd_ScheduleMode request \<or> cfg_IntervalSeconds c \<noteq> upd_IntervalSeconds request
          \<or> cfg_MonthlyInterval c \<noteq> upd_MonthlyInterval request \<or> cfg_MonthlyDay c \<noteq> upd_MonthlyDay request
          \<or> cfg_MonthlyTime c \<noteq> upd_MonthlyTime request)"

definition emptySettings :: Settings where
  "emptySettings = \<lparr>cfg_ShopID = 0, cfg_ShopName = [], cfg_ConnectionID = [], cfg_CredentialMode = [],
     cfg_Enabled = False, cfg_StockPct = Float 0, cfg_IntervalSeconds = 0, cfg_ScheduleMode = [],
     cfg_MonthlyInterval = 0, cfg_MonthlyDay = 0, cfg_MonthlyTime = [], cfg_ScheduleRiskAcknowledged = False,
     cfg_NextRunAt = None, cfg_ScopeMode = [], cfg_Locations = [], cfg_AllScopeWarningAcknowledged = False,
     cfg_DryRunRequired = False, cfg_PausedReason = [], cfg_LastCatalogSyncAt = None, cfg_LastFullCatalogSyncAt = None,
     cfg_LastCatalogAttemptAt = None, cfg_LastPreviewAt = None, cfg_LastSyncAt = None, cfg_LastSuccessAt = None,
     cfg_LastError = [], cfg_UpdatedAt = zero_time\<rparr>"

definition settingsFromUpdate :: "SettingsUpdate \<Rightarrow> Settings" where
  "settingsFromUpdate request = emptySettings\<lparr>cfg_ScheduleMode := upd_ScheduleMode request,
     cfg_IntervalSeconds := upd_IntervalSeconds request, cfg_MonthlyInterval := upd_MonthlyInterval request,
     cfg_MonthlyDay := upd_MonthlyDay request, cfg_MonthlyTime := upd_MonthlyTime request\<rparr>"

section \<open>Properties\<close>

lemma two_digits_nonneg: "0 \<le> two_digits a b"
  by (simp add: two_digits_def)

lemma parseScheduleTime_bounds:
  "parseScheduleTime s = Some (h, m) \<Longrightarrow> 0 \<le> h \<and> h < 24 \<and> 0 \<le> m \<and> m < 60"
  by (auto simp: parseScheduleTime_def parse_minute_def two_digits_nonneg split: list.splits if_splits)

lemma clock_bounds:
  assumes "0 \<le> h" "h < 24" "0 \<le> m" "m < 60"
  shows "0 \<le> h * hour + m * minute" "h * hour + m * minute < day"
proof -
  show "0 \<le> h * hour + m * minute" using assms by (simp add: duration_defs)
  have "h * 3600000000 + m * 60000000 \<le> 23 * 3600000000 + 59 * (60000000 :: int)"
    using assms by (intro add_mono mult_right_mono) simp_all
  then show "h * hour + m * minute < day" by (simp add: day_def duration_defs)
qed

lemma advance_result:
  assumes "0 < interval"
  shows "\<exists>t. advance interval since candidate = Some t \<and> since < t
    \<and> (\<exists>k. t = (add_months bangkok interval ^^ k) candidate
         \<and> (\<forall>j<k. (add_months bangkok interval ^^ j) candidate \<le> since))"
proof (induction "nat (since - candidate)" arbitrary: candidate rule: less_induct)
  case less
  show ?case
  proof (cases "candidate > since")
    case True
    then show ?thesis by (intro exI [of _ candidate] conjI exI [of _ 0]) (simp_all add: advance.simps)
  next
    case False
    let ?c = "add_months bangkok interval candidate"
    have "0 < 28 * interval * day" using assms by simp
    then have "candidate < ?c" using add_months_gap [of interval candidate bangkok] assms by linarith
    then have "nat (since - ?c) < nat (since - candidate) \<or> since < ?c" using False by linarith
    then obtain t k where t: "advance interval since ?c = Some t" "since < t"
      "t = (add_months bangkok interval ^^ k) ?c" "\<forall>j<k. (add_months bangkok interval ^^ j) ?c \<le> since"
    proof
      assume "nat (since - ?c) < nat (since - candidate)"
      from less [OF this] show ?thesis using that by blast
    next
      assume "since < ?c"
      then show ?thesis using that [of ?c 0] by (simp add: advance.simps)
    qed
    have "(add_months bangkok interval ^^ j) candidate \<le> since" if "j < Suc k" for j
      using that t(4) False by (cases j) (auto simp: funpow_swap1)
    then show ?thesis
      using t False by (intro exI [of _ t] conjI exI [of _ "Suc k"]) (simp_all add: advance.simps [of interval since candidate] funpow_swap1)
  qed
qed

text \<open>
  C36. The loop that moves a monthly schedule past the present ends, whatever the settings and
  however far behind the stored run is: \<open>nextScheduledRunAfter\<close> returns an instant, and for a
  monthly schedule it is the first one after \<open>since\<close> among the stored run and its successors at
  steps of the interval. A month is never shorter than 28 days, so every step makes progress.
\<close>

theorem nextScheduledRunAfter_terminates:
  "\<exists>t. nextScheduledRunAfter settings since = Some t
     \<and> (case cfg_NextRunAt settings of None \<Rightarrow> t = nextScheduledRun settings since
        | Some stored \<Rightarrow>
            if cfg_ScheduleMode settings \<noteq> ''monthly'' then t = nextScheduledRun settings since
            else since < t \<and> (\<exists>k. t = (add_months bangkok (max 1 (cfg_MonthlyInterval settings)) ^^ k) stored
                 \<and> list_all (\<lambda>j. (add_months bangkok (max 1 (cfg_MonthlyInterval settings)) ^^ j) stored \<le> since) [0..<k]))"
proof -
  let ?I = "max 1 (cfg_MonthlyInterval settings)"
  have m: "(if i < 1 then 1 else i) = max 1 i" for i :: int by auto
  show ?thesis
  proof (cases "cfg_NextRunAt settings")
    case (Some stored)
    obtain t k where t: "advance ?I since stored = Some t" "since < t" "t = (add_months bangkok ?I ^^ k) stored"
      "\<forall>j<k. (add_months bangkok ?I ^^ j) stored \<le> since"
    proof -
      have "0 < ?I" by simp
      from advance_result [OF this, of since stored] show ?thesis using that by blast
    qed
    have "list_all (\<lambda>j. (add_months bangkok ?I ^^ j) stored \<le> since) [0..<k]" using t(4) by (simp add: list_all_iff)
    then have "\<exists>k. t = (add_months bangkok ?I ^^ k) stored
        \<and> list_all (\<lambda>j. (add_months bangkok ?I ^^ j) stored \<le> since) [0..<k]"
      using t(3) by blast
    then show ?thesis
      unfolding nextScheduledRunAfter_def Some m option.case using t(1,2)
      by (cases "cfg_ScheduleMode settings = ''monthly''") (simp_all del: funpow.simps)
  qed (simp add: nextScheduledRunAfter_def)
qed

text \<open>
  C37. A monthly schedule keeps its day and its time: for a request that \<open>normalizeSchedule\<close>
  accepted, the next run lies after \<open>since\<close>, falls on the chosen day of a month at the chosen time in
  Bangkok, in the month of \<open>since\<close> or the chosen number of months later, and every following run
  (\<open>AddDate\<close>) is on that day at that time again: the days 29 to 31, which some months lack, are not
  accepted.
\<close>

theorem monthly_run_keeps_day:
  assumes "normalizeSchedule request0 = Inr request" "upd_ScheduleMode request = ''monthly''"
    and "parseScheduleTime (upd_MonthlyTime request) = Some (h, m)"
  shows "let run = nextScheduledRun (settingsFromUpdate request) since; again = add_months bangkok (upd_MonthlyInterval request) run in
    since < run \<and> local_mday bangkok run = upd_MonthlyDay request \<and> local_clock bangkok run = h * hour + m * minute
    \<and> local_month bangkok run \<in> {local_month bangkok since, local_month bangkok since + upd_MonthlyInterval request}
    \<and> local_mday bangkok again = upd_MonthlyDay request \<and> local_clock bangkok again = h * hour + m * minute
    \<and> local_month bangkok again = local_month bangkok run + upd_MonthlyInterval request"
proof -
  let ?I = "upd_MonthlyInterval request" and ?D = "upd_MonthlyDay request" and ?c = "h * hour + m * minute"
  let ?M = "local_month bangkok since"
  let ?run = "nextScheduledRun (settingsFromUpdate request) since"
  have b: "1 \<le> ?I" "1 \<le> ?D" "?D \<le> 28"
    using assms(1,2) by (auto simp: normalizeSchedule_def Let_def split: if_splits)
  have c: "0 \<le> ?c" "?c < day"
    using parseScheduleTime_bounds [OF assms(3)] clock_bounds [of h m] by simp_all
  note at = local_date_at [OF b(2,3) c]
  have run: "?run = (if since < date_at bangkok ?M ?D ?c then date_at bangkok ?M ?D ?c
      else add_months bangkok ?I (date_at bangkok ?M ?D ?c))"
    using assms(2,3) b by (simp add: nextScheduledRun_def settingsFromUpdate_def Let_def)
  have step: "add_months bangkok k (date_at bangkok N ?D ?c) = date_at bangkok (N + k) ?D ?c" for k N
    by (simp add: add_months_def at)
  obtain N where N: "?run = date_at bangkok N ?D ?c" "N = ?M \<or> N = ?M + ?I" and after: "since < ?run"
  proof (cases "since < date_at bangkok ?M ?D ?c")
    case True
    then show ?thesis using that [of ?M] by (simp add: run)
  next
    case False
    have "since < date_at bangkok (?M + ?I) ?D ?c"
    proof -
      have "since < date_at bangkok (?M + 1) 1 0"
      proof -
        have "local_day bangkok since < month_start (?M + 1)"
          unfolding local_month_def by (rule month_of_bounds(2))
        then have "(since + bangkok) div day + 1 \<le> month_start (?M + 1) - epoch_day" by (simp add: local_day_def)
        then have "((since + bangkok) div day + 1) * day \<le> (month_start (?M + 1) - epoch_day) * day"
          by (intro mult_right_mono) (simp_all add: order.strict_implies_order)
        moreover have "since + bangkok < ((since + bangkok) div day + 1) * day"
          using div_mult_mod_eq [of "since + bangkok" day] pos_mod_bound [OF day_pos, of "since + bangkok"]
          unfolding distrib_right by linarith
        ultimately have "since + bangkok < (month_start (?M + 1) - epoch_day) * day" by (rule less_le_trans [rotated])
        then show ?thesis unfolding date_at_def by simp
      qed
      also have "\<dots> \<le> date_at bangkok (?M + ?I) ?D ?c"
      proof -
        have "month_start (?M + 1) \<le> month_start (?M + ?I) + ?D - 1"
          using month_start_mono [of "?M + 1" "?M + ?I"] b by simp
        then have "(month_start (?M + 1) - epoch_day) * day \<le> (month_start (?M + ?I) + ?D - 1 - epoch_day) * day"
          by (intro mult_right_mono) (simp_all add: order.strict_implies_order)
        moreover have "date_at bangkok (?M + 1) 1 0 = (month_start (?M + 1) - epoch_day) * day - bangkok"
          by (simp add: date_at_def)
        ultimately show ?thesis unfolding date_at_def [of bangkok "?M + ?I"] using c(1) by linarith
      qed
      finally show ?thesis .
    qed
    then show ?thesis using False that [of "?M + ?I"] by (simp add: run step)
  qed
  show ?thesis using N(2) after unfolding Let_def N(1) step at by simp
qed

definition sample_update :: SettingsUpdate where
  "sample_update = \<lparr>upd_Enabled = True, upd_StockPct = Float 80, upd_IntervalSeconds = 0, upd_ScheduleMode = '' Monthly'',
     upd_MonthlyInterval = 2, upd_MonthlyDay = 28, upd_MonthlyTime = ''9:30'', upd_ScheduleRiskAcknowledged = True,
     upd_NextRunAt = None, upd_ScopeMode = ''selected'', upd_Locations = [], upd_AcknowledgeAllScopeWarnings = False\<rparr>"

definition sample_schedule :: SettingsUpdate where
  "sample_schedule = sample_update\<lparr>upd_ScheduleMode := ''monthly'', upd_IntervalSeconds := 5184000\<rparr>"

theorem monthly_run_keeps_day_witness:
  "let run = nextScheduledRun (settingsFromUpdate sample_schedule) 0 in
    0 < run \<and> local_mday bangkok run = 28 \<and> local_clock bangkok run = 9 * hour + 30 * minute"
proof -
  have n: "normalizeSchedule sample_update = Inr sample_schedule" by code_simp
  have p: "parseScheduleTime (upd_MonthlyTime sample_schedule) = Some (9, 30)" by code_simp
  have m: "upd_ScheduleMode sample_schedule = ''monthly''" "upd_MonthlyDay sample_schedule = 28" by code_simp+
  from monthly_run_keeps_day [OF n m(1) p, of 0] show ?thesis unfolding Let_def m(2) by blast
qed

end
