(* ===== verification/Stock_DB.thy ===== *)
theory Stock_DB
  imports Stock_Schedule Stores
begin

text \<open>
  The database of the Shopee stock synchronisation (\<open>services/shopeestock/store.go\<close>): its tables as
  lists of rows and its operations, each one statement or one serialised transaction at the instant
  \<open>now\<close>. Columns that only the user interface reads (heartbeats, progress in percent, summaries, the
  figures of the last preview) are left out; the row of a shop's settings is joined with its
  connection. A missing row is the error \<open>noRows\<close>, a violated unique index \<open>uniqueViolation\<close>.
\<close>

section \<open>Tables\<close>

record SettingsRow = Settings +
  srow_ConfigVersion :: int
  srow_Disabled :: bool

record LeaseRow =
  sl_ShopID :: int
  sl_OwnerID :: string
  sl_LeaseUntil :: instant
  sl_FencingToken :: int

record StockRunRow =
  srun_ID :: string
  srun_ShopID :: int
  srun_RunType :: string
  srun_TriggerSource :: string
  srun_Status :: string
  srun_AsOfDate :: string
  srun_ConfigVersion :: "int option"
  srun_Generation :: "string option"
  srun_DemandSnapshot :: "(string \<times> int) list"
  srun_FencingToken :: "int option"
  srun_LeaseOwner :: string
  srun_LeaseUntil :: "instant option"
  srun_AttemptCount :: int
  srun_ProcessedCount :: int
  srun_TotalCount :: int
  srun_ChangedCount :: int
  srun_SkippedCount :: int
  srun_BlockedCount :: int
  srun_ErrorCount :: int
  srun_ErrorMessage :: string
  srun_StartedAt :: instant
  srun_FinishedAt :: "instant option"

record PolicyJobRow =
  pol_ID :: string
  pol_ShopID :: int
  pol_AliasID :: "string option"
  pol_TargetRevision :: int
  pol_ItemID :: int
  pol_ModelID :: int
  pol_Action :: string
  pol_Status :: string
  pol_AttemptCount :: int
  pol_NextAttemptAt :: instant
  pol_LeaseOwner :: string
  pol_LeaseUntil :: "instant option"
  pol_FencingToken :: "int option"
  pol_ErrorMessage :: string
  pol_CreatedAt :: instant

record MappingJobRow =
  mj_AliasID :: string
  mj_TargetRevision :: int
  mj_JobType :: string
  mj_Status :: string

record StockAliasRow =
  sal_ID :: string
  sal_MappingRevision :: int
  sal_StockPolicy :: string
  sal_Source :: string
  sal_AccountKey :: string
  sal_ExternalItemID :: string
  sal_ExternalVariantID :: string
  sal_Active :: bool
  sal_ConversionStatus :: string
  sal_SalesEnabled :: bool
  sal_ScopeConfirmed :: bool

record StockMappingRow =
  sm_ShopID :: int
  sm_ItemID :: int
  sm_ModelID :: int
  sm_SMLItemCode :: string
  sm_SMLUnitCode :: string
  sm_UnitFactor :: float64
  sm_ManualUnitFactor :: "float64 option"
  sm_MatchSource :: string
  sm_Excluded :: bool
  sm_SharedPoolEnabled :: bool
  sm_PoolAllocationPct :: rat
  sm_WarningCodes :: "string list"
  sm_AliasID :: "string option"
  sm_SetDefinitionHash :: string
  sm_LastPreviewTarget :: "int option"
  sm_LastSuccessTarget :: "int option"
  sm_UpdatedAt :: instant

record StockProductRow =
  sp_ShopID :: int
  sp_ItemID :: int
  sp_ModelID :: int
  sp_ShopeeAvailable :: int
  sp_Active :: bool

record CatalogRow = StockCatalogItem +
  cat_Active :: bool
  cat_SetComponentCount :: int
  cat_SetDefinitionHash :: string
  cat_SetDocumentValid :: bool
  cat_SetStockValid :: bool
  cat_SetWarningCodes :: "string list"

record GenerationRow =
  gen_ID :: string
  gen_Status :: string
  gen_ActivatedAt :: "instant option"
  gen_CreatedAt :: instant

record DemandVersionRow =
  dv_Warehouse :: string
  dv_Location :: string
  dv_ItemCode :: string
  dv_Revision :: int

record StockAttemptRow =
  sa_RunID :: string
  sa_ShopID :: int
  sa_ItemID :: int
  sa_ModelID :: int
  sa_SMLItemCode :: string
  sa_Result :: string
  sa_PreviousStock :: int
  sa_TargetStock :: int
  sa_ReasonCode :: string
  sa_Message :: string
  sa_RequestID :: string

record RunLineRow =
  rl_RunID :: string
  rl_ItemID :: int
  rl_ModelID :: int
  rl_Status :: string
  rl_PreviousStock :: int
  rl_TargetStock :: int
  rl_ReasonCode :: string
  rl_Message :: string
  rl_LineOrder :: nat

record StockDB =
  sdb_settings :: "SettingsRow list"
  sdb_leases :: "LeaseRow list"
  sdb_catalog_lease :: "(string \<times> instant) option"
  sdb_runs :: "StockRunRow list"
  sdb_policies :: "PolicyJobRow list"
  sdb_mapping_jobs :: "MappingJobRow list"
  sdb_aliases :: "StockAliasRow list"
  sdb_mappings :: "StockMappingRow list"
  sdb_products :: "StockProductRow list"
  sdb_catalog :: "CatalogRow list"
  sdb_generations :: "GenerationRow list"
  sdb_demand :: "DemandVersionRow list"
  sdb_attempts :: "StockAttemptRow list"
  sdb_lines :: "RunLineRow list"

definition noRows :: service_error where "noRows = Failed ''no rows''"
definition uniqueViolation :: service_error where "uniqueViolation = Failed ''23505''"

text \<open>\<open>make_interval(secs => int(d.Seconds()))\<close>.\<close>

definition wholeSeconds :: "duration \<Rightarrow> duration" where
  "wholeSeconds d = d div second * second"

definition updateShop :: "int \<Rightarrow> (SettingsRow \<Rightarrow> SettingsRow) \<Rightarrow> StockDB \<Rightarrow> StockDB" where
  "updateShop shop f db =
     db\<lparr>sdb_settings := map (\<lambda>s. if cfg_ShopID s = shop then f s else s) (sdb_settings db)\<rparr>"

definition updateRunRow :: "string \<Rightarrow> (StockRunRow \<Rightarrow> StockRunRow) \<Rightarrow> StockDB \<Rightarrow> StockDB" where
  "updateRunRow i f db = db\<lparr>sdb_runs := map (\<lambda>r. if srun_ID r = i then f r else r) (sdb_runs db)\<rparr>"

definition updateLease :: "int \<Rightarrow> (LeaseRow \<Rightarrow> LeaseRow) \<Rightarrow> StockDB \<Rightarrow> StockDB" where
  "updateLease shop f db = db\<lparr>sdb_leases := map (\<lambda>l. if sl_ShopID l = shop then f l else l) (sdb_leases db)\<rparr>"

definition updatePolicy :: "string \<Rightarrow> (PolicyJobRow \<Rightarrow> PolicyJobRow) \<Rightarrow> StockDB \<Rightarrow> StockDB" where
  "updatePolicy i f db = db\<lparr>sdb_policies := map (\<lambda>j. if pol_ID j = i then f j else j) (sdb_policies db)\<rparr>"

section \<open>Settings\<close>

definition stockSettings :: "StockDB \<Rightarrow> int \<Rightarrow> SettingsRow option" where
  "stockSettings db shop = lookup_by cfg_ShopID (sdb_settings db) shop"

definition GetSettings :: "StockDB \<Rightarrow> int \<Rightarrow> service_error + Settings" where
  "GetSettings db shop =
     (case stockSettings db shop of None \<Rightarrow> Inl noRows
      | Some s \<Rightarrow> if srow_Disabled s then Inl noRows else Inr (Settings.truncate s))"

definition UpdateSettings ::
    "instant \<Rightarrow> StockDB \<Rightarrow> int \<Rightarrow> SettingsUpdate \<Rightarrow> StockDB \<times> (service_error + Settings)" where
  "UpdateSettings now db shop request =
     (case GetSettings db shop of Inl e \<Rightarrow> (db, Inl e)
      | Inr current \<Rightarrow>
          let changedCalculation = (cfg_StockPct current \<noteq> upd_StockPct request
                \<or> cfg_ScopeMode current \<noteq> upd_ScopeMode request \<or> cfg_Locations current \<noteq> upd_Locations request) in
          if upd_Enabled request
             \<and> (cfg_DryRunRequired current \<or> changedCalculation \<or> trim_space (cfg_PausedReason current) \<noteq> [])
          then (db, Inl ErrDryRunRequired)
          else
            let db = updateShop shop (\<lambda>s. s\<lparr>cfg_Enabled := upd_Enabled request, cfg_StockPct := upd_StockPct request,
                  cfg_IntervalSeconds := upd_IntervalSeconds request, cfg_ScheduleMode := upd_ScheduleMode request,
                  cfg_MonthlyInterval := upd_MonthlyInterval request, cfg_MonthlyDay := upd_MonthlyDay request,
                  cfg_MonthlyTime := upd_MonthlyTime request,
                  cfg_ScheduleRiskAcknowledged := upd_ScheduleRiskAcknowledged request,
                  cfg_NextRunAt := upd_NextRunAt request, cfg_ScopeMode := upd_ScopeMode request,
                  cfg_Locations := upd_Locations request, cfg_AllScopeWarningAcknowledged := False,
                  cfg_DryRunRequired := (if changedCalculation then True else cfg_DryRunRequired s),
                  srow_ConfigVersion := srow_ConfigVersion s + 1, cfg_UpdatedAt := now\<rparr>) db
            in (db, GetSettings db shop))"

definition SetPaused :: "instant \<Rightarrow> StockDB \<Rightarrow> int \<Rightarrow> string \<Rightarrow> string \<Rightarrow> StockDB" where
  "SetPaused now db shop reason message =
     updateShop shop (\<lambda>s. s\<lparr>cfg_Enabled := False, cfg_PausedReason := reason, cfg_LastError := message,
       srow_ConfigVersion := srow_ConfigVersion s + 1, cfg_UpdatedAt := now\<rparr>) db"

definition RecordSyncChecked :: "instant \<Rightarrow> StockDB \<Rightarrow> int \<Rightarrow> string \<Rightarrow> instant \<Rightarrow> StockDB" where
  "RecordSyncChecked now db shop message nextRunAt =
     updateShop shop (\<lambda>s. s\<lparr>cfg_LastSyncAt := Some now, cfg_LastError := message, cfg_NextRunAt := Some nextRunAt,
       cfg_UpdatedAt := now\<rparr>) db"

definition EnabledDueShops :: "instant \<Rightarrow> StockDB \<Rightarrow> int list" where
  "EnabledDueShops now db =
     map cfg_ShopID (take 20 (sort_by (\<lambda>s. (cfg_NextRunAt s \<noteq> None, case cfg_NextRunAt s of None \<Rightarrow> 0 | Some t \<Rightarrow> t, cfg_ShopID s))
       (filter (\<lambda>s. cfg_Enabled s \<and> \<not> cfg_DryRunRequired s \<and> cfg_PausedReason s = [] \<and> \<not> srow_Disabled s
          \<and> cfg_CredentialMode s = ''gateway''
          \<and> (case cfg_NextRunAt s of Some t \<Rightarrow> t
             | None \<Rightarrow> (case cfg_LastSyncAt s of None \<Rightarrow> now | Some t \<Rightarrow> t + cfg_IntervalSeconds s * second)) \<le> now)
        (sdb_settings db))))"

section \<open>Leases\<close>

definition leaseRow :: "StockDB \<Rightarrow> int \<Rightarrow> LeaseRow option" where
  "leaseRow db shop = lookup_by sl_ShopID (sdb_leases db) shop"

definition AcquireLease :: "instant \<Rightarrow> StockDB \<Rightarrow> int \<Rightarrow> string \<Rightarrow> duration \<Rightarrow> StockDB \<times> bool" where
  "AcquireLease now db shop owner d =
     (case leaseRow db shop of
        None \<Rightarrow> (db\<lparr>sdb_leases := sdb_leases db @ [\<lparr>sl_ShopID = shop, sl_OwnerID = owner,
                   sl_LeaseUntil = now + wholeSeconds d, sl_FencingToken = 0\<rparr>]\<rparr>, True)
      | Some l \<Rightarrow>
          if sl_LeaseUntil l < now
          then (updateLease shop (\<lambda>l. l\<lparr>sl_OwnerID := owner, sl_LeaseUntil := now + wholeSeconds d\<rparr>) db, True)
          else (db, False))"

definition AcquireFencedLease :: "instant \<Rightarrow> StockDB \<Rightarrow> int \<Rightarrow> string \<Rightarrow> duration \<Rightarrow> StockDB \<times> int option" where
  "AcquireFencedLease now db shop owner d =
     (case leaseRow db shop of
        None \<Rightarrow> (db\<lparr>sdb_leases := sdb_leases db @ [\<lparr>sl_ShopID = shop, sl_OwnerID = owner,
                   sl_LeaseUntil = now + wholeSeconds d, sl_FencingToken = 1\<rparr>]\<rparr>, Some 1)
      | Some l \<Rightarrow>
          if sl_LeaseUntil l < now
          then (updateLease shop (\<lambda>l. l\<lparr>sl_OwnerID := owner, sl_LeaseUntil := now + wholeSeconds d,
                  sl_FencingToken := sl_FencingToken l + 1\<rparr>) db, Some (sl_FencingToken l + 1))
          else (db, None))"

definition holdsLease :: "instant \<Rightarrow> StockDB \<Rightarrow> int \<Rightarrow> string \<Rightarrow> int \<Rightarrow> bool" where
  "holdsLease now db shop owner token \<longleftrightarrow>
     (case leaseRow db shop of None \<Rightarrow> False
      | Some l \<Rightarrow> sl_OwnerID l = owner \<and> sl_FencingToken l = token \<and> sl_LeaseUntil l > now)"

definition HeartbeatFencedLease ::
    "instant \<Rightarrow> StockDB \<Rightarrow> int \<Rightarrow> string \<Rightarrow> int \<Rightarrow> duration \<Rightarrow> StockDB \<times> bool" where
  "HeartbeatFencedLease now db shop owner token d =
     (if holdsLease now db shop owner token
      then (updateLease shop (\<lambda>l. l\<lparr>sl_LeaseUntil := now + wholeSeconds d\<rparr>) db, True)
      else (db, False))"

definition ReleaseLease :: "StockDB \<Rightarrow> int \<Rightarrow> string \<Rightarrow> StockDB" where
  "ReleaseLease db shop owner =
     db\<lparr>sdb_leases := filter (\<lambda>l. \<not> (sl_ShopID l = shop \<and> sl_OwnerID l = owner)) (sdb_leases db)\<rparr>"

definition AcquireCatalogLease :: "instant \<Rightarrow> StockDB \<Rightarrow> string \<Rightarrow> duration \<Rightarrow> StockDB \<times> bool" where
  "AcquireCatalogLease now db owner d =
     (case sdb_catalog_lease db of
        Some (_, t) \<Rightarrow> if t < now then (db\<lparr>sdb_catalog_lease := Some (owner, now + wholeSeconds d)\<rparr>, True) else (db, False)
      | None \<Rightarrow> (db\<lparr>sdb_catalog_lease := Some (owner, now + wholeSeconds d)\<rparr>, True))"

definition ReleaseCatalogLease :: "StockDB \<Rightarrow> string \<Rightarrow> StockDB" where
  "ReleaseCatalogLease db owner =
     (case sdb_catalog_lease db of Some (w, _) \<Rightarrow> if w = owner then db\<lparr>sdb_catalog_lease := None\<rparr> else db | None \<Rightarrow> db)"

section \<open>What a run was calculated from\<close>

definition currentGeneration :: "StockDB \<Rightarrow> string option" where
  "currentGeneration db =
     (case sort_by (\<lambda>g. (gen_ActivatedAt g = None, - (case gen_ActivatedAt g of None \<Rightarrow> 0 | Some t \<Rightarrow> t), - gen_CreatedAt g))
             (filter (\<lambda>g. gen_Status g = ''active'') (sdb_generations db)) of
        [] \<Rightarrow> None | g # _ \<Rightarrow> Some (gen_ID g))"

text \<open>The items that the products of a shop consume: their own and the components of their sets.\<close>

definition consumedItems :: "StockDB \<Rightarrow> int \<Rightarrow> string list" where
  "consumedItems db shop =
     (let ms = filter (\<lambda>m. sm_ShopID m = shop \<and> \<not> sm_Excluded m) (sdb_mappings db) in
      filter (\<lambda>c. c \<noteq> []) (map sm_SMLItemCode ms)
      @ concat (map (\<lambda>m. concat (map (\<lambda>i. map comp_ItemCode (item_SetComponents i))
          (filter (\<lambda>i. item_ItemCode i = sm_SMLItemCode m \<and> item_ItemType i = 3) (sdb_catalog db)))) ms))"

definition demandSnapshot :: "StockDB \<Rightarrow> SettingsRow \<Rightarrow> (string \<times> int) list" where
  "demandSnapshot db s =
     map (\<lambda>d. (join [dv_Warehouse d, dv_Location d, dv_ItemCode d] [CHR 0x1F], dv_Revision d))
       (filter (\<lambda>d. list_ex (\<lambda>p. (dv_Warehouse d = [] \<and> dv_Location d = [])
            \<or> (dv_Warehouse d = pair_Warehouse p \<and> dv_Location d = pair_Location p)) (cfg_Locations s)
          \<and> dv_ItemCode d \<in> set (consumedItems db (cfg_ShopID s))) (sdb_demand db))"

text \<open>Two JSON objects are equal when they have the same members, in any order.\<close>

definition sameObject :: "(string \<times> int) list \<Rightarrow> (string \<times> int) list \<Rightarrow> bool" where
  "sameObject a b \<longleftrightarrow> list_all (\<lambda>k. map_of (rev a) k = map_of (rev b) k) (map fst (a @ b))"

section \<open>Runs\<close>

definition runRow :: "StockDB \<Rightarrow> string \<Rightarrow> StockRunRow option" where
  "runRow db i = lookup_by srun_ID (sdb_runs db) i"

definition newStockRun :: "string \<Rightarrow> instant \<Rightarrow> int \<Rightarrow> string \<Rightarrow> string \<Rightarrow> string \<Rightarrow> string \<Rightarrow> StockRunRow" where
  "newStockRun runID now shop runType trigger status asOfDate =
     \<lparr>srun_ID = runID, srun_ShopID = shop, srun_RunType = runType, srun_TriggerSource = trigger, srun_Status = status,
      srun_AsOfDate = asOfDate, srun_ConfigVersion = None, srun_Generation = None, srun_DemandSnapshot = [],
      srun_FencingToken = None, srun_LeaseOwner = [], srun_LeaseUntil = None, srun_AttemptCount = 0,
      srun_ProcessedCount = 0, srun_TotalCount = 0, srun_ChangedCount = 0, srun_SkippedCount = 0,
      srun_BlockedCount = 0, srun_ErrorCount = 0, srun_ErrorMessage = [], srun_StartedAt = now, srun_FinishedAt = None\<rparr>"

text \<open>The unique index \<open>shopee_stock_preview_active_unique\<close> of migration 085.\<close>

definition activePreview :: "StockRunRow \<Rightarrow> bool" where
  "activePreview r \<longleftrightarrow> srun_RunType r = ''preview'' \<and> srun_Status r \<in> set [''queued'', ''running'']"

definition insertStockRun :: "StockRunRow \<Rightarrow> StockDB \<Rightarrow> service_error + StockDB" where
  "insertStockRun r db =
     (if activePreview r \<and> list_ex (\<lambda>q. activePreview q \<and> srun_ShopID q = srun_ShopID r) (sdb_runs db)
      then Inl uniqueViolation
      else Inr (db\<lparr>sdb_runs := sdb_runs db @ [r]\<rparr>))"

definition CreateRun ::
    "string \<Rightarrow> instant \<Rightarrow> StockDB \<Rightarrow> int \<Rightarrow> string \<Rightarrow> string \<Rightarrow> string \<Rightarrow> service_error + StockDB" where
  "CreateRun runID now db shop runType trigger asOfDate =
     insertStockRun (newStockRun runID now shop runType trigger ''running'' asOfDate) db"

definition QueuePreviewRun :: "string \<Rightarrow> instant \<Rightarrow> StockDB \<Rightarrow> int \<Rightarrow> string \<Rightarrow> service_error + StockDB" where
  "QueuePreviewRun runID now db shop asOfDate =
     (case stockSettings db shop of None \<Rightarrow> Inl noRows
      | Some s \<Rightarrow> insertStockRun ((newStockRun runID now shop ''preview'' ''manual'' ''queued'' asOfDate)
          \<lparr>srun_ConfigVersion := Some (srow_ConfigVersion s), srun_Generation := currentGeneration db,
           srun_DemandSnapshot := demandSnapshot db s\<rparr>) db)"

definition CreateSyncRun ::
    "string \<Rightarrow> instant \<Rightarrow> StockDB \<Rightarrow> int \<Rightarrow> string \<Rightarrow> string \<Rightarrow> string \<Rightarrow> int \<Rightarrow> duration \<Rightarrow> service_error + StockDB" where
  "CreateSyncRun runID now db shop trigger asOfDate leaseOwner fencingToken leaseDuration =
     (let d = (if leaseDuration \<le> 0 then 2 * minute else leaseDuration) in
      case stockSettings db shop of None \<Rightarrow> Inl noRows
      | Some s \<Rightarrow> insertStockRun ((newStockRun runID now shop ''sync'' trigger ''running'' asOfDate)
          \<lparr>srun_ConfigVersion := Some (srow_ConfigVersion s), srun_Generation := currentGeneration db,
           srun_DemandSnapshot := demandSnapshot db s, srun_FencingToken := Some fencingToken,
           srun_LeaseOwner := leaseOwner, srun_LeaseUntil := Some (now + wholeSeconds d)\<rparr>) db)"

definition previewClaimable :: "instant \<Rightarrow> StockRunRow \<Rightarrow> bool" where
  "previewClaimable now r \<longleftrightarrow> srun_RunType r = ''preview''
     \<and> (srun_Status r = ''queued''
        \<or> (srun_Status r = ''running'' \<and> (case srun_LeaseUntil r of None \<Rightarrow> False | Some t \<Rightarrow> t < now)))"

definition ClaimQueuedPreview ::
    "instant \<Rightarrow> StockDB \<Rightarrow> string \<Rightarrow> duration \<Rightarrow> StockDB \<times> StockRunRow option" where
  "ClaimQueuedPreview now db leaseOwner leaseDuration =
     (case sort_by (\<lambda>r. (srun_StartedAt r, srun_ID r)) (filter (previewClaimable now) (sdb_runs db)) of
        [] \<Rightarrow> (db, None)
      | r # _ \<Rightarrow>
          let claim = (\<lambda>r. r\<lparr>srun_Status := ''running'', srun_LeaseOwner := leaseOwner,
                srun_LeaseUntil := Some (now + wholeSeconds leaseDuration),
                srun_AttemptCount := srun_AttemptCount r + 1, srun_FinishedAt := None\<rparr>)
          in (updateRunRow (srun_ID r) claim db, Some (claim r)))"

text \<open>\<open>WHERE id = $1 AND lease_owner = $2 AND status = 'running'\<close>.\<close>

definition ownsRun :: "StockDB \<Rightarrow> string \<Rightarrow> string \<Rightarrow> StockRunRow option" where
  "ownsRun db runID leaseOwner =
     (case runRow db runID of None \<Rightarrow> None
      | Some r \<Rightarrow> if srun_LeaseOwner r = leaseOwner \<and> srun_Status r = ''running'' then Some r else None)"

definition emptyResult :: PreviewResult where
  "emptyResult = \<lparr>res_RunID = [], res_ShopID = 0, res_AsOfDate = [], res_TotalCount = 0, res_ChangedCount = 0,
     res_SkippedCount = 0, res_BlockedCount = 0, res_ExcludedBalance = Float 0, res_ExcludedLocations = [],
     res_ExcludedItems = [], res_ExcludedItemsTotal = 0, res_ExcludedNegativeItemsTotal = 0, res_CircuitBreaker = [],
     res_AvailabilityMode = [], res_AvailabilityVersion = [], res_SourceFingerprint = [], res_SourceSnapshotMinAt = None,
     res_SourceSnapshotMaxAt = None, res_Lines = []\<rparr>"

definition finishedRun ::
    "instant \<Rightarrow> string \<Rightarrow> PreviewResult option \<Rightarrow> int \<Rightarrow> string \<Rightarrow> StockRunRow \<Rightarrow> StockRunRow" where
  "finishedRun now status result errorCount errorMessage r =
     (let result = (case result of None \<Rightarrow> emptyResult | Some res \<Rightarrow> res) in
      r\<lparr>srun_Status := status, srun_TotalCount := res_TotalCount result, srun_ChangedCount := res_ChangedCount result,
        srun_SkippedCount := res_SkippedCount result, srun_BlockedCount := res_BlockedCount result,
        srun_ErrorCount := errorCount, srun_ErrorMessage := errorMessage, srun_ProcessedCount := res_TotalCount result,
        srun_LeaseOwner := [], srun_LeaseUntil := None, srun_FinishedAt := Some now\<rparr>)"

definition FinishRun ::
    "instant \<Rightarrow> StockDB \<Rightarrow> string \<Rightarrow> string \<Rightarrow> PreviewResult option \<Rightarrow> int \<Rightarrow> string \<Rightarrow> StockDB" where
  "FinishRun now db runID status result errorCount errorMessage =
     updateRunRow runID (finishedRun now status result errorCount errorMessage) db"

definition FinishLeasedPreviewRun ::
    "instant \<Rightarrow> StockDB \<Rightarrow> string \<Rightarrow> string \<Rightarrow> string \<Rightarrow> PreviewResult option \<Rightarrow> int \<Rightarrow> string \<Rightarrow> service_error + StockDB" where
  "FinishLeasedPreviewRun now db runID leaseOwner status result errorCount errorMessage =
     (case ownsRun db runID leaseOwner of None \<Rightarrow> Inl ErrSyncInProgress
      | Some _ \<Rightarrow> Inr (updateRunRow runID (finishedRun now status result errorCount errorMessage) db))"

definition UpdatePreviewRunProgress :: "StockDB \<Rightarrow> string \<Rightarrow> string \<Rightarrow> int \<Rightarrow> service_error + StockDB" where
  "UpdatePreviewRunProgress db runID leaseOwner processed =
     (case ownsRun db runID leaseOwner of None \<Rightarrow> Inl ErrSyncInProgress
      | Some _ \<Rightarrow> Inr (updateRunRow runID (\<lambda>r. r\<lparr>srun_ProcessedCount := max (srun_ProcessedCount r) processed\<rparr>) db))"

definition HeartbeatPreviewRun :: "instant \<Rightarrow> StockDB \<Rightarrow> string \<Rightarrow> string \<Rightarrow> duration \<Rightarrow> StockDB \<times> bool" where
  "HeartbeatPreviewRun now db runID leaseOwner d =
     (case ownsRun db runID leaseOwner of None \<Rightarrow> (db, False)
      | Some r \<Rightarrow>
          (case srun_LeaseUntil r of None \<Rightarrow> (db, False)
           | Some t \<Rightarrow>
               if t > now then (updateRunRow runID (\<lambda>r. r\<lparr>srun_LeaseUntil := Some (now + wholeSeconds d)\<rparr>) db, True)
               else (db, False)))"

definition ReleasePreviewRun :: "StockDB \<Rightarrow> string \<Rightarrow> string \<Rightarrow> StockDB" where
  "ReleasePreviewRun db runID leaseOwner =
     (case ownsRun db runID leaseOwner of None \<Rightarrow> db
      | Some _ \<Rightarrow> updateRunRow runID (\<lambda>r. r\<lparr>srun_Status := ''queued'', srun_LeaseOwner := [], srun_LeaseUntil := None\<rparr>) db)"

definition AttachPreviewFencingToken :: "StockDB \<Rightarrow> string \<Rightarrow> string \<Rightarrow> int \<Rightarrow> service_error + StockDB" where
  "AttachPreviewFencingToken db runID leaseOwner token =
     (case ownsRun db runID leaseOwner of None \<Rightarrow> Inl ErrSyncInProgress
      | Some _ \<Rightarrow> Inr (updateRunRow runID (\<lambda>r. r\<lparr>srun_FencingToken := Some token\<rparr>) db))"

text \<open>A comparison with a missing value is not true.\<close>

definition leaseAlive :: "instant \<Rightarrow> StockRunRow \<Rightarrow> bool" where
  "leaseAlive now r \<longleftrightarrow> (case srun_LeaseUntil r of None \<Rightarrow> False | Some t \<Rightarrow> t > now)"

definition unchangedSource :: "StockDB \<Rightarrow> SettingsRow \<Rightarrow> StockRunRow \<Rightarrow> bool" where
  "unchangedSource db s r \<longleftrightarrow> srun_ConfigVersion r = Some (srow_ConfigVersion s)
     \<and> srun_Generation r = currentGeneration db \<and> sameObject (srun_DemandSnapshot r) (demandSnapshot db s)"

text \<open>The answer is the conjunction of the comparisons in the logic of SQL: false as soon as one of them
  is false, and otherwise missing, which the scan into a \<open>bool\<close> refuses, when one of them is missing.\<close>

definition sqlAnd :: "bool option list \<Rightarrow> bool option" where
  "sqlAnd bs = (if Some False \<in> set bs then Some False else if None \<in> set bs then None else Some True)"

definition validatePreviewSnapshot :: "instant \<Rightarrow> StockDB \<Rightarrow> string \<Rightarrow> string \<Rightarrow> service_error + bool" where
  "validatePreviewSnapshot now db runID leaseOwner =
     (case runRow db runID of None \<Rightarrow> Inl noRows
      | Some r \<Rightarrow>
          (case stockSettings db (srun_ShopID r) of None \<Rightarrow> Inl noRows
           | Some s \<Rightarrow>
               if srun_Status r \<noteq> ''running'' then Inl noRows
               else of_option (Failed ''scan'') (sqlAnd [Some (srun_LeaseOwner r = leaseOwner),
                 map_option (\<lambda>t. t > now) (srun_LeaseUntil r),
                 map_option (\<lambda>v. v = srow_ConfigVersion s) (srun_ConfigVersion r),
                 Some (srun_Generation r = currentGeneration db),
                 Some (sameObject (srun_DemandSnapshot r) (demandSnapshot db s))])))"

definition liveWriteAllowed :: "instant \<Rightarrow> StockDB \<Rightarrow> string \<Rightarrow> int \<Rightarrow> string \<Rightarrow> int \<Rightarrow> bool" where
  "liveWriteAllowed now db runID shop leaseOwner fencingToken \<longleftrightarrow>
     (case (runRow db runID, stockSettings db shop) of
        (Some r, Some s) \<Rightarrow>
          srun_ShopID r = shop \<and> srun_Status r = ''running'' \<and> srun_LeaseOwner r = leaseOwner
          \<and> srun_FencingToken r = Some fencingToken \<and> leaseAlive now r
          \<and> (cfg_Enabled s \<or> srun_TriggerSource r = ''manual'') \<and> \<not> cfg_DryRunRequired s \<and> cfg_PausedReason s = []
          \<and> unchangedSource db s r
      | _ \<Rightarrow> False)"

definition RenewAndValidateLiveWrite ::
    "instant \<Rightarrow> StockDB \<Rightarrow> string \<Rightarrow> int \<Rightarrow> string \<Rightarrow> int \<Rightarrow> duration \<Rightarrow> StockDB \<times> bool" where
  "RenewAndValidateLiveWrite now db runID shop leaseOwner fencingToken duration0 =
     (let d = (if duration0 \<le> 0 then 2 * minute else duration0) in
      if \<not> holdsLease now db shop leaseOwner fencingToken then (db, False)
      else
        let renewed = updateLease shop (\<lambda>l. l\<lparr>sl_LeaseUntil := now + wholeSeconds d\<rparr>) db in
        if liveWriteAllowed now db runID shop leaseOwner fencingToken
        then (updateRunRow runID (\<lambda>r. r\<lparr>srun_LeaseUntil := Some (now + wholeSeconds d)\<rparr>) renewed, True)
        else (renewed, False))"

section \<open>Results\<close>

definition SaveSyncAttempt ::
    "StockDB \<Rightarrow> string \<Rightarrow> int \<Rightarrow> PreviewLine \<Rightarrow> string \<Rightarrow> string \<Rightarrow> string \<Rightarrow> string \<Rightarrow> StockDB" where
  "SaveSyncAttempt db runID shop line result reason message requestID =
     db\<lparr>sdb_attempts := sdb_attempts db @ [\<lparr>sa_RunID = runID, sa_ShopID = shop, sa_ItemID = line_ItemID line,
       sa_ModelID = line_ModelID line, sa_SMLItemCode = line_SMLItemCode line, sa_Result = result,
       sa_PreviousStock = line_CurrentStock line, sa_TargetStock = line_TargetStock line, sa_ReasonCode = reason,
       sa_Message = message, sa_RequestID = requestID\<rparr>]\<rparr>"

definition forProduct :: "int \<Rightarrow> PreviewLine \<Rightarrow> StockMappingRow \<Rightarrow> bool" where
  "forProduct shop line m \<longleftrightarrow> sm_ShopID m = shop \<and> sm_ItemID m = line_ItemID line \<and> sm_ModelID m = line_ModelID line"

definition markLine :: "int \<Rightarrow> StockDB \<Rightarrow> PreviewLine \<Rightarrow> StockDB" where
  "markLine shop db line =
     db\<lparr>sdb_mappings := map (\<lambda>m. if forProduct shop line m
            then m\<lparr>sm_LastSuccessTarget := Some (line_TargetStock line)\<rparr> else m) (sdb_mappings db),
        sdb_products := map (\<lambda>p. if sp_ShopID p = shop \<and> sp_ItemID p = line_ItemID line \<and> sp_ModelID p = line_ModelID line
            then p\<lparr>sp_ShopeeAvailable := line_TargetStock line\<rparr> else p) (sdb_products db)\<rparr>"

definition MarkSyncSuccess :: "instant \<Rightarrow> StockDB \<Rightarrow> int \<Rightarrow> PreviewLine list \<Rightarrow> StockDB" where
  "MarkSyncSuccess now db shop lines =
     updateShop shop (\<lambda>s. s\<lparr>cfg_LastSyncAt := Some now, cfg_LastSuccessAt := Some now, cfg_LastError := [],
       cfg_UpdatedAt := now\<rparr>) (foldl (markLine shop) db lines)"

definition firstWarning :: "string list \<Rightarrow> string" where
  "firstWarning values = (case values of [] \<Rightarrow> [] | w # _ \<Rightarrow> w)"

definition lineStatus :: "PreviewLine \<Rightarrow> string" where
  "lineStatus line = (if line_Blocked line then ''blocked'' else if line_Changed line then ''changed'' else ''unchanged'')"

definition saveStockRunLinesTx :: "StockDB \<Rightarrow> PreviewResult \<Rightarrow> service_error + StockDB" where
  "saveStockRunLinesTx db result =
     (if trim_space (res_RunID result) = [] then Inl (Failed ''run_id'')
      else Inr (db\<lparr>sdb_lines := filter (\<lambda>l. rl_RunID l \<noteq> res_RunID result) (sdb_lines db)
        @ map (\<lambda>(i, line). \<lparr>rl_RunID = res_RunID result, rl_ItemID = line_ItemID line, rl_ModelID = line_ModelID line,
            rl_Status = lineStatus line, rl_PreviousStock = line_CurrentStock line, rl_TargetStock = line_TargetStock line,
            rl_ReasonCode = firstWarning (line_WarningCodes line), rl_Message = join (line_WarningCodes line) '','',
            rl_LineOrder = i + 1\<rparr>) (enumerate 0 (res_Lines result))\<rparr>))"

definition savePreviewLine :: "string \<Rightarrow> int \<Rightarrow> StockDB \<Rightarrow> PreviewLine \<Rightarrow> StockDB" where
  "savePreviewLine runID shop db line =
     (let db = db\<lparr>sdb_mappings := map (\<lambda>m. if forProduct shop line m
            then m\<lparr>sm_LastPreviewTarget := Some (line_TargetStock line),
                   sm_SetDefinitionHash := (if line_ItemType line = 3 \<and> \<not> line_Blocked line
                     then line_SetDefinitionHash line else sm_SetDefinitionHash m)\<rparr> else m) (sdb_mappings db)\<rparr> in
      if \<not> line_Changed line \<and> \<not> line_Blocked line then db
      else if line_Blocked line
      then SaveSyncAttempt db runID shop line ''blocked'' (firstWarning (line_WarningCodes line)) (join (line_WarningCodes line) '','') []
      else SaveSyncAttempt db runID shop line ''changed'' [] [] [])"

definition savePreview :: "instant \<Rightarrow> StockDB \<Rightarrow> int \<Rightarrow> PreviewResult \<Rightarrow> string \<Rightarrow> service_error + StockDB" where
  "savePreview now db shop result leaseOwner =
     and_then (if leaseOwner \<noteq> []
        then and_then (validatePreviewSnapshot now db (res_RunID result) leaseOwner)
               (\<lambda>valid. if valid then Inr () else Inl ErrPreviewStale)
        else Inr ()) (\<lambda>_.
     and_then (saveStockRunLinesTx db result) (\<lambda>db.
       let db = db\<lparr>sdb_attempts := filter (\<lambda>a. \<not> (sa_RunID a = res_RunID result
                  \<and> sa_Result a \<in> set [''changed'', ''blocked''])) (sdb_attempts db)\<rparr>;
           db = foldl (savePreviewLine (res_RunID result) shop) db (res_Lines result) in
       Inr (if res_CircuitBreaker result = []
         then updateShop shop (\<lambda>s. s\<lparr>cfg_DryRunRequired := False, cfg_PausedReason := [],
                cfg_LastPreviewAt := Some now, cfg_LastError := [], cfg_UpdatedAt := now\<rparr>) db
         else updateShop shop (\<lambda>s. s\<lparr>cfg_Enabled := False, cfg_DryRunRequired := True,
                cfg_PausedReason := res_CircuitBreaker result, cfg_LastPreviewAt := Some now, cfg_UpdatedAt := now\<rparr>) db)))"

definition SavePreviewLeased :: "instant \<Rightarrow> StockDB \<Rightarrow> int \<Rightarrow> PreviewResult \<Rightarrow> string \<Rightarrow> service_error + StockDB" where
  "SavePreviewLeased now db shop result leaseOwner =
     (if trim_space leaseOwner = [] then Inl (Failed ''lease owner'') else savePreview now db shop result leaseOwner)"

section \<open>Policy jobs\<close>

definition policyClaimable :: "instant \<Rightarrow> StockDB \<Rightarrow> PolicyJobRow \<Rightarrow> bool" where
  "policyClaimable now db p \<longleftrightarrow>
     list_ex (\<lambda>m. pol_AliasID p = Some (mj_AliasID m) \<and> mj_TargetRevision m = pol_TargetRevision p
       \<and> mj_JobType m = ''mapping_reconcile'' \<and> mj_Status m = ''completed'') (sdb_mapping_jobs db)
     \<and> (pol_Status p = ''queued''
        \<or> (pol_Status p \<in> set [''failed'', ''unknown''] \<and> pol_NextAttemptAt p \<le> now \<and> pol_AttemptCount p < 10)
        \<or> (pol_Status p = ''running'' \<and> (case pol_LeaseUntil p of None \<Rightarrow> False | Some t \<Rightarrow> t < now)))"

definition ClaimPolicyJob :: "instant \<Rightarrow> StockDB \<Rightarrow> string \<Rightarrow> duration \<Rightarrow> StockDB \<times> PolicyJobRow option" where
  "ClaimPolicyJob now db owner duration0 =
     (let d = (if duration0 \<le> 0 then 2 * minute else duration0) in
      case sort_by (\<lambda>p. (pol_CreatedAt p, pol_ID p)) (filter (policyClaimable now db) (sdb_policies db)) of
        [] \<Rightarrow> (db, None)
      | p # _ \<Rightarrow>
          let claim = (\<lambda>p. p\<lparr>pol_Status := ''running'', pol_LeaseOwner := owner,
                pol_LeaseUntil := Some (now + wholeSeconds d), pol_AttemptCount := pol_AttemptCount p + 1,
                pol_ErrorMessage := []\<rparr>)
          in (updatePolicy (pol_ID p) claim db, Some (claim p)))"

definition ownsPolicy :: "StockDB \<Rightarrow> string \<Rightarrow> string \<Rightarrow> PolicyJobRow option" where
  "ownsPolicy db jobID owner =
     (case lookup_by pol_ID (sdb_policies db) jobID of None \<Rightarrow> None
      | Some p \<Rightarrow> if pol_LeaseOwner p = owner \<and> pol_Status p = ''running'' then Some p else None)"

definition AttachPolicyFencingToken :: "StockDB \<Rightarrow> string \<Rightarrow> string \<Rightarrow> int \<Rightarrow> service_error + StockDB" where
  "AttachPolicyFencingToken db jobID owner token =
     (case ownsPolicy db jobID owner of None \<Rightarrow> Inl ErrSyncInProgress
      | Some _ \<Rightarrow> Inr (updatePolicy jobID (\<lambda>p. p\<lparr>pol_FencingToken := Some token\<rparr>) db))"

definition ValidatePolicyJob :: "instant \<Rightarrow> StockDB \<Rightarrow> PolicyJobRow \<Rightarrow> int \<Rightarrow> bool" where
  "ValidatePolicyJob now db job token \<longleftrightarrow>
     (case lookup_by pol_ID (sdb_policies db) (pol_ID job) of None \<Rightarrow> False
      | Some p \<Rightarrow>
          (case (case pol_AliasID p of None \<Rightarrow> None | Some i \<Rightarrow> lookup_by sal_ID (sdb_aliases db) i, leaseRow db (pol_ShopID p)) of
             (Some a, Some l) \<Rightarrow>
               pol_Status p = ''running'' \<and> pol_LeaseOwner p = pol_LeaseOwner job
               \<and> (case pol_LeaseUntil p of None \<Rightarrow> False | Some t \<Rightarrow> t > now) \<and> pol_FencingToken p = Some token
               \<and> sal_MappingRevision a = pol_TargetRevision p \<and> sal_StockPolicy a = ''zeroing''
               \<and> sl_OwnerID l = pol_LeaseOwner job \<and> sl_FencingToken l = token \<and> sl_LeaseUntil l > now
           | _ \<Rightarrow> False))"

text \<open>The columns of \<open>shopee_stock_products\<close> (migration 074; no later one adds any). A statement that
  assigns a column its table does not have is refused, whatever rows there are.\<close>

definition productColumns :: "string list" where
  "productColumns = [''shop_id'', ''item_id'', ''model_id'', ''item_name'', ''model_name'', ''item_sku'', ''model_sku'',
     ''item_status'', ''model_status'', ''shopee_available'', ''shopee_reserved'', ''seller_stock'',
     ''product_updated_at'', ''last_seen_at'', ''is_active'']"

definition undefinedColumn :: service_error where "undefinedColumn = Failed ''42703''"

definition assignColumns :: "string list \<Rightarrow> string list \<Rightarrow> service_error + unit" where
  "assignColumns columns assigned = (if list_all (\<lambda>c. c \<in> set columns) assigned then Inr () else Inl undefinedColumn)"

definition CompletePolicyZeroing :: "StockDB \<Rightarrow> PolicyJobRow \<Rightarrow> int \<Rightarrow> service_error + StockDB" where
  "CompletePolicyZeroing db job token =
     (let alias = (case pol_AliasID job of None \<Rightarrow> [] | Some i \<Rightarrow> i) in
      case lookup_by sal_ID (sdb_aliases db) alias of None \<Rightarrow> Inl ErrPreviewStale
      | Some a \<Rightarrow>
          if sal_MappingRevision a \<noteq> pol_TargetRevision job \<or> sal_StockPolicy a \<noteq> ''zeroing'' then Inl ErrPreviewStale
          else
            and_then (assignColumns productColumns [''shopee_available'', ''updated_at'']) (\<lambda>_.
            case ownsPolicy db (pol_ID job) (pol_LeaseOwner job) of None \<Rightarrow> Inl ErrSyncInProgress
            | Some p \<Rightarrow>
                if pol_FencingToken p \<noteq> Some token then Inl ErrSyncInProgress
                else Inr (updatePolicy (pol_ID job) (\<lambda>p. p\<lparr>pol_Status := ''completed'', pol_LeaseOwner := [],
                    pol_LeaseUntil := None, pol_ErrorMessage := []\<rparr>)
                  (db\<lparr>sdb_aliases := map (\<lambda>a. if sal_ID a = alias then a\<lparr>sal_StockPolicy := ''disabled_zero''\<rparr> else a) (sdb_aliases db),
                      sdb_mappings := map (\<lambda>m. if sm_AliasID m = Some alias
                        then m\<lparr>sm_SharedPoolEnabled := False,
                               sm_WarningCodes := filter (\<lambda>w. w \<noteq> ''stock_policy_zeroing'') (sm_WarningCodes m)
                                 @ [''stock_policy_disabled_zero'']\<rparr> else m) (sdb_mappings db),
                      sdb_products := map (\<lambda>p. if sp_ShopID p = pol_ShopID job \<and> sp_ItemID p = pol_ItemID job
                        \<and> sp_ModelID p = pol_ModelID job then p\<lparr>sp_ShopeeAvailable := 0\<rparr> else p) (sdb_products db)\<rparr>))))"

definition FailPolicyJob :: "instant \<Rightarrow> StockDB \<Rightarrow> PolicyJobRow \<Rightarrow> bool \<Rightarrow> string \<Rightarrow> StockDB" where
  "FailPolicyJob now db job unknown message =
     (case ownsPolicy db (pol_ID job) (pol_LeaseOwner job) of None \<Rightarrow> db
      | Some _ \<Rightarrow> updatePolicy (pol_ID job) (\<lambda>p. p\<lparr>pol_Status := (if unknown then ''unknown'' else ''failed''),
          pol_ErrorMessage := message,
          pol_NextAttemptAt := now + 2 ^ nat (min (pol_AttemptCount job) 8) * 15 * second,
          pol_LeaseOwner := [], pol_LeaseUntil := None\<rparr>) db)"

end
