(* ===== verification/Stock_LeaseSafety.thy ===== *)
theory Stock_LeaseSafety
  imports Stock_DB Leases
begin

text \<open>
  The lease of a shop: while it lasts nobody else gets it, and a live write to Shopee passes its last
  gate only for the process that took the lease last, on a running run whose configuration, catalog
  and demand are still those it was calculated from.
\<close>

section \<open>The rows of the lease table\<close>

lemma leaseRow_update [simp]:
  "(\<And>l. sl_ShopID (f l) = sl_ShopID l) \<Longrightarrow>
     leaseRow (updateLease shop f db) shop' = (if shop' = shop then map_option f (leaseRow db shop) else leaseRow db shop')"
  using lookup_by_update [of sl_ShopID shop f "sdb_leases db" shop'] by (simp add: leaseRow_def updateLease_def)

lemma lookup_by_snoc: "lookup_by key (rs @ [r]) k =
    (case lookup_by key rs k of None \<Rightarrow> if key r = k then Some r else None | Some q \<Rightarrow> Some q)"
  by (induction rs) simp_all

lemma leaseRow_insert [simp]:
  "leaseRow (db\<lparr>sdb_leases := sdb_leases db @ [l]\<rparr>) shop =
     (case leaseRow db shop of None \<Rightarrow> if sl_ShopID l = shop then Some l else None | Some l' \<Rightarrow> Some l')"
  by (simp add: leaseRow_def lookup_by_snoc)

lemma leaseRow_frame: "sdb_leases db' = sdb_leases db \<Longrightarrow> leaseRow db' = leaseRow db"
  by (simp add: leaseRow_def fun_eq_iff)

lemma leaseRow_updateRunRow [simp]: "leaseRow (updateRunRow i f db) = leaseRow db"
  by (rule leaseRow_frame) (simp add: updateRunRow_def)

lemma leaseRow_release:
  assumes "distinct (map sl_ShopID (sdb_leases db))"
  shows "leaseRow (ReleaseLease db shop w) shop' =
    (case leaseRow db shop' of None \<Rightarrow> None
     | Some l \<Rightarrow> if shop' = shop \<and> sl_OwnerID l = w then None else Some l)"
proof -
  have "lookup_by sl_ShopID (filter (\<lambda>l. \<not> (sl_ShopID l = shop \<and> sl_OwnerID l = w)) ls) shop' =
      (case lookup_by sl_ShopID ls shop' of None \<Rightarrow> None
       | Some l \<Rightarrow> if shop' = shop \<and> sl_OwnerID l = w then None else Some l)"
    if "distinct (map sl_ShopID ls)" for ls using that
  proof (induction ls)
    case (Cons l ls)
    have "lookup_by sl_ShopID ls (sl_ShopID l) = None" using Cons.prems by (simp add: lookup_by_None)
    then show ?case using Cons by (auto split: option.splits)
  qed simp
  then show ?thesis using assms by (simp add: leaseRow_def ReleaseLease_def)
qed

definition leases_ok :: "instant \<times> StockDB \<Rightarrow> bool" where
  "leases_ok s \<longleftrightarrow> distinct (map sl_ShopID (sdb_leases (snd s)))"

lemma updateLease_shops [simp]:
  "(\<And>l. sl_ShopID (f l) = sl_ShopID l) \<Longrightarrow> map sl_ShopID (sdb_leases (updateLease shop f db)) = map sl_ShopID (sdb_leases db)"
  by (auto simp: updateLease_def)

lemma updateRunRow_leases [simp]: "sdb_leases (updateRunRow i f db) = sdb_leases db"
  by (simp add: updateRunRow_def)

lemma leaseRow_None: "leaseRow db shop = None \<longleftrightarrow> shop \<notin> set (map sl_ShopID (sdb_leases db))"
  by (simp add: leaseRow_def lookup_by_None)

section \<open>The processes that share the leases\<close>

text \<open>
  A process is an owner with the fencing token it was given. Time passes between the steps; \<open>Aside\<close>
  stands for everything else the program does to the database, as far as it leaves the leases alone.
  A live write renews the lease even when it is then refused.
\<close>

inductive stock_step :: "(string \<times> int, int) lease_op \<Rightarrow> instant \<times> StockDB \<Rightarrow> instant \<times> StockDB \<Rightarrow> bool" where
  acquire: "t \<le> now \<Longrightarrow> AcquireFencedLease now db shop w d = (db', Some k) \<Longrightarrow>
    stock_step (Take (w, k) shop) (t, db) (now, db')"
| acquire_plain: "t \<le> now \<Longrightarrow> AcquireLease now db shop w d = (db', True) \<Longrightarrow> leaseRow db' shop = Some l \<Longrightarrow>
    k = sl_FencingToken l \<Longrightarrow> stock_step (Take (w, k) shop) (t, db) (now, db')"
| heartbeat: "t \<le> now \<Longrightarrow> HeartbeatFencedLease now db shop w k d = (db', True) \<Longrightarrow>
    stock_step (Keep (w, k) shop) (t, db) (now, db')"
| live_write: "t \<le> now \<Longrightarrow> holdsLease now db shop w k \<Longrightarrow>
    RenewAndValidateLiveWrite now db runID shop w k d = (db', b) \<Longrightarrow>
    stock_step (Keep (w, k) shop) (t, db) (now, db')"
| release: "t \<le> now \<Longrightarrow> leaseRow db shop = Some l \<Longrightarrow> sl_OwnerID l = w \<Longrightarrow> k = sl_FencingToken l \<Longrightarrow>
    stock_step (Drop (w, k) shop) (t, db) (now, ReleaseLease db shop w)"
| aside: "t \<le> now \<Longrightarrow> sdb_leases db' = sdb_leases db \<Longrightarrow> stock_step Aside (t, db) (now, db')"

inductive_cases stock_take: "stock_step (Take w shop) s s'"
inductive_cases stock_keep: "stock_step (Keep w shop) s s'"
inductive_cases stock_drop: "stock_step (Drop w shop) s s'"
inductive_cases stock_aside: "stock_step Aside s s'"

definition lease_holder :: "instant \<times> StockDB \<Rightarrow> int \<Rightarrow> (string \<times> int) option" where
  "lease_holder s shop = map_option (\<lambda>l. (sl_OwnerID l, sl_FencingToken l)) (leaseRow (snd s) shop)"

lemma acquire_row:
  assumes "AcquireFencedLease now db shop w d = (db', Some k)"
  shows "leaseRow db' shop' = (if shop' = shop
      then Some \<lparr>sl_ShopID = shop, sl_OwnerID = w, sl_LeaseUntil = now + wholeSeconds d, sl_FencingToken = k\<rparr>
      else leaseRow db shop')"
    "case leaseRow db shop of None \<Rightarrow> k = 1 | Some l \<Rightarrow> sl_LeaseUntil l < now \<and> k = sl_FencingToken l + 1"
proof -
  have s: "leaseRow db shop = Some l \<Longrightarrow> sl_ShopID l = shop" for l
    using lookup_by_Some [of sl_ShopID "sdb_leases db" shop l] by (simp add: leaseRow_def)
  show "leaseRow db' shop' = (if shop' = shop
      then Some \<lparr>sl_ShopID = shop, sl_OwnerID = w, sl_LeaseUntil = now + wholeSeconds d, sl_FencingToken = k\<rparr>
      else leaseRow db shop')"
    using assms s by (auto simp: AcquireFencedLease_def split: option.splits if_splits)
  show "case leaseRow db shop of None \<Rightarrow> k = 1 | Some l \<Rightarrow> sl_LeaseUntil l < now \<and> k = sl_FencingToken l + 1"
    using assms by (auto simp: AcquireFencedLease_def split: option.splits if_splits)
qed

lemma acquire_plain_row:
  assumes "AcquireLease now db shop w d = (db', True)"
  shows "shop' \<noteq> shop \<Longrightarrow> leaseRow db' shop' = leaseRow db shop'"
    "\<exists>l. leaseRow db' shop = Some l \<and> sl_OwnerID l = w"
    "case leaseRow db shop of None \<Rightarrow> True | Some l \<Rightarrow> sl_LeaseUntil l < now"
  using assms by (auto simp: AcquireLease_def split: option.splits if_splits)

lemma heartbeat_row:
  assumes "HeartbeatFencedLease now db shop w k d = (db', True)"
  shows "holdsLease now db shop w k \<and> db' = updateLease shop (\<lambda>l. l\<lparr>sl_LeaseUntil := now + wholeSeconds d\<rparr>) db"
  using assms by (auto simp: HeartbeatFencedLease_def split: if_splits)

lemma live_write_row:
  assumes "RenewAndValidateLiveWrite now db runID shop w k d = (db', b)" "holdsLease now db shop w k"
  shows "\<exists>t. leaseRow db' = leaseRow (updateLease shop (\<lambda>l. l\<lparr>sl_LeaseUntil := t\<rparr>) db)
     \<and> map sl_ShopID (sdb_leases db') = map sl_ShopID (sdb_leases db)"
  using assms by (auto simp: RenewAndValidateLiveWrite_def Let_def split: if_splits)

lemma holdsLease_row:
  "holdsLease now db shop w k \<longleftrightarrow>
     (\<exists>l. leaseRow db shop = Some l \<and> sl_OwnerID l = w \<and> sl_FencingToken l = k \<and> now < sl_LeaseUntil l)"
  by (auto simp: holdsLease_def split: option.splits)

lemma renewed_holder:
  assumes "holdsLease now db shop w k" "leaseRow db' = leaseRow (updateLease shop (\<lambda>l. l\<lparr>sl_LeaseUntil := t\<rparr>) db)"
  shows "lease_holder (t', db) shop = Some (w, k) \<and> lease_holder (t'', db') = lease_holder (t', db)"
  using assms by (auto simp: holdsLease_row lease_holder_def fun_eq_iff option.map_comp comp_def)

lemma heartbeat_holder:
  assumes "HeartbeatFencedLease now db shop w k d = (db', True)"
  shows "lease_holder (t, db) shop = Some (w, k) \<and> lease_holder (t', db') = lease_holder (t, db)"
  using heartbeat_row [OF assms] by (intro renewed_holder) auto

lemma live_write_holder:
  assumes "RenewAndValidateLiveWrite now db runID shop w k d = (db', b)" "holdsLease now db shop w k"
  shows "lease_holder (t, db) shop = Some (w, k) \<and> lease_holder (t', db') = lease_holder (t, db)"
  using live_write_row [OF assms] renewed_holder [OF assms(2)] by blast

lemma leases_ok_step: "leases_ok s \<Longrightarrow> stock_step l s s' \<Longrightarrow> leases_ok s'"
proof (erule stock_step.cases)
  fix t now :: instant and db db' :: StockDB and shop w d k
  assume "leases_ok s" "s = (t, db)" "s' = (now, db')" "AcquireFencedLease now db shop w d = (db', Some k)"
  then show "leases_ok s'"
    by (auto simp: leases_ok_def AcquireFencedLease_def leaseRow_None split: option.splits if_splits)
next
  fix t now :: instant and db db' :: StockDB and shop w d
  assume "leases_ok s" "s = (t, db)" "s' = (now, db')" "AcquireLease now db shop w d = (db', True)"
  then show "leases_ok s'"
    by (auto simp: leases_ok_def AcquireLease_def leaseRow_None split: option.splits if_splits)
next
  fix t now :: instant and db :: StockDB and shop w
  assume "leases_ok s" "s = (t, db)" "s' = (now, ReleaseLease db shop w)"
  then show "leases_ok s'" by (simp add: leases_ok_def ReleaseLease_def distinct_map_filter)
next
  fix t now :: instant and db db' :: StockDB
  assume "leases_ok s" "s = (t, db)" "s' = (now, db')" "sdb_leases db' = sdb_leases db"
  then show "leases_ok s'" by (simp add: leases_ok_def)
qed (auto simp: leases_ok_def dest: heartbeat_row live_write_row)

interpretation stock: lease stock_step lease_holder leases_ok
proof
  show "leases_ok s \<Longrightarrow> stock_step l s s' \<Longrightarrow> leases_ok s'" for s l s' by (rule leases_ok_step)
  show "leases_ok s \<Longrightarrow> stock_step (Take w i) s s' \<Longrightarrow> lease_holder s' = (lease_holder s)(i := Some w)" for s w i s'
    by (erule stock_take) (auto simp: lease_holder_def fun_eq_iff acquire_row(1) acquire_plain_row(1)
      dest: acquire_plain_row(2))
  show "leases_ok s \<Longrightarrow> stock_step (Keep w i) s s' \<Longrightarrow> lease_holder s i = Some w \<and> lease_holder s' = lease_holder s"
    for s w i s' by (erule stock_keep; hypsubst; (erule heartbeat_holder | rule live_write_holder, assumption, assumption))
  show "leases_ok s \<Longrightarrow> stock_step (Drop w i) s s' \<Longrightarrow> lease_holder s i = Some w \<and> lease_holder s' = (lease_holder s)(i := None)"
    for s w i s'
    by (erule stock_drop) (auto simp: lease_holder_def fun_eq_iff leases_ok_def leaseRow_release split: option.splits)
  show "leases_ok s \<Longrightarrow> stock_step Aside s s' \<Longrightarrow> lease_holder s' = lease_holder s" for s s'
    by (erule stock_aside) (drule leaseRow_frame, simp add: lease_holder_def fun_eq_iff)
qed

section \<open>What the lease promises\<close>

text \<open>
  C1. A live write to Shopee passes its last database gate only for the process that took the lease
  of the shop last: since it acquired the lease with this fencing token nobody else acquired it and
  it was not released, whatever happened to the database in between. And only for a running run of
  that process with this token, on a shop that is enabled (or triggered by hand), not paused and not
  waiting for a new preview, whose configuration version, catalog generation and demand revisions
  are those the run was calculated from.
\<close>

theorem live_write_fenced:
  assumes "run stock_step ls (t, db) (t', db')"
    and "distinct (map sl_ShopID (sdb_leases db))" "leaseRow db shop = None" "t' \<le> now"
    and "RenewAndValidateLiveWrite now db' runID shop w k d = (db'', True)"
  shows "\<exists>ls1 ls2 r s. ls = ls1 @ Take (w, k) shop # ls2 \<and> \<not> list_ex (touches shop) ls2
    \<and> runRow db' runID = Some r \<and> srun_ShopID r = shop \<and> srun_Status r = ''running'' \<and> srun_LeaseOwner r = w
    \<and> srun_FencingToken r = Some k \<and> stockSettings db' shop = Some s
    \<and> (cfg_Enabled s \<or> srun_TriggerSource r = ''manual'') \<and> \<not> cfg_DryRunRequired s \<and> cfg_PausedReason s = []
    \<and> srun_ConfigVersion r = Some (srow_ConfigVersion s) \<and> srun_Generation r = currentGeneration db'
    \<and> sameObject (srun_DemandSnapshot r) (demandSnapshot db' s)"
proof -
  have h: "holdsLease now db' shop w k" and a: "liveWriteAllowed now db' runID shop w k"
    using assms(5) by (auto simp: RenewAndValidateLiveWrite_def Let_def split: if_splits)
  have "stock_step (Keep (w, k) shop) (t', db') (now, db'')" using assms(4) h assms(5) by (rule live_write)
  then have "run stock_step (ls @ [Keep (w, k) shop]) (t, db) (now, db'')" using assms(1) by (auto simp: run_append)
  then have "\<exists>ls1 ls2. ls = ls1 @ Take (w, k) shop # ls2 \<and> \<not> list_ex (touches shop) ls2"
    by (rule stock.kept) (simp_all add: leases_ok_def lease_holder_def assms(2,3))
  then obtain ls1 ls2 where "ls = ls1 @ Take (w, k) shop # ls2" "\<not> list_ex (touches shop) ls2" by blast
  moreover obtain r s where "runRow db' runID = Some r" "stockSettings db' shop = Some s"
    using a by (auto simp: liveWriteAllowed_def split: option.splits)
  ultimately show ?thesis using a by (auto simp: liveWriteAllowed_def unchangedSource_def)
qed

text \<open>While a lease lasts and its holder leaves it alone, its row does not change.\<close>

definition mine :: "string \<times> int \<Rightarrow> int \<Rightarrow> (string \<times> int, int) lease_op \<Rightarrow> bool" where
  "mine w shop l \<longleftrightarrow> (case l of Keep v i \<Rightarrow> v = w \<and> i = shop | Drop v i \<Rightarrow> v = w \<and> i = shop | _ \<Rightarrow> False)"

lemma clock_step: "stock_step l s s' \<Longrightarrow> fst s \<le> fst s'"
  by (erule stock_step.cases) simp_all

lemma clock_run: "run stock_step ls s s' \<Longrightarrow> fst s \<le> fst s'"
  by (induction rule: run.induct) (auto dest: clock_step)

lemma row_step:
  assumes "stock_step l s s'" "leases_ok s" "leaseRow (snd s) shop = Some r" "fst s' \<le> sl_LeaseUntil r"
    and "\<not> mine (sl_OwnerID r, sl_FencingToken r) shop l"
  shows "leaseRow (snd s') shop = Some r"
  using assms
proof (cases rule: stock_step.cases)
  case (acquire t now db shop' w d db' k)
  then show ?thesis using assms acquire_row [OF acquire(5)] by (auto split: if_splits)
next
  case (acquire_plain t now db shop' w d db' l k)
  then show ?thesis using assms acquire_plain_row(1,3) [OF acquire_plain(5)] by (cases "shop' = shop") auto
next
  case (heartbeat t now db shop' w k d db')
  then show ?thesis using assms heartbeat_row [OF heartbeat(5)] by (auto simp: holdsLease_row mine_def)
next
  case (live_write t now db shop' w k runID d db' b)
  then show ?thesis using assms live_write_row [OF live_write(6,5)] by (auto simp: holdsLease_row mine_def)
next
  case (release t now db shop' l w k)
  then show ?thesis using assms leaseRow_release [of db shop' w shop] by (auto simp: leases_ok_def mine_def)
next
  case (aside t now db' db)
  then show ?thesis using assms leaseRow_frame [OF aside(5)] by simp
qed

lemma row_run:
  assumes "run stock_step ls s s'" "leases_ok s" "leaseRow (snd s) shop = Some r" "fst s' \<le> sl_LeaseUntil r"
    and "\<not> list_ex (mine (sl_OwnerID r, sl_FencingToken r) shop) ls"
  shows "leaseRow (snd s') shop = Some r"
  using assms
proof (induction rule: run.induct)
  case (run_Cons l s s' ls s'')
  have "fst s' \<le> sl_LeaseUntil r" using clock_run [OF run_Cons(2)] run_Cons.prems(3) by simp
  then have "leaseRow (snd s') shop = Some r" using row_step [OF run_Cons(1)] run_Cons.prems by simp
  then show ?case using run_Cons leases_ok_step by simp
qed simp

text \<open>
  C10. A lease that was granted excludes everybody else until it ends: as long as its holder neither
  renews nor releases it, every other process that asks for the shop within the time of the lease is
  turned away, and a process with another owner or token can neither extend the lease nor pass the
  gate of a live write.
\<close>

theorem lease_excludes:
  assumes "distinct (map sl_ShopID (sdb_leases db))" "AcquireFencedLease now db shop w d = (db1, Some k)"
    and "run stock_step ls (now, db1) (t, db2)" "\<not> list_ex (mine (w, k) shop) ls"
    and "t \<le> now'" "now' \<le> now + wholeSeconds d" "(v, j) \<noteq> (w, k)"
  shows "AcquireFencedLease now' db2 shop v d' = (db2, None) \<and> AcquireLease now' db2 shop v d' = (db2, False)
    \<and> HeartbeatFencedLease now' db2 shop v j d' = (db2, False)
    \<and> RenewAndValidateLiveWrite now' db2 runID shop v j d' = (db2, False)"
proof -
  let ?r = "\<lparr>sl_ShopID = shop, sl_OwnerID = w, sl_LeaseUntil = now + wholeSeconds d, sl_FencingToken = k\<rparr>"
  have "leases_ok (now, db1)"
    using leases_ok_step [OF _ acquire [OF order.refl assms(2)]] assms(1) by (simp add: leases_ok_def)
  then have "leaseRow db2 shop = Some ?r"
    using row_run [OF assms(3), of shop ?r] acquire_row(1) [OF assms(2), of shop] assms(4-6) by simp
  then show ?thesis
    using assms(6,7) by (auto simp: AcquireFencedLease_def AcquireLease_def HeartbeatFencedLease_def
      RenewAndValidateLiveWrite_def Let_def holdsLease_row)
qed

section \<open>An example\<close>

definition sample_pair :: LocationPair where
  "sample_pair = \<lparr>pair_Warehouse = ''W'', pair_Location = ''L''\<rparr>"

definition sample_shop :: SettingsRow where
  "sample_shop = \<lparr>cfg_ShopID = 7, cfg_ShopName = ''S'', cfg_ConnectionID = ''c'', cfg_CredentialMode = ''gateway'',
     cfg_Enabled = True, cfg_StockPct = Float 100, cfg_IntervalSeconds = 900, cfg_ScheduleMode = ''interval'',
     cfg_MonthlyInterval = 1, cfg_MonthlyDay = 1, cfg_MonthlyTime = ''00:00'', cfg_ScheduleRiskAcknowledged = False,
     cfg_NextRunAt = None, cfg_ScopeMode = ''selected'', cfg_Locations = [sample_pair],
     cfg_AllScopeWarningAcknowledged = False, cfg_DryRunRequired = False, cfg_PausedReason = [],
     cfg_LastCatalogSyncAt = None, cfg_LastFullCatalogSyncAt = None, cfg_LastCatalogAttemptAt = None,
     cfg_LastPreviewAt = None, cfg_LastSyncAt = None, cfg_LastSuccessAt = None, cfg_LastError = [], cfg_UpdatedAt = 0,
     srow_ConfigVersion = 4, srow_Disabled = False\<rparr>"

definition sample_stock_db :: StockDB where
  "sample_stock_db = \<lparr>sdb_settings = [sample_shop], sdb_leases = [], sdb_catalog_lease = None, sdb_runs = [],
     sdb_policies = [], sdb_mapping_jobs = [], sdb_aliases = [], sdb_mappings = [], sdb_products = [], sdb_catalog = [],
     sdb_generations = [], sdb_demand = [], sdb_attempts = [], sdb_lines = []\<rparr>"

definition sample_leased :: StockDB where
  "sample_leased = fst (AcquireFencedLease 10 sample_stock_db 7 ''a'' (2 * minute))"

definition sample_running :: StockDB where
  "sample_running = projr (CreateSyncRun ''r'' 11 sample_leased 7 ''scheduler'' ''2026-01-01'' ''a'' 1 0)"

definition sample_renewed :: StockDB where
  "sample_renewed = fst (RenewAndValidateLiveWrite 20 sample_running ''r'' 7 ''a'' 1 0)"

lemma sample_stock_calls:
  "AcquireFencedLease 10 sample_stock_db 7 ''a'' (2 * minute) = (sample_leased, Some 1)"
  "RenewAndValidateLiveWrite 20 sample_running ''r'' 7 ''a'' 1 0 = (sample_renewed, True)"
  "sdb_leases sample_running = sdb_leases sample_leased"
  "distinct (map sl_ShopID (sdb_leases sample_stock_db))" "leaseRow sample_stock_db 7 = None"
  by code_simp+

lemma sample_stock_run: "run stock_step [Take (''a'', 1) 7, Aside] (0, sample_stock_db) (11, sample_running)"
  using acquire [OF _ sample_stock_calls(1), of 0] aside [OF _ sample_stock_calls(3), of 10 11] by auto

theorem live_write_fenced_witness:
  "\<exists>ls1 ls2 r s. [Take (''a'', 1 :: int) (7 :: int), Aside] = ls1 @ Take (''a'', 1) 7 # ls2 \<and> \<not> list_ex (touches 7) ls2
    \<and> runRow sample_running ''r'' = Some r \<and> srun_ShopID r = 7 \<and> srun_Status r = ''running'' \<and> srun_LeaseOwner r = ''a''
    \<and> srun_FencingToken r = Some 1 \<and> stockSettings sample_running 7 = Some s
    \<and> (cfg_Enabled s \<or> srun_TriggerSource r = ''manual'') \<and> \<not> cfg_DryRunRequired s \<and> cfg_PausedReason s = []
    \<and> srun_ConfigVersion r = Some (srow_ConfigVersion s) \<and> srun_Generation r = currentGeneration sample_running
    \<and> sameObject (srun_DemandSnapshot r) (demandSnapshot sample_running s)"
  by (rule live_write_fenced [OF sample_stock_run sample_stock_calls(4,5) _ sample_stock_calls(2)]) simp

theorem lease_excludes_witness:
  "AcquireFencedLease 1000 sample_running 7 ''b'' minute = (sample_running, None)
    \<and> AcquireLease 1000 sample_running 7 ''b'' minute = (sample_running, False)
    \<and> HeartbeatFencedLease 1000 sample_running 7 ''b'' 1 minute = (sample_running, False)
    \<and> RenewAndValidateLiveWrite 1000 sample_running ''r'' 7 ''b'' 1 minute = (sample_running, False)"
proof -
  have r: "run stock_step [Aside] (10, sample_leased) (11, sample_running)"
    using aside [OF _ sample_stock_calls(3), of 10 11] by simp
  have "(1000 :: instant) \<le> 10 + wholeSeconds (2 * minute)" by (simp add: wholeSeconds_def duration_defs)
  then show ?thesis
    using lease_excludes [OF sample_stock_calls(4,1) r, of 1000 "''b''" 1 minute "''r''"] by (simp add: mine_def)
qed

end
