(* ===== verification/Stock_Write.thy ===== *)
theory Stock_Write
  imports Stock_LeaseSafety
begin

text \<open>
  The writes to Shopee (\<open>services/shopeestock/service.go\<close>, with the types of
  \<open>services/shopeeapi/product.go\<close>): the update of the stock of one product with its database gate, its
  retries and its read-back, and the job that sets a product to zero before it is taken out.
  The Shopee API is a parameter. A call of it may change the database as well, which stands for
  everything other processes do in the meantime; a database that cannot be reached is not modelled. Messages in Thai are given in
  English.
\<close>

section \<open>The Shopee API\<close>

record SellerStock =
  ss_LocationID :: string
  ss_Stock :: int

record StockInfoV2 =
  si_TotalReservedStock :: int
  si_TotalAvailableStock :: int
  si_SellerStock :: "SellerStock list"

definition SellerStockAtLocation :: "StockInfoV2 \<Rightarrow> string \<Rightarrow> int option" where
  "SellerStockAtLocation info locationID =
     (if si_SellerStock info = [] then None
      else if locationID = [] then Some (foldl (\<lambda>t s. wrap64 (t + ss_Stock s)) 0 (si_SellerStock info))
      else map_option ss_Stock (find (\<lambda>s. ss_LocationID s = locationID) (si_SellerStock info)))"

definition CurrentSellerStock :: "StockInfoV2 \<Rightarrow> string \<Rightarrow> int" where
  "CurrentSellerStock info locationID =
     (case SellerStockAtLocation info locationID of Some n \<Rightarrow> n | None \<Rightarrow> si_TotalAvailableStock info)"

record ItemBaseInfo =
  ib_ItemID :: int
  ib_ItemName :: string
  ib_ItemSKU :: string
  ib_ItemStatus :: string
  ib_HasModel :: bool
  ib_UpdateTime :: int
  ib_StockInfoV2 :: StockInfoV2

record ProductModel =
  pm_ModelID :: int
  pm_ModelName :: string
  pm_ModelSKU :: string
  pm_ModelStatus :: string
  pm_StockInfoV2 :: StockInfoV2

record WarehouseDetailPayload =
  wh_WarehouseList :: "string list"
  wh_LocationList :: "string list"

text \<open>A warehouse is given by its location, the only field the code uses.\<close>

definition Locations :: "WarehouseDetailPayload \<Rightarrow> string list" where
  "Locations r = (if wh_LocationList r \<noteq> [] then wh_LocationList r else wh_WarehouseList r)"

record ModelStock =
  ms_ModelID :: int
  ms_SellerStock :: "SellerStock list"

record UpdateStockRequest =
  us_ItemID :: int
  us_StockList :: "ModelStock list"

record UpdateStockResponse =
  ur_RequestID :: string
  ur_FailureList :: "(int \<times> string) list"

text \<open>What a call fails with; the last kind with its text and whether it is a missed deadline.\<close>

datatype api_error =
    GatewayError (gw_Code: string) (gw_Message: string) (gw_Retryable: bool)
  | BusinessError (be_Operation: string) (be_Code: string) (be_Message: string)
  | OtherError string bool

fun error_message :: "api_error \<Rightarrow> string" where
  "error_message (GatewayError c m r) = (if c = [] then m else ''shopee gateway '' @ c @ '': '' @ m)"
| "error_message (BusinessError p c m) = ''shopee '' @ p @ '': '' @ c @ '' '' @ m"
| "error_message (OtherError m d) = m"

type_synonym 'w world = "StockDB \<times> 'w"

record 'w shopee_api =
  api_now :: "'w world \<Rightarrow> instant"
  api_UpdateStock :: "'w world \<Rightarrow> int \<Rightarrow> UpdateStockRequest \<Rightarrow> 'w world \<times> (api_error + UpdateStockResponse)"
  api_GetItemBaseInfo :: "'w world \<Rightarrow> int \<Rightarrow> int list \<Rightarrow> 'w world \<times> (api_error + ItemBaseInfo list)"
  api_GetModelList :: "'w world \<Rightarrow> int \<Rightarrow> int \<Rightarrow> 'w world \<times> (api_error + ProductModel list)"
  api_GetWarehouseDetail :: "'w world \<Rightarrow> int \<Rightarrow> 'w world \<times> (api_error + WarehouseDetailPayload)"
  api_wait :: "'w world \<Rightarrow> nat \<Rightarrow> 'w world \<times> api_error option"
  api_text :: "service_error \<Rightarrow> string"

section \<open>Errors\<close>

definition contains :: "string \<Rightarrow> string \<Rightarrow> bool" where
  "contains s t \<longleftrightarrow> list_ex (\<lambda>i. take (length t) (drop i s) = t) [0..<Suc (length s)]"

definition unknownMessage :: "string \<Rightarrow> bool" where
  "unknownMessage m \<longleftrightarrow> contains m ''timeout'' \<or> contains m ''deadline'' \<or> contains m ''connection reset''
     \<or> contains m ''unexpected eof'' \<or> m = ''eof''"

definition isUnknownWrite :: "api_error \<Rightarrow> bool" where
  "isUnknownWrite e \<longleftrightarrow>
     (case e of GatewayError c _ _ \<Rightarrow> c = ''shopee_timeout''
      | BusinessError _ _ _ \<Rightarrow> unknownMessage (to_lower (error_message e))
      | OtherError m d \<Rightarrow> d \<or> unknownMessage (to_lower m))"

definition isRetryableWrite :: "api_error \<Rightarrow> bool" where
  "isRetryableWrite e \<longleftrightarrow> (case e of GatewayError _ _ r \<Rightarrow> r | _ \<Rightarrow> isUnknownWrite e)"

definition safe_text :: "string \<Rightarrow> string" where
  "safe_text m = take 300 m"

definition isShopeeSingleWarehouseFallback :: "api_error \<Rightarrow> bool" where
  "isShopeeSingleWarehouseFallback e \<longleftrightarrow>
     (case e of GatewayError c _ _ \<Rightarrow> equal_fold (trim_space c) ''warehouse.error_not_in_whitelist''
      | BusinessError _ c _ \<Rightarrow> equal_fold (trim_space c) ''warehouse.error_not_in_whitelist''
      | OtherError _ _ \<Rightarrow> False)"

definition sellerLocationID :: "'w shopee_api \<Rightarrow> 'w world \<Rightarrow> int \<Rightarrow> 'w world \<times> (api_error + string \<times> bool)" where
  "sellerLocationID api w shop =
     (case api_GetWarehouseDetail api w shop of
        (w, Inl e) \<Rightarrow> (w, if isShopeeSingleWarehouseFallback e then Inr ([], False) else Inl e)
      | (w, Inr r) \<Rightarrow> (w, case Locations r of [] \<Rightarrow> Inr ([], False) | [l] \<Rightarrow> Inr (l, False) | _ \<Rightarrow> Inr ([], True)))"

section \<open>Reading back\<close>

text \<open>\<open>actual\<close>, a Go map: the last model with an id wins, and a model that is not there reads as 0.\<close>

definition actualStocks :: "string \<Rightarrow> ProductModel list \<Rightarrow> (int \<times> int) list option" where
  "actualStocks locationID models =
     (if list_all (\<lambda>m. SellerStockAtLocation (pm_StockInfoV2 m) locationID \<noteq> None) models
      then Some (map (\<lambda>m. (pm_ModelID m, the (SellerStockAtLocation (pm_StockInfoV2 m) locationID))) (rev models))
      else None)"

definition stockAt :: "(int \<times> int) list \<Rightarrow> int \<Rightarrow> int" where
  "stockAt actual modelID = (case map_of actual modelID of None \<Rightarrow> 0 | Some n \<Rightarrow> n)"

definition readBackMatches ::
    "'w shopee_api \<Rightarrow> 'w world \<Rightarrow> int \<Rightarrow> int \<Rightarrow> string \<Rightarrow> PreviewLine list \<Rightarrow> 'w world \<times> bool" where
  "readBackMatches api w shop itemID locationID ls =
     (if length ls = 1 \<and> line_ModelID (hd ls) = 0 then
        (case api_GetItemBaseInfo api w shop [itemID] of
           (w, Inr [base]) \<Rightarrow> (w, SellerStockAtLocation (ib_StockInfoV2 base) locationID = Some (line_TargetStock (hd ls)))
         | (w, _) \<Rightarrow> (w, False))
      else
        (case api_GetModelList api w shop itemID of
           (w, Inl _) \<Rightarrow> (w, False)
         | (w, Inr models) \<Rightarrow>
             (w, case actualStocks locationID models of None \<Rightarrow> False
                 | Some actual \<Rightarrow> list_all (\<lambda>l. stockAt actual (line_ModelID l) = line_TargetStock l) ls)))"

section \<open>One product\<close>

record item_result =
  out_success :: "PreviewLine list"
  out_errors :: int
  out_unknown :: int

datatype write_end = Stale | Refused | Confirmed | Answered UpdateStockResponse | WriteFailed api_error

definition stockRequest :: "int \<Rightarrow> string \<Rightarrow> PreviewLine list \<Rightarrow> UpdateStockRequest" where
  "stockRequest itemID locationID ls = \<lparr>us_ItemID = itemID, us_StockList =
     map (\<lambda>l. \<lparr>ms_ModelID = line_ModelID l,
       ms_SellerStock = [\<lparr>ss_LocationID = locationID, ss_Stock = line_TargetStock l\<rparr>]\<rparr>) ls\<rparr>"

definition netMode :: "Config \<Rightarrow> bool" where
  "netMode cfg \<longleftrightarrow> equal_fold (trim_space (conf_AvailabilityMode cfg)) ''net_sale_order_v1''"

text \<open>The loop over the attempts; the number that is left counts down from 3.\<close>

fun writeAttempts ::
    "'w shopee_api \<Rightarrow> Config \<Rightarrow> int \<Rightarrow> string \<Rightarrow> string \<Rightarrow> int \<Rightarrow> int \<Rightarrow> string \<Rightarrow> PreviewLine list \<Rightarrow> nat
      \<Rightarrow> 'w world \<Rightarrow> 'w world \<times> write_end" where
  "writeAttempts api cfg shop runID owner token itemID locationID ls 0 w = (w, Refused)"
| "writeAttempts api cfg shop runID owner token itemID locationID ls (Suc n) w =
     (if netMode cfg \<and> \<not> stockLinesSourceFresh (map line_SourceSnapshotAt ls) (api_now api w) (5 * minute) then (w, Stale)
      else
        case RenewAndValidateLiveWrite (api_now api w) (fst w) runID shop owner token (2 * minute) of
          (db, False) \<Rightarrow> ((db, snd w), Refused)
        | (db, True) \<Rightarrow>
            (case api_UpdateStock api (db, snd w) shop (stockRequest itemID locationID ls) of
               (w, Inr response) \<Rightarrow> (w, Answered response)
             | (w, Inl e) \<Rightarrow>
                 if \<not> isRetryableWrite e then (w, WriteFailed e)
                 else
                   case readBackMatches api w shop itemID locationID ls of
                     (w, True) \<Rightarrow> (w, Confirmed)
                   | (w, False) \<Rightarrow>
                       if n = 0 then (w, WriteFailed e)
                       else
                         case api_wait api w (2 - n) of
                           (w, Some e') \<Rightarrow> (w, WriteFailed e')
                         | (w, None) \<Rightarrow> writeAttempts api cfg shop runID owner token itemID locationID ls n w))"

definition saveAll :: "string \<Rightarrow> int \<Rightarrow> PreviewLine list \<Rightarrow> string \<Rightarrow> string \<Rightarrow> string \<Rightarrow> 'w world \<Rightarrow> 'w world" where
  "saveAll runID shop ls result reason message w =
     (foldl (\<lambda>db l. SaveSyncAttempt db runID shop l result reason message []) (fst w) ls, snd w)"

text \<open>The answer of Shopee, line by line; the last reason given for a model counts.\<close>

fun answerLines :: "string \<Rightarrow> int \<Rightarrow> UpdateStockResponse \<Rightarrow> PreviewLine list \<Rightarrow> StockDB \<times> item_result \<Rightarrow> StockDB \<times> item_result" where
  "answerLines runID shop response [] s = s"
| "answerLines runID shop response (l # ls) (db, out) =
     answerLines runID shop response ls
       (case map_of (rev (ur_FailureList response)) (line_ModelID l) of
          Some reason \<Rightarrow>
            (SaveSyncAttempt db runID shop l ''error'' ''shopee_validation'' reason (ur_RequestID response),
             out\<lparr>out_errors := out_errors out + 1\<rparr>)
        | None \<Rightarrow>
            (SaveSyncAttempt db runID shop l ''changed'' [] [] (ur_RequestID response),
             out\<lparr>out_success := out_success out @ [l]\<rparr>))"

definition noneDone :: item_result where
  "noneDone = \<lparr>out_success = [], out_errors = 0, out_unknown = 0\<rparr>"

definition updateItemStock ::
    "'w shopee_api \<Rightarrow> Config \<Rightarrow> 'w world \<Rightarrow> int \<Rightarrow> string \<Rightarrow> string \<Rightarrow> int \<Rightarrow> int \<Rightarrow> string \<Rightarrow> PreviewLine list
      \<Rightarrow> 'w world \<times> item_result" where
  "updateItemStock api cfg w shop runID owner token itemID locationID ls =
     (let n = int (length ls) in
      if n > 50 then
        (saveAll runID shop ls ''blocked'' ''too_many_models'' ''Shopee item has more than 50 models'' w,
         noneDone\<lparr>out_errors := n\<rparr>)
      else
        case writeAttempts api cfg shop runID owner token itemID locationID ls 3 w of
          (w, Stale) \<Rightarrow>
            (saveAll runID shop ls ''blocked'' ''stale_source_snapshot''
               ''SML stock snapshot is older than the live-write safety window'' w, noneDone\<lparr>out_errors := n\<rparr>)
        | (w, Refused) \<Rightarrow>
            (saveAll runID shop ls ''blocked'' ''stale_before_write'' ''stock configuration changed before write'' w,
             noneDone\<lparr>out_errors := n\<rparr>)
        | (w, Confirmed) \<Rightarrow> (w, noneDone\<lparr>out_success := ls\<rparr>)
        | (w, WriteFailed e) \<Rightarrow>
            if isUnknownWrite e
            then (saveAll runID shop ls ''unknown_result'' ''write_timeout'' (safe_text (error_message e)) w,
                  noneDone\<lparr>out_unknown := n\<rparr>)
            else (saveAll runID shop ls ''error'' ''shopee_update_failed'' (safe_text (error_message e)) w,
                  noneDone\<lparr>out_errors := n\<rparr>)
        | (w, Answered response) \<Rightarrow>
            (case answerLines runID shop response ls (fst w, noneDone) of (db, out) \<Rightarrow> ((db, snd w), out)))"

section \<open>Setting a product to zero\<close>

datatype sync_error = Service service_error | Api api_error

definition sync_text :: "'w shopee_api \<Rightarrow> sync_error \<Rightarrow> string" where
  "sync_text api e = safe_text (case e of Service s \<Rightarrow> api_text api s | Api a \<Rightarrow> error_message a)"

definition sync_unknown :: "'w shopee_api \<Rightarrow> sync_error \<Rightarrow> bool" where
  "sync_unknown api e = (case e of Service s \<Rightarrow> unknownMessage (to_lower (api_text api s)) | Api a \<Rightarrow> isUnknownWrite a)"

definition failPolicy ::
    "'w shopee_api \<Rightarrow> PolicyJobRow \<Rightarrow> bool \<Rightarrow> sync_error \<Rightarrow> 'w world \<Rightarrow> 'w world \<times> (sync_error + unit)" where
  "failPolicy api job unknown e w =
     ((FailPolicyJob (api_now api w) (fst w) job unknown (sync_text api e), snd w), Inl e)"

definition completePolicy :: "PolicyJobRow \<Rightarrow> int \<Rightarrow> 'w world \<Rightarrow> 'w world \<times> (sync_error + unit)" where
  "completePolicy job token w =
     (case CompletePolicyZeroing (fst w) job token of Inl e \<Rightarrow> (w, Inl (Service e)) | Inr db \<Rightarrow> ((db, snd w), Inr ()))"

definition emptyLine :: PreviewLine where
  "emptyLine = \<lparr>
     line_ItemID = 0, line_ModelID = 0, line_ProductName = [], line_VariantName = [],
     line_SMLItemCode = [], line_SMLUnitCode = [], line_ScopeBalance = Float 0,
     line_ExcludedBalance = Float 0, line_ExcludedLocations = [], line_MinQty = Float 0,
     line_MaxQty = Float 0, line_UnitFactor = Float 0, line_UnitFactorExact = [], line_CurrentStock = 0,
     line_ReservedStock = 0, line_PendingNexflowQty = Float 0, line_PendingBaseQty = Float 0,
     line_SMLPhysicalQty = Float 0, line_SMLOutstandingSOQty = Float 0, line_SMLUsableQty = Float 0,
     line_CalculationUsableQty = Float 0, line_SMLPhysicalQtyExact = [],
     line_SMLOutstandingSOQtyExact = [], line_SMLUsableQtyExact = [], line_CalculationUsableQtyExact = [],
     line_AvailabilityVersion = [], line_SourceSnapshotAt = None, line_SourceFingerprint = [],
     line_AvailabilityReason = [], line_TargetStock = 0, line_SharedPoolEnabled = False,
     line_PoolAllocationPct = Float 0, line_PoolBaseTarget = 0, line_Changed = False,
     line_Blocked = False, line_WarningCodes = [], line_ItemType = 0, line_SetDefinitionHash = [],
     line_SetComponents = [], line_BottleneckItemCode = []\<rparr>"

definition zeroLine :: "PolicyJobRow \<Rightarrow> PreviewLine" where
  "zeroLine job = emptyLine\<lparr>line_ItemID := pol_ItemID job, line_ModelID := pol_ModelID job, line_TargetStock := 0\<rparr>"

text \<open>The write itself and what is made of its answer.\<close>

definition zeroStock ::
    "'w shopee_api \<Rightarrow> PolicyJobRow \<Rightarrow> int \<Rightarrow> string \<Rightarrow> 'w world \<Rightarrow> 'w world \<times> (sync_error + unit)" where
  "zeroStock api job token locationID w =
     (let line = zeroLine job; shop = pol_ShopID job; item = pol_ItemID job in
      case api_UpdateStock api w shop (stockRequest item locationID [line]) of
        (w, Inl e) \<Rightarrow>
          (case readBackMatches api w shop item locationID [line] of
             (w, True) \<Rightarrow> completePolicy job token w
           | (w, False) \<Rightarrow> failPolicy api job (isUnknownWrite e) (Api e) w)
      | (w, Inr response) \<Rightarrow>
          (case ur_FailureList response of
             (_, reason) # _ \<Rightarrow> failPolicy api job False (Service (Failed (''Shopee rejected stock zero: '' @ reason))) w
           | [] \<Rightarrow>
               (case readBackMatches api w shop item locationID [line] of
                  (w, True) \<Rightarrow> completePolicy job token w
                | (w, False) \<Rightarrow>
                    failPolicy api job True (Service (Failed ''Shopee stock zero write was not confirmed by read-back'')) w)))"

definition zeroWithLease ::
    "'w shopee_api \<Rightarrow> PolicyJobRow \<Rightarrow> int \<Rightarrow> 'w world \<Rightarrow> 'w world \<times> (sync_error + unit)" where
  "zeroWithLease api job token w =
     (case AttachPolicyFencingToken (fst w) (pol_ID job) (pol_LeaseOwner job) token of
        Inl e \<Rightarrow> (w, Inl (Service e))
      | Inr db \<Rightarrow>
          if \<not> ValidatePolicyJob (api_now api (db, snd w)) db job token
          then failPolicy api job False (Service ErrPreviewStale) (db, snd w)
          else
            case sellerLocationID api (db, snd w) (pol_ShopID job) of
              (w, Inl e) \<Rightarrow> failPolicy api job False (Api e) w
            | (w, Inr (_, True)) \<Rightarrow> failPolicy api job False (Service (Failed ''multiple seller warehouse locations'')) w
            | (w, Inr (locationID, False)) \<Rightarrow> zeroStock api job token locationID w)"

definition ExecutePolicyJob ::
    "'w shopee_api \<Rightarrow> PolicyJobRow \<Rightarrow> 'w world \<Rightarrow> 'w world \<times> (sync_error + unit)" where
  "ExecutePolicyJob api job w =
     (if pol_Action job \<noteq> ''zero_then_disable'' then (w, Inl (Service (Failed ''unsupported stock policy job'')))
      else
        case AcquireFencedLease (api_now api w) (fst w) (pol_ShopID job) (pol_LeaseOwner job) (2 * minute) of
          (db, None) \<Rightarrow> failPolicy api job False (Service ErrSyncInProgress) (db, snd w)
        | (db, Some token) \<Rightarrow>
            (case zeroWithLease api job token (db, snd w) of
               (w, r) \<Rightarrow> ((ReleaseLease (fst w) (pol_ShopID job) (pol_LeaseOwner job), snd w), r)))"

definition policyTick :: "'w shopee_api \<Rightarrow> string \<Rightarrow> 'w world \<Rightarrow> 'w world" where
  "policyTick api owner w =
     (case ClaimPolicyJob (api_now api w) (fst w) owner (2 * minute) of
        (db, None) \<Rightarrow> (db, snd w)
      | (db, Some job) \<Rightarrow>
          (case ExecutePolicyJob api job (db, snd w) of
             (w, Inr _) \<Rightarrow> w
           | (w, Inl e) \<Rightarrow> (FailPolicyJob (api_now api w) (fst w) job (sync_unknown api e) (sync_text api e), snd w)))"

end
