(* ===== verification/Stock_Calculate.thy ===== *)
theory Stock_Calculate
  imports Stock_Write Go_Calendar
begin

text \<open>
  \<open>calculate\<close> of \<open>services/shopeestock/service.go\<close>: the target stock of every product of a shop from the
  balances of the accounting system, the pending demand and the settings, the warnings that block a
  product, and the result of the run. The accounting system and the reads of the store that fill the
  products and the pending demand are parameters; the text of an error that is wrapped is that of
  the error inside.
\<close>

section \<open>Steps that may fail\<close>

definition wbind :: "'w world \<times> ('e + 'a) \<Rightarrow> ('w world \<Rightarrow> 'a \<Rightarrow> 'w world \<times> ('e + 'b)) \<Rightarrow> 'w world \<times> ('e + 'b)" where
  "wbind r f = (case r of (w, Inl e) \<Rightarrow> (w, Inl e) | (w, Inr x) \<Rightarrow> f w x)"

lemma wbind_simps [simp, result_simps]: "wbind (w, Inl e) f = (w, Inl e)" "wbind (w, Inr x) f = f w x"
  by (simp_all add: wbind_def)

lemma wbind_eq_Inr: "wbind r f = (w', Inr y) \<longleftrightarrow> (\<exists>w x. r = (w, Inr x) \<and> f w x = (w', Inr y))"
  by (auto simp: wbind_def split: prod.splits sum.splits)

text \<open>A transaction of the store.\<close>

definition store_step :: "'w world \<Rightarrow> 'e + StockDB \<Rightarrow> 'w world \<times> ('e + unit)" where
  "store_step w r = (case r of Inl e \<Rightarrow> (w, Inl e) | Inr db \<Rightarrow> ((db, snd w), Inr ()))"

section \<open>Dates\<close>

text \<open>\<open>time.Parse("2006-01-02", _)\<close> succeeds.\<close>

definition validDate :: "string \<Rightarrow> bool" where
  "validDate s \<longleftrightarrow>
     length s = 10 \<and> s ! 4 = CHR ''-'' \<and> s ! 7 = CHR ''-''
     \<and> list_all is_digit (take 4 s) \<and> list_all is_digit (take 2 (drop 5 s)) \<and> list_all is_digit (drop 8 s)
     \<and> (let year = int (nat_of_dec (take 4 s)); month = int (nat_of_dec (take 2 (drop 5 s)));
            day = int (nat_of_dec (drop 8 s)); m = 12 * year + month - 1
        in 1 \<le> month \<and> month \<le> 12 \<and> 1 \<le> day \<and> day \<le> month_start (m + 1) - month_start m)"

section \<open>The services\<close>

record StockBalanceScopeRequest =
  sr_ScopeID :: string
  sr_ItemCodes :: "string list"
  sr_ScopeMode :: string
  sr_Locations :: "LocationPair list"
  sr_IncludeItemExcludedLocations :: bool

record StockBalanceBatchRequest =
  br_AsOfDate :: string
  br_AvailabilityMode :: string
  br_Scopes :: "StockBalanceScopeRequest list"

record 'w stock_env = "'w shopee_api" +
  sv_available :: bool
  sv_config :: Config
  sv_newRunID :: "'w world \<Rightarrow> string"
  sv_ListProducts :: "'w world \<Rightarrow> int \<Rightarrow> service_error + ProductRow list"
  sv_PendingLedger :: "'w world \<Rightarrow> int \<Rightarrow> service_error + (string \<times> ReservationDemand) list"
  sv_PendingBase :: "'w world \<Rightarrow> string \<Rightarrow> string \<Rightarrow> service_error + (string \<times> ExactDemand) list"
  sv_PendingLegacy :: "'w world \<Rightarrow> int \<Rightarrow> service_error + (string \<times> ReservationDemand) list"
  sv_OtherShopItems :: "'w world \<Rightarrow> int \<Rightarrow> service_error + string list"
  sv_ManualConsumed :: "'w world \<Rightarrow> service_error + string list"
  sml_Capabilities :: "'w world \<Rightarrow> 'w world \<times> (service_error + StockCapabilities option)"
  sml_Locations :: "'w world \<Rightarrow> 'w world \<times> (service_error + Location list)"
  sml_ProductSets :: "'w world \<Rightarrow> string list \<Rightarrow> 'w world \<times> (service_error + StockSetDefinition list)"
  sml_Balances :: "'w world \<Rightarrow> StockBalanceBatchRequest \<Rightarrow> 'w world \<times> (service_error + StockBalanceBatchResponse)"
  sv_parse_time :: "string \<Rightarrow> instant option"
  sv_availability_text :: "availability_error \<Rightarrow> string"

definition conversionActive :: "Config \<Rightarrow> bool" where
  "conversionActive cfg \<longleftrightarrow> equal_fold (trim_space (conf_ConversionMode cfg)) ''active''"

definition configuredMode :: "Config \<Rightarrow> string" where
  "configuredMode cfg = to_lower (trim_space (conf_AvailabilityMode cfg))"

definition netActive :: "Config \<Rightarrow> bool" where
  "netActive cfg \<longleftrightarrow> configuredMode cfg = ''net_sale_order_v1''"

definition requestMode :: "Config \<Rightarrow> string" where
  "requestMode cfg = (if configuredMode cfg = ''shadow'' \<or> netActive cfg then ''net_sale_order_v1'' else ''physical_v1'')"

definition productKey :: "ProductRow \<Rightarrow> string" where
  "productKey p = stockProductKey (prod_ItemID p) (prod_ModelID p)"

definition lineKey :: "PreviewLine \<Rightarrow> string" where
  "lineKey l = stockProductKey (line_ItemID l) (line_ModelID l)"

definition hasBlockingStockWarnings :: "string list \<Rightarrow> bool \<Rightarrow> bool" where
  "hasBlockingStockWarnings warnings allowDefinitionRefresh \<longleftrightarrow>
     list_ex (\<lambda>w. trim_space w \<noteq> [] \<and> \<not> (allowDefinitionRefresh \<and> trim_space w = ''set_definition_changed'')) warnings"

definition selectedLocationsExist :: "LocationPair list \<Rightarrow> Location list \<Rightarrow> bool" where
  "selectedLocationsExist selected available \<longleftrightarrow>
     list_all (\<lambda>s. join [pair_Warehouse s, pair_Location s] [CHR 0x00]
       \<in> set (map (\<lambda>a. join [place_WarehouseCode a, place_LocationCode a] [CHR 0x00]) available)) selected"

section \<open>What the products consume\<close>

definition policyWarnings :: "ProductRow \<Rightarrow> ProductRow" where
  "policyWarnings p =
     (let conversion = trim_space (prod_MarketplaceConversionStatus p);
          conversion = (if conversion = [] then ''policy_missing'' else conversion);
          policy = trim_space (prod_MarketplaceStockPolicy p);
          policy = (if policy = [] then ''blocked'' else policy);
          p = (if conversion \<noteq> ''ready''
            then p\<lparr>prod_WarningCodes := appendUnique (prod_WarningCodes p) (''conversion_'' @ conversion)\<rparr> else p)
      in if policy \<noteq> ''managed''
         then p\<lparr>prod_WarningCodes := appendUnique (prod_WarningCodes p) (''stock_policy_'' @ policy)\<rparr> else p)"

definition setCodes :: "ProductRow list \<Rightarrow> string list" where
  "setCodes products = sort_by id (remdups (map prod_SMLItemCode
     (filter (\<lambda>p. \<not> prod_Excluded p \<and> prod_SMLItemType p = 3 \<and> prod_SMLItemCode p \<noteq> []) products)))"

definition consumedBy :: "(string \<times> StockSetDefinition) list \<Rightarrow> ProductRow \<Rightarrow> string list" where
  "consumedBy definitions p =
     (if prod_SMLItemType p \<noteq> 3 then [prod_SMLItemCode p]
      else case map_of definitions (prod_SMLItemCode p) of None \<Rightarrow> []
        | Some d \<Rightarrow> filter (\<lambda>c. c \<noteq> []) (map (\<lambda>c. trim_space (comp_ItemCode c)) (setd_Components d)))"

definition consumers :: "ProductRow list \<Rightarrow> ProductRow list" where
  "consumers products = filter (\<lambda>p. \<not> prod_Excluded p \<and> prod_SMLItemCode p \<noteq> []) products"

definition consumedByProduct ::
    "(string \<times> StockSetDefinition) list \<Rightarrow> ProductRow list \<Rightarrow> (string \<times> string list) list" where
  "consumedByProduct definitions products =
     foldl (\<lambda>m p. assoc_update (productKey p) (consumedBy definitions p) m) [] (consumers products)"

definition listOf :: "(string \<times> string list) list \<Rightarrow> string \<Rightarrow> string list" where
  "listOf m k = (case map_of m k of None \<Rightarrow> [] | Some vs \<Rightarrow> vs)"

definition ownerKey :: "(string \<times> ProductRow list) list \<Rightarrow> ProductRow \<Rightarrow> string" where
  "ownerKey pools p = (if map_of pools (prod_SMLItemCode p) \<noteq> None then ''pool:'' @ prod_SMLItemCode p else productKey p)"

definition componentOwners ::
    "(string \<times> ProductRow list) list \<Rightarrow> (string \<times> StockSetDefinition) list \<Rightarrow> ProductRow list \<Rightarrow> (string \<times> string list) list" where
  "componentOwners pools definitions products =
     foldl (\<lambda>m (code, owner). assoc_update code (appendUnique (listOf m code) owner) m) []
       (concat (map (\<lambda>p. map (\<lambda>code. (code, ownerKey pools p)) (consumedBy definitions p)) (consumers products)))"

definition manualWarning :: "(string \<times> string list) list \<Rightarrow> string list \<Rightarrow> ProductRow \<Rightarrow> ProductRow" where
  "manualWarning consumed manual p =
     (if prod_MarketplaceStockPolicy p = ''managed'' \<and> list_ex (\<lambda>c. c \<in> set manual) (listOf consumed (productKey p))
      then p\<lparr>prod_WarningCodes := appendUnique (prod_WarningCodes p) ''manual_unmanaged_shared_stock''\<rparr> else p)"

text \<open>\<open>factorByKey\<close>: the last product with a key counts.\<close>

definition legacyDemand :: "ProductRow list \<Rightarrow> string \<times> ReservationDemand \<Rightarrow> string \<times> ReservationDemand" where
  "legacyDemand products kd =
     (let (key, demand) = kd;
          factor = (case map_of (rev (map (\<lambda>p. (productKey p, prod_UnitFactor p)) products)) key of None \<Rightarrow> Float 0 | Some f \<Rightarrow> f)
      in (key, demand\<lparr>rd_BaseQty := f_mul (rd_SourceQty demand) factor\<rparr>))"

definition pendingDemand ::
    "'w stock_env \<Rightarrow> 'w world \<Rightarrow> Settings \<Rightarrow> ProductRow list
      \<Rightarrow> service_error + (string \<times> ReservationDemand) list \<times> (string \<times> ExactDemand) list" where
  "pendingDemand env w s products =
     (if conf_ReservationLedgerEnabled (sv_config env) then
        and_then (sv_PendingLedger env w (cfg_ShopID s)) (\<lambda>pending.
        and_then (sv_PendingBase env w (pair_Warehouse (hd (cfg_Locations s))) (pair_Location (hd (cfg_Locations s)))) (\<lambda>base.
          Inr (pending, base)))
      else and_then (sv_PendingLegacy env w (cfg_ShopID s)) (\<lambda>pending. Inr (map (legacyDemand products) pending, [])))"

fun loadSetDefinitions ::
    "'w stock_env \<Rightarrow> string list list \<Rightarrow> (string \<times> StockSetDefinition) list \<Rightarrow> 'w world
      \<Rightarrow> 'w world \<times> (service_error + (string \<times> StockSetDefinition) list)" where
  "loadSetDefinitions env [] definitions w = (w, Inr definitions)"
| "loadSetDefinitions env (chunk # chunks) definitions w =
     wbind (sml_ProductSets env w chunk) (\<lambda>w found.
       loadSetDefinitions env chunks (foldl (\<lambda>m d. assoc_update (setd_ItemCode d) d m) definitions found) w)"

section \<open>Balances\<close>

record balance_state =
  bs_Source :: "(string \<times> StockBalanceItem) list"
  bs_Snapshots :: "(string \<times> instant) list"
  bs_Min :: "instant option"
  bs_Max :: "instant option"
  bs_Excluded :: "ExcludedStockLocation list"
  bs_Items :: "ExcludedStockLocation list"
  bs_ItemsTotal :: nat
  bs_Negative :: int

definition noBalances :: balance_state where
  "noBalances = \<lparr>bs_Source = [], bs_Snapshots = [], bs_Min = None, bs_Max = None, bs_Excluded = [], bs_Items = [],
     bs_ItemsTotal = 0, bs_Negative = 0\<rparr>"

definition balanceRequest :: "Settings \<Rightarrow> string \<Rightarrow> string \<Rightarrow> string list \<Rightarrow> StockBalanceBatchRequest" where
  "balanceRequest s asOfDate mode codes =
     \<lparr>br_AsOfDate = asOfDate, br_AvailabilityMode = mode, br_Scopes =
       [\<lparr>sr_ScopeID = ''shop:'' @ dec_of_int (cfg_ShopID s), sr_ItemCodes = codes, sr_ScopeMode = cfg_ScopeMode s,
         sr_Locations = cfg_Locations s, sr_IncludeItemExcludedLocations = True\<rparr>]\<rparr>"

definition balanceItem :: "Config \<Rightarrow> StockBalanceItem \<Rightarrow> StockBalanceItem" where
  "balanceItem cfg i =
     (if requestMode cfg = ''net_sale_order_v1'' then
        let i = (case validateNetAvailabilityItem i of Inr _ \<Rightarrow> i
              | Inl _ \<Rightarrow> i\<lparr>bal_AvailabilityStatus := ''blocked'',
                  bal_AvailabilityReason := (if trim_space (bal_AvailabilityReason i) = []
                    then ''availability_evidence_invalid'' else bal_AvailabilityReason i)\<rparr>)
        in if configuredMode cfg = ''shadow''
           then i\<lparr>bal_BalanceQty := bal_PhysicalBalanceQty i, bal_BalanceQtyExact := bal_PhysicalBalanceQtyExact i\<rparr>
           else i\<lparr>bal_BalanceQty := bal_AvailableBalanceQty i, bal_BalanceQtyExact := bal_AvailableBalanceQtyExact i\<rparr>
      else
        let exact = decimalFromFloat (bal_BalanceQty i) in
        i\<lparr>bal_PhysicalBalanceQty := bal_BalanceQty i, bal_AvailableBalanceQty := bal_BalanceQty i,
          bal_PhysicalBalanceQtyExact := exact, bal_OutstandingSalesOrderQtyExact := ''0'',
          bal_AvailableBalanceQtyExact := exact, bal_BalanceQtyExact := exact, bal_AvailabilityStatus := ''ready''\<rparr>)"

definition storeBalance :: "Config \<Rightarrow> instant option \<Rightarrow> balance_state \<Rightarrow> StockBalanceItem \<Rightarrow> balance_state" where
  "storeBalance cfg snapshot st i =
     st\<lparr>bs_Source := assoc_update (bal_ItemCode i) (balanceItem cfg i) (bs_Source st),
        bs_Snapshots := (case snapshot of None \<Rightarrow> bs_Snapshots st | Some t \<Rightarrow> assoc_update (bal_ItemCode i) t (bs_Snapshots st))\<rparr>"

definition earliest :: "instant option \<Rightarrow> instant option \<Rightarrow> instant option" where
  "earliest new old = (case (new, old) of (Some t, Some u) \<Rightarrow> Some (if t < u then t else u) | (None, old) \<Rightarrow> old | (new, None) \<Rightarrow> new)"

definition latest :: "instant option \<Rightarrow> instant option \<Rightarrow> instant option" where
  "latest new old = (case (new, old) of (Some t, Some u) \<Rightarrow> Some (if u < t then t else u) | (None, old) \<Rightarrow> old | (new, None) \<Rightarrow> new)"

definition storeScope :: "Config \<Rightarrow> instant option \<Rightarrow> StockBalanceScopeResult \<Rightarrow> balance_state \<Rightarrow> balance_state" where
  "storeScope cfg snapshot scope st =
     (let st = foldl (storeBalance cfg snapshot)
            (st\<lparr>bs_Min := earliest snapshot (bs_Min st), bs_Max := latest snapshot (bs_Max st)\<rparr>) (scope_Items scope);
          items = previewItemExcludedLocations (scope_Items scope);
          (shown, count) = appendPreviewExcludedItemSummary (bs_Items st) (bs_ItemsTotal st) items
      in st\<lparr>bs_Excluded := mergePreviewExcludedLocations
              [bs_Excluded st, previewExcludedLocations [] (scope_ExcludedLocations scope)],
            bs_Items := shown, bs_ItemsTotal := count,
            bs_Negative := bs_Negative st + int (length (filter (\<lambda>l. f_lt (exc_BalanceQty l) (Float 0)) items))\<rparr>)"

definition sourceSnapshot :: "'w stock_env \<Rightarrow> StockBalanceBatchResponse \<Rightarrow> service_error + instant option" where
  "sourceSnapshot env response =
     (if requestMode (sv_config env) = ''net_sale_order_v1'' then
        (case validateNetAvailabilityResponse (sv_parse_time env) (Some response) (conf_SourceFingerprint (sv_config env)) of
           Inl e \<Rightarrow> Inl (Failed (sv_availability_text env e)) | Inr t \<Rightarrow> Inr (Some t))
      else Inr None)"

definition progress :: "string \<Rightarrow> string \<Rightarrow> nat \<Rightarrow> 'w world \<Rightarrow> 'w world \<times> (service_error + unit)" where
  "progress runID runLeaseOwner processed w =
     (if runLeaseOwner = [] then (w, Inr ())
      else store_step w (UpdatePreviewRunProgress (fst w) runID runLeaseOwner (int processed)))"

fun loadBalances ::
    "'w stock_env \<Rightarrow> Settings \<Rightarrow> string \<Rightarrow> string \<Rightarrow> string \<Rightarrow> string list list \<Rightarrow> nat \<Rightarrow> balance_state \<Rightarrow> 'w world
      \<Rightarrow> 'w world \<times> (service_error + balance_state)" where
  "loadBalances env s asOfDate runID runLeaseOwner [] loaded st w = (w, Inr st)"
| "loadBalances env s asOfDate runID runLeaseOwner (codes # chunks) loaded st w =
     wbind (sml_Balances env w (balanceRequest s asOfDate (requestMode (sv_config env)) codes)) (\<lambda>w response.
       case batch_Scopes response of
         [scope] \<Rightarrow>
           wbind (w, sourceSnapshot env response) (\<lambda>w snapshot.
           wbind (progress runID runLeaseOwner (loaded + length codes) w) (\<lambda>w _.
             loadBalances env s asOfDate runID runLeaseOwner chunks (loaded + length codes)
               (storeScope (sv_config env) snapshot scope st) w))
       | _ \<Rightarrow> (w, Inl (Failed ''SML stock response has no requested scope'')))"

definition applyPending ::
    "(string \<times> StockBalanceItem) list \<times> string list \<Rightarrow> string \<times> ExactDemand \<Rightarrow> (string \<times> StockBalanceItem) list \<times> string list" where
  "applyPending acc kd =
     (let (balances, exceeds) = acc; (code, demand) = kd; pending = ed_Value demand in
      case map_of balances code of None \<Rightarrow> (balances, exceeds)
      | Some b \<Rightarrow>
          (assoc_update code (b\<lparr>bal_BalanceQty := f_max (f_sub (bal_BalanceQty b) (f_max pending (Float 0))) (Float 0)\<rparr>) balances,
           if f_lt (bal_BalanceQty b) pending then code # exceeds else exceeds))"

section \<open>The lines\<close>

record calc_input =
  ci_Config :: Config
  ci_StockPct :: float64
  ci_SavePreview :: bool
  ci_Pending :: "(string \<times> ReservationDemand) list"
  ci_PendingBase :: "(string \<times> ExactDemand) list"
  ci_Pools :: "(string \<times> ProductRow list) list"
  ci_OtherShopItems :: "string list"
  ci_Sets :: "(string \<times> StockSetDefinition) list"
  ci_Consumed :: "(string \<times> string list) list"
  ci_Owners :: "(string \<times> string list) list"
  ci_Source :: "(string \<times> StockBalanceItem) list"
  ci_Snapshots :: "(string \<times> instant) list"
  ci_Balances :: "(string \<times> StockBalanceItem) list"
  ci_Exceeds :: "string list"

definition warn :: "string \<Rightarrow> PreviewLine \<Rightarrow> PreviewLine" where
  "warn code l = l\<lparr>line_WarningCodes := appendUnique (line_WarningCodes l) code\<rparr>"

definition warn_if :: "bool \<Rightarrow> string \<Rightarrow> PreviewLine \<Rightarrow> PreviewLine" where
  "warn_if b code l = (if b then warn code l else l)"

definition zeroBalance :: StockBalanceItem where
  "zeroBalance = \<lparr>bal_ItemCode = [], bal_ItemName = [], bal_UnitCode = [], bal_RawBalanceQty = Float 0,
     bal_BalanceQty = Float 0, bal_PhysicalBalanceQty = Float 0, bal_OutstandingSalesOrderQty = Float 0,
     bal_AvailableBalanceQty = Float 0, bal_PhysicalBalanceQtyExact = [], bal_OutstandingSalesOrderQtyExact = [],
     bal_AvailableBalanceQtyExact = [], bal_BalanceQtyExact = [], bal_AvailabilityStatus = [], bal_AvailabilityReason = [],
     bal_ExcludedBalanceQty = Float 0, bal_ExcludedLocations = [], bal_MinQty = Float 0, bal_MaxQty = Float 0,
     bal_NegativeClamped = False\<rparr>"

definition ledger :: "calc_input \<Rightarrow> bool" where
  "ledger ci \<longleftrightarrow> conf_ReservationLedgerEnabled (ci_Config ci)"

definition pendingOf :: "calc_input \<Rightarrow> string \<Rightarrow> ExactDemand" where
  "pendingOf ci code = (case map_of (ci_PendingBase ci) code of None \<Rightarrow> \<lparr>ed_Value = Float 0, ed_Exact = []\<rparr> | Some d \<Rightarrow> d)"

definition pendingExact :: "calc_input \<Rightarrow> string \<Rightarrow> string" where
  "pendingExact ci code = (if trim_space (ed_Exact (pendingOf ci code)) \<noteq> [] then ed_Exact (pendingOf ci code) else ''0'')"

definition productLine :: "calc_input \<Rightarrow> ProductRow \<Rightarrow> PreviewLine" where
  "productLine ci p =
     (let demand = (case map_of (ci_Pending ci) (productKey p) of None \<Rightarrow> \<lparr>rd_SourceQty = Float 0, rd_BaseQty = Float 0\<rparr> | Some d \<Rightarrow> d)
      in emptyLine\<lparr>line_ItemID := prod_ItemID p, line_ModelID := prod_ModelID p, line_ProductName := prod_ItemName p,
           line_VariantName := prod_ModelName p, line_SMLItemCode := prod_SMLItemCode p, line_SMLUnitCode := prod_SMLUnitCode p,
           line_UnitFactor := prod_UnitFactor p, line_UnitFactorExact := prod_UnitFactorExact p,
           line_CurrentStock := prod_ShopeeAvailable p, line_ReservedStock := prod_ShopeeReserved p,
           line_PendingNexflowQty := rd_SourceQty demand, line_PendingBaseQty := rd_BaseQty demand,
           line_WarningCodes := prod_WarningCodes p, line_ItemType := prod_SMLItemType p,
           line_SetDefinitionHash := prod_SetDefinitionHash p, line_SharedPoolEnabled := prod_SharedPoolEnabled p,
           line_PoolAllocationPct := prod_PoolAllocationPct p, line_AvailabilityVersion := requestMode (ci_Config ci),
           line_SourceFingerprint := conf_SourceFingerprint (ci_Config ci)\<rparr>)"

definition withSource :: "calc_input \<Rightarrow> PreviewLine \<Rightarrow> PreviewLine" where
  "withSource ci l =
     (case map_of (ci_Source ci) (line_SMLItemCode l) of None \<Rightarrow> l
      | Some source \<Rightarrow>
          warn_if (bal_AvailabilityStatus source \<noteq> ''ready'') ''sml_availability_blocked''
            (l\<lparr>line_SMLPhysicalQty := bal_PhysicalBalanceQty source,
               line_SMLOutstandingSOQty := bal_OutstandingSalesOrderQty source,
               line_SMLUsableQty := bal_AvailableBalanceQty source,
               line_SMLPhysicalQtyExact := bal_PhysicalBalanceQtyExact source,
               line_SMLOutstandingSOQtyExact := bal_OutstandingSalesOrderQtyExact source,
               line_SMLUsableQtyExact := bal_AvailableBalanceQtyExact source,
               line_AvailabilityReason := bal_AvailabilityReason source,
               line_SourceSnapshotAt := map_of (ci_Snapshots ci) (line_SMLItemCode l)\<rparr>))"

definition commonLine :: "calc_input \<Rightarrow> ProductRow \<Rightarrow> PreviewLine" where
  "commonLine ci p =
     (let l = withSource ci (productLine ci p);
          l = (if ledger ci \<and> prod_SMLItemType p \<noteq> 3
               then l\<lparr>line_PendingBaseQty := ed_Value (pendingOf ci (prod_SMLItemCode p))\<rparr> else l);
          l = (if map_of (ci_Pools ci) (prod_SMLItemCode p) \<noteq> None
               then l\<lparr>line_WarningCodes := removeWarning (line_WarningCodes l) ''duplicate_sml_item''\<rparr> else l);
          consumed = listOf (ci_Consumed ci) (productKey p)
      in warn_if (list_ex (\<lambda>c. c \<in> set (ci_Exceeds ci)) consumed) ''pending_orders_exceed_sml_stock''
           (warn_if (hasSharedComponentStock consumed (ci_Owners ci) (ci_OtherShopItems ci)) ''shared_component_stock'' l))"

text \<open>What remains to be taken off the balance: nothing when the ledger was already taken off it.\<close>

definition calculationPending :: "calc_input \<Rightarrow> float64 \<Rightarrow> float64" where
  "calculationPending ci pending = (if ledger ci then Float 0 else pending)"

definition floatTarget :: "calc_input \<Rightarrow> PreviewLine \<Rightarrow> PreviewLine" where
  "floatTarget ci l =
     (warn_if (\<not> ledger ci \<and> f_lt (line_ScopeBalance l) (line_PendingBaseQty l)) ''pending_orders_exceed_sml_stock'' l)
       \<lparr>line_TargetStock := CalculateTarget
          (f_max (f_sub (line_ScopeBalance l) (calculationPending ci (line_PendingBaseQty l))) (Float 0))
          (ci_StockPct ci) (line_UnitFactor l)\<rparr>"

definition setTarget :: "calc_input \<Rightarrow> ProductRow \<Rightarrow> PreviewLine \<Rightarrow> PreviewLine" where
  "setTarget ci p l =
     (if \<not> conf_SetStockEnabled (ci_Config ci) then warn ''set_stock_feature_disabled'' l
      else
        case map_of (ci_Sets ci) (prod_SMLItemCode p) of None \<Rightarrow> warn ''set_definition_missing'' l
        | Some d \<Rightarrow>
            let l = warn_if (prod_MappingSetDefinitionHash p \<noteq> setd_Hash d) ''set_definition_changed''
                      (l\<lparr>line_SetDefinitionHash := setd_Hash d\<rparr>);
                (_, availableSets, components, setWarnings) =
                  CalculateSetTarget d (map_of (ci_Balances ci)) (ci_StockPct ci) (prod_UnitFactor p);
                l = floatTarget ci (l\<lparr>line_ScopeBalance := of_int64 availableSets\<rparr>);
                l = l\<lparr>line_SetComponents := components,
                      line_ExcludedLocations := mergePreviewExcludedLocations (concat (map (\<lambda>c.
                        case map_of (ci_Balances ci) (scp_ItemCode c) of None \<Rightarrow> []
                        | Some b \<Rightarrow> [previewExcludedLocations (scp_ItemCode c) (bal_ExcludedLocations b)]) components)),
                      line_BottleneckItemCode := (case find (\<lambda>c. scp_Bottleneck c \<and> scp_ItemCode c \<noteq> []) components of
                        None \<Rightarrow> [] | Some c \<Rightarrow> scp_ItemCode c)\<rparr>
            in foldl (\<lambda>l w. warn w l) l setWarnings)"

definition setLine :: "calc_input \<Rightarrow> ProductRow \<Rightarrow> PreviewLine \<Rightarrow> PreviewLine" where
  "setLine ci p l = setTarget ci p (warn_if (netActive (ci_Config ci)) ''set_net_availability_unverified'' l)"

definition unitFactorText :: "PreviewLine \<Rightarrow> string" where
  "unitFactorText l = (if trim_space (line_UnitFactorExact l) = [] then decimalFromFloat (line_UnitFactor l)
     else trim_space (line_UnitFactorExact l))"

definition exactTarget :: "calc_input \<Rightarrow> PreviewLine \<Rightarrow> PreviewLine" where
  "exactTarget ci l =
     (if netActive (ci_Config ci) \<and> \<not> hasBlockingStockWarnings (line_WarningCodes l) (ci_SavePreview ci) then
        (case CalculateTargetExact (line_SMLUsableQtyExact l) (pendingExact ci (line_SMLItemCode l))
                (decimalFromFloat (ci_StockPct ci)) (unitFactorText l) of
             Inl _ \<Rightarrow> (warn ''sml_availability_exact_invalid'' l)
                \<lparr>line_AvailabilityReason := ''exact_target_invalid'', line_TargetStock := 0\<rparr>
           | Inr target \<Rightarrow> l\<lparr>line_TargetStock := target\<rparr>)
      else l)"

definition plainLine :: "calc_input \<Rightarrow> ProductRow \<Rightarrow> PreviewLine \<Rightarrow> PreviewLine" where
  "plainLine ci p l =
     (let code = prod_SMLItemCode p;
          balance = (case map_of (ci_Balances ci) code of None \<Rightarrow> zeroBalance | Some b \<Rightarrow> b);
          l = warn_if (map_of (ci_Balances ci) code = None \<or> code = []) ''stock_balance_missing'' l;
          pending = pendingExact ci code;
          usable = (if configuredMode (ci_Config ci) = ''shadow'' then line_SMLPhysicalQtyExact l else line_SMLUsableQtyExact l);
          l = l\<lparr>line_ScopeBalance := bal_BalanceQty balance, line_CalculationUsableQty := bal_BalanceQty balance,
                line_CalculationUsableQtyExact := exactSubtractClamp usable pending,
                line_ExcludedBalance := bal_ExcludedBalanceQty balance,
                line_ExcludedLocations := previewExcludedLocations code (bal_ExcludedLocations balance),
                line_MinQty := bal_MinQty balance, line_MaxQty := bal_MaxQty balance\<rparr>
      in exactTarget ci (floatTarget ci l))"

definition lineFor :: "calc_input \<Rightarrow> ProductRow \<Rightarrow> PreviewLine" where
  "lineFor ci p = (if prod_SMLItemType p = 3 then setLine ci p (commonLine ci p) else plainLine ci p (commonLine ci p))"

section \<open>Shared pools\<close>

text \<open>\<open>lineIndex\<close>: the last line with a key.\<close>

definition lineIndex :: "PreviewLine list \<Rightarrow> string \<Rightarrow> nat option" where
  "lineIndex ls key = find (\<lambda>i. lineKey (ls ! i) = key) (rev [0..<length ls])"

record pool_sum =
  ps_Allocations :: "SharedPoolAllocation list"
  ps_PendingBase :: float64
  ps_Balance :: float64
  ps_UsableExact :: string
  ps_PendingExact :: string

definition poolMember :: "calc_input \<Rightarrow> PreviewLine list \<Rightarrow> pool_sum \<Rightarrow> ProductRow \<Rightarrow> pool_sum" where
  "poolMember ci ls st m =
     (case lineIndex ls (productKey m) of None \<Rightarrow> st
      | Some i \<Rightarrow>
          let l = ls ! i; exact = ed_Exact (pendingOf ci (prod_SMLItemCode m)) in
          \<lparr>ps_Allocations = ps_Allocations st @ [\<lparr>alloc_ItemID = prod_ItemID m, alloc_ModelID = prod_ModelID m,
             alloc_UnitFactor = prod_UnitFactor m, alloc_UnitFactorExact = prod_UnitFactorExact m,
             alloc_AllocationPct = prod_PoolAllocationPct m\<rparr>],
           ps_PendingBase = f_max (ps_PendingBase st) (line_PendingBaseQty l), ps_Balance = line_ScopeBalance l,
           ps_UsableExact = (if ps_UsableExact st = [] then line_SMLUsableQtyExact l else ps_UsableExact st),
           ps_PendingExact = (if trim_space exact \<noteq> [] then exact else ps_PendingExact st)\<rparr>)"

definition poolTargets :: "calc_input \<Rightarrow> pool_sum \<Rightarrow> pool_targets" where
  "poolTargets ci st =
     (if netActive (ci_Config ci)
      then CalculateSharedPoolTargetsExact (ps_UsableExact st) (ps_PendingExact st) (decimalFromFloat (ci_StockPct ci)) (ps_Allocations st)
      else CalculateSharedPoolTargets (ps_Balance st) (calculationPending ci (ps_PendingBase st)) (ci_StockPct ci) (ps_Allocations st))"

definition pooledLine :: "calc_input \<Rightarrow> pool_sum \<Rightarrow> pool_targets \<Rightarrow> PreviewLine \<Rightarrow> PreviewLine" where
  "pooledLine ci st result l =
     (let (targets, poolBaseTarget, warnings) = result;
          l = warn_if (\<not> ledger ci \<and> f_lt (ps_Balance st) (ps_PendingBase st)) ''pending_orders_exceed_sml_stock''
                (l\<lparr>line_PoolBaseTarget := poolBaseTarget\<rparr>)
      in (foldl (\<lambda>l w. warn w l) l warnings)
           \<lparr>line_TargetStock := (case map_of targets (lineKey l) of None \<Rightarrow> 0 | Some n \<Rightarrow> n)\<rparr>)"

definition applyPool :: "calc_input \<Rightarrow> PreviewLine list \<Rightarrow> string \<times> ProductRow list \<Rightarrow> PreviewLine list" where
  "applyPool ci ls pool =
     (let (_, members) = pool;
          st = foldl (poolMember ci ls) \<lparr>ps_Allocations = [], ps_PendingBase = Float 0, ps_Balance = Float 0,
                 ps_UsableExact = [], ps_PendingExact = ''0''\<rparr> members;
          result = poolTargets ci st
      in foldl (\<lambda>ls m. case lineIndex ls (productKey m) of None \<Rightarrow> ls
           | Some i \<Rightarrow> ls[i := pooledLine ci st result (ls ! i)]) ls members)"

section \<open>The result\<close>

definition finishLine :: "bool \<Rightarrow> PreviewLine \<Rightarrow> PreviewLine" where
  "finishLine save l =
     (let l = warn_if (line_ReservedStock l > line_TargetStock l) ''reserved_stock_exceeds_target'' l
      in l\<lparr>line_Blocked := hasBlockingStockWarnings (line_WarningCodes l) save,
            line_Changed := line_TargetStock l \<noteq> line_CurrentStock l\<rparr>)"

definition previousTarget :: "ProductRow list \<Rightarrow> PreviewLine \<Rightarrow> int" where
  "previousTarget products l =
     (case find (\<lambda>p. productKey p = lineKey l) (rev products) of None \<Rightarrow> 0
      | Some p \<Rightarrow> (case prod_LastSuccessTarget p of None \<Rightarrow> 0 | Some n \<Rightarrow> n))"

definition previewLines :: "calc_input \<Rightarrow> ProductRow list \<Rightarrow> PreviewLine list" where
  "previewLines ci products =
     map (finishLine (ci_SavePreview ci))
       (foldl (applyPool ci) (map (lineFor ci) (filter (\<lambda>p. \<not> prod_Excluded p) products)) (ci_Pools ci))"

definition previewResult ::
    "calc_input \<Rightarrow> ProductRow list \<Rightarrow> string \<Rightarrow> int \<Rightarrow> string \<Rightarrow> balance_state \<Rightarrow> PreviewResult" where
  "previewResult ci products runID shop asOfDate st =
     (let used = filter (\<lambda>p. \<not> prod_Excluded p) products;
          lines = previewLines ci products;
          free = filter (\<lambda>l. \<not> line_Blocked l) lines
      in \<lparr>res_RunID = runID, res_ShopID = shop, res_AsOfDate = asOfDate, res_TotalCount = int (length used),
          res_ChangedCount = int (length (filter line_Changed free)),
          res_SkippedCount = int (length (filter prod_Excluded products)) + int (length (filter (\<lambda>l. \<not> line_Changed l) free)),
          res_BlockedCount = int (length (filter line_Blocked lines)),
          res_ExcludedBalance = foldl (\<lambda>t l. f_add t (exc_BalanceQty l)) (Float 0) (bs_Excluded st),
          res_ExcludedLocations = bs_Excluded st, res_ExcludedItems = bs_Items st, res_ExcludedItemsTotal = int (bs_ItemsTotal st),
          res_ExcludedNegativeItemsTotal = bs_Negative st,
          res_CircuitBreaker = ZeroDropCircuit (map (previousTarget used) free) (map line_TargetStock free),
          res_AvailabilityMode = configuredMode (ci_Config ci), res_AvailabilityVersion = requestMode (ci_Config ci),
          res_SourceFingerprint = conf_SourceFingerprint (ci_Config ci), res_SourceSnapshotMinAt = bs_Min st,
          res_SourceSnapshotMaxAt = bs_Max st, res_Lines = lines\<rparr>)"

section \<open>Calculating\<close>

definition checkAvailability :: "'w stock_env \<Rightarrow> 'w world \<Rightarrow> 'w world \<times> (service_error + unit)" where
  "checkAvailability env w =
     (let cfg = sv_config env in
      if netActive cfg \<and> \<not> conf_ReservationLedgerEnabled cfg
      then (w, Inl (Failed ''SML net stock availability requires the normalized reservation ledger''))
      else if configuredMode cfg = ''shadow'' \<or> netActive cfg then
        wbind (sml_Capabilities env w) (\<lambda>w capabilities.
          case validateAvailabilityCapabilities capabilities (conf_SourceFingerprint cfg) of
            Inl e \<Rightarrow> (w, Inl (Failed (sv_availability_text env e))) | Inr _ \<Rightarrow> (w, Inr ()))
      else (w, Inr ()))"

definition checkLocations :: "'w stock_env \<Rightarrow> Settings \<Rightarrow> 'w world \<Rightarrow> 'w world \<times> (service_error + unit)" where
  "checkLocations env s w =
     wbind (sml_Locations env w) (\<lambda>w locations.
       if selectedLocationsExist (cfg_Locations s) locations then (w, Inr ())
       else ((SetPaused (api_now env w) (fst w) (cfg_ShopID s) ''sml_location_missing''
                (api_text env ErrSelectedLocation), snd w), Inl ErrSelectedLocation))"

definition liveSetDefinitions ::
    "'w stock_env \<Rightarrow> ProductRow list \<Rightarrow> 'w world \<Rightarrow> 'w world \<times> (service_error + (string \<times> StockSetDefinition) list)" where
  "liveSetDefinitions env products w =
     (if setCodes products \<noteq> [] \<and> conf_SetStockEnabled (sv_config env)
      then loadSetDefinitions env (chunksOf 500 (setCodes products)) [] w else (w, Inr []))"

definition manualConflicts ::
    "'w stock_env \<Rightarrow> 'w world \<Rightarrow> (string \<times> string list) list \<Rightarrow> ProductRow list \<Rightarrow> service_error + ProductRow list" where
  "manualConflicts env w consumed products =
     (if conversionActive (sv_config env)
      then and_then (sv_ManualConsumed env w) (\<lambda>manual. Inr (map (manualWarning consumed manual) products))
      else Inr products)"

definition reservedBalances ::
    "Config \<Rightarrow> balance_state \<Rightarrow> (string \<times> ExactDemand) list \<Rightarrow> (string \<times> StockBalanceItem) list \<times> string list" where
  "reservedBalances cfg st pendingBase =
     (if conf_ReservationLedgerEnabled cfg then foldl applyPending (bs_Source st, []) pendingBase else (bs_Source st, []))"

text \<open>Everything that is read before the lines are made.\<close>

definition calculationInput ::
    "'w stock_env \<Rightarrow> Settings \<Rightarrow> string \<Rightarrow> bool \<Rightarrow> string \<Rightarrow> string \<Rightarrow> 'w world
      \<Rightarrow> 'w world \<times> (service_error + calc_input \<times> ProductRow list \<times> balance_state)" where
  "calculationInput env s asOfDate save runID runLeaseOwner w =
     (let cfg = sv_config env; shop = cfg_ShopID s in
      wbind (w, sv_ListProducts env w shop) (\<lambda>w rows.
      if rows = [] then (w, Inl (Failed ''no Shopee products'')) else
      let products = (if conversionActive cfg then map policyWarnings rows else rows);
          pools = validSharedPoolProducts products in
      wbind (progress runID runLeaseOwner 0 w) (\<lambda>w _.
      wbind (w, pendingDemand env w s products) (\<lambda>w (pending, pendingBase).
      wbind (w, sv_OtherShopItems env w shop) (\<lambda>w otherShopItems.
      wbind (liveSetDefinitions env products w) (\<lambda>w definitions.
      let consumed = consumedByProduct definitions products in
      wbind (w, manualConflicts env w consumed products) (\<lambda>w checked.
      let itemCodes = sort_by id (remdups (concat (map snd consumed))) in
      wbind (loadBalances env s asOfDate runID runLeaseOwner (chunksOf 500 itemCodes) 0 noBalances w) (\<lambda>w st.
      let reserved = reservedBalances cfg st pendingBase in
      (w, Inr (\<lparr>ci_Config = cfg, ci_StockPct = cfg_StockPct s, ci_SavePreview = save, ci_Pending = pending,
          ci_PendingBase = pendingBase, ci_Pools = pools, ci_OtherShopItems = otherShopItems, ci_Sets = definitions,
          ci_Consumed = consumed, ci_Owners = componentOwners pools definitions products, ci_Source = bs_Source st,
          ci_Snapshots = bs_Snapshots st, ci_Balances = fst reserved, ci_Exceeds = snd reserved\<rparr>, checked, st))))))))))"

definition saveResult ::
    "'w stock_env \<Rightarrow> int \<Rightarrow> string \<Rightarrow> PreviewResult \<Rightarrow> 'w world \<Rightarrow> 'w world \<times> (service_error + unit)" where
  "saveResult env shop runLeaseOwner result w =
     (let now = api_now env w; runID = res_RunID result in
      if runLeaseOwner = [] then store_step w (savePreview now (fst w) shop result [])
      else
        wbind (w, validatePreviewSnapshot now (fst w) runID runLeaseOwner) (\<lambda>w valid.
        if \<not> valid then (w, Inl ErrPreviewStale)
        else
          wbind (store_step w (UpdatePreviewRunProgress (fst w) runID runLeaseOwner (int (length (res_Lines result))))) (\<lambda>w _.
            store_step w (SavePreviewLeased now (fst w) shop result runLeaseOwner))))"

definition finishCalculation ::
    "'w stock_env \<Rightarrow> string \<Rightarrow> string \<Rightarrow> PreviewResult option \<Rightarrow> int \<Rightarrow> string \<Rightarrow> string \<Rightarrow> 'w world
      \<Rightarrow> 'w world \<times> (service_error + unit)" where
  "finishCalculation env runLeaseOwner status result errorCount errorMessage runID w =
     (let now = api_now env w in
      if runLeaseOwner \<noteq> []
      then store_step w (FinishLeasedPreviewRun now (fst w) runID runLeaseOwner status result errorCount errorMessage)
      else store_step w (Inr (FinishRun now (fst w) runID status result errorCount errorMessage)))"

definition calculateRun ::
    "'w stock_env \<Rightarrow> Settings \<Rightarrow> string \<Rightarrow> bool \<Rightarrow> string \<Rightarrow> string \<Rightarrow> 'w world
      \<Rightarrow> 'w world \<times> (service_error + PreviewResult)" where
  "calculateRun env s asOfDate save runID runLeaseOwner w =
     wbind (checkAvailability env w) (\<lambda>w _.
     wbind (checkLocations env s w) (\<lambda>w _.
     wbind (calculationInput env s asOfDate save runID runLeaseOwner w) (\<lambda>w (ci, products, st).
       let result = previewResult ci products runID (cfg_ShopID s) asOfDate st in
       if save then wbind (saveResult env (cfg_ShopID s) runLeaseOwner result w) (\<lambda>w _. (w, Inr result))
       else (w, Inr result))))"

definition calculate ::
    "'w stock_env \<Rightarrow> 'w world \<Rightarrow> int \<Rightarrow> string \<Rightarrow> string \<Rightarrow> string \<Rightarrow> bool \<Rightarrow> string \<Rightarrow> string
      \<Rightarrow> 'w world \<times> (service_error + PreviewResult)" where
  "calculate env w shop asOfDate runType trigger save existingRunID runLeaseOwner =
     (if \<not> sv_available env then (w, Inl ErrUnavailable)
      else if \<not> validDate asOfDate then (w, Inl (Invalid ''date must be YYYY-MM-DD''))
      else
        wbind (w, GetSettings (fst w) shop) (\<lambda>w s.
        if cfg_CredentialMode s \<noteq> ''gateway'' then (w, Inl ErrGatewayOnly)
        else if cfg_ScopeMode s \<noteq> ''selected'' \<or> length (cfg_Locations s) \<noteq> 1 then (w, Inl ErrScopeRequired)
        else
          let runID = (if existingRunID = [] then sv_newRunID env w else existingRunID) in
          wbind (if existingRunID = []
                 then store_step w (CreateRun runID (api_now env w) (fst w) shop runType trigger asOfDate)
                 else (w, Inr ())) (\<lambda>w _.
          case calculateRun env s asOfDate save runID runLeaseOwner w of
            (w, Inl cause) \<Rightarrow>
              (fst (finishCalculation env runLeaseOwner ''failed'' None 1 (safe_text (api_text env cause)) runID w), Inl cause)
          | (w, Inr result) \<Rightarrow>
              if \<not> save then (w, Inr result)
              else
                wbind (finishCalculation env runLeaseOwner
                    (if res_BlockedCount result > 0 \<or> res_CircuitBreaker result \<noteq> [] then ''warning'' else ''success'')
                    (Some result) 0 (res_CircuitBreaker result) runID w) (\<lambda>w _. (w, Inr result)))))"

end
