(* ===== verification/Stock_WriteSafety.thy ===== *)
theory Stock_WriteSafety
  imports Stock_Write
begin

text \<open>
  What the writes to Shopee promise: no write without the gate having just been passed, every line
  accounted for once, one row of history for each line, and a product taken out only after its zero
  was read back; and where they break a promise, a model that Shopee does not list and a write whose
  outcome nobody knows.
\<close>

section \<open>No write without the gate\<close>

text \<open>
  The world right after the gate was passed, with the freshness of the source checked before it.
\<close>

definition gatePassed ::
    "'w shopee_api \<Rightarrow> Config \<Rightarrow> int \<Rightarrow> string \<Rightarrow> string \<Rightarrow> int \<Rightarrow> PreviewLine list \<Rightarrow> 'w world \<Rightarrow> bool" where
  "gatePassed api cfg shop runID owner token ls w \<longleftrightarrow>
     (\<exists>db. RenewAndValidateLiveWrite (api_now api (db, snd w)) db runID shop owner token (2 * minute) = (fst w, True)
       \<and> \<not> (netMode cfg \<and> \<not> stockLinesSourceFresh (map line_SourceSnapshotAt ls) (api_now api (db, snd w)) (5 * minute)))"

definition gatedApi ::
    "'w shopee_api \<Rightarrow> ('w world \<Rightarrow> int \<Rightarrow> UpdateStockRequest \<Rightarrow> 'w world \<times> (api_error + UpdateStockResponse))
      \<Rightarrow> ('w world \<Rightarrow> bool) \<Rightarrow> 'w shopee_api" where
  "gatedApi api other allowed =
     api\<lparr>api_UpdateStock := (\<lambda>w s r. if allowed w then api_UpdateStock api w s r else other w s r)\<rparr>"

lemma gatedApi_fields [simp]:
  "api_now (gatedApi api other P) = api_now api" "api_wait (gatedApi api other P) = api_wait api"
  "P w \<Longrightarrow> api_UpdateStock (gatedApi api other P) w s r = api_UpdateStock api w s r"
  "readBackMatches (gatedApi api other P) = readBackMatches api"
  by (simp_all add: gatedApi_def readBackMatches_def fun_eq_iff)

lemma writeAttempts_gated:
  "writeAttempts (gatedApi api other (gatePassed api cfg shop runID owner token ls)) cfg shop runID owner token itemID loc ls n w
     = writeAttempts api cfg shop runID owner token itemID loc ls n w"
proof (induction n arbitrary: w)
  case (Suc n)
  define s where "s = (netMode cfg \<and> \<not> stockLinesSourceFresh (map line_SourceSnapshotAt ls) (api_now api w) (5 * minute))"
  obtain db b where r: "RenewAndValidateLiveWrite (api_now api w) (fst w) runID shop owner token (2 * minute) = (db, b)"
    by fastforce
  have "gatePassed api cfg shop runID owner token ls (db, snd w)" if "\<not> s" b
    unfolding gatePassed_def using that r s_def by (intro exI [of _ "fst w"]) simp
  then show ?case
    by (cases s; cases b) (simp_all add: Suc.IH r s_def [symmetric] split: prod.splits sum.splits option.splits bool.splits)
qed simp

text \<open>
  C17. The stock of a product is written to Shopee only right after the database gate was passed:
  replacing what \<open>UpdateStock\<close> does in every world but those in which
  \<open>RenewAndValidateLiveWrite\<close> has just renewed the lease and found the run current, with a source
  snapshot that is fresh enough in net mode, by anything at all makes no difference to
  \<open>updateItemStock\<close>, retries included.
\<close>

theorem updateItemStock_gated:
  "updateItemStock (gatedApi api other (gatePassed api cfg shop runID owner token ls)) cfg w shop runID owner token itemID loc ls
     = updateItemStock api cfg w shop runID owner token itemID loc ls"
  unfolding updateItemStock_def writeAttempts_gated by simp

section \<open>Accounts and history\<close>















section \<open>Taking a product out\<close>

lemma CompletePolicyZeroing_fails: "\<exists>e. CompletePolicyZeroing db job token = Inl e"
proof -
  have "assignColumns productColumns [''shopee_available'', ''updated_at''] = Inl undefinedColumn" by code_simp
  then show ?thesis by (auto simp: CompletePolicyZeroing_def Let_def split: option.splits)
qed

lemma completePolicy_fails: "\<exists>e. completePolicy job token w = (w, Inl (Service e))"
  using CompletePolicyZeroing_fails [of "fst w" job token] by (auto simp: completePolicy_def)

lemma zeroStock_fails: "\<exists>e. snd (zeroStock api job token loc w) = Inl e"
proof -
  have c: "\<exists>e. snd (completePolicy job token w) = Inl e" for w using completePolicy_fails [of job token w] by auto
  show ?thesis
    unfolding zeroStock_def Let_def by (auto simp: failPolicy_def c split: prod.splits sum.splits list.splits bool.splits)
qed

lemma ExecutePolicyJob_fails: "\<exists>e. snd (ExecutePolicyJob api job w) = Inl e"
proof -
  have "\<exists>e. snd (zeroWithLease api job token w) = Inl e" for token w
    unfolding zeroWithLease_def
    by (auto simp: failPolicy_def zeroStock_fails split: sum.splits prod.splits bool.splits)
  then show ?thesis
    unfolding ExecutePolicyJob_def by (auto simp: failPolicy_def split: prod.splits option.splits) (metis snd_conv)
qed

text \<open>
  C39. A product can never be taken out. Shopee accepts the write of 0, the read-back confirms it and the
  alias still is to be zeroed, and yet the completion fails and leaves the database as it was,
  because it assigns a column that the table of products does not have; so no job that sets a product
  to zero ever succeeds, whatever Shopee answers.
\<close>

theorem zeroing_never_completes:
  assumes "api_UpdateStock api w (pol_ShopID job) (stockRequest (pol_ItemID job) loc [zeroLine job]) = (w1, Inr response)"
    and "ur_FailureList response = []"
    and "readBackMatches api w1 (pol_ShopID job) (pol_ItemID job) loc [zeroLine job] = (w2, True)"
    and "pol_AliasID job = Some i" "lookup_by sal_ID (sdb_aliases (fst w2)) i = Some a"
    and "sal_StockPolicy a = ''zeroing''" "sal_MappingRevision a = pol_TargetRevision job"
  shows "zeroStock api job token loc w = (w2, Inl (Service undefinedColumn))
    \<and> (\<exists>e. snd (ExecutePolicyJob api' job' w') = Inl e)"
proof -
  have "assignColumns productColumns [''shopee_available'', ''updated_at''] = Inl undefinedColumn" by code_simp
  then have "CompletePolicyZeroing (fst w2) job token = Inl undefinedColumn"
    using assms(4-7) by (simp add: CompletePolicyZeroing_def Let_def)
  then have "zeroStock api job token loc w = (w2, Inl (Service undefinedColumn))"
    using assms(1-3) by (simp add: zeroStock_def Let_def completePolicy_def)
  then show ?thesis by (simp add: ExecutePolicyJob_fails)
qed

section \<open>Models that Shopee does not list\<close>

text \<open>
  A model that Shopee does not list passes for a model with no stock: when the update of an item to
  0 fails with an error that may be repeated, and the list of its models, be it empty, contains none
  of the lines' models, the read-back counts every line as written successfully.
\<close>

theorem absent_model_confirms_zero:
  assumes "\<not> netMode cfg" "length ls \<le> 50" "ls \<noteq> []"
    and "RenewAndValidateLiveWrite (api_now api w) (fst w) runID shop owner token (2 * minute) = (db, True)"
    and "api_UpdateStock api (db, snd w) shop (stockRequest itemID loc ls) = (w1, Inl e)" "isRetryableWrite e"
    and "api_GetModelList api w1 shop itemID = (w2, Inr models)"
    and "list_all (\<lambda>l. line_ModelID l \<noteq> 0 \<and> line_TargetStock l = 0 \<and> line_ModelID l \<notin> pm_ModelID ` set models) ls"
    and "list_all (\<lambda>m. SellerStockAtLocation (pm_StockInfoV2 m) loc \<noteq> None) models"
  shows "updateItemStock api cfg w shop runID owner token itemID loc ls = (w2, noneDone\<lparr>out_success := ls\<rparr>)"
proof -
  let ?f = "\<lambda>m. (pm_ModelID m, the (SellerStockAtLocation (pm_StockInfoV2 m) loc))"
  have "stockAt (map ?f (rev models)) (line_ModelID l) = line_TargetStock l" if "l \<in> set ls" for l
  proof -
    have "line_ModelID l \<notin> fst ` set (map ?f (rev models))" using assms(8) that by (force simp: list_all_iff)
    then have "map_of (map ?f (rev models)) (line_ModelID l) = None" by (simp only: map_of_eq_None_iff not_False_eq_True)
    then show ?thesis using assms(8) that by (auto simp: stockAt_def list_all_iff)
  qed
  moreover have "actualStocks loc models = Some (map ?f (rev models))" using assms(9) by (simp add: actualStocks_def)
  moreover have "line_ModelID (hd ls) \<noteq> 0" using assms(3,8) by (cases ls) auto
  ultimately have "readBackMatches api w1 shop itemID loc ls = (w2, True)"
    using assms(7) by (simp add: readBackMatches_def list_all_iff)
  then have "writeAttempts api cfg shop runID owner token itemID loc ls (Suc (Suc (Suc 0))) w = (w2, Confirmed)"
    using assms(1,4,5,6) by simp
  then have "writeAttempts api cfg shop runID owner token itemID loc ls 3 w = (w2, Confirmed)" by (simp add: numeral_3_eq_3)
  then show ?thesis using assms(2) by (simp add: updateItemStock_def Let_def)
qed

section \<open>A write of unknown outcome\<close>

text \<open>
  A write whose outcome is unknown is not always counted as one: when the first attempt times out
  and is not confirmed, and the gate refuses the second, all lines are counted as errors and recorded
  as blocked before the write, although Shopee may have applied them.
\<close>

theorem timeout_recorded_as_blocked:
  assumes "\<not> netMode cfg" "length ls \<le> 50"
    and "RenewAndValidateLiveWrite (api_now api w) (fst w) runID shop owner token (2 * minute) = (db, True)"
    and "api_UpdateStock api (db, snd w) shop (stockRequest itemID loc ls) = (w1, Inl e)"
    and "isUnknownWrite e" "isRetryableWrite e" "readBackMatches api w1 shop itemID loc ls = (w2, False)"
    and "api_wait api w2 0 = (w3, None)"
    and "RenewAndValidateLiveWrite (api_now api w3) (fst w3) runID shop owner token (2 * minute) = (db', False)"
  shows "updateItemStock api cfg w shop runID owner token itemID loc ls =
    (saveAll runID shop ls ''blocked'' ''stale_before_write'' ''stock configuration changed before write'' (db', snd w3),
     noneDone\<lparr>out_errors := int (length ls)\<rparr>)"
proof -
  have "writeAttempts api cfg shop runID owner token itemID loc ls (Suc (Suc (Suc 0))) w = ((db', snd w3), Refused)"
    using assms by simp
  then have "writeAttempts api cfg shop runID owner token itemID loc ls 3 w = ((db', snd w3), Refused)"
    by (simp add: numeral_3_eq_3)
  then show ?thesis using assms(2) by (simp add: updateItemStock_def Let_def)
qed

section \<open>Examples\<close>

text \<open>A Shopee that counts its calls, with the answers to an update and to a list of models given.\<close>

definition sample_api ::
    "(nat world \<Rightarrow> nat world \<times> (api_error + UpdateStockResponse)) \<Rightarrow> ProductModel list \<Rightarrow> nat shopee_api" where
  "sample_api update models = \<lparr>api_now = (\<lambda>w. 20), api_UpdateStock = (\<lambda>w s r. update (fst w, Suc (snd w))),
     api_GetItemBaseInfo = (\<lambda>w s i. (w, Inr [])), api_GetModelList = (\<lambda>w s i. (w, Inr models)),
     api_GetWarehouseDetail = (\<lambda>w s. (w, Inr \<lparr>wh_WarehouseList = [], wh_LocationList = []\<rparr>)),
     api_wait = (\<lambda>w n. (w, None)), api_text = (\<lambda>e. ''e'')\<rparr>"

definition sample_config :: Config where
  "sample_config = \<lparr>conf_Enabled = True, conf_GatewayMode = True, conf_SetStockEnabled = False,
     conf_ReservationLedgerEnabled = False, conf_GroupedUIEnabled = False, conf_ConversionMode = [],
     conf_AvailabilityMode = ''physical_v1'', conf_SourceFingerprint = [], conf_Environment = ''live'',
     conf_InstanceID = ''n''\<rparr>"






definition sample_job :: PolicyJobRow where
  "sample_job = \<lparr>pol_ID = ''j'', pol_ShopID = 7, pol_AliasID = Some ''i'', pol_TargetRevision = 3, pol_ItemID = 5,
     pol_ModelID = 2, pol_Action = ''zero_then_disable'', pol_Status = ''running'', pol_AttemptCount = 1,
     pol_NextAttemptAt = 0, pol_LeaseOwner = ''p'', pol_LeaseUntil = Some 1000, pol_FencingToken = None,
     pol_ErrorMessage = [], pol_CreatedAt = 0\<rparr>"

definition sample_policy_db :: StockDB where
  "sample_policy_db = sample_stock_db\<lparr>sdb_policies := [sample_job],
     sdb_aliases := [\<lparr>sal_ID = ''i'', sal_MappingRevision = 3, sal_StockPolicy = ''zeroing'', sal_Source = ''shopee'',
       sal_AccountKey = ''shop:7'', sal_ExternalItemID = ''5'', sal_ExternalVariantID = ''2'', sal_Active = True,
       sal_ConversionStatus = ''ready'', sal_SalesEnabled = True, sal_ScopeConfirmed = True\<rparr>]\<rparr>"

definition sample_zeroed :: ProductModel where
  "sample_zeroed = \<lparr>pm_ModelID = 2, pm_ModelName = [], pm_ModelSKU = [], pm_ModelStatus = [],
     pm_StockInfoV2 = \<lparr>si_TotalReservedStock = 0, si_TotalAvailableStock = 0,
       si_SellerStock = [\<lparr>ss_LocationID = ''l'', ss_Stock = 0\<rparr>]\<rparr>\<rparr>"

definition sample_accepts :: "nat world \<Rightarrow> nat world \<times> (api_error + UpdateStockResponse)" where
  "sample_accepts w = (w, Inr \<lparr>ur_RequestID = ''q'', ur_FailureList = []\<rparr>)"

theorem zeroing_never_completes_witness:
  "zeroStock (sample_api sample_accepts [sample_zeroed]) sample_job 1 ''l'' (sample_policy_db, 0)
     = ((sample_policy_db, 1), Inl (Service undefinedColumn))
   \<and> (\<exists>e. snd (ExecutePolicyJob (sample_api sample_accepts [sample_zeroed]) sample_job (sample_policy_db, 0)) = Inl e)"
  by (rule zeroing_never_completes [where ?w1.0 = "(sample_policy_db, 1)" and i = "''i''"
        and response = "\<lparr>ur_RequestID = ''q'', ur_FailureList = []\<rparr>" and a = "hd (sdb_aliases sample_policy_db)"])
    (simp_all add: sample_api_def sample_accepts_def sample_job_def readBackMatches_def zeroLine_def sample_policy_db_def
      actualStocks_def sample_zeroed_def stockAt_def SellerStockAtLocation_def lookup_by_def)

definition sample_timeout :: "nat world \<Rightarrow> nat world \<times> (api_error + UpdateStockResponse)" where
  "sample_timeout w = ((SetPaused 21 (fst w) 7 ''stop'' [], snd w), Inl (GatewayError ''shopee_timeout'' [] True))"

theorem absent_model_confirms_zero_witness:
  "out_success (snd (updateItemStock (sample_api sample_timeout []) sample_config (sample_running, 0) 7 ''r'' ''a'' 1 5 ''l''
     [zeroLine sample_job])) = [zeroLine sample_job]"
proof -
  define db where "db = fst (RenewAndValidateLiveWrite 20 sample_running ''r'' 7 ''a'' 1 (2 * minute))"
  define w1 :: "nat world" where "w1 = (SetPaused 21 db 7 ''stop'' [], 1)"
  have 1: "\<not> netMode sample_config" by code_simp
  have 2: "RenewAndValidateLiveWrite (api_now (sample_api sample_timeout []) (sample_running, 0)) (fst (sample_running, 0))
      ''r'' 7 ''a'' 1 (2 * minute) = (db, True)"
    unfolding db_def by (simp add: sample_api_def prod_eq_iff, code_simp)
  have 3: "api_UpdateStock (sample_api sample_timeout []) (db, snd (sample_running, 0)) 7
      (stockRequest 5 ''l'' [zeroLine sample_job]) = (w1, Inl (GatewayError ''shopee_timeout'' [] True))"
    by (simp add: sample_api_def sample_timeout_def w1_def)
  have 4: "api_GetModelList (sample_api sample_timeout []) w1 7 5 = (w1, Inr [])" by (simp add: sample_api_def)
  have "updateItemStock (sample_api sample_timeout []) sample_config (sample_running, 0) 7 ''r'' ''a'' 1 5 ''l'' [zeroLine sample_job]
      = (w1, noneDone\<lparr>out_success := [zeroLine sample_job]\<rparr>)"
    by (rule absent_model_confirms_zero [OF 1 _ _ 2 3 _ 4]) (simp_all add: isRetryableWrite_def zeroLine_def sample_job_def)
  then show ?thesis by simp
qed

theorem timeout_recorded_as_blocked_witness:
  "snd (updateItemStock (sample_api sample_timeout []) sample_config (sample_running, 0) 7 ''r'' ''a'' 1 5 ''l''
      [zeroLine sample_job\<lparr>line_TargetStock := 4\<rparr>]) = noneDone\<lparr>out_errors := 1\<rparr>"
proof -
  define ls where "ls = [zeroLine sample_job\<lparr>line_TargetStock := 4\<rparr>]"
  define db where "db = fst (RenewAndValidateLiveWrite 20 sample_running ''r'' 7 ''a'' 1 (2 * minute))"
  define w1 :: "nat world" where "w1 = (SetPaused 21 db 7 ''stop'' [], 1)"
  define db' where "db' = fst (RenewAndValidateLiveWrite 20 (fst w1) ''r'' 7 ''a'' 1 (2 * minute))"
  have 1: "\<not> netMode sample_config" by code_simp
  have 2: "RenewAndValidateLiveWrite (api_now (sample_api sample_timeout []) (sample_running, 0)) (fst (sample_running, 0))
      ''r'' 7 ''a'' 1 (2 * minute) = (db, True)"
    unfolding db_def by (simp add: sample_api_def prod_eq_iff, code_simp)
  have 3: "api_UpdateStock (sample_api sample_timeout []) (db, snd (sample_running, 0)) 7 (stockRequest 5 ''l'' ls)
      = (w1, Inl (GatewayError ''shopee_timeout'' [] True))"
    by (simp add: sample_api_def sample_timeout_def w1_def)
  have 4: "readBackMatches (sample_api sample_timeout []) w1 7 5 ''l'' ls = (w1, False)"
    by (simp add: sample_api_def readBackMatches_def ls_def zeroLine_def sample_job_def actualStocks_def stockAt_def)
  have 5: "RenewAndValidateLiveWrite (api_now (sample_api sample_timeout []) w1) (fst w1) ''r'' 7 ''a'' 1 (2 * minute)
      = (db', False)"
    unfolding db'_def w1_def db_def by (simp add: sample_api_def prod_eq_iff, code_simp)
  have "updateItemStock (sample_api sample_timeout []) sample_config (sample_running, 0) 7 ''r'' ''a'' 1 5 ''l'' ls =
      (saveAll ''r'' 7 ls ''blocked'' ''stale_before_write'' ''stock configuration changed before write'' (db', snd w1),
       noneDone\<lparr>out_errors := int (length ls)\<rparr>)"
    by (rule timeout_recorded_as_blocked [OF 1 _ 2 3 _ _ 4 _ 5])
      (simp_all add: ls_def isUnknownWrite_def isRetryableWrite_def sample_api_def)
  then show ?thesis by (simp add: ls_def)
qed

end
