(* ===== verification/Stock_CalculateSafety.thy ===== *)
theory Stock_CalculateSafety
  imports Stock_Calculate Stock_Schedule Stock_WriteSafety
begin

text \<open>
  What a calculation promises: every product is counted once, and a line that is not blocked in net
  mode offers no more than what the evidence of the accounting system, less the pending demand,
  covers.
\<close>

section \<open>Warnings only grow\<close>

named_theorems line_simps \<open>fields that the steps of a line keep\<close>

lemma set_appendUnique [simp]: "set (appendUnique ws w) = insert w (set ws)"
  by (auto simp: appendUnique_def)

lemma warn_fields [line_simps]:
  "set (line_WarningCodes (warn w l)) = insert w (set (line_WarningCodes l))"
  "lineKey (warn w l) = lineKey l" "line_SMLItemCode (warn w l) = line_SMLItemCode l" "line_ItemType (warn w l) = line_ItemType l"
  "line_SMLUsableQtyExact (warn w l) = line_SMLUsableQtyExact l" "line_TargetStock (warn w l) = line_TargetStock l"
  "line_UnitFactorExact (warn w l) = line_UnitFactorExact l" "line_UnitFactor (warn w l) = line_UnitFactor l"
  by (simp_all add: warn_def lineKey_def)

lemma warn_if_fields [line_simps]:
  "set (line_WarningCodes (warn_if b w l)) = (if b then insert w (set (line_WarningCodes l)) else set (line_WarningCodes l))"
  "lineKey (warn_if b w l) = lineKey l" "line_SMLItemCode (warn_if b w l) = line_SMLItemCode l"
  "line_ItemType (warn_if b w l) = line_ItemType l" "line_SMLUsableQtyExact (warn_if b w l) = line_SMLUsableQtyExact l"
  "line_TargetStock (warn_if b w l) = line_TargetStock l" "line_UnitFactorExact (warn_if b w l) = line_UnitFactorExact l"
  "line_UnitFactor (warn_if b w l) = line_UnitFactor l"
  by (simp_all add: warn_if_def line_simps)

lemma fold_warn_fields [line_simps]:
  "set (line_WarningCodes (foldl (\<lambda>l w. warn w l) l ws)) = set (line_WarningCodes l) \<union> set ws"
  "lineKey (foldl (\<lambda>l w. warn w l) l ws) = lineKey l"
  "line_SMLItemCode (foldl (\<lambda>l w. warn w l) l ws) = line_SMLItemCode l"
  "line_ItemType (foldl (\<lambda>l w. warn w l) l ws) = line_ItemType l"
  "line_SMLUsableQtyExact (foldl (\<lambda>l w. warn w l) l ws) = line_SMLUsableQtyExact l"
  "line_UnitFactorExact (foldl (\<lambda>l w. warn w l) l ws) = line_UnitFactorExact l"
  "line_UnitFactor (foldl (\<lambda>l w. warn w l) l ws) = line_UnitFactor l"
  by (induction ws arbitrary: l) (auto simp: line_simps)

lemma update_fields [line_simps]:
  "lineKey (l\<lparr>line_TargetStock := t\<rparr>) = lineKey l" "lineKey (l\<lparr>line_PoolBaseTarget := t\<rparr>) = lineKey l"
  "lineKey (l\<lparr>line_WarningCodes := ws\<rparr>) = lineKey l"
  "lineKey (l\<lparr>line_AvailabilityReason := r\<rparr>) = lineKey l"
  by (simp_all add: lineKey_def)



text \<open>What the later steps of a line keep of it.\<close>

definition extends :: "PreviewLine \<Rightarrow> PreviewLine \<Rightarrow> bool" where
  "extends l l' \<longleftrightarrow> set (line_WarningCodes l) \<subseteq> set (line_WarningCodes l') \<and> lineKey l' = lineKey l
     \<and> line_SMLItemCode l' = line_SMLItemCode l \<and> line_ItemType l' = line_ItemType l
     \<and> line_SMLUsableQtyExact l' = line_SMLUsableQtyExact l \<and> line_UnitFactorExact l' = line_UnitFactorExact l
     \<and> line_UnitFactor l' = line_UnitFactor l"

lemma extends_refl [simp]: "extends l l" by (simp add: extends_def)
lemma extends_trans: "extends a b \<Longrightarrow> extends b c \<Longrightarrow> extends a c" by (auto simp: extends_def)







section \<open>Pools\<close>

lemma pooledLine_extends: "extends l (pooledLine ci st result l)"
  by (auto simp: extends_def pooledLine_def Let_def line_simps split: prod.splits)

lemma find_SomeD: "find P xs = Some x \<Longrightarrow> x \<in> set xs \<and> P x"
  by (induction xs) (auto split: if_splits)

lemma lineIndex_Some: "lineIndex ls key = Some i \<Longrightarrow> i < length ls \<and> lineKey (ls ! i) = key"
  by (auto simp: lineIndex_def dest!: find_SomeD)

text \<open>A pool extends the lines of its members and leaves the other lines alone.\<close>

definition pooled_by :: "string set \<Rightarrow> PreviewLine list \<Rightarrow> PreviewLine list \<Rightarrow> bool" where
  "pooled_by keys ls ls' \<longleftrightarrow> length ls' = length ls
     \<and> (\<forall>i<length ls. extends (ls ! i) (ls' ! i) \<and> (lineKey (ls ! i) \<notin> keys \<longrightarrow> ls' ! i = ls ! i))"

lemma pooled_by_refl [simp]: "pooled_by keys ls ls" by (simp add: pooled_by_def)

lemma pooled_by_trans:
  assumes "pooled_by A ls ls'" "pooled_by B ls' ls''"
  shows "pooled_by (A \<union> B) ls ls''"
  using assms unfolding pooled_by_def by (auto intro: extends_trans)

lemma pooled_by_mono: "pooled_by A ls ls' \<Longrightarrow> A \<subseteq> B \<Longrightarrow> pooled_by B ls ls'"
  unfolding pooled_by_def by blast

lemma members_pooled:
  "pooled_by (productKey ` set ms) ls (foldl (\<lambda>ls m. case lineIndex ls (productKey m) of None \<Rightarrow> ls
     | Some i \<Rightarrow> ls[i := pooledLine ci st result (ls ! i)]) ls ms)"
proof (induction ms arbitrary: ls)
  case (Cons m ms)
  have "pooled_by {productKey m} ls (case lineIndex ls (productKey m) of None \<Rightarrow> ls
      | Some i \<Rightarrow> ls[i := pooledLine ci st result (ls ! i)])"
    by (auto simp: pooled_by_def nth_list_update pooledLine_extends dest: lineIndex_Some split: option.splits)
  from pooled_by_trans [OF this Cons.IH] show ?case by simp
qed simp

lemma applyPool_pooled: "pooled_by (productKey ` set (snd pool)) ls (applyPool ci ls pool)"
  unfolding applyPool_def Let_def by (cases pool) (simp add: members_pooled)

lemma pools_pooled: "pooled_by (productKey ` (\<Union>pool\<in>set pools. set (snd pool))) ls (foldl (applyPool ci) ls pools)"
proof (induction pools arbitrary: ls)
  case (Cons pool pools)
  from pooled_by_trans [OF applyPool_pooled Cons.IH] show ?case by (simp add: image_Un)
qed simp



section \<open>Counting\<close>

lemma length_previewLines [simp]: "length (previewLines ci products) = length (filter (\<lambda>p. \<not> prod_Excluded p) products)"
  using pools_pooled [of "ci_Pools ci" "map (lineFor ci) (filter (\<lambda>p. \<not> prod_Excluded p) products)" ci]
  by (simp add: previewLines_def pooled_by_def)



section \<open>Targets in net mode\<close>


definition from_items :: "Config \<Rightarrow> balance_state \<Rightarrow> bool" where
  "from_items cfg st \<longleftrightarrow> (\<forall>(c, i) \<in> set (bs_Source st). \<exists>item. i = balanceItem cfg item \<and> bal_ItemCode item = c)"



lemma commonLine_fields [line_simps]:
  "lineKey (commonLine ci p) = productKey p" "line_SMLItemCode (commonLine ci p) = prod_SMLItemCode p"
  "line_ItemType (commonLine ci p) = prod_SMLItemType p"
  by (auto simp: commonLine_def withSource_def productLine_def Let_def line_simps lineKey_def productKey_def split: option.splits)
    (simp_all add: warn_if_def warn_def)




lemma manualWarning_fields [line_simps]:
  "productKey (manualWarning consumed manual p) = productKey p"
  "prod_SMLItemCode (manualWarning consumed manual p) = prod_SMLItemCode p"
  "prod_Excluded (manualWarning consumed manual p) = prod_Excluded p"
  by (simp_all add: manualWarning_def productKey_def)



lemma from_items_none [simp]: "from_items cfg noBalances"
  by (simp add: from_items_def noBalances_def)






section \<open>Examples\<close>
























end
