(* ===== verification/Stock_Mapping.thy ===== *)
theory Stock_Mapping
  imports Stock_DB
begin

text \<open>
  The catalogs and the mapping of a shop's products to the items of the accounting system
  (\<open>services/shopeestock/store.go\<close>): the import of the catalog and of the products, the marking of
  products that share an item, the shared pools, the exclusion of a product, the preparation of
  products that are ready, and the reads of the calculation that go over these tables. Names, units
  that only the user interface shows, and audit rows are left out.
\<close>

section \<open>Rows\<close>

text \<open>\<open>INSERT ... ON CONFLICT (key) DO UPDATE\<close>.\<close>

definition upsert_row :: "('r \<Rightarrow> 'k) \<Rightarrow> ('r \<Rightarrow> 'r \<Rightarrow> 'r) \<Rightarrow> 'r \<Rightarrow> 'r list \<Rightarrow> 'r list" where
  "upsert_row key merge new rows =
     (if list_ex (\<lambda>r. key r = key new) rows then map (\<lambda>r. if key r = key new then merge new r else r) rows
      else rows @ [new])"

type_synonym product_key = "int \<times> int \<times> int"

definition mappingKey :: "StockMappingRow \<Rightarrow> product_key" where
  "mappingKey m = (sm_ShopID m, sm_ItemID m, sm_ModelID m)"

definition stockProductRowKey :: "StockProductRow \<Rightarrow> product_key" where
  "stockProductRowKey p = (sp_ShopID p, sp_ItemID p, sp_ModelID p)"

text \<open>\<open>JOIN shopee_stock_products p USING (shop_id, item_id, model_id)\<close> with \<open>p.is_active\<close>.\<close>

definition activeMapping :: "StockDB \<Rightarrow> StockMappingRow \<Rightarrow> bool" where
  "activeMapping db m \<longleftrightarrow> list_ex (\<lambda>p. stockProductRowKey p = mappingKey m \<and> sp_Active p) (sdb_products db)"

definition usedMapping :: "StockDB \<Rightarrow> StockMappingRow \<Rightarrow> bool" where
  "usedMapping db m \<longleftrightarrow> activeMapping db m \<and> \<not> sm_Excluded m \<and> sm_SMLItemCode m \<noteq> []"

definition updateMappings :: "(StockMappingRow \<Rightarrow> bool) \<Rightarrow> (StockMappingRow \<Rightarrow> StockMappingRow) \<Rightarrow> StockDB \<Rightarrow> StockDB" where
  "updateMappings P f db = db\<lparr>sdb_mappings := map (\<lambda>m. if P m then f m else m) (sdb_mappings db)\<rparr>"

text \<open>Calculations have to be looked at again before anything is written.\<close>

definition requireDryRun :: "instant \<Rightarrow> SettingsRow \<Rightarrow> SettingsRow" where
  "requireDryRun now s = s\<lparr>cfg_Enabled := False, cfg_DryRunRequired := True,
     srow_ConfigVersion := srow_ConfigVersion s + 1, cfg_UpdatedAt := now\<rparr>"

definition SetDryRunRequired :: "instant \<Rightarrow> StockDB \<Rightarrow> int \<Rightarrow> StockDB" where
  "SetDryRunRequired now db shop = updateShop shop (requireDryRun now) db"

section \<open>Products that share an item\<close>

definition groupOf :: "StockDB \<Rightarrow> StockMappingRow \<Rightarrow> StockMappingRow list" where
  "groupOf db m = filter (\<lambda>g. usedMapping db g \<and> sm_ShopID g = sm_ShopID m \<and> sm_SMLItemCode g = sm_SMLItemCode m)
     (sdb_mappings db)"

definition completePool :: "StockMappingRow list \<Rightarrow> bool" where
  "completePool ms \<longleftrightarrow> list_all sm_SharedPoolEnabled ms
     \<and> \<bar>sum_list (map sm_PoolAllocationPct ms) - 100\<bar> \<le> 1 / 1000"

definition markDuplicateMappings :: "instant \<Rightarrow> StockDB \<Rightarrow> StockDB" where
  "markDuplicateMappings now db0 =
     (let unmarked = updateMappings (\<lambda>m. activeMapping db0 m \<and> ''duplicate_sml_item'' \<in> set (sm_WarningCodes m))
            (\<lambda>m. m\<lparr>sm_WarningCodes := filter (\<lambda>w. w \<noteq> ''duplicate_sml_item'') (sm_WarningCodes m), sm_UpdatedAt := now\<rparr>) db0;
          single = updateMappings (\<lambda>m. activeMapping db0 m \<and> length (groupOf unmarked m) = 1
                \<and> (sm_SharedPoolEnabled m \<or> sm_PoolAllocationPct m \<noteq> 100))
            (\<lambda>m. m\<lparr>sm_SharedPoolEnabled := False, sm_PoolAllocationPct := 100, sm_UpdatedAt := now\<rparr>) unmarked
      in updateMappings (\<lambda>m. activeMapping db0 m \<and> length (groupOf single m) > 1 \<and> \<not> completePool (groupOf single m))
           (\<lambda>m. m\<lparr>sm_WarningCodes := sm_WarningCodes m @ [''duplicate_sml_item''], sm_UpdatedAt := now\<rparr>) single)"

definition RefreshDuplicateMappings :: "instant \<Rightarrow> StockDB \<Rightarrow> StockDB" where
  "RefreshDuplicateMappings now db = markDuplicateMappings now db"

section \<open>The catalog of the accounting system\<close>

definition catalogRow :: "StockCatalogItem \<Rightarrow> CatalogRow" where
  "catalogRow i =
     \<lparr>item_ItemCode = item_ItemCode i, item_ItemName = item_ItemName i, item_ItemType = item_ItemType i,
      item_StandardUnit = item_StandardUnit i, item_UpdatedAt = item_UpdatedAt i, item_Units = item_Units i,
      item_Barcodes = item_Barcodes i, item_SetDefinition = None,
      item_SetComponents = (case item_SetDefinition i of None \<Rightarrow> item_SetComponents i | Some d \<Rightarrow> setd_Components d),
      cat_Active = True,
      cat_SetComponentCount = (case item_SetDefinition i of None \<Rightarrow> 0 | Some d \<Rightarrow> setd_ComponentCount d),
      cat_SetDefinitionHash = (case item_SetDefinition i of None \<Rightarrow> [] | Some d \<Rightarrow> setd_Hash d),
      cat_SetDocumentValid = (case item_SetDefinition i of None \<Rightarrow> item_ItemType i \<noteq> 3 | Some d \<Rightarrow> setd_DocumentValid d),
      cat_SetStockValid = (case item_SetDefinition i of None \<Rightarrow> item_ItemType i \<noteq> 3 | Some d \<Rightarrow> setd_StockValid d),
      cat_SetWarningCodes = (case item_SetDefinition i of None \<Rightarrow> [] | Some d \<Rightarrow> setd_WarningCodes d)\<rparr>"

definition upsertCatalog :: "CatalogRow \<Rightarrow> CatalogRow list \<Rightarrow> CatalogRow list" where
  "upsertCatalog = upsert_row item_ItemCode (\<lambda>new old. new)"

text \<open>Some product of the shop is mapped to a set whose definition is not the one it was checked with.\<close>

definition setChanged :: "StockDB \<Rightarrow> int \<Rightarrow> bool" where
  "setChanged db shop \<longleftrightarrow>
     list_ex (\<lambda>m. sm_ShopID m = shop \<and> \<not> sm_Excluded m
       \<and> list_ex (\<lambda>c. item_ItemCode c = sm_SMLItemCode m \<and> item_ItemType c = 3
           \<and> sm_SetDefinitionHash m \<noteq> cat_SetDefinitionHash c) (sdb_catalog db)) (sdb_mappings db)"

definition storeSMLCatalog :: "instant \<Rightarrow> StockDB \<Rightarrow> StockCatalogItem list \<Rightarrow> bool \<Rightarrow> StockDB" where
  "storeSMLCatalog now db0 items replace =
     (let rows = (if replace then map (\<lambda>c. c\<lparr>cat_Active := False\<rparr>) (sdb_catalog db0) else sdb_catalog db0);
          db = db0\<lparr>sdb_catalog := write_all upsertCatalog (map catalogRow items) rows\<rparr>
      in db\<lparr>sdb_settings := map (\<lambda>s. if setChanged db (cfg_ShopID s)
             then (requireDryRun now s)\<lparr>cfg_PausedReason := ''set_definition_changed'',
               cfg_LastError := ''set definition changed''\<rparr> else s) (sdb_settings db)\<rparr>)"

definition listedItem :: "CatalogRow \<Rightarrow> StockCatalogItem" where
  "listedItem c =
     (let i = \<lparr>item_ItemCode = item_ItemCode c, item_ItemName = item_ItemName c, item_ItemType = item_ItemType c,
            item_StandardUnit = item_StandardUnit c, item_UpdatedAt = item_UpdatedAt c, item_Units = item_Units c,
            item_Barcodes = item_Barcodes c, item_SetDefinition = None, item_SetComponents = []\<rparr>
      in if item_ItemType c = 3
         then i\<lparr>item_SetDefinition := Some \<lparr>setd_ItemCode = item_ItemCode c, setd_ComponentCount = cat_SetComponentCount c,
                 setd_DocumentValid = cat_SetDocumentValid c, setd_StockValid = cat_SetStockValid c,
                 setd_WarningCodes = cat_SetWarningCodes c, setd_Hash = cat_SetDefinitionHash c,
                 setd_Components = item_SetComponents c\<rparr>, item_SetComponents := item_SetComponents c\<rparr>
         else i)"

definition ListSMLCatalog :: "StockDB \<Rightarrow> StockCatalogItem list" where
  "ListSMLCatalog db = map listedItem (sort_by item_ItemCode (filter cat_Active (sdb_catalog db)))"

definition ReplaceSMLCatalog :: "instant \<Rightarrow> StockDB \<Rightarrow> StockCatalogItem list \<Rightarrow> StockDB" where
  "ReplaceSMLCatalog now db items = storeSMLCatalog now db items True"

definition UpsertSMLCatalog :: "instant \<Rightarrow> StockDB \<Rightarrow> StockCatalogItem list \<Rightarrow> StockDB" where
  "UpsertSMLCatalog now db items = storeSMLCatalog now db items False"

section \<open>Manual mappings\<close>

text \<open>\<open>byItem\<close>: the last item with a code, and in it the last unit with a code.\<close>

definition manualUnit :: "StockCatalogItem list \<Rightarrow> StockMappingRow \<Rightarrow> StockCatalogUnit option" where
  "manualUnit items m =
     (case find (\<lambda>i. item_ItemCode i = sm_SMLItemCode m) (rev items) of None \<Rightarrow> None
      | Some i \<Rightarrow> find (\<lambda>u. unit_Code u = sm_SMLUnitCode m) (rev (item_Units i)))"

definition manualRefresh :: "StockCatalogItem list \<Rightarrow> StockMappingRow \<Rightarrow> float64 \<times> string list" where
  "manualRefresh items m =
     (case manualUnit items m of None \<Rightarrow> (Float 0, [''unit_not_found''])
      | Some u \<Rightarrow>
          (case sm_ManualUnitFactor m of
             Some f \<Rightarrow> if f_le (Float 1) f then (f, []) else (UnitFactor u, UnitWarnings u)
           | None \<Rightarrow> (UnitFactor u, UnitWarnings u)))"

definition refreshManual :: "instant \<Rightarrow> StockCatalogItem list \<Rightarrow> bool \<Rightarrow> StockDB \<Rightarrow> StockMappingRow \<Rightarrow> StockDB" where
  "refreshManual now items full db m =
     (if \<not> full \<and> \<not> list_ex (\<lambda>i. item_ItemCode i = sm_SMLItemCode m) items then db
      else
        let (factor, warnings) = manualRefresh items m;
            stale = (\<lambda>r. mappingKey r = mappingKey m \<and> (sm_UnitFactor r \<noteq> factor \<or> sm_WarningCodes r \<noteq> warnings)) in
        if list_ex stale (sdb_mappings db)
        then SetDryRunRequired now
               (updateMappings stale (\<lambda>r. r\<lparr>sm_UnitFactor := factor, sm_WarningCodes := warnings, sm_UpdatedAt := now\<rparr>) db)
               (sm_ShopID m)
        else db)"

definition RefreshManualMappings :: "instant \<Rightarrow> StockDB \<Rightarrow> StockCatalogItem list \<Rightarrow> bool \<Rightarrow> StockDB" where
  "RefreshManualMappings now db items full =
     foldl (refreshManual now items full) db
       (filter (\<lambda>m. sm_MatchSource m = ''manual'' \<and> \<not> sm_Excluded m) (sdb_mappings db))"

section \<open>Products of a shop\<close>

record ShopeeProduct =
  sprod_ItemID :: int
  sprod_ModelID :: int
  sprod_ItemSKU :: string
  sprod_ModelSKU :: string
  sprod_Available :: int

definition upsertProduct :: "StockProductRow \<Rightarrow> StockProductRow list \<Rightarrow> StockProductRow list" where
  "upsertProduct = upsert_row stockProductRowKey
     (\<lambda>new old. old\<lparr>sp_ShopeeAvailable := sp_ShopeeAvailable new, sp_Active := True\<rparr>)"

text \<open>A mapping made by hand keeps everything but its time.\<close>

definition mergeMapping :: "StockMappingRow \<Rightarrow> StockMappingRow \<Rightarrow> StockMappingRow" where
  "mergeMapping new old =
     (if sm_MatchSource old = ''manual'' then old\<lparr>sm_UpdatedAt := sm_UpdatedAt new\<rparr>
      else old\<lparr>sm_SMLItemCode := sm_SMLItemCode new, sm_SMLUnitCode := sm_SMLUnitCode new,
             sm_UnitFactor := sm_UnitFactor new, sm_MatchSource := sm_MatchSource new,
             sm_WarningCodes := sm_WarningCodes new, sm_AliasID := sm_AliasID new,
             sm_SetDefinitionHash := sm_SetDefinitionHash new, sm_UpdatedAt := sm_UpdatedAt new\<rparr>)"

definition upsertMapping :: "StockMappingRow \<Rightarrow> StockMappingRow list \<Rightarrow> StockMappingRow list" where
  "upsertMapping = upsert_row mappingKey mergeMapping"

definition shopKey :: "int \<Rightarrow> string" where "shopKey shop = ''shop:'' @ dec_of_int shop"

definition forVariant :: "int \<Rightarrow> int \<Rightarrow> int \<Rightarrow> StockAliasRow \<Rightarrow> bool" where
  "forVariant shop item model a \<longleftrightarrow> sal_Active a \<and> sal_Source a = ''shopee'' \<and> sal_AccountKey a = shopKey shop
     \<and> sal_ExternalItemID a = dec_of_int item \<and> sal_ExternalVariantID a = dec_of_int model"

definition noMatch :: CatalogMatch where
  "noMatch = \<lparr>match_ItemCode = [], match_UnitCode = [], match_Factor = Float 0, match_Source = [], match_ItemType = 0,
     match_SetDefinitionHash = [], match_DocumentValid = False, match_Warnings = [''sku_not_found'']\<rparr>"

definition importedMatch :: "StockDB \<Rightarrow> int \<Rightarrow> CatalogIndex \<Rightarrow> ShopeeProduct \<Rightarrow> CatalogMatch \<times> string option" where
  "importedMatch db shop index p =
     (case Resolve index (PreferredSKU (sprod_ModelSKU p) (sprod_ItemSKU p)) of
        None \<Rightarrow> (noMatch, None)
      | Some m \<Rightarrow>
          if match_Source m = ''sku'' \<and> match_ItemCode m \<noteq> [] \<and> match_DocumentValid m then
            (case sort_by (\<lambda>a. (- sal_MappingRevision a, sal_ID a))
                    (filter (forVariant shop (sprod_ItemID p) (sprod_ModelID p)) (sdb_aliases db)) of
               [] \<Rightarrow> (m\<lparr>match_Warnings := appendUnique (match_Warnings m) ''conversion_policy_missing''\<rparr>, None)
             | a # _ \<Rightarrow> (m, Some (sal_ID a)))
          else (m, None))"

definition importedMapping :: "instant \<Rightarrow> int \<Rightarrow> ShopeeProduct \<Rightarrow> CatalogMatch \<times> string option \<Rightarrow> StockMappingRow" where
  "importedMapping now shop p ma =
     (let (m, alias) = ma in
      \<lparr>sm_ShopID = shop, sm_ItemID = sprod_ItemID p, sm_ModelID = sprod_ModelID p, sm_SMLItemCode = match_ItemCode m,
       sm_SMLUnitCode = match_UnitCode m, sm_UnitFactor = match_Factor m, sm_ManualUnitFactor = None,
       sm_MatchSource = match_Source m, sm_Excluded = False, sm_SharedPoolEnabled = False, sm_PoolAllocationPct = 100,
       sm_WarningCodes = match_Warnings m, sm_AliasID = alias, sm_SetDefinitionHash = match_SetDefinitionHash m,
       sm_LastPreviewTarget = None, sm_LastSuccessTarget = None, sm_UpdatedAt = now\<rparr>)"

definition importProduct :: "instant \<Rightarrow> int \<Rightarrow> CatalogIndex \<Rightarrow> StockDB \<Rightarrow> ShopeeProduct \<Rightarrow> StockDB" where
  "importProduct now shop index db p =
     db\<lparr>sdb_products := upsertProduct \<lparr>sp_ShopID = shop, sp_ItemID = sprod_ItemID p, sp_ModelID = sprod_ModelID p,
          sp_ShopeeAvailable = sprod_Available p, sp_Active = True\<rparr> (sdb_products db),
        sdb_mappings := upsertMapping (importedMapping now shop p (importedMatch db shop index p)) (sdb_mappings db)\<rparr>"

definition uncheckedSet :: "StockDB \<Rightarrow> int \<Rightarrow> bool" where
  "uncheckedSet db shop \<longleftrightarrow>
     list_ex (\<lambda>m. sm_ShopID m = shop \<and> \<not> sm_Excluded m \<and> sm_LastPreviewTarget m = None
       \<and> list_ex (\<lambda>c. item_ItemCode c = sm_SMLItemCode m \<and> cat_Active c \<and> item_ItemType c = 3) (sdb_catalog db))
       (sdb_mappings db)"

definition storeShopeeProducts ::
    "instant \<Rightarrow> StockDB \<Rightarrow> int \<Rightarrow> ShopeeProduct list \<Rightarrow> CatalogIndex \<Rightarrow> bool \<Rightarrow> StockDB" where
  "storeShopeeProducts now db0 shop products index replace =
     (let db = (if replace then db0\<lparr>sdb_products := map (\<lambda>p. if sp_ShopID p = shop then p\<lparr>sp_Active := False\<rparr> else p)
                  (sdb_products db0)\<rparr> else db0);
          db = markDuplicateMappings now (foldl (importProduct now shop index) db products);
          db = (if uncheckedSet db shop
            then updateShop shop (\<lambda>s. s\<lparr>cfg_Enabled := False, cfg_DryRunRequired := True, cfg_UpdatedAt := now\<rparr>) db else db)
      in updateShop shop (\<lambda>s. s\<lparr>srow_ConfigVersion := srow_ConfigVersion s + 1, cfg_UpdatedAt := now\<rparr>) db)"

definition ReplaceShopeeProducts :: "instant \<Rightarrow> StockDB \<Rightarrow> int \<Rightarrow> ShopeeProduct list \<Rightarrow> CatalogIndex \<Rightarrow> StockDB" where
  "ReplaceShopeeProducts now db shop products index = storeShopeeProducts now db shop products index True"

definition UpsertShopeeProducts :: "instant \<Rightarrow> StockDB \<Rightarrow> int \<Rightarrow> ShopeeProduct list \<Rightarrow> CatalogIndex \<Rightarrow> StockDB" where
  "UpsertShopeeProducts now db shop products index = storeShopeeProducts now db shop products index False"

section \<open>Shared pools\<close>

record SharedPoolMemberUpdate =
  spu_ItemID :: int
  spu_ModelID :: int
  spu_AllocationPct :: float64
  spu_UpdatedAt :: "instant option"

record SharedPoolUpdate =
  spr_SMLItemCode :: string
  spr_Members :: "SharedPoolMemberUpdate list"

definition poolMembers :: "StockDB \<Rightarrow> int \<Rightarrow> string \<Rightarrow> StockMappingRow list" where
  "poolMembers db shop code = filter (\<lambda>m. sm_ShopID m = shop \<and> sm_SMLItemCode m = code \<and> \<not> sm_Excluded m \<and> activeMapping db m)
     (sdb_mappings db)"

text \<open>A \<open>float64\<close> in a column \<open>NUMERIC(5,2)\<close>: its decimal text, rounded half away from zero.\<close>

definition round2 :: "rat \<Rightarrow> rat" where
  "round2 q = (if q < 0 then - of_int \<lfloor>- q * 100 + 1 / 2\<rfloor> / 100 else of_int \<lfloor>q * 100 + 1 / 2\<rfloor> / 100)"

definition numeric52 :: "float64 \<Rightarrow> service_error + rat" where
  "numeric52 f =
     and_then (of_option (Failed ''22P02'') (rat_set_string (format_float f))) (\<lambda>q.
       if \<bar>round2 q\<bar> \<ge> 1000 then Inl (Failed ''22003'') else Inr (round2 q))"

definition requestedMember :: "SharedPoolUpdate \<Rightarrow> StockMappingRow \<Rightarrow> SharedPoolMemberUpdate option" where
  "requestedMember request m = find (\<lambda>r. stockProductKey (spu_ItemID r) (spu_ModelID r)
     = stockProductKey (sm_ItemID m) (sm_ModelID m)) (rev (spr_Members request))"

definition poolRow ::
    "instant \<Rightarrow> int \<Rightarrow> SharedPoolUpdate \<Rightarrow> StockDB \<Rightarrow> StockMappingRow \<Rightarrow> service_error + StockDB" where
  "poolRow now shop request db m =
     (case requestedMember request m of None \<Rightarrow> Inl (Invalid ''members'')
      | Some r \<Rightarrow>
          if spu_UpdatedAt r \<noteq> Some (sm_UpdatedAt m) then Inl ErrMappingConflict
          else
            and_then (numeric52 (spu_AllocationPct r)) (\<lambda>pct.
              if \<not> (0 < pct \<and> pct \<le> 100) then Inl (Failed ''23514'')
              else Inr (updateMappings (\<lambda>x. mappingKey x = mappingKey m \<and> sm_UpdatedAt x = sm_UpdatedAt m)
                (\<lambda>x. x\<lparr>sm_SharedPoolEnabled := True, sm_PoolAllocationPct := pct, sm_UpdatedAt := now\<rparr>) db)))"

fun poolRows ::
    "instant \<Rightarrow> int \<Rightarrow> SharedPoolUpdate \<Rightarrow> StockMappingRow list \<Rightarrow> StockDB \<Rightarrow> service_error + StockDB" where
  "poolRows now shop request [] db = Inr db"
| "poolRows now shop request (m # ms) db =
     and_then (poolRow now shop request db m) (\<lambda>db. poolRows now shop request ms db)"

definition UpdateSharedPool :: "instant \<Rightarrow> StockDB \<Rightarrow> int \<Rightarrow> SharedPoolUpdate \<Rightarrow> service_error + StockDB" where
  "UpdateSharedPool now db shop request =
     (let members = sort_by (\<lambda>m. (sm_ItemID m, sm_ModelID m)) (poolMembers db shop (spr_SMLItemCode request)) in
      if length members < 2 \<or> length members \<noteq> length (spr_Members request) then Inl (Invalid ''pool changed'')
      else and_then (poolRows now shop request members db) (\<lambda>db.
        Inr (SetDryRunRequired now (markDuplicateMappings now db) shop)))"

definition masterByID :: "StockDB \<Rightarrow> StockMappingRow \<Rightarrow> StockAliasRow option" where
  "masterByID db m = find (\<lambda>a. sal_Active a \<and> sm_AliasID m = Some (sal_ID a)) (sdb_aliases db)"

definition SharedPoolPoliciesManaged :: "StockDB \<Rightarrow> int \<Rightarrow> string \<Rightarrow> bool" where
  "SharedPoolPoliciesManaged db shop code \<longleftrightarrow>
     length (poolMembers db shop code) \<ge> 2
     \<and> list_all (\<lambda>m. case masterByID db m of None \<Rightarrow> False | Some a \<Rightarrow> sal_StockPolicy a = ''managed'') (poolMembers db shop code)"

section \<open>Excluding a product\<close>

record MappingUpdate =
  mu_SMLItemCode :: string
  mu_SMLUnitCode :: string
  mu_ManualUnitFactor :: "float64 option"
  mu_Excluded :: bool
  mu_UpdatedAt :: "instant option"
  mu_MarketplaceAliasID :: string
  mu_MarketplaceAliasUpdatedAt :: "instant option"

definition validateStockMappingExclusionPolicy :: "string \<Rightarrow> service_error + unit" where
  "validateStockMappingExclusionPolicy policy =
     (if trim_space policy \<in> set [''managed'', ''zeroing''] then Inl ErrUnsafeManagedExclusion else Inr ())"

definition UpdateMapping :: "instant \<Rightarrow> StockDB \<Rightarrow> int \<Rightarrow> int \<Rightarrow> int \<Rightarrow> MappingUpdate \<Rightarrow> service_error + StockDB" where
  "UpdateMapping now db shop item model request =
     (if \<not> mu_Excluded request \<or> trim_space (mu_SMLItemCode request) \<noteq> [] then Inl (Invalid ''impact preview'')
      else
        case find (\<lambda>m. mappingKey m = (shop, item, model) \<and> activeMapping db m) (sdb_mappings db) of None \<Rightarrow> Inl noRows
        | Some m \<Rightarrow>
            and_then (case sm_AliasID m of None \<Rightarrow> Inr ()
                      | Some i \<Rightarrow> (case lookup_by sal_ID (sdb_aliases db) i of None \<Rightarrow> Inl ErrMappingConflict
                          | Some a \<Rightarrow> validateStockMappingExclusionPolicy (sal_StockPolicy a))) (\<lambda>_.
            if mu_UpdatedAt request \<noteq> Some (sm_UpdatedAt m) then Inl ErrMappingConflict
            else Inr (RefreshDuplicateMappings now (SetDryRunRequired now
              (updateMappings (\<lambda>x. mappingKey x = (shop, item, model))
                (\<lambda>x. x\<lparr>sm_Excluded := True, sm_SharedPoolEnabled := False, sm_PoolAllocationPct := 100, sm_UpdatedAt := now\<rparr>) db) shop))))"

section \<open>Preparing products that are ready\<close>

record PreparationResult =
  prep_ManagedCount :: int
  prep_SharedPoolCount :: int
  prep_SharedPoolMemberCount :: int

text \<open>The master of a product: by the identifier of the mapping, otherwise by the variant. Should
  several have the same variant, the first of the table counts.\<close>

definition masterAlias :: "StockDB \<Rightarrow> StockMappingRow \<Rightarrow> StockAliasRow option" where
  "masterAlias db m =
     (case find (\<lambda>a. sal_Active a \<and> sal_Source a = ''shopee'' \<and> sm_AliasID m = Some (sal_ID a)) (sdb_aliases db) of
        Some a \<Rightarrow> Some a
      | None \<Rightarrow> find (forVariant (sm_ShopID m) (sm_ItemID m) (sm_ModelID m)) (sdb_aliases db))"

definition readyAliases :: "StockDB \<Rightarrow> int \<Rightarrow> string list" where
  "readyAliases db shop =
     remdups (concat (map (\<lambda>m. case masterAlias db m of None \<Rightarrow> []
       | Some a \<Rightarrow> if sal_StockPolicy a = ''blocked'' \<and> sal_ConversionStatus a = ''ready'' \<and> sal_SalesEnabled a
           \<and> sal_ScopeConfirmed a then [sal_ID a] else [])
       (filter (\<lambda>m. usedMapping db m \<and> sm_ShopID m = shop) (sdb_mappings db))))"

text \<open>The members that the condition of a group goes over, and all that its shares go to.\<close>

definition countedMembers :: "StockDB \<Rightarrow> int \<Rightarrow> string \<Rightarrow> StockMappingRow list" where
  "countedMembers db shop code =
     filter (\<lambda>m. usedMapping db m \<and> sm_ShopID m = shop \<and> sm_SMLItemCode m = code \<and> masterAlias db m \<noteq> None) (sdb_mappings db)"

definition rankedMembers :: "StockDB \<Rightarrow> int \<Rightarrow> string \<Rightarrow> StockMappingRow list" where
  "rankedMembers db shop code =
     sort_by (\<lambda>m. (sm_ItemID m, sm_ModelID m))
       (filter (\<lambda>m. usedMapping db m \<and> sm_ShopID m = shop \<and> sm_SMLItemCode m = code) (sdb_mappings db))"

definition poolCandidate :: "StockDB \<Rightarrow> int \<Rightarrow> string \<Rightarrow> bool" where
  "poolCandidate db shop code \<longleftrightarrow>
     (let ms = countedMembers db shop code in
      2 \<le> length ms \<and> length ms \<le> 50
      \<and> list_all (\<lambda>m. (case masterAlias db m of None \<Rightarrow> False | Some a \<Rightarrow> sal_StockPolicy a = ''managed'')
           \<and> \<not> sm_SharedPoolEnabled m) ms)"

definition equalShare :: "nat \<Rightarrow> nat \<Rightarrow> rat" where
  "equalShare n position =
     (if position = n then 100 - round2 (100 / of_nat n) * of_nat (n - 1) else round2 (100 / of_nat n))"

definition shares :: "StockDB \<Rightarrow> int \<Rightarrow> string \<Rightarrow> (product_key \<times> rat) list" where
  "shares db shop code = map (\<lambda>(i, m). (mappingKey m, equalShare (length (countedMembers db shop code)) i))
     (enumerate 1 (rankedMembers db shop code))"

definition poolCodes :: "StockDB \<Rightarrow> int \<Rightarrow> string list" where
  "poolCodes db shop = filter (poolCandidate db shop)
     (remdups (map sm_SMLItemCode (filter (\<lambda>m. usedMapping db m \<and> sm_ShopID m = shop) (sdb_mappings db))))"

definition PrepareReadyMappings :: "instant \<Rightarrow> StockDB \<Rightarrow> int \<Rightarrow> service_error + StockDB \<times> PreparationResult" where
  "PrepareReadyMappings now db0 shop =
     (if shop \<le> 0 then Inl (Invalid ''shop'')
      else
        let ready = readyAliases db0 shop;
            db = db0\<lparr>sdb_aliases := map (\<lambda>a. if sal_ID a \<in> set ready \<and> sal_StockPolicy a = ''blocked''
              then a\<lparr>sal_StockPolicy := ''managed'', sal_MappingRevision := sal_MappingRevision a + 1\<rparr> else a) (sdb_aliases db0)\<rparr>;
            managed = length (filter (\<lambda>a. sal_ID a \<in> set ready \<and> sal_StockPolicy a = ''blocked'') (sdb_aliases db0));
            codes = poolCodes db shop;
            given = concat (map (shares db shop) codes);
            db = updateMappings (\<lambda>m. map_of given (mappingKey m) \<noteq> None)
              (\<lambda>m. m\<lparr>sm_SharedPoolEnabled := True, sm_PoolAllocationPct := the (map_of given (mappingKey m)), sm_UpdatedAt := now\<rparr>) db;
            db = (if managed > 0 \<or> given \<noteq> [] then SetDryRunRequired now (markDuplicateMappings now db) shop else db)
        in Inr (db, \<lparr>prep_ManagedCount = int managed, prep_SharedPoolCount = int (length codes),
             prep_SharedPoolMemberCount = int (length given)\<rparr>))"

section \<open>What other products consume\<close>

definition managedPolicies :: "string list" where
  "managedPolicies = [''managed'', ''zeroing'', ''manual_unmanaged'']"

definition EnabledSMLItemsOtherShops :: "StockDB \<Rightarrow> int \<Rightarrow> string list" where
  "EnabledSMLItemsOtherShops db shop =
     remdups (filter (\<lambda>c. c \<noteq> []) (concat (map (\<lambda>m.
         (case find (\<lambda>c. item_ItemCode c = sm_SMLItemCode m \<and> cat_Active c) (sdb_catalog db) of
            Some c \<Rightarrow> if item_ItemType c = 3 then map comp_ItemCode (item_SetComponents c) else [sm_SMLItemCode m]
          | None \<Rightarrow> [sm_SMLItemCode m]))
       (filter (\<lambda>m. sm_ShopID m \<noteq> shop \<and> activeMapping db m \<and> \<not> sm_Excluded m
          \<and> (case masterByID db m of None \<Rightarrow> ''blocked'' | Some a \<Rightarrow> sal_StockPolicy a) \<in> set managedPolicies) (sdb_mappings db)))))"

definition ManualUnmanagedConsumedItems :: "StockDB \<Rightarrow> string list" where
  "ManualUnmanagedConsumedItems db =
     (let ms = filter (\<lambda>m. \<not> sm_Excluded m
            \<and> (case masterByID db m of None \<Rightarrow> False | Some a \<Rightarrow> sal_StockPolicy a = ''manual_unmanaged'')) (sdb_mappings db) in
      remdups (filter (\<lambda>c. c \<noteq> []) (map sm_SMLItemCode ms
        @ concat (map (\<lambda>m. concat (map (\<lambda>c. map comp_ItemCode (item_SetComponents c))
            (filter (\<lambda>c. item_ItemCode c = sm_SMLItemCode m \<and> item_ItemType c = 3) (sdb_catalog db)))) ms))))"

end
