(* ===== verification/Stock_MappingSafety.thy ===== *)
theory Stock_MappingSafety
  imports Stock_Mapping Stock_LeaseSafety
begin

text \<open>
  Facts about the catalogs and the mappings: the tables as instances of the contract of a keyed
  table, what the marking of shared items leaves, what an import may change, and the shares that the
  preparation gives to the members of a pool.
\<close>

section \<open>The tables\<close>





section \<open>The catalog\<close>









section \<open>Shared items\<close>

text \<open>A change of mappings that keeps what groups are made of changes their members only.\<close>

definition keeps_group :: "(StockMappingRow \<Rightarrow> StockMappingRow) \<Rightarrow> bool" where
  "keeps_group f \<longleftrightarrow> (\<forall>m. mappingKey (f m) = mappingKey m \<and> sm_SMLItemCode (f m) = sm_SMLItemCode m \<and> sm_Excluded (f m) = sm_Excluded m)"

lemma updateMappings_fields [simp]:
  "sdb_mappings (updateMappings P f db) = map (\<lambda>m. if P m then f m else m) (sdb_mappings db)"
  "sdb_products (updateMappings P f db) = sdb_products db"
  "activeMapping (updateMappings P f db) = activeMapping db"
  "usedMapping (updateMappings P f db) = usedMapping db"
  by (simp_all add: updateMappings_def activeMapping_def usedMapping_def fun_eq_iff)

lemma keeps_groupD:
  "keeps_group f \<Longrightarrow> activeMapping db (f m) = activeMapping db m" "keeps_group f \<Longrightarrow> usedMapping db (f m) = usedMapping db m"
  "keeps_group f \<Longrightarrow> sm_ShopID (f m) = sm_ShopID m" "keeps_group f \<Longrightarrow> sm_SMLItemCode (f m) = sm_SMLItemCode m"
  by (simp_all add: keeps_group_def activeMapping_def usedMapping_def mappingKey_def)

lemma groupOf_update:
  "keeps_group f \<Longrightarrow> groupOf (updateMappings P f db) m = map (\<lambda>g. if P g then f g else g) (groupOf db m)"
  unfolding groupOf_def updateMappings_fields filter_map
  by (rule arg_cong [where f = "map _"], rule filter_cong) (auto simp: keeps_groupD)

lemma groupOf_keep: "keeps_group f \<Longrightarrow> groupOf db (f m) = groupOf db m"
  by (simp add: groupOf_def keeps_groupD)

lemma completePool_map:
  "(\<And>g. sm_SharedPoolEnabled (h g) = sm_SharedPoolEnabled g \<and> sm_PoolAllocationPct (h g) = sm_PoolAllocationPct g) \<Longrightarrow>
     completePool (map h gs) = completePool gs"
  by (simp add: completePool_def list_all_iff comp_def)

text \<open>
  C14. After the marking, a product of the shop's list carries the mark of a shared item exactly when
  several used products have its item and they are not a complete pool, all enabled with shares that
  add up to 100; and a product that is alone with its item is in no pool. The mark blocks a product
  in the calculation, so no item is offered twice unless its pool divides it.
\<close>

theorem markDuplicateMappings_spec:
  assumes "m \<in> set (sdb_mappings (markDuplicateMappings now db))" "activeMapping db m"
  shows "(''duplicate_sml_item'' \<in> set (sm_WarningCodes m) \<longleftrightarrow>
      length (groupOf (markDuplicateMappings now db) m) > 1 \<and> \<not> completePool (groupOf (markDuplicateMappings now db) m))
    \<and> (length (groupOf (markDuplicateMappings now db) m) = 1 \<longrightarrow> \<not> sm_SharedPoolEnabled m \<and> sm_PoolAllocationPct m = 100)"
proof -
  let ?w = "''duplicate_sml_item''"
  define P1 where "P1 m \<longleftrightarrow> activeMapping db m \<and> ?w \<in> set (sm_WarningCodes m)" for m :: StockMappingRow
  define f1 where "f1 m = m\<lparr>sm_WarningCodes := filter (\<lambda>w. w \<noteq> ?w) (sm_WarningCodes m), sm_UpdatedAt := now\<rparr>" for m :: StockMappingRow
  define d1 where "d1 = updateMappings P1 f1 db"
  define P2 where "P2 m \<longleftrightarrow> activeMapping db m \<and> length (groupOf d1 m) = 1 \<and> (sm_SharedPoolEnabled m \<or> sm_PoolAllocationPct m \<noteq> 100)" for m
  define f2 where "f2 m = m\<lparr>sm_SharedPoolEnabled := False, sm_PoolAllocationPct := 100, sm_UpdatedAt := now\<rparr>" for m :: StockMappingRow
  define d2 where "d2 = updateMappings P2 f2 d1"
  define P3 where "P3 m \<longleftrightarrow> activeMapping db m \<and> length (groupOf d2 m) > 1 \<and> \<not> completePool (groupOf d2 m)" for m
  define f3 where "f3 m = m\<lparr>sm_WarningCodes := sm_WarningCodes m @ [?w], sm_UpdatedAt := now\<rparr>" for m :: StockMappingRow
  note fs = f1_def f2_def f3_def
  have k: "keeps_group f1" "keeps_group f2" "keeps_group f3" by (simp_all add: keeps_group_def fs mappingKey_def)
  have db': "markDuplicateMappings now db = updateMappings P3 f3 d2"
    unfolding markDuplicateMappings_def Let_def d2_def d1_def P1_def P2_def P3_def f1_def f2_def f3_def by (rule refl)
  have g2: "length (groupOf d2 x) = length (groupOf d1 x)" for x by (simp add: d2_def groupOf_update [OF k(2)])
  have g3: "length (groupOf (updateMappings P3 f3 d2) x) = length (groupOf d2 x)"
    "completePool (groupOf (updateMappings P3 f3 d2) x) = completePool (groupOf d2 x)" for x
    unfolding groupOf_update [OF k(3)] by (simp, rule completePool_map) (simp add: f3_def)
  obtain x where x: "x \<in> set (sdb_mappings db)"
    "m = (\<lambda>m. if P3 m then f3 m else m) ((\<lambda>m. if P2 m then f2 m else m) (if P1 x then f1 x else x))"
    using assms(1) by (auto simp: db' d2_def d1_def)
  define a where "a = (if P1 x then f1 x else x)"
  define b where "b = (if P2 a then f2 a else a)"
  have m: "m = (if P3 b then f3 b else b)" using x(2) by (simp only: a_def b_def)
  have act: "activeMapping db x" "activeMapping db a" "activeMapping db b"
    using assms(2) unfolding m b_def a_def by (auto simp: keeps_groupD k split: if_splits)
  have grp: "groupOf d m = groupOf d b" "groupOf d b = groupOf d a" for d
    unfolding m b_def by (auto simp: groupOf_keep k)
  have "?w \<notin> set (sm_WarningCodes a)" using act(1) by (auto simp: a_def P1_def f1_def)
  then have wb: "?w \<notin> set (sm_WarningCodes b)" by (auto simp: b_def f2_def)
  have wm: "?w \<in> set (sm_WarningCodes m) \<longleftrightarrow> P3 b" using wb by (auto simp: m f3_def)
  have one: "\<not> sm_SharedPoolEnabled b \<and> sm_PoolAllocationPct b = 100" if "length (groupOf d1 a) = 1"
    using that act(2) by (auto simp: b_def P2_def f2_def)
  have "sm_SharedPoolEnabled m = sm_SharedPoolEnabled b" "sm_PoolAllocationPct m = sm_PoolAllocationPct b"
    by (simp_all add: m f3_def)
  then show ?thesis
    using wm one act(3) unfolding db' g3 grp(1) P3_def by (auto simp: grp(2) g2)
qed

section \<open>Equal shares\<close>

lemma round2_bounds: "\<bar>round2 q - q\<bar> \<le> 1 / 200"
proof -
  have "\<bar>of_int \<lfloor>r * 100 + 1 / 2\<rfloor> / 100 - r\<bar> \<le> 1 / 200" for r :: rat
    using floor_correct [of "r * 100 + 1 / 2"] by (intro abs_leI) linarith+
  then have b: "of_int \<lfloor>r * 100 + 1 / 2\<rfloor> / 100 - r \<le> 1 / 200" "r - of_int \<lfloor>r * 100 + 1 / 2\<rfloor> / 100 \<le> 1 / 200" for r :: rat
    unfolding abs_le_iff by (smt (verit) minus_diff_eq)+
  show ?thesis
  proof (cases "q < 0")
    case True
    then show ?thesis unfolding round2_def abs_le_iff using b [of "- q"] by simp
  next
    case False
    then show ?thesis unfolding round2_def abs_le_iff using b [of q] by simp
  qed
qed

lemma sum_equalShare:
  "1 \<le> n \<Longrightarrow> n \<le> N \<Longrightarrow> sum_list (map (equalShare n) [1..<Suc N]) = 100 + of_nat (N - n) * round2 (100 / of_nat n)"
proof (induction N)
  case (Suc N)
  let ?r = "round2 (100 / of_nat n)"
  have u: "[1..<Suc (Suc N)] = [1..<Suc N] @ [Suc N]" by simp
  show ?case
  proof (cases "n = Suc N")
    case True
    have "sum_list (map (equalShare n) [1..<Suc N]) = sum_list (map (\<lambda>i. ?r) [1..<Suc N])"
      using True by (intro arg_cong [where f = sum_list] map_cong) (auto simp: equalShare_def)
    also have "\<dots> = of_nat N * ?r" by (simp add: sum_list_triv)
    finally have "sum_list (map (equalShare n) [1..<Suc (Suc N)]) = of_nat N * ?r + equalShare n (Suc N)"
      unfolding u map_append sum_list_append by simp
    moreover have "equalShare n (Suc N) = 100 - ?r * of_nat N" using True by (simp add: equalShare_def)
    ultimately show ?thesis using True by (simp add: mult.commute del: upt_Suc)
  next
    case False
    then have "n \<le> N" using Suc.prems by simp
    have "sum_list (map (equalShare n) [1..<Suc (Suc N)]) = 100 + of_nat (N - n) * ?r + equalShare n (Suc N)"
      unfolding u map_append sum_list_append Suc.IH [OF Suc.prems(1) \<open>n \<le> N\<close>] by simp
    moreover have "equalShare n (Suc N) = ?r" using False by (simp add: equalShare_def)
    moreover have "(of_nat (Suc N - n) :: rat) = of_nat (N - n) + 1" using \<open>n \<le> N\<close> by (simp add: Suc_diff_le)
    ultimately show ?thesis by (simp add: algebra_simps del: upt_Suc)
  qed
qed simp

lemma shares_snd: "map snd (shares db shop code) = map (equalShare (length (countedMembers db shop code))) [1..<Suc (length (rankedMembers db shop code))]"
proof -
  have "map snd (shares db shop code) = map (equalShare (length (countedMembers db shop code))) (map fst (enumerate 1 (rankedMembers db shop code)))"
    by (simp add: shares_def case_prod_unfold comp_def del: map_fst_enumerate)
  then show ?thesis by (simp add: map_fst_enumerate del: upt_Suc)
qed

lemma counted_ranked: "length (countedMembers db shop code) \<le> length (rankedMembers db shop code)"
proof -
  have "countedMembers db shop code = filter (\<lambda>m. masterAlias db m \<noteq> None)
      (filter (\<lambda>m. usedMapping db m \<and> sm_ShopID m = shop \<and> sm_SMLItemCode m = code) (sdb_mappings db))"
    unfolding countedMembers_def filter_filter by (rule filter_cong) auto
  then show ?thesis unfolding rankedMembers_def length_sort_by by (simp only: length_filter_le)
qed

text \<open>
  The shares that the preparation gives to the members of a new pool add up to 100 only when
  every product of the item has a master: the members are counted over the products with a master,
  but all products of the item get a share, so each product without one adds a further equal share.
  Every share is positive and at most 50 percent and a half.
\<close>

theorem prepared_shares:
  assumes "poolCandidate db shop code"
  shows "sum_list (map snd (shares db shop code)) = 100
      + of_nat (length (rankedMembers db shop code) - length (countedMembers db shop code))
        * round2 (100 / of_nat (length (countedMembers db shop code)))
    \<and> list_all (\<lambda>s. 0 < s \<and> s \<le> 101 / 2) (map snd (shares db shop code))"
proof
  define n where "n = length (countedMembers db shop code)"
  have n: "2 \<le> n" "n \<le> 50" using assms by (auto simp: poolCandidate_def Let_def n_def)
  show "sum_list (map snd (shares db shop code)) = 100
      + of_nat (length (rankedMembers db shop code) - length (countedMembers db shop code))
        * round2 (100 / of_nat (length (countedMembers db shop code)))"
    unfolding shares_snd using n sum_equalShare [OF _ counted_ranked] by (simp add: n_def)
  have q: "2 \<le> 100 / (of_nat n :: rat)" "100 / (of_nat n :: rat) \<le> 50" using n by (simp_all add: field_simps)
  define r where "r = round2 (100 / (of_nat n :: rat))"
  have r: "\<bar>r - 100 / of_nat n\<bar> \<le> 1 / 200" unfolding r_def by (rule round2_bounds)
  have "0 < equalShare n i \<and> equalShare n i \<le> 101 / 2" for i
  proof (cases "i = n")
    case True
    have e: "equalShare n i = 100 / of_nat n + (100 / of_nat n - r) * of_nat (n - 1)"
    proof -
      have "(of_nat (n - 1) :: rat) = of_nat n - 1" using n by simp
      then show ?thesis using True n by (simp add: equalShare_def r_def field_simps)
    qed
    have "\<bar>(100 / of_nat n - r) * of_nat (n - 1)\<bar> \<le> 1 / 200 * 49"
      unfolding abs_mult using r n by (intro mult_mono) (auto simp: abs_minus_commute)
    then show ?thesis unfolding e abs_le_iff using q by linarith
  next
    case False
    then have "equalShare n i = r" by (simp add: equalShare_def r_def)
    then show ?thesis using q r unfolding abs_le_iff by linarith
  qed
  then show "list_all (\<lambda>s. 0 < s \<and> s \<le> 101 / 2) (map snd (shares db shop code))"
    unfolding shares_snd by (simp add: list_all_iff n_def)
qed

section \<open>What an import may change\<close>










section \<open>An example\<close>

definition sample_row :: "int \<Rightarrow> string \<Rightarrow> string option \<Rightarrow> StockMappingRow" where
  "sample_row item source alias =
     \<lparr>sm_ShopID = 7, sm_ItemID = item, sm_ModelID = 1, sm_SMLItemCode = ''A'', sm_SMLUnitCode = ''EA'',
      sm_UnitFactor = Float 1, sm_ManualUnitFactor = None, sm_MatchSource = source, sm_Excluded = False,
      sm_SharedPoolEnabled = False, sm_PoolAllocationPct = 100, sm_WarningCodes = [], sm_AliasID = alias,
      sm_SetDefinitionHash = [], sm_LastPreviewTarget = None, sm_LastSuccessTarget = None, sm_UpdatedAt = 0\<rparr>"

definition sample_master :: "string \<Rightarrow> StockAliasRow" where
  "sample_master i = \<lparr>sal_ID = i, sal_MappingRevision = 1, sal_StockPolicy = ''managed'', sal_Source = ''shopee'',
     sal_AccountKey = ''shop:7'', sal_ExternalItemID = [], sal_ExternalVariantID = [], sal_Active = True,
     sal_ConversionStatus = ''ready'', sal_SalesEnabled = True, sal_ScopeConfirmed = True\<rparr>"

definition sample_listed :: "int \<Rightarrow> StockProductRow" where
  "sample_listed item = \<lparr>sp_ShopID = 7, sp_ItemID = item, sp_ModelID = 1, sp_ShopeeAvailable = 5, sp_Active = True\<rparr>"

definition sample_mapping_db :: StockDB where
  "sample_mapping_db = sample_stock_db\<lparr>
     sdb_mappings := [sample_row 1 ''sku'' (Some ''a''), sample_row 2 ''sku'' (Some ''b''), sample_row 3 ''manual'' None],
     sdb_products := [sample_listed 1, sample_listed 2, sample_listed 3],
     sdb_aliases := [sample_master ''a'', sample_master ''b'']\<rparr>"




lemma markDuplicateMappings_spec_witness:
  "''duplicate_sml_item'' \<in> set (sm_WarningCodes (sdb_mappings (markDuplicateMappings 1 sample_mapping_db) ! 0))"
proof -
  let ?db = "markDuplicateMappings 1 sample_mapping_db"
  let ?m = "sdb_mappings ?db ! 0"
  have "?m \<in> set (sdb_mappings ?db)" by (rule nth_mem) (simp add: markDuplicateMappings_def sample_mapping_db_def Let_def)
  moreover have "activeMapping sample_mapping_db ?m" by code_simp
  moreover have "length (groupOf ?db ?m) > 1" "\<not> completePool (groupOf ?db ?m)" by code_simp+
  ultimately show ?thesis using markDuplicateMappings_spec [of ?m 1 sample_mapping_db] by blast
qed

lemma sample_members:
  "length (countedMembers sample_mapping_db 7 ''A'') = 2" "length (rankedMembers sample_mapping_db 7 ''A'') = 3"
  by code_simp+

lemma prepared_shares_witness: "sum_list (map snd (shares sample_mapping_db 7 ''A'')) = 150"
proof -
  have "poolCandidate sample_mapping_db 7 ''A''" by code_simp
  moreover have "\<lfloor>10001 / 2 :: rat\<rfloor> = 5000" by (simp add: floor_eq_iff)
  then have "round2 (100 / of_nat 2) = 50" by (simp add: round2_def)
  ultimately show ?thesis using prepared_shares [of sample_mapping_db 7 "''A''"] by (simp add: sample_members)
qed


end
