(* ===== verification/Stock_Sync.thy ===== *)
theory Stock_Sync
  imports Stock_Calculate Stock_Mapping
begin

text \<open>
  The operations of the stock service that put the others together
  (\<open>services/shopeestock/service.go\<close>, \<open>worker.go\<close>): the settings, the catalogs of the accounting
  system and of a shop, the calculation that a user queues, and the synchronisation, which prepares,
  takes the lease, calculates and writes. The products of a synchronisation are written two at a time in
  the order of a Go map; the model writes them one after another in an order that is a parameter. The
  heartbeat of a calculation and the limits on how many jobs run at once are left out.
\<close>

section \<open>Dates\<close>

definition pad0 :: "nat \<Rightarrow> int \<Rightarrow> string" where
  "pad0 n i = (let s = dec_of_int i in replicate (n - length s) (CHR ''0'') @ s)"

text \<open>\<open>Format("2006-01-02")\<close> for a year of at most four digits.\<close>

definition TodayBangkok :: "instant \<Rightarrow> string" where
  "TodayBangkok now =
     (let m = local_month bangkok now in
      join [pad0 4 (m div 12), pad0 2 (m mod 12 + 1), pad0 2 (local_mday bangkok now)] ''-'')"

section \<open>What the service calls\<close>

record ItemListRequest =
  ilr_Offset :: int
  ilr_PageSize :: int
  ilr_UpdateTimeFrom :: int
  ilr_UpdateTimeTo :: int

record ItemListPage =
  ilp_Items :: "int list"
  ilp_HasNextPage :: bool
  ilp_NextOffset :: int

type_synonym time_range = "(instant \<times> instant) option"

record 'w sync_env = "'w stock_env" +
  sy_owner :: "string \<Rightarrow> int \<Rightarrow> 'w world \<Rightarrow> string"
  sy_order :: "(int \<times> PreviewLine list) list \<Rightarrow> (int \<times> PreviewLine list) list"
  sy_cancelled :: "'w world \<Rightarrow> int \<Rightarrow> bool"
  sml_CatalogRange :: "'w world \<Rightarrow> nat \<Rightarrow> time_range \<Rightarrow> 'w world \<times> (service_error + StockCatalogItem list \<times> int)"
  api_GetItemList :: "'w world \<Rightarrow> int \<Rightarrow> ItemListRequest \<Rightarrow> 'w world \<times> (api_error + ItemListPage)"

text \<open>Errors of the two kinds of calls.\<close>

definition service :: "'w world \<times> (service_error + 'a) \<Rightarrow> 'w world \<times> (sync_error + 'a)" where
  "service r = (case r of (w, Inl e) \<Rightarrow> (w, Inl (Service e)) | (w, Inr x) \<Rightarrow> (w, Inr x))"

definition api_call :: "'w world \<times> (api_error + 'a) \<Rightarrow> 'w world \<times> (sync_error + 'a)" where
  "api_call r = (case r of (w, Inl e) \<Rightarrow> (w, Inl (Api e)) | (w, Inr x) \<Rightarrow> (w, Inr x))"

text \<open>A statement whose error the code ignores.\<close>

definition attempt :: "service_error + StockDB \<Rightarrow> 'w world \<Rightarrow> 'w world" where
  "attempt r w = (case r of Inl _ \<Rightarrow> w | Inr db \<Rightarrow> (db, snd w))"

definition in_db :: "(StockDB \<Rightarrow> StockDB) \<Rightarrow> 'w world \<Rightarrow> 'w world" where
  "in_db f w = (f (fst w), snd w)"

section \<open>Settings\<close>

definition locationKey :: "LocationPair \<Rightarrow> string" where
  "locationKey l = join [pair_Warehouse l, pair_Location l] [CHR 0x00]"

definition trimmedLocation :: "LocationPair \<Rightarrow> LocationPair" where
  "trimmedLocation l = \<lparr>pair_Warehouse = trim_space (pair_Warehouse l), pair_Location = trim_space (pair_Location l)\<rparr>"

definition normalizeLocations :: "LocationPair list \<Rightarrow> LocationPair list" where
  "normalizeLocations values =
     (let seen = foldl (\<lambda>m v. assoc_update (locationKey v) v m) []
            (filter (\<lambda>v. pair_Warehouse v \<noteq> [] \<and> pair_Location v \<noteq> []) (map trimmedLocation values))
      in map (\<lambda>k. the (map_of seen k)) (sort_by id (remdups (map fst seen))))"

definition normalizeSelectedScope :: "SettingsUpdate \<Rightarrow> service_error + SettingsUpdate" where
  "normalizeSelectedScope request0 =
     (let request = request0\<lparr>upd_ScopeMode := to_lower (trim_space (upd_ScopeMode request0)),
            upd_Locations := normalizeLocations (upd_Locations request0), upd_AcknowledgeAllScopeWarnings := False\<rparr>
      in if upd_ScopeMode request \<noteq> ''selected'' \<or> length (upd_Locations request) \<noteq> 1 then Inl ErrScopeRequired
         else Inr request)"

definition nextRun :: "Settings \<Rightarrow> SettingsUpdate \<Rightarrow> instant \<Rightarrow> SettingsUpdate" where
  "nextRun settings request now =
     (if scheduleChanged (Some settings) request \<or> (upd_Enabled request \<and> \<not> cfg_Enabled settings) \<or> cfg_NextRunAt settings = None
      then request\<lparr>upd_NextRunAt := Some (nextScheduledRun (settingsFromUpdate request) now)\<rparr>
      else request\<lparr>upd_NextRunAt := cfg_NextRunAt settings\<rparr>)"

definition SaveSettings ::
    "'w sync_env \<Rightarrow> 'w world \<Rightarrow> int \<Rightarrow> SettingsUpdate \<Rightarrow> 'w world \<times> (service_error + Settings)" where
  "SaveSettings env w shop request =
     (if f_lt (upd_StockPct request) (Float 1) \<or> f_lt (Float 100) (upd_StockPct request)
      then (w, Inl (Invalid ''stock percent''))
      else
        wbind (w, GetSettings (fst w) shop) (\<lambda>w settings.
        wbind (w, normalizeSchedule (preserveScheduleForLegacyRequest request (Some settings))) (\<lambda>w request.
        wbind (w, normalizeSelectedScope request) (\<lambda>w request.
        if upd_Enabled request \<and> \<not> sv_available env then (w, Inl ErrUnavailable)
        else if upd_Enabled request \<and> cfg_CredentialMode settings \<noteq> ''gateway'' then (w, Inl ErrGatewayOnly)
        else
          let now = api_now env w in
          case UpdateSettings now (fst w) shop (nextRun settings request now) of (db, r) \<Rightarrow> ((db, snd w), r)))))"

section \<open>The catalog of the accounting system\<close>

text \<open>At most 101 pages of 500 items are read.\<close>

function catalogPages ::
    "'w sync_env \<Rightarrow> time_range \<Rightarrow> nat \<Rightarrow> StockCatalogItem list \<Rightarrow> 'w world
      \<Rightarrow> 'w world \<times> (service_error + StockCatalogItem list)" where
  "catalogPages env period page items w =
     wbind (sml_CatalogRange env w page period) (\<lambda>w (found, n).
       let items = items @ found in
       if int (length items) \<ge> n \<or> found = [] then (w, Inr items)
       else if page > 100 then (w, Inl (Failed ''SML stock catalog is over the limit of 50,000 items''))
       else catalogPages env period (page + 1) items w)"
  by pat_completeness auto
termination by (relation "measure (\<lambda>(env, period, page, items, w). 101 - page)") auto

declare catalogPages.simps [simp del]

definition fetchSMLCatalog ::
    "'w sync_env \<Rightarrow> time_range \<Rightarrow> 'w world \<Rightarrow> 'w world \<times> (service_error + StockCatalogItem list)" where
  "fetchSMLCatalog env period w = catalogPages env period 1 [] w"

section \<open>The products of a shop\<close>

definition itemListRequest :: "time_range \<Rightarrow> int \<Rightarrow> ItemListRequest" where
  "itemListRequest period offset =
     \<lparr>ilr_Offset = offset, ilr_PageSize = 100,
      ilr_UpdateTimeFrom = (case period of None \<Rightarrow> 0 | Some (t, _) \<Rightarrow> unix_seconds t),
      ilr_UpdateTimeTo = (case period of None \<Rightarrow> 0 | Some (_, t) \<Rightarrow> unix_seconds t)\<rparr>"

text \<open>The offset is a Go \<open>int\<close> and has to grow with every page, so the list ends.\<close>

function itemPages ::
    "'w sync_env \<Rightarrow> int \<Rightarrow> time_range \<Rightarrow> int \<Rightarrow> int list \<Rightarrow> 'w world \<Rightarrow> 'w world \<times> (sync_error + int list)" where
  "itemPages env shop period offset entries w =
     wbind (api_call (api_GetItemList env w shop (itemListRequest period offset))) (\<lambda>w page.
       let entries = entries @ ilp_Items page; following = wrap64 (ilp_NextOffset page) in
       if \<not> ilp_HasNextPage page then (w, Inr entries)
       else if following \<le> offset then (w, Inl (Service (Failed ''Shopee item pagination does not move'')))
       else itemPages env shop period following entries w)"
  by pat_completeness auto
termination
proof (relation "measure (\<lambda>(env, shop, period, offset, entries, w). nat (2 ^ 63 - offset))", goal_cases)
  case (2 env shop period offset entries w w' page entries' following)
  have "following < 2 ^ 63" unfolding 2(2) by (simp add: wrap64_def)
  then show ?case using 2(4) by simp
qed simp

declare itemPages.simps [simp del]

definition modelProduct :: "string \<Rightarrow> ItemBaseInfo \<Rightarrow> ProductModel \<Rightarrow> ShopeeProduct" where
  "modelProduct locationID item model =
     \<lparr>sprod_ItemID = ib_ItemID item, sprod_ModelID = pm_ModelID model, sprod_ItemSKU = ib_ItemSKU item,
      sprod_ModelSKU = pm_ModelSKU model, sprod_Available = CurrentSellerStock (pm_StockInfoV2 model) locationID\<rparr>"

definition itemProduct :: "string \<Rightarrow> ItemBaseInfo \<Rightarrow> ShopeeProduct" where
  "itemProduct locationID item =
     \<lparr>sprod_ItemID = ib_ItemID item, sprod_ModelID = 0, sprod_ItemSKU = ib_ItemSKU item, sprod_ModelSKU = [],
      sprod_Available = CurrentSellerStock (ib_StockInfoV2 item) locationID\<rparr>"

fun itemProducts ::
    "'w sync_env \<Rightarrow> int \<Rightarrow> string \<Rightarrow> ItemBaseInfo list \<Rightarrow> ShopeeProduct list \<Rightarrow> 'w world
      \<Rightarrow> 'w world \<times> (sync_error + ShopeeProduct list)" where
  "itemProducts env shop locationID [] products w = (w, Inr products)"
| "itemProducts env shop locationID (item # items) products w =
     (if ib_HasModel item then
        wbind (api_call (api_GetModelList env w shop (ib_ItemID item))) (\<lambda>w models.
          itemProducts env shop locationID items (products @ map (modelProduct locationID item) models) w)
      else itemProducts env shop locationID items (products @ [itemProduct locationID item]) w)"

fun productBatches ::
    "'w sync_env \<Rightarrow> int \<Rightarrow> string \<Rightarrow> int list list \<Rightarrow> ShopeeProduct list \<Rightarrow> 'w world
      \<Rightarrow> 'w world \<times> (sync_error + ShopeeProduct list)" where
  "productBatches env shop locationID [] products w = (w, Inr products)"
| "productBatches env shop locationID (ids # batches) products w =
     wbind (api_call (api_GetItemBaseInfo env w shop ids)) (\<lambda>w items.
     wbind (itemProducts env shop locationID items products w) (\<lambda>w products.
       productBatches env shop locationID batches products w))"

definition fetchShopeeProducts ::
    "'w sync_env \<Rightarrow> int \<Rightarrow> string \<Rightarrow> time_range \<Rightarrow> 'w world \<Rightarrow> 'w world \<times> (sync_error + ShopeeProduct list)" where
  "fetchShopeeProducts env shop locationID period w =
     wbind (itemPages env shop period 0 [] w) (\<lambda>w entries.
       productBatches env shop locationID (chunksOf 50 entries) [] w)"

section \<open>Bringing the catalogs up to date\<close>

definition MarkCatalogAttempted :: "instant \<Rightarrow> StockDB \<Rightarrow> int \<Rightarrow> string \<Rightarrow> StockDB" where
  "MarkCatalogAttempted now db shop message =
     updateShop shop (\<lambda>s. s\<lparr>cfg_LastCatalogAttemptAt := Some now, cfg_LastError := message, cfg_UpdatedAt := now\<rparr>) db"

definition MarkCatalogSynced :: "instant \<Rightarrow> StockDB \<Rightarrow> int \<Rightarrow> bool \<Rightarrow> StockDB" where
  "MarkCatalogSynced now db shop full =
     updateShop shop (\<lambda>s. s\<lparr>cfg_LastCatalogSyncAt := Some now,
       cfg_LastFullCatalogSyncAt := (if full then Some now else cfg_LastFullCatalogSyncAt s),
       cfg_LastCatalogAttemptAt := Some now, cfg_LastError := [], cfg_UpdatedAt := now\<rparr>) db"

definition older :: "instant option \<Rightarrow> instant \<Rightarrow> bool" where
  "older t limit = (case t of None \<Rightarrow> True | Some t \<Rightarrow> t < limit)"

definition CatalogDueShops :: "instant \<Rightarrow> StockDB \<Rightarrow> (int \<times> bool) list" where
  "CatalogDueShops now db =
     map (\<lambda>s. (cfg_ShopID s, older (cfg_LastFullCatalogSyncAt s) (now - 24 * hour)))
       (sort_by cfg_ShopID (filter (\<lambda>s. cfg_Enabled s \<and> \<not> srow_Disabled s \<and> cfg_CredentialMode s = ''gateway''
          \<and> older (cfg_LastCatalogAttemptAt s) (now - hour)) (sdb_settings db)))"

definition ListRuns :: "StockDB \<Rightarrow> int \<Rightarrow> int \<Rightarrow> StockRunRow list" where
  "ListRuns db shop limit0 =
     take (nat (if limit0 < 1 \<or> limit0 > 100 then 30 else limit0))
       (sort_by (\<lambda>r. - srun_StartedAt r) (filter (\<lambda>r. shop = 0 \<or> srun_ShopID r = shop) (sdb_runs db)))"

text \<open>The catalog is stored and the mappings made by hand follow it.\<close>

definition storeCatalog ::
    "'w sync_env \<Rightarrow> StockCatalogItem list \<Rightarrow> bool \<Rightarrow> 'w world \<Rightarrow> 'w world \<times> (sync_error + unit)" where
  "storeCatalog env items full w =
     (if full \<and> items = [] then (w, Inl (Service (Failed ''SML returned no stock items'')))
      else
        let now = api_now env w;
            w = (if full then in_db (\<lambda>db. ReplaceSMLCatalog now db items) w
                 else if items \<noteq> [] then in_db (\<lambda>db. UpsertSMLCatalog now db items) w else w)
        in (in_db (\<lambda>db. RefreshManualMappings now db items full) w, Inr ()))"

definition storeProducts ::
    "'w sync_env \<Rightarrow> int \<Rightarrow> ShopeeProduct list \<Rightarrow> bool \<Rightarrow> 'w world \<Rightarrow> 'w world" where
  "storeProducts env shop products full w =
     (let now = api_now env w; index = NewCatalogIndex (ListSMLCatalog (fst w)) in
      if full then in_db (\<lambda>db. ReplaceShopeeProducts now db shop products index) w
      else if products \<noteq> [] then in_db (\<lambda>db. UpsertShopeeProducts now db shop products index) w else w)"

definition changedSince :: "instant \<Rightarrow> Settings \<Rightarrow> bool \<Rightarrow> time_range" where
  "changedSince now settings full =
     (if full then None else map_option (\<lambda>t. (t - 10 * minute, now)) (cfg_LastCatalogSyncAt settings))"

definition catalogBody ::
    "'w sync_env \<Rightarrow> Settings \<Rightarrow> int \<Rightarrow> bool \<Rightarrow> 'w world \<Rightarrow> 'w world \<times> (sync_error + nat)" where
  "catalogBody env settings shop full w =
     wbind (api_call (sellerLocationID (shopee_api.truncate env) w shop)) (\<lambda>w (locationID, multipleWarehouses).
     if multipleWarehouses
     then (in_db (\<lambda>db. SetPaused (api_now env w) db shop ''multiple_shopee_warehouses''
             ''Shopee has several seller warehouse locations'') w,
           Inl (Service (Failed ''Shopee has several seller warehouse locations'')))
     else
       let period = changedSince (api_now env w) settings full in
       wbind (service (fetchSMLCatalog env period w)) (\<lambda>w items.
       wbind (storeCatalog env items full w) (\<lambda>w _.
       wbind (fetchShopeeProducts env shop locationID period w) (\<lambda>w products.
         let w = storeProducts env shop products full w in
         (in_db (\<lambda>db. MarkCatalogSynced (api_now env w) db shop full) w, Inr (length products))))))"

definition catalogRun ::
    "'w sync_env \<Rightarrow> Settings \<Rightarrow> int \<Rightarrow> string \<Rightarrow> bool \<Rightarrow> 'w world \<Rightarrow> 'w world \<times> (sync_error + StockRunRow)" where
  "catalogRun env settings shop trigger full w0 =
     (let w = in_db (\<lambda>db. MarkCatalogAttempted (api_now env w0) db shop []) w0; runID = sv_newRunID env w in
      wbind (service (store_step w (CreateRun runID (api_now env w) (fst w) shop ''catalog'' trigger []))) (\<lambda>w _.
      case catalogBody env settings shop full w of
        (w, Inl cause) \<Rightarrow>
          let now = api_now env w; message = sync_text (shopee_api.truncate env) cause in
          (in_db (\<lambda>db. MarkCatalogAttempted now (FinishRun now db runID ''failed'' None 1 message) shop message) w, Inl cause)
      | (w, Inr n) \<Rightarrow>
          let w = in_db (\<lambda>db. FinishRun (api_now env w) db runID ''success'' (Some (emptyResult\<lparr>res_TotalCount := int n\<rparr>)) 0 []) w in
          (w, case ListRuns (fst w) shop 1 of [] \<Rightarrow> Inl (Service noRows) | r # _ \<Rightarrow> Inr r)))"

definition syncCatalog ::
    "'w sync_env \<Rightarrow> 'w world \<Rightarrow> int \<Rightarrow> string \<Rightarrow> bool \<Rightarrow> 'w world \<times> (sync_error + StockRunRow)" where
  "syncCatalog env w shop trigger full =
     (if \<not> sv_available env then (w, Inl (Service ErrUnavailable))
      else
        wbind (service (w, GetSettings (fst w) shop)) (\<lambda>w settings.
        if cfg_CredentialMode settings \<noteq> ''gateway'' then (w, Inl (Service ErrGatewayOnly))
        else
          let owner = sy_owner env ''catalog'' shop w in
          case AcquireCatalogLease (api_now env w) (fst w) owner (5 * minute) of
            (db, False) \<Rightarrow> ((db, snd w), Inl (Service ErrSyncInProgress))
          | (db, True) \<Rightarrow>
              (case AcquireLease (api_now env (db, snd w)) db shop owner (5 * minute) of
                 (db, False) \<Rightarrow> ((ReleaseCatalogLease db owner, snd w), Inl (Service ErrSyncInProgress))
               | (db, True) \<Rightarrow>
                   (case catalogRun env settings shop trigger full (db, snd w) of
                      (w, r) \<Rightarrow> (in_db (\<lambda>db. ReleaseCatalogLease (ReleaseLease db shop owner) owner) w, r)))))"

definition SyncCatalog :: "'w sync_env \<Rightarrow> 'w world \<Rightarrow> int \<Rightarrow> 'w world \<times> (sync_error + StockRunRow)" where
  "SyncCatalog env w shop = syncCatalog env w shop ''manual'' True"

definition SyncCatalogScheduled :: "'w sync_env \<Rightarrow> 'w world \<Rightarrow> int \<Rightarrow> bool \<Rightarrow> 'w world \<times> (sync_error + StockRunRow)" where
  "SyncCatalogScheduled env w shop full = syncCatalog env w shop ''scheduler'' full"

section \<open>Calculating on request\<close>

definition Preview :: "'w sync_env \<Rightarrow> 'w world \<Rightarrow> int \<Rightarrow> string \<Rightarrow> 'w world \<times> (service_error + PreviewResult)" where
  "Preview env w shop asOfDate = calculate (stock_env.truncate env) w shop asOfDate ''preview'' ''manual'' True [] []"

definition QueuePreview :: "'w sync_env \<Rightarrow> 'w world \<Rightarrow> int \<Rightarrow> string \<Rightarrow> 'w world \<times> (service_error + string)" where
  "QueuePreview env w shop asOfDate =
     (if \<not> sv_available env then (w, Inl ErrUnavailable)
      else if \<not> validDate asOfDate then (w, Inl (Invalid ''date must be YYYY-MM-DD''))
      else
        wbind (w, GetSettings (fst w) shop) (\<lambda>w settings.
        wbind (w, validatePreviewScope (Some settings)) (\<lambda>w _.
        let runID = sv_newRunID env w in
        case QueuePreviewRun runID (api_now env w) (fst w) shop asOfDate of
          Inl e \<Rightarrow> (w, Inl (if e = uniqueViolation then ErrSyncInProgress else e))
        | Inr db \<Rightarrow> ((db, snd w), Inr runID))))"

definition PrepareMappings :: "'w sync_env \<Rightarrow> 'w world \<Rightarrow> int \<Rightarrow> 'w world \<times> (service_error + PreparationResult)" where
  "PrepareMappings env w shop =
     (if \<not> conversionActive (sv_config env)
      then (w, Inr \<lparr>prep_ManagedCount = 0, prep_SharedPoolCount = 0, prep_SharedPoolMemberCount = 0\<rparr>)
      else
        wbind (w, GetSettings (fst w) shop) (\<lambda>w settings.
        wbind (w, validatePreviewScope (Some settings)) (\<lambda>w _.
        let owner = sy_owner env ''prepare'' shop w in
        case AcquireFencedLease (api_now env w) (fst w) shop owner (2 * minute) of
          (db, None) \<Rightarrow> ((db, snd w), Inl ErrSyncInProgress)
        | (db, Some _) \<Rightarrow>
            (case PrepareReadyMappings (api_now env (db, snd w)) db shop of
               Inl e \<Rightarrow> ((ReleaseLease db shop owner, snd w), Inl e)
             | Inr (db, result) \<Rightarrow> ((ReleaseLease db shop owner, snd w), Inr result)))))"

definition ExecuteQueuedPreview ::
    "'w sync_env \<Rightarrow> 'w world \<Rightarrow> StockRunRow \<Rightarrow> 'w world \<times> (service_error + PreviewResult)" where
  "ExecuteQueuedPreview env w job =
     (if srun_ID job = [] \<or> srun_LeaseOwner job = [] then (w, Inl (Failed ''queued preview job is invalid''))
      else
        wbind (w, validatePreviewSnapshot (api_now env w) (fst w) (srun_ID job) (srun_LeaseOwner job)) (\<lambda>w valid.
        if \<not> valid
        then (attempt (FinishLeasedPreviewRun (api_now env w) (fst w) (srun_ID job) (srun_LeaseOwner job) ''cancelled'' None 0
                ''stale_configuration'') w, Inl ErrPreviewStale)
        else calculate (stock_env.truncate env) w (srun_ShopID job) (srun_AsOfDate job) ''preview'' ''manual'' True
               (srun_ID job) (srun_LeaseOwner job)))"

text \<open>One tick of the worker for calculations.\<close>

definition previewTick :: "'w sync_env \<Rightarrow> string \<Rightarrow> 'w world \<Rightarrow> 'w world" where
  "previewTick env owner w =
     (case ClaimQueuedPreview (api_now env w) (fst w) owner (5 * minute) of
        (db, None) \<Rightarrow> (db, snd w)
      | (db, Some job) \<Rightarrow>
          (case AcquireFencedLease (api_now env (db, snd w)) db (srun_ShopID job) owner (5 * minute) of
             (db, None) \<Rightarrow> (ReleasePreviewRun db (srun_ID job) owner, snd w)
           | (db, Some token) \<Rightarrow>
               in_db (\<lambda>db. ReleaseLease db (srun_ShopID job) owner)
                 (case AttachPreviewFencingToken db (srun_ID job) owner token of
                    Inl _ \<Rightarrow> (ReleasePreviewRun db (srun_ID job) owner, snd w)
                  | Inr db \<Rightarrow> fst (ExecuteQueuedPreview env (db, snd w) job))))"

section \<open>Mappings and pools\<close>

text \<open>Products can only be excluded here; every other change goes through an impact preview.\<close>

definition validManualFactor :: "float64 option \<Rightarrow> bool" where
  "validManualFactor f = (case f of None \<Rightarrow> True
     | Some x \<Rightarrow> \<not> (is_nan x \<or> is_inf x \<or> f_lt x (Float 1) \<or> f_lt (Float 1000000000) x))"

definition ChangeMapping ::
    "'w sync_env \<Rightarrow> 'w world \<Rightarrow> int \<Rightarrow> int \<Rightarrow> int \<Rightarrow> MappingUpdate \<Rightarrow> 'w world \<times> (service_error + unit)" where
  "ChangeMapping env w shop item model request0 =
     (let request = request0\<lparr>mu_SMLItemCode := trim_space (mu_SMLItemCode request0),
            mu_SMLUnitCode := trim_space (mu_SMLUnitCode request0),
            mu_MarketplaceAliasID := trim_space (mu_MarketplaceAliasID request0)\<rparr> in
      if mu_UpdatedAt request = None \<or> (\<not> mu_Excluded request \<and> (mu_SMLItemCode request = [] \<or> mu_SMLUnitCode request = []))
      then (w, Inl (Invalid ''item and unit''))
      else if \<not> mu_Excluded request then (w, Inl (Invalid ''impact preview''))
      else if \<not> validManualFactor (mu_ManualUnitFactor request) then (w, Inl ErrInvalidManualFactor)
      else store_step w (UpdateMapping (api_now env w) (fst w) shop item model request))"

text \<open>\<open>math.Round\<close>: to the nearest integer, half away from zero.\<close>

fun f_round :: "float64 \<Rightarrow> float64" where
  "f_round (Float a) = Float (of_int (if a < 0 then - \<lfloor>- a + 1 / 2\<rfloor> else \<lfloor>a + 1 / 2\<rfloor>))"
| "f_round x = x"

definition roundedShare :: "float64 \<Rightarrow> float64" where
  "roundedShare pct = f_div (f_round (f_mul pct (Float 100))) (Float 100)"

definition poolUpdateKey :: "SharedPoolMemberUpdate \<Rightarrow> string" where
  "poolUpdateKey m = stockProductKey (spu_ItemID m) (spu_ModelID m)"

fun normalizeMembers ::
    "SharedPoolMemberUpdate list \<Rightarrow> string list \<Rightarrow> float64 \<Rightarrow> SharedPoolMemberUpdate list
      \<Rightarrow> service_error + SharedPoolMemberUpdate list \<times> float64" where
  "normalizeMembers [] seen t ms = Inr (ms, t)"
| "normalizeMembers (m # rest) seen t ms =
     (if spu_ItemID m \<le> 0 \<or> spu_ModelID m < 0 \<or> spu_UpdatedAt m = None then Inl (Invalid ''incomplete member'')
      else if poolUpdateKey m \<in> set seen then Inl (Invalid ''duplicate member'')
      else if f_le (spu_AllocationPct m) (Float 0) \<or> f_lt (Float 100) (spu_AllocationPct m)
              \<or> is_nan (spu_AllocationPct m) \<or> is_inf (spu_AllocationPct m) then Inl (Invalid ''share'')
      else
        let rounded = roundedShare (spu_AllocationPct m) in
        if f_lt (f_const (1 / 1000000)) (f_abs (f_sub (spu_AllocationPct m) rounded)) then Inl (Invalid ''decimals'')
        else normalizeMembers rest (seen @ [poolUpdateKey m]) (f_add t rounded) (ms @ [m\<lparr>spu_AllocationPct := rounded\<rparr>]))"

definition normalizeSharedPoolUpdate :: "SharedPoolUpdate \<Rightarrow> service_error + SharedPoolUpdate" where
  "normalizeSharedPoolUpdate request =
     (let code = trim_space (spr_SMLItemCode request) in
      if code = [] then Inl (Invalid ''item code'')
      else if length (spr_Members request) < 2 \<or> length (spr_Members request) > 50 then Inl (Invalid ''member count'')
      else
        and_then (normalizeMembers (spr_Members request) [] (Float 0) []) (\<lambda>(ms, t).
          if f_lt (f_const (1 / 1000)) (f_abs (f_sub t (Float 100))) then Inl (Invalid ''shares do not add up'')
          else Inr \<lparr>spr_SMLItemCode = code, spr_Members = ms\<rparr>))"

definition SharePool ::
    "'w sync_env \<Rightarrow> 'w world \<Rightarrow> int \<Rightarrow> SharedPoolUpdate \<Rightarrow> 'w world \<times> (service_error + unit)" where
  "SharePool env w shop request =
     (if shop \<le> 0 then (w, Inl (Invalid ''shop''))
      else
        wbind (w, normalizeSharedPoolUpdate request) (\<lambda>w pool.
        if conversionActive (sv_config env) \<and> \<not> SharedPoolPoliciesManaged (fst w) shop (spr_SMLItemCode pool)
        then (w, Inl (Invalid ''not managed''))
        else store_step w (UpdateSharedPool (api_now env w) (fst w) shop pool)))"

text \<open>A request that was made before a revision is brought to the pool of now.\<close>

fun rebaseMembers ::
    "(string \<times> instant) list \<Rightarrow> SharedPoolMemberUpdate list \<Rightarrow> SharedPoolMemberUpdate list \<Rightarrow> service_error + SharedPoolMemberUpdate list" where
  "rebaseMembers versions [] ms = (if versions = [] then Inr ms else Inl ErrMappingConflict)"
| "rebaseMembers versions (m # rest) ms =
     (case map_of versions (poolUpdateKey m) of None \<Rightarrow> Inl ErrMappingConflict
      | Some t \<Rightarrow>
          if t = zero_time then Inl ErrMappingConflict
          else rebaseMembers (filter (\<lambda>v. fst v \<noteq> poolUpdateKey m) versions) rest (ms @ [m\<lparr>spu_UpdatedAt := Some t\<rparr>]))"

definition rebaseSharedPoolRequest ::
    "SharedPoolUpdate \<Rightarrow> (string \<times> StockMappingRow list) option \<Rightarrow> service_error + SharedPoolUpdate" where
  "rebaseSharedPoolRequest request pool =
     (case pool of None \<Rightarrow> Inl ErrMappingConflict
      | Some (code, members) \<Rightarrow>
          if trim_space code \<noteq> trim_space (spr_SMLItemCode request) \<or> length members \<noteq> length (spr_Members request)
          then Inl ErrMappingConflict
          else
            and_then (rebaseMembers (foldl (\<lambda>v m. assoc_update (stockProductKey (sm_ItemID m) (sm_ModelID m)) (sm_UpdatedAt m) v) [] members)
                (spr_Members request) []) (\<lambda>ms. Inr (request\<lparr>spr_Members := ms\<rparr>)))"

section \<open>Synchronising\<close>

definition groupLinesByItem :: "PreviewLine list \<Rightarrow> (int \<times> PreviewLine list) list" where
  "groupLinesByItem ls = foldl (\<lambda>m l. assoc_update (line_ItemID l)
     ((case map_of m (line_ItemID l) of None \<Rightarrow> [] | Some gs \<Rightarrow> gs) @ [l]) m) [] ls"

definition changedLines :: "PreviewResult \<Rightarrow> PreviewLine list" where
  "changedLines p = filter (\<lambda>l. line_Changed l \<and> \<not> line_Blocked l) (res_Lines p)"

definition writeGroup ::
    "'w sync_env \<Rightarrow> int \<Rightarrow> string \<Rightarrow> string \<Rightarrow> int \<Rightarrow> string \<Rightarrow> int \<times> PreviewLine list \<Rightarrow> 'w world \<Rightarrow> 'w world \<times> item_result" where
  "writeGroup env shop runID owner token locationID g w =
     (if sy_cancelled env w (fst g) then (w, noneDone\<lparr>out_errors := int (length (snd g))\<rparr>)
      else updateItemStock (shopee_api.truncate env) (sv_config env) w shop runID owner token (fst g) locationID (snd g))"

fun writeGroups ::
    "'w sync_env \<Rightarrow> int \<Rightarrow> string \<Rightarrow> string \<Rightarrow> int \<Rightarrow> string \<Rightarrow> (int \<times> PreviewLine list) list \<Rightarrow> 'w world
      \<Rightarrow> 'w world \<times> item_result list" where
  "writeGroups env shop runID owner token locationID [] w = (w, [])"
| "writeGroups env shop runID owner token locationID (g # gs) w =
     (let (w, r) = writeGroup env shop runID owner token locationID g w;
          (w, rs) = writeGroups env shop runID owner token locationID gs w
      in (w, r # rs))"

text \<open>The results are recorded when all products are done.\<close>

fun recordResults :: "'w sync_env \<Rightarrow> int \<Rightarrow> item_result list \<Rightarrow> 'w world \<times> SyncResult \<Rightarrow> 'w world \<times> SyncResult" where
  "recordResults env shop [] s = s"
| "recordResults env shop (r # rs) (w, result) =
     recordResults env shop rs
       (if out_success r = [] then w else in_db (\<lambda>db. MarkSyncSuccess (api_now env w) db shop (out_success r)) w,
        result\<lparr>sync_ChangedCount := sync_ChangedCount result + int (length (out_success r)),
          sync_ErrorCount := sync_ErrorCount result + out_errors r,
          sync_UnknownCount := sync_UnknownCount result + out_unknown r\<rparr>)"

definition recordChecked :: "'w sync_env \<Rightarrow> Settings \<Rightarrow> string \<Rightarrow> 'w world \<Rightarrow> 'w world" where
  "recordChecked env settings message w =
     (case nextScheduledRunAfter settings (api_now env w) of None \<Rightarrow> w
      | Some t \<Rightarrow> in_db (\<lambda>db. RecordSyncChecked (api_now env w) db (cfg_ShopID settings) message t) w)"

definition finishSync ::
    "'w sync_env \<Rightarrow> string \<Rightarrow> string \<Rightarrow> PreviewResult \<Rightarrow> int \<Rightarrow> string \<Rightarrow> PreviewResult \<Rightarrow> 'w world \<Rightarrow> service_error + StockDB" where
  "finishSync env owner status preview errors message p w =
     FinishLeasedPreviewRun (api_now env w) (fst w) (res_RunID preview) owner status (Some p) errors message"

definition writeChanges ::
    "'w sync_env \<Rightarrow> Settings \<Rightarrow> int \<Rightarrow> string \<Rightarrow> int \<Rightarrow> string \<Rightarrow> PreviewResult \<Rightarrow> 'w world \<Rightarrow> 'w world \<times> SyncResult" where
  "writeChanges env settings shop owner token locationID preview w =
     (let (w, rs) = writeGroups env shop (res_RunID preview) owner token locationID
            (sy_order env (groupLinesByItem (changedLines preview))) w
      in recordResults env shop rs (w, \<lparr>sync_RunID = res_RunID preview, sync_ShopID = shop, sync_ChangedCount = 0,
           sync_BlockedCount = res_BlockedCount preview, sync_ErrorCount = 0, sync_UnknownCount = 0\<rparr>))"

definition afterCalculation ::
    "'w sync_env \<Rightarrow> Settings \<Rightarrow> int \<Rightarrow> string \<Rightarrow> int \<Rightarrow> PreviewResult \<Rightarrow> 'w world \<Rightarrow> 'w world \<times> (sync_error + SyncResult)" where
  "afterCalculation env settings shop owner token preview w =
     (if res_CircuitBreaker preview \<noteq> [] then
        let reason = res_CircuitBreaker preview;
            w = in_db (\<lambda>db. SetPaused (api_now env w) db shop reason ''SML stock changed abnormally'') w in
        (attempt (finishSync env owner ''paused'' preview 0 reason preview w) w,
         Inl (Service (Failed (''paused for safety: '' @ reason))))
      else
        case api_call (sellerLocationID (shopee_api.truncate env) w shop) of
          (w, Inl e) \<Rightarrow>
            let message = sync_text (shopee_api.truncate env) e; w = recordChecked env settings message w in
            (attempt (finishSync env owner ''failed'' preview 1 message preview w) w, Inl e)
        | (w, Inr (_, True)) \<Rightarrow>
            let w = in_db (\<lambda>db. SetPaused (api_now env w) db shop ''multiple_shopee_warehouses''
                  ''Shopee has several seller warehouse locations'') w in
            (attempt (finishSync env owner ''paused'' preview 0 ''multiple_shopee_warehouses'' preview w) w,
             Inl (Service (Failed ''Shopee has several seller warehouse locations'')))
        | (w, Inr (locationID, False)) \<Rightarrow>
            let (w, result) = writeChanges env settings shop owner token locationID preview w;
                failed = sync_ErrorCount result + sync_UnknownCount result;
                status = (if sync_BlockedCount result > 0 \<or> sync_ErrorCount result > 0 \<or> sync_UnknownCount result > 0
                  then ''warning'' else ''success'');
                message = (if sync_ErrorCount result > 0 \<or> sync_UnknownCount result > 0
                  then ''some updates failed or have an unknown result'' else []);
                w = recordChecked env settings message w in
            service (wbind (store_step w (finishSync env owner status preview failed []
              (preview\<lparr>res_ChangedCount := sync_ChangedCount result\<rparr>) w)) (\<lambda>w _. (w, Inr result))))"

text \<open>What happens while the lease is held.\<close>

definition leasedSync ::
    "'w sync_env \<Rightarrow> Settings \<Rightarrow> int \<Rightarrow> string \<Rightarrow> string \<Rightarrow> int \<Rightarrow> 'w world \<Rightarrow> 'w world \<times> (sync_error + SyncResult)" where
  "leasedSync env settings shop trigger owner token w =
     (let runID = sv_newRunID env w; now = api_now env w in
      wbind (service (store_step w (CreateSyncRun runID now (fst w) shop trigger (TodayBangkok now) owner token (2 * minute)))) (\<lambda>w _.
      case calculate (stock_env.truncate env) w shop (TodayBangkok (api_now env w)) ''sync'' trigger False runID owner of
        (w, Inl e) \<Rightarrow> (recordChecked env settings (safe_text (api_text env e)) w, Inl (Service e))
      | (w, Inr preview) \<Rightarrow> afterCalculation env settings shop owner token preview w))"

definition RunSync :: "'w sync_env \<Rightarrow> 'w world \<Rightarrow> int \<Rightarrow> string \<Rightarrow> 'w world \<times> (sync_error + SyncResult)" where
  "RunSync env w shop trigger =
     (if \<not> sv_available env then (w, Inl (Service ErrUnavailable))
      else
        wbind (service (w, GetSettings (fst w) shop)) (\<lambda>w settings.
        wbind (service (w, validateSyncReadiness (Some settings) trigger)) (\<lambda>w _.
        wbind (service (PrepareMappings env w shop)) (\<lambda>w prepared.
        if prep_ManagedCount prepared > 0 \<or> prep_SharedPoolMemberCount prepared > 0
        then (w, Inl (Service ErrDryRunRequired))
        else
          let owner = sy_owner env ''sync'' shop w in
          case AcquireFencedLease (api_now env w) (fst w) shop owner (2 * minute) of
            (db, None) \<Rightarrow> ((db, snd w), Inl (Service ErrSyncInProgress))
          | (db, Some token) \<Rightarrow>
              (case leasedSync env settings shop trigger owner token (db, snd w) of
                 (w, r) \<Rightarrow> (in_db (\<lambda>db. ReleaseLease db shop owner) w, r))))))"

section \<open>The scheduler\<close>

text \<open>
  The jobs that one tick starts: at most one catalog, and the shops that are due whose second has come, as
  long as there is a free slot; a shop whose catalog is being read has to wait.
\<close>

fun startSyncs :: "(int \<Rightarrow> int) \<Rightarrow> int \<Rightarrow> int list \<Rightarrow> nat \<Rightarrow> int list \<Rightarrow> int list" where
  "startSyncs jitter sec running slots [] = []"
| "startSyncs jitter sec running slots (shop # shops) =
     (if shop \<in> set running \<or> sec < jitter shop \<or> slots = 0 then startSyncs jitter sec running slots shops
      else shop # startSyncs jitter sec running (slots - 1) shops)"

definition tickJobs :: "(int \<Rightarrow> int) \<Rightarrow> nat \<Rightarrow> instant \<Rightarrow> instant \<Rightarrow> StockDB \<Rightarrow> (int \<times> bool) option \<times> int list" where
  "tickJobs jitter slots tick now db =
     (let catalog = (case CatalogDueShops now db of [] \<Rightarrow> None | c # _ \<Rightarrow> Some c);
          running = (case catalog of None \<Rightarrow> [] | Some (shop, _) \<Rightarrow> [shop])
      in (catalog, startSyncs jitter (unix_seconds tick mod 60) running slots (EnabledDueShops now db)))"

definition tick :: "'w sync_env \<Rightarrow> (int \<Rightarrow> int) \<Rightarrow> nat \<Rightarrow> instant \<Rightarrow> 'w world \<Rightarrow> 'w world" where
  "tick env jitter slots now w =
     (let (catalog, shops) = tickJobs jitter slots now (api_now env w) (fst w);
          w = (case catalog of None \<Rightarrow> w | Some (shop, full) \<Rightarrow> fst (SyncCatalogScheduled env w shop full))
      in foldl (\<lambda>w shop. fst (RunSync env w shop ''scheduler'')) w shops)"

end
