(* ===== verification/Stock_Steps.thy ===== *)
theory Stock_Steps
  imports Stock_Sync Stock_MappingSafety
begin

text \<open>
  What the statements of the stock store can do to the database, one after another and in any order.
  A step is one committed operation of \<open>services/shopeestock/store.go\<close>, of this process or another.
  The lemmas show that the version of a shop's configuration tells whether what was decided about its
  products is still the same, that a run keeps the version it was made with, and that a shop that is
  switched on needs no dry run and is not paused.
\<close>

section \<open>Steps\<close>

inductive db_step :: "StockDB \<Rightarrow> StockDB \<Rightarrow> bool" where
  update_settings: "db_step db (fst (UpdateSettings now db shop request))"
| set_paused: "db_step db (SetPaused now db shop reason message)"
| catalog_attempted: "db_step db (MarkCatalogAttempted now db shop message)"
| catalog_synced: "db_step db (MarkCatalogSynced now db shop full)"
| sync_checked: "db_step db (RecordSyncChecked now db shop message t)"
| acquire: "db_step db (fst (AcquireLease now db shop owner d))"
| acquire_fenced: "db_step db (fst (AcquireFencedLease now db shop owner d))"
| heartbeat: "db_step db (fst (HeartbeatFencedLease now db shop owner token d))"
| release: "db_step db (ReleaseLease db shop owner)"
| acquire_catalog: "db_step db (fst (AcquireCatalogLease now db owner d))"
| release_catalog: "db_step db (ReleaseCatalogLease db owner)"
| create_run: "CreateRun i now db shop kind trigger asOf = Inr db' \<Longrightarrow> db_step db db'"
| queue_preview: "QueuePreviewRun i now db shop asOf = Inr db' \<Longrightarrow> db_step db db'"
| create_sync: "CreateSyncRun i now db shop trigger asOf owner token d = Inr db' \<Longrightarrow> db_step db db'"
| claim_preview: "db_step db (fst (ClaimQueuedPreview now db owner d))"
| finish: "db_step db (FinishRun now db i status result errors message)"
| finish_leased: "FinishLeasedPreviewRun now db i owner status result errors message = Inr db' \<Longrightarrow> db_step db db'"
| preview_progress: "UpdatePreviewRunProgress db i owner processed = Inr db' \<Longrightarrow> db_step db db'"
| preview_heartbeat: "db_step db (fst (HeartbeatPreviewRun now db i owner d))"
| release_preview: "db_step db (ReleasePreviewRun db i owner)"
| attach_preview: "AttachPreviewFencingToken db i owner token = Inr db' \<Longrightarrow> db_step db db'"
| renew_live: "db_step db (fst (RenewAndValidateLiveWrite now db i shop owner token d))"
| save_attempt: "db_step db (SaveSyncAttempt db i shop line result reason message request)"
| mark_success: "db_step db (MarkSyncSuccess now db shop lines)"
| save_preview: "savePreview now db shop result owner = Inr db' \<Longrightarrow> db_step db db'"
| claim_policy: "db_step db (fst (ClaimPolicyJob now db owner d))"
| attach_policy: "AttachPolicyFencingToken db i owner token = Inr db' \<Longrightarrow> db_step db db'"
| complete_policy: "CompletePolicyZeroing db job token = Inr db' \<Longrightarrow> db_step db db'"
| fail_policy: "db_step db (FailPolicyJob now db job unknown message)"
| set_dry_run: "db_step db (SetDryRunRequired now db shop)"
| mark_duplicates: "db_step db (RefreshDuplicateMappings now db)"
| store_catalog: "db_step db (storeSMLCatalog now db items replace)"
| refresh_manual: "db_step db (RefreshManualMappings now db items full)"
| store_products: "db_step db (storeShopeeProducts now db shop products index replace)"
| update_pool: "UpdateSharedPool now db shop pool = Inr db' \<Longrightarrow> db_step db db'"
| update_mapping: "UpdateMapping now db shop item model mapping = Inr db' \<Longrightarrow> db_step db db'"
| prepare: "PrepareReadyMappings now db shop = Inr (db', prepared) \<Longrightarrow> db_step db db'"

abbreviation db_steps :: "StockDB \<Rightarrow> StockDB \<Rightarrow> bool" where
  "db_steps \<equiv> db_step\<^sup>*\<^sup>*"

section \<open>What is decided about a shop\<close>

definition scope_of :: "SettingsRow \<Rightarrow> float64 \<times> string \<times> LocationPair list" where
  "scope_of s = (cfg_StockPct s, cfg_ScopeMode s, cfg_Locations s)"

definition decision :: "StockMappingRow \<Rightarrow> string \<times> string \<times> float64 \<times> float64 option \<times> string option \<times> bool" where
  "decision m = (sm_SMLItemCode m, sm_SMLUnitCode m, sm_UnitFactor m, sm_ManualUnitFactor m, sm_AliasID m, sm_Excluded m)"

definition decisions where
  "decisions db shop = map (\<lambda>m. (mappingKey m, decision m)) (filter (\<lambda>m. sm_ShopID m = shop) (sdb_mappings db))"

definition tracks :: "StockDB \<Rightarrow> StockDB \<Rightarrow> bool" where
  "tracks db db' \<longleftrightarrow> (\<forall>shop s. stockSettings db shop = Some s \<longrightarrow>
     (\<exists>s'. stockSettings db' shop = Some s' \<and> srow_ConfigVersion s \<le> srow_ConfigVersion s'
       \<and> (srow_ConfigVersion s = srow_ConfigVersion s' \<longrightarrow> scope_of s' = scope_of s \<and> decisions db' shop = decisions db shop)))"

definition ready_row :: "SettingsRow \<Rightarrow> bool" where
  "ready_row s \<longleftrightarrow> (cfg_Enabled s \<longrightarrow> \<not> cfg_DryRunRequired s \<and> trim_space (cfg_PausedReason s) = [])"

definition ready :: "StockDB \<Rightarrow> bool" where
  "ready db \<longleftrightarrow> (\<forall>shop s. stockSettings db shop = Some s \<longrightarrow> ready_row s)"

definition same_run :: "StockRunRow \<Rightarrow> StockRunRow \<Rightarrow> bool" where
  "same_run r r' \<longleftrightarrow> srun_ID r' = srun_ID r \<and> srun_ShopID r' = srun_ShopID r \<and> srun_ConfigVersion r' = srun_ConfigVersion r"

definition runs_kept :: "StockDB \<Rightarrow> StockDB \<Rightarrow> bool" where
  "runs_kept db db' \<longleftrightarrow> (\<forall>i r. runRow db i = Some r \<longrightarrow> (\<exists>r'. runRow db' i = Some r' \<and> same_run r r'))"

text \<open>All three together.\<close>

definition safe_step :: "StockDB \<Rightarrow> StockDB \<Rightarrow> bool" where
  "safe_step db db' \<longleftrightarrow> tracks db db' \<and> runs_kept db db' \<and> (ready db \<longrightarrow> ready db')"

named_theorems safe

lemma tracks_refl: "tracks db db" by (simp add: tracks_def)

lemma tracks_trans: "tracks a b \<Longrightarrow> tracks b c \<Longrightarrow> tracks a c"
proof (unfold tracks_def, intro allI impI)
  fix shop s
  assume a: "\<forall>shop s. stockSettings a shop = Some s \<longrightarrow> (\<exists>s'. stockSettings b shop = Some s' \<and> srow_ConfigVersion s \<le> srow_ConfigVersion s'
      \<and> (srow_ConfigVersion s = srow_ConfigVersion s' \<longrightarrow> scope_of s' = scope_of s \<and> decisions b shop = decisions a shop))"
    and b: "\<forall>shop s. stockSettings b shop = Some s \<longrightarrow> (\<exists>s'. stockSettings c shop = Some s' \<and> srow_ConfigVersion s \<le> srow_ConfigVersion s'
      \<and> (srow_ConfigVersion s = srow_ConfigVersion s' \<longrightarrow> scope_of s' = scope_of s \<and> decisions c shop = decisions b shop))"
    and s: "stockSettings a shop = Some s"
  obtain t where t: "stockSettings b shop = Some t" "srow_ConfigVersion s \<le> srow_ConfigVersion t"
    "srow_ConfigVersion s = srow_ConfigVersion t \<longrightarrow> scope_of t = scope_of s \<and> decisions b shop = decisions a shop"
    using a s by blast
  obtain u where u: "stockSettings c shop = Some u" "srow_ConfigVersion t \<le> srow_ConfigVersion u"
    "srow_ConfigVersion t = srow_ConfigVersion u \<longrightarrow> scope_of u = scope_of t \<and> decisions c shop = decisions b shop"
    using b t(1) by blast
  have "scope_of u = scope_of s \<and> decisions c shop = decisions a shop" if "srow_ConfigVersion s = srow_ConfigVersion u"
    using that t(2,3) u(2,3) by simp
  then show "\<exists>s'. stockSettings c shop = Some s' \<and> srow_ConfigVersion s \<le> srow_ConfigVersion s'
      \<and> (srow_ConfigVersion s = srow_ConfigVersion s' \<longrightarrow> scope_of s' = scope_of s \<and> decisions c shop = decisions a shop)"
    using u t(2) by auto
qed

lemma runs_kept_refl: "runs_kept db db" by (auto simp: runs_kept_def same_run_def)

lemma same_run_trans: "same_run r s \<Longrightarrow> same_run s t \<Longrightarrow> same_run r t"
  by (simp add: same_run_def)

lemma runs_kept_trans:
  assumes "runs_kept a b" "runs_kept b c"
  shows "runs_kept a c"
  unfolding runs_kept_def
proof (intro allI impI)
  fix i r assume "runRow a i = Some r"
  then obtain s where s: "runRow b i = Some s" "same_run r s" using assms(1) unfolding runs_kept_def by blast
  then obtain t where t: "runRow c i = Some t" "same_run s t" using assms(2) unfolding runs_kept_def by blast
  then show "\<exists>r'. runRow c i = Some r' \<and> same_run r r'" using same_run_trans [OF s(2) t(2)] by blast
qed

lemma safe_refl [safe]: "safe_step db db"
  by (simp add: safe_step_def tracks_refl runs_kept_refl)

lemma safe_trans:
  assumes "safe_step a b" "safe_step b c"
  shows "safe_step a c"
proof -
  have "tracks a b" "tracks b c" "runs_kept a b" "runs_kept b c" "ready a \<Longrightarrow> ready c"
    using assms by (simp_all add: safe_step_def)
  then show ?thesis unfolding safe_step_def using tracks_trans [of a b c] runs_kept_trans [of a b c] by blast
qed

section \<open>Elementary changes\<close>

lemma stockSettings_cong: "sdb_settings db' = sdb_settings db \<Longrightarrow> stockSettings db' = stockSettings db"
  by (simp add: stockSettings_def fun_eq_iff)

lemma runRow_cong: "sdb_runs db' = sdb_runs db \<Longrightarrow> runRow db' = runRow db"
  by (simp add: runRow_def fun_eq_iff)

text \<open>Tables that nothing here depends on.\<close>

lemma safe_other:
  assumes "sdb_settings db' = sdb_settings db" "sdb_runs db' = sdb_runs db" "\<And>shop. decisions db' shop = decisions db shop"
  shows "safe_step db db'"
  using stockSettings_cong [OF assms(1)] runRow_cong [OF assms(2)] assms
  by (simp add: safe_step_def tracks_def runs_kept_def same_run_def ready_def)

lemma decisions_cong: "sdb_mappings db' = sdb_mappings db \<Longrightarrow> decisions db' shop = decisions db shop"
  by (simp add: decisions_def)

lemma decisions_map:
  assumes "\<And>m. mappingKey (f m) = mappingKey m" "\<And>m. sm_ShopID m = shop \<Longrightarrow> decision (f m) = decision m"
  shows "map (\<lambda>m. (mappingKey m, decision m)) (filter (\<lambda>m. sm_ShopID m = shop) (map f ms))
    = map (\<lambda>m. (mappingKey m, decision m)) (filter (\<lambda>m. sm_ShopID m = shop) ms)"
proof -
  have "sm_ShopID (f m) = sm_ShopID m" for m using assms(1) [of m] by (simp add: mappingKey_def)
  then show ?thesis using assms by (induction ms) auto
qed

lemma decisions_update:
  assumes "\<And>m. mappingKey (f m) = mappingKey m" "\<And>m. sm_ShopID m = shop \<Longrightarrow> P m \<Longrightarrow> decision (f m) = decision m"
  shows "decisions (updateMappings P f db) shop = decisions db shop"
  unfolding decisions_def updateMappings_def using assms by (auto intro!: decisions_map)

lemma updateMappings_other [simp]:
  "sdb_settings (updateMappings P f db) = sdb_settings db" "sdb_runs (updateMappings P f db) = sdb_runs db"
  by (simp_all add: updateMappings_def)

lemma safe_updateMappings [safe]:
  assumes "\<And>m. mappingKey (f m) = mappingKey m \<and> decision (f m) = decision m"
  shows "safe_step db (updateMappings P f db)"
  using assms by (intro safe_other decisions_update) simp_all

lemma updateShop_other [simp]:
  "sdb_mappings (updateShop shop f db) = sdb_mappings db" "sdb_runs (updateShop shop f db) = sdb_runs db"
  "decisions (updateShop shop f db) shop' = decisions db shop'"
  by (simp_all add: updateShop_def decisions_def)

lemma stockSettings_updateShop:
  assumes "\<And>s. cfg_ShopID (f s) = cfg_ShopID s"
  shows "stockSettings (updateShop shop f db) shop'
    = (if shop' = shop then map_option f (stockSettings db shop) else stockSettings db shop')"
  using assms unfolding stockSettings_def updateShop_def by (simp add: lookup_by_update)

text \<open>The settings of a shop may change as long as the version grows, or the scope stays; the decisions
  about its products only if the version grows.\<close>

lemma safe_updateShop_after:
  assumes "\<And>s. cfg_ShopID (f s) = cfg_ShopID s"
    and "\<And>s. stockSettings db shop = Some s \<Longrightarrow> ready_row s \<Longrightarrow> ready_row (f s)"
    and "\<And>s. srow_ConfigVersion s < srow_ConfigVersion (f s)"
    and "sdb_settings db1 = sdb_settings db" "sdb_runs db1 = sdb_runs db"
    and "\<And>shop'. shop' \<noteq> shop \<Longrightarrow> decisions db1 shop' = decisions db shop'"
  shows "safe_step db (updateShop shop f db1)"
proof -
  have "tracks db (updateShop shop f db1)"
    unfolding tracks_def
  proof (intro allI impI)
    fix shop' s assume s: "stockSettings db shop' = Some s"
    show "\<exists>s'. stockSettings (updateShop shop f db1) shop' = Some s' \<and> srow_ConfigVersion s \<le> srow_ConfigVersion s'
      \<and> (srow_ConfigVersion s = srow_ConfigVersion s' \<longrightarrow>
         scope_of s' = scope_of s \<and> decisions (updateShop shop f db1) shop' = decisions db shop')"
      unfolding stockSettings_updateShop [OF assms(1)] stockSettings_cong [OF assms(4)]
      using s assms(3) [of s] assms(6) by (cases "shop' = shop") auto
  qed
  moreover have "ready db \<Longrightarrow> ready (updateShop shop f db1)"
    using assms(2) unfolding ready_def stockSettings_updateShop [OF assms(1)] stockSettings_cong [OF assms(4)]
    by (auto split: if_splits)
  moreover have "runRow (updateShop shop f db1) = runRow db" by (rule runRow_cong) (simp add: assms(5))
  ultimately show ?thesis by (simp add: safe_step_def runs_kept_def same_run_def)
qed

lemma safe_updateShop_bump [safe]:
  assumes "\<And>s. cfg_ShopID (f s) = cfg_ShopID s" "\<And>s. ready_row s \<Longrightarrow> ready_row (f s)"
    and "\<And>s. srow_ConfigVersion s < srow_ConfigVersion (f s)"
  shows "safe_step db (updateShop shop f db)"
  by (rule safe_updateShop_after) (use assms in simp_all)

lemma safe_updateShop [safe]:
  assumes "\<And>s. cfg_ShopID (f s) = cfg_ShopID s" "\<And>s. ready_row s \<Longrightarrow> ready_row (f s)"
    and "\<And>s. srow_ConfigVersion (f s) = srow_ConfigVersion s" "\<And>s. scope_of (f s) = scope_of s"
  shows "safe_step db (updateShop shop f db)"
proof -
  have "tracks db (updateShop shop f db)"
    unfolding tracks_def stockSettings_updateShop [OF assms(1)] using assms(3,4) by auto
  moreover have "ready db \<Longrightarrow> ready (updateShop shop f db)"
    using assms(2) unfolding ready_def stockSettings_updateShop [OF assms(1)] by (auto split: if_splits)
  ultimately show ?thesis by (simp add: safe_step_def runs_kept_def same_run_def runRow_def)
qed

text \<open>Runs.\<close>

lemma safe_runs:
  assumes "sdb_settings db' = sdb_settings db" "sdb_mappings db' = sdb_mappings db" "runs_kept db db'"
  shows "safe_step db db'"
  using stockSettings_cong [OF assms(1)] decisions_cong [OF assms(2)] assms
  by (simp add: safe_step_def tracks_def ready_def)

lemma safe_updateRunRow [safe]:
  assumes "\<And>r. same_run r (f r)"
  shows "safe_step db (updateRunRow i f db)"
proof (rule safe_runs)
  have "srun_ID (f r) = srun_ID r" for r using assms [of r] by (simp add: same_run_def)
  then have "runRow (updateRunRow i f db) j = (if j = i then map_option f (runRow db i) else runRow db j)" for j
    unfolding runRow_def updateRunRow_def by (simp add: lookup_by_update)
  then show "runs_kept db (updateRunRow i f db)" using assms by (auto simp: runs_kept_def same_run_def)
qed (simp_all add: updateRunRow_def)

lemma runRow_append: "runRow (db\<lparr>sdb_runs := sdb_runs db @ [r]\<rparr>) i
    = (case runRow db i of None \<Rightarrow> if srun_ID r = i then Some r else None | Some q \<Rightarrow> Some q)"
  unfolding runRow_def by (simp add: lookup_by_snoc)

lemma safe_insertStockRun: "insertStockRun r db = Inr db' \<Longrightarrow> safe_step db db'"
  by (rule safe_runs) (auto simp: insertStockRun_def runs_kept_def same_run_def runRow_append split: if_splits)

section \<open>The operations\<close>

lemma ready_requireDryRun [simp]: "ready_row (requireDryRun now s)"
  by (simp add: ready_row_def requireDryRun_def)

lemma requireDryRun_fields [simp]:
  "cfg_ShopID (requireDryRun now s) = cfg_ShopID s" "srow_ConfigVersion s < srow_ConfigVersion (requireDryRun now s)"
  by (simp_all add: requireDryRun_def)

lemma safe_SetDryRunRequired [safe]: "safe_step db (SetDryRunRequired now db shop)"
  unfolding SetDryRunRequired_def by (rule safe_updateShop_bump) simp_all

lemma safe_dry_run_after:
  assumes "sdb_settings db1 = sdb_settings db" "sdb_runs db1 = sdb_runs db"
    and "\<And>shop'. shop' \<noteq> shop \<Longrightarrow> decisions db1 shop' = decisions db shop'"
  shows "safe_step db (SetDryRunRequired now db1 shop)"
  unfolding SetDryRunRequired_def by (rule safe_updateShop_after) (use assms in simp_all)

lemma safe_UpdateSettings: "safe_step db (fst (UpdateSettings now db shop request))"
proof (cases "GetSettings db shop")
  case (Inr current)
  let ?c = "cfg_StockPct current \<noteq> upd_StockPct request \<or> cfg_ScopeMode current \<noteq> upd_ScopeMode request
      \<or> cfg_Locations current \<noteq> upd_Locations request"
  obtain s where s: "stockSettings db shop = Some s" "current = Settings.truncate s"
    using Inr by (auto simp: GetSettings_def split: option.splits if_splits)
  have c: "cfg_DryRunRequired current = cfg_DryRunRequired s" "cfg_PausedReason current = cfg_PausedReason s"
    using s(2) by (simp_all add: Settings.truncate_def)
  show ?thesis
  proof (cases "upd_Enabled request \<and> (cfg_DryRunRequired current \<or> ?c \<or> trim_space (cfg_PausedReason current) \<noteq> [])")
    case True
    then show ?thesis by (simp add: UpdateSettings_def Inr safe_refl)
  next
    case False
    then have "upd_Enabled request \<Longrightarrow> \<not> cfg_DryRunRequired s \<and> \<not> ?c \<and> trim_space (cfg_PausedReason s) = []"
      unfolding c by blast
    then show ?thesis
      unfolding UpdateSettings_def Inr sum.case Let_def if_not_P [OF False] fst_conv
      by (intro safe_updateShop_after) (use s(1) in \<open>auto simp: ready_row_def\<close>)
  qed
qed (simp add: UpdateSettings_def safe_refl)

text \<open>Changes of other tables.\<close>

lemma safe_tables:
  assumes "sdb_settings db' = sdb_settings db" "sdb_runs db' = sdb_runs db" "sdb_mappings db' = sdb_mappings db"
  shows "safe_step db db'"
  by (rule safe_other) (use assms decisions_cong in auto)

lemma safe_leases:
  "safe_step db (fst (AcquireLease now db shop owner d))" "safe_step db (fst (AcquireFencedLease now db shop owner d))"
  "safe_step db (fst (HeartbeatFencedLease now db shop owner token d))" "safe_step db (ReleaseLease db shop owner)"
  "safe_step db (fst (AcquireCatalogLease now db owner d))" "safe_step db (ReleaseCatalogLease db owner)"
  by (rule safe_tables; simp add: AcquireLease_def AcquireFencedLease_def HeartbeatFencedLease_def ReleaseLease_def
      AcquireCatalogLease_def ReleaseCatalogLease_def updateLease_def split: option.splits prod.splits)+

lemma safe_policies:
  "safe_step db (fst (ClaimPolicyJob now db owner d))" "safe_step db (FailPolicyJob now db job unknown message)"
  "AttachPolicyFencingToken db i owner token = Inr db' \<Longrightarrow> safe_step db db'"
  by (rule safe_tables; auto simp: ClaimPolicyJob_def FailPolicyJob_def AttachPolicyFencingToken_def updatePolicy_def Let_def
      split: option.splits list.splits)+

lemma safe_attempt [safe]: "safe_step db (SaveSyncAttempt db i shop line result reason message request)"
  by (rule safe_tables) (simp_all add: SaveSyncAttempt_def)

lemma safe_runs_made:
  "CreateRun i now db shop kind trigger asOf = Inr db' \<Longrightarrow> safe_step db db'"
  "QueuePreviewRun i now db shop asOf = Inr db' \<Longrightarrow> safe_step db db'"
  "CreateSyncRun i now db shop trigger asOf owner token d = Inr db' \<Longrightarrow> safe_step db db'"
  by (auto simp: CreateRun_def QueuePreviewRun_def CreateSyncRun_def Let_def split: option.splits intro: safe_insertStockRun)

lemma same_run_finished [simp]: "same_run r (finishedRun now status result errors message r)"
  by (simp add: same_run_def finishedRun_def Let_def)

lemma safe_runs_changed:
  "safe_step db (fst (ClaimQueuedPreview now db owner d))" "safe_step db (FinishRun now db i status result errors message)"
  "FinishLeasedPreviewRun now db i owner status result errors message = Inr db' \<Longrightarrow> safe_step db db'"
  "UpdatePreviewRunProgress db i owner processed = Inr db' \<Longrightarrow> safe_step db db'"
  "safe_step db (fst (HeartbeatPreviewRun now db i owner d))" "safe_step db (ReleasePreviewRun db i owner)"
  "AttachPreviewFencingToken db i owner token = Inr db' \<Longrightarrow> safe_step db db'"
  by (auto simp: ClaimQueuedPreview_def FinishRun_def FinishLeasedPreviewRun_def UpdatePreviewRunProgress_def
      HeartbeatPreviewRun_def ReleasePreviewRun_def AttachPreviewFencingToken_def Let_def same_run_def finishedRun_def
      intro!: safe_refl safe_updateRunRow split: option.splits list.splits if_splits)

lemma safe_renew: "safe_step db (fst (RenewAndValidateLiveWrite now db i shop owner token d))"
proof -
  have l: "safe_step db (updateLease shop f db)" for f by (rule safe_tables) (simp_all add: updateLease_def)
  show ?thesis
    unfolding RenewAndValidateLiveWrite_def Let_def
    by (auto simp: same_run_def intro: safe_refl l safe_trans [OF l safe_updateRunRow])
qed

text \<open>Mappings.\<close>

lemma safe_markDuplicates [safe]: "safe_step db (markDuplicateMappings now db)"
  unfolding markDuplicateMappings_def Let_def
  by (rule safe_trans [OF safe_trans [OF safe_updateMappings safe_updateMappings] safe_updateMappings])
    (simp_all add: mappingKey_def decision_def)

lemma safe_markLine: "safe_step db (markLine shop db line)"
proof (rule safe_other)
  show "decisions (markLine shop db line) shop' = decisions db shop'" for shop'
    unfolding decisions_def markLine_def by (simp, rule decisions_map) (simp_all add: mappingKey_def decision_def)
qed (simp_all add: markLine_def)

lemma safe_foldl:
  assumes "\<And>db x. safe_step db (f db x)"
  shows "safe_step db (foldl f db xs)"
proof (induction xs arbitrary: db)
  case (Cons x xs)
  show ?case unfolding foldl.simps by (rule safe_trans [OF assms Cons.IH])
qed (simp add: safe_refl)

lemma safe_MarkSyncSuccess: "safe_step db (MarkSyncSuccess now db shop lines)"
  unfolding MarkSyncSuccess_def
  by (rule safe_trans [OF safe_foldl safe_updateShop]) (simp_all add: safe_markLine ready_row_def scope_of_def)

lemma safe_savePreviewLine: "safe_step db (savePreviewLine i shop db line)"
proof -
  define f where "f m = m\<lparr>sm_LastPreviewTarget := Some (line_TargetStock line),
      sm_SetDefinitionHash := (if line_ItemType line = 3 \<and> \<not> line_Blocked line
        then line_SetDefinitionHash line else sm_SetDefinitionHash m)\<rparr>" for m :: StockMappingRow
  define db1 where "db1 = updateMappings (forProduct shop line) f db"
  have 1: "safe_step db db1"
    unfolding db1_def by (rule safe_updateMappings) (simp add: f_def mappingKey_def decision_def)
  have "savePreviewLine i shop db line = (if \<not> line_Changed line \<and> \<not> line_Blocked line then db1
      else if line_Blocked line
      then SaveSyncAttempt db1 i shop line ''blocked'' (firstWarning (line_WarningCodes line)) (join (line_WarningCodes line) '','') []
      else SaveSyncAttempt db1 i shop line ''changed'' [] [] [])"
    unfolding savePreviewLine_def Let_def db1_def f_def updateMappings_def by (rule refl)
  then show ?thesis using 1 safe_trans [OF 1 safe_attempt] by simp
qed

lemma safe_savePreview:
  assumes "savePreview now db shop result owner = Inr db'"
  shows "safe_step db db'"
proof -
  obtain db1 where l: "saveStockRunLinesTx db result = Inr db1"
    using assms by (auto simp: savePreview_def and_then_eq_Inr)
  define db2 where "db2 = db1\<lparr>sdb_attempts := filter (\<lambda>a. \<not> (sa_RunID a = res_RunID result
      \<and> sa_Result a \<in> set [''changed'', ''blocked''])) (sdb_attempts db1)\<rparr>"
  have 2: "safe_step db db2"
    by (rule safe_tables) (use l in \<open>auto simp: db2_def saveStockRunLinesTx_def split: if_splits\<close>)
  define db3 where "db3 = foldl (savePreviewLine (res_RunID result) shop) db2 (res_Lines result)"
  have 3: "safe_step db2 db3" unfolding db3_def by (rule safe_foldl) (rule safe_savePreviewLine)
  have "safe_step db3 db'"
  proof (cases "res_CircuitBreaker result = []")
    case True
    then have "db' = updateShop shop (\<lambda>s. s\<lparr>cfg_DryRunRequired := False, cfg_PausedReason := [],
        cfg_LastPreviewAt := Some now, cfg_LastError := [], cfg_UpdatedAt := now\<rparr>) db3"
      using assms l by (auto simp: savePreview_def and_then_eq_Inr Let_def db3_def db2_def)
    then show ?thesis by (auto intro!: safe_updateShop simp: ready_row_def scope_of_def trim_space_Nil)
  next
    case False
    then have "db' = updateShop shop (\<lambda>s. s\<lparr>cfg_Enabled := False, cfg_DryRunRequired := True,
        cfg_PausedReason := res_CircuitBreaker result, cfg_LastPreviewAt := Some now, cfg_UpdatedAt := now\<rparr>) db3"
      using assms l by (auto simp: savePreview_def and_then_eq_Inr Let_def db3_def db2_def)
    then show ?thesis by (auto intro!: safe_updateShop simp: ready_row_def scope_of_def)
  qed
  with 2 3 show ?thesis by (blast intro: safe_trans)
qed

lemma safe_CompletePolicyZeroing: "CompletePolicyZeroing db job token = Inr db' \<Longrightarrow> safe_step db db'"
  by (auto simp: CompletePolicyZeroing_def assignColumns_def productColumns_def Let_def split: option.splits if_splits)

lemma safe_poolRow: "poolRow now shop request db m = Inr db' \<Longrightarrow> safe_step db db'"
  by (auto simp: poolRow_def and_then_eq_Inr mappingKey_def decision_def intro!: safe_updateMappings split: option.splits if_splits)

lemma safe_poolRows: "poolRows now shop request ms db = Inr db' \<Longrightarrow> safe_step db db'"
proof (induction ms arbitrary: db)
  case (Cons m ms)
  then obtain db1 where 1: "poolRow now shop request db m = Inr db1" "poolRows now shop request ms db1 = Inr db'"
    by (auto simp: and_then_eq_Inr)
  show ?case by (rule safe_trans [OF safe_poolRow [OF 1(1)] Cons.IH [OF 1(2)]])
qed (simp add: safe_refl)

lemma safe_UpdateSharedPool: "UpdateSharedPool now db shop request = Inr db' \<Longrightarrow> safe_step db db'"
  by (auto simp: UpdateSharedPool_def Let_def and_then_eq_Inr split: if_splits
      intro: safe_trans [OF safe_poolRows safe_trans [OF safe_markDuplicates safe_SetDryRunRequired]])

lemma safe_UpdateMapping: "UpdateMapping now db shop item model request = Inr db' \<Longrightarrow> safe_step db db'"
proof -
  assume a: "UpdateMapping now db shop item model request = Inr db'"
  let ?f = "\<lambda>x. x\<lparr>sm_Excluded := True, sm_SharedPoolEnabled := False, sm_PoolAllocationPct := 100, sm_UpdatedAt := now\<rparr>"
  let ?db1 = "updateMappings (\<lambda>x. mappingKey x = (shop, item, model)) ?f db"
  have "safe_step db (SetDryRunRequired now ?db1 shop)"
  proof (rule safe_dry_run_after)
    show "decisions ?db1 shop' = decisions db shop'" if "shop' \<noteq> shop" for shop'
      by (rule decisions_update) (use that in \<open>auto simp: mappingKey_def\<close>)
  qed simp_all
  moreover have "db' = markDuplicateMappings now (SetDryRunRequired now ?db1 shop)"
    using a by (auto simp: UpdateMapping_def RefreshDuplicateMappings_def and_then_eq_Inr split: option.splits if_splits)
  ultimately show ?thesis using safe_trans safe_markDuplicates by blast
qed

lemma safe_refreshManual: "safe_step db (refreshManual now items full db m)"
proof -
  obtain factor warnings where r: "manualRefresh items m = (factor, warnings)" by force
  let ?stale = "\<lambda>r. mappingKey r = mappingKey m \<and> (sm_UnitFactor r \<noteq> factor \<or> sm_WarningCodes r \<noteq> warnings)"
  let ?f = "\<lambda>r. r\<lparr>sm_UnitFactor := factor, sm_WarningCodes := warnings, sm_UpdatedAt := now\<rparr>"
  have "safe_step db (SetDryRunRequired now (updateMappings ?stale ?f db) (sm_ShopID m))"
  proof (rule safe_dry_run_after)
    show "decisions (updateMappings ?stale ?f db) shop' = decisions db shop'" if "shop' \<noteq> sm_ShopID m" for shop'
      by (rule decisions_update) (use that in \<open>auto simp: mappingKey_def\<close>)
  qed simp_all
  then show ?thesis by (simp add: refreshManual_def r Let_def safe_refl)
qed

lemma safe_RefreshManualMappings: "safe_step db (RefreshManualMappings now db items full)"
  unfolding RefreshManualMappings_def by (rule safe_foldl) (rule safe_refreshManual)

lemma safe_storeSMLCatalog: "safe_step db (storeSMLCatalog now db items replace)"
proof -
  define db1 where "db1 = db\<lparr>sdb_catalog := write_all upsertCatalog (map catalogRow items)
      (if replace then map (\<lambda>c. c\<lparr>cat_Active := False\<rparr>) (sdb_catalog db) else sdb_catalog db)\<rparr>"
  define f where "f s = (if setChanged db1 (cfg_ShopID s) then (requireDryRun now s)\<lparr>cfg_PausedReason := ''set_definition_changed'',
      cfg_LastError := ''set definition changed''\<rparr> else s)" for s
  have db': "storeSMLCatalog now db items replace = db1\<lparr>sdb_settings := map f (sdb_settings db1)\<rparr>"
    unfolding storeSMLCatalog_def Let_def db1_def f_def by simp
  let ?db' = "db1\<lparr>sdb_settings := map f (sdb_settings db1)\<rparr>"
  have st: "stockSettings ?db' shop = map_option f (stockSettings db shop)" for shop
    unfolding stockSettings_def by (simp add: lookup_by_map f_def db1_def)
  have f: "srow_ConfigVersion s < srow_ConfigVersion (f s) \<or> f s = s" "ready_row s \<Longrightarrow> ready_row (f s)" for s
    by (simp_all add: f_def requireDryRun_def ready_row_def)
  have "tracks db ?db'"
    unfolding tracks_def st
  proof (intro allI impI)
    fix shop s assume s: "stockSettings db shop = Some s"
    have d: "decisions ?db' shop = decisions db shop" by (simp add: decisions_def db1_def)
    show "\<exists>s'. map_option f (stockSettings db shop) = Some s' \<and> srow_ConfigVersion s \<le> srow_ConfigVersion s'
        \<and> (srow_ConfigVersion s = srow_ConfigVersion s' \<longrightarrow> scope_of s' = scope_of s \<and> decisions ?db' shop = decisions db shop)"
      unfolding s d using f(1) [of s] by auto
  qed
  moreover have "runs_kept db ?db'"
  proof -
    have "runRow ?db' = runRow db" by (rule runRow_cong) (simp add: db1_def)
    then show ?thesis by (simp add: runs_kept_def same_run_def)
  qed
  moreover have "ready db \<Longrightarrow> ready ?db'" unfolding ready_def st using f(2) by blast
  ultimately show ?thesis unfolding db' safe_step_def by blast
qed

lemma decisions_importProduct:
  assumes "shop' \<noteq> shop"
  shows "decisions (importProduct now shop index db p) shop' = decisions db shop'"
proof -
  let ?new = "importedMapping now shop p (importedMatch db shop index p)"
  have n: "sm_ShopID ?new = shop" by (simp add: importedMapping_def case_prod_unfold Let_def)
  have "mappingKey (if mappingKey r = mappingKey ?new then mergeMapping ?new r else r) = mappingKey r" for r
    by (simp add: mergeMapping_def mappingKey_def)
  moreover have "decision (if mappingKey r = mappingKey ?new then mergeMapping ?new r else r) = decision r" if "sm_ShopID r = shop'" for r
    using that n assms by (auto simp: mappingKey_def)
  ultimately have "map (\<lambda>m. (mappingKey m, decision m)) (filter (\<lambda>m. sm_ShopID m = shop')
      (map (\<lambda>r. if mappingKey r = mappingKey ?new then mergeMapping ?new r else r) (sdb_mappings db))) = decisions db shop'"
    unfolding decisions_def by (rule decisions_map)
  then show ?thesis
    using n assms by (auto simp: importProduct_def upsertMapping_def upsert_row_def decisions_def)
qed

lemma importProducts_kept:
  "sdb_settings (foldl (importProduct now shop index) db ps) = sdb_settings db"
  "sdb_runs (foldl (importProduct now shop index) db ps) = sdb_runs db"
  "shop' \<noteq> shop \<Longrightarrow> decisions (foldl (importProduct now shop index) db ps) shop' = decisions db shop'"
  by (induction ps arbitrary: db) (simp_all add: decisions_importProduct, simp_all add: importProduct_def)

lemma markDuplicates_kept:
  "sdb_settings (markDuplicateMappings now db) = sdb_settings db" "sdb_runs (markDuplicateMappings now db) = sdb_runs db"
  "decisions (markDuplicateMappings now db) shop = decisions db shop"
proof -
  show "sdb_settings (markDuplicateMappings now db) = sdb_settings db" "sdb_runs (markDuplicateMappings now db) = sdb_runs db"
    by (simp_all add: markDuplicateMappings_def Let_def)
  show "decisions (markDuplicateMappings now db) shop = decisions db shop"
    unfolding markDuplicateMappings_def Let_def
    by (subst decisions_update, simp add: mappingKey_def, simp add: decision_def)+ simp
qed

lemma safe_storeShopeeProducts: "safe_step db (storeShopeeProducts now db shop products index replace)"
proof -
  define db1 where "db1 = (if replace then db\<lparr>sdb_products := map (\<lambda>p. if sp_ShopID p = shop then p\<lparr>sp_Active := False\<rparr> else p)
      (sdb_products db)\<rparr> else db)"
  define db2 where "db2 = markDuplicateMappings now (foldl (importProduct now shop index) db1 products)"
  have 1: "sdb_settings db1 = sdb_settings db" "sdb_runs db1 = sdb_runs db" "decisions db1 shop' = decisions db shop'" for shop'
    by (simp_all add: db1_def decisions_def)
  have 2: "sdb_settings db2 = sdb_settings db" "sdb_runs db2 = sdb_runs db"
    "shop' \<noteq> shop \<Longrightarrow> decisions db2 shop' = decisions db shop'" for shop'
    by (simp_all add: db2_def markDuplicates_kept importProducts_kept 1)
  let ?off = "\<lambda>s. s\<lparr>cfg_Enabled := False, cfg_DryRunRequired := True, cfg_UpdatedAt := now\<rparr>"
  let ?bump = "\<lambda>s. s\<lparr>srow_ConfigVersion := srow_ConfigVersion s + 1, cfg_UpdatedAt := now\<rparr>"
  have "updateShop shop ?bump (updateShop shop ?off db2) = updateShop shop (\<lambda>s. ?bump (?off s)) db2"
    by (simp add: updateShop_def comp_def)
  then have "storeShopeeProducts now db shop products index replace
      = updateShop shop (if uncheckedSet db2 shop then \<lambda>s. ?bump (?off s) else ?bump) db2"
    unfolding storeShopeeProducts_def Let_def db1_def [symmetric] db2_def [symmetric] by simp
  then show ?thesis
    by (simp only:, intro safe_updateShop_after) (use 2 in \<open>auto simp: ready_row_def\<close>)
qed

lemma safe_PrepareReadyMappings: "PrepareReadyMappings now db shop = Inr (db', prepared) \<Longrightarrow> safe_step db db'"
proof -
  assume a: "PrepareReadyMappings now db shop = Inr (db', prepared)"
  define db1 where "db1 = db\<lparr>sdb_aliases := map (\<lambda>a. if sal_ID a \<in> set (readyAliases db shop) \<and> sal_StockPolicy a = ''blocked''
      then a\<lparr>sal_StockPolicy := ''managed'', sal_MappingRevision := sal_MappingRevision a + 1\<rparr> else a) (sdb_aliases db)\<rparr>"
  define given where "given = concat (map (shares db1 shop) (poolCodes db1 shop))"
  define db2 where "db2 = updateMappings (\<lambda>m. map_of given (mappingKey m) \<noteq> None)
      (\<lambda>m. m\<lparr>sm_SharedPoolEnabled := True, sm_PoolAllocationPct := the (map_of given (mappingKey m)), sm_UpdatedAt := now\<rparr>) db1"
  have 1: "safe_step db db1" by (rule safe_tables) (simp_all add: db1_def)
  have 2: "safe_step db1 db2" unfolding db2_def by (rule safe_updateMappings) (simp add: mappingKey_def decision_def)
  have "db' = db2 \<or> db' = SetDryRunRequired now (markDuplicateMappings now db2) shop"
    using a unfolding PrepareReadyMappings_def Let_def db1_def [symmetric] given_def [symmetric] db2_def [symmetric]
    by (auto split: if_splits)
  then show ?thesis
    using safe_trans [OF 1 2] safe_trans [OF safe_markDuplicates safe_SetDryRunRequired] safe_trans by blast
qed

lemma db_step_safe: "db_step db db' \<Longrightarrow> safe_step db db'"
proof (induction rule: db_step.induct)
  case (set_paused db now shop reason message)
  then show ?case unfolding SetPaused_def by (rule safe_updateShop_bump) (simp_all add: ready_row_def)
next
  case (catalog_attempted db now shop message)
  then show ?case unfolding MarkCatalogAttempted_def by (rule safe_updateShop) (simp_all add: ready_row_def scope_of_def)
next
  case (catalog_synced db now shop full)
  then show ?case unfolding MarkCatalogSynced_def by (rule safe_updateShop) (simp_all add: ready_row_def scope_of_def)
next
  case (sync_checked db now shop message t)
  then show ?case unfolding RecordSyncChecked_def by (rule safe_updateShop) (simp_all add: ready_row_def scope_of_def)
next
  case (mark_duplicates db now)
  then show ?case unfolding RefreshDuplicateMappings_def by (rule safe_markDuplicates)
qed (rule safe_UpdateSettings safe_leases safe_runs_changed(1,2,5,6) safe_renew safe_attempt safe_MarkSyncSuccess
    safe_policies(1,2) safe_SetDryRunRequired safe_storeSMLCatalog safe_RefreshManualMappings safe_storeShopeeProducts
  | erule safe_runs_made safe_runs_changed(3,4,7) safe_savePreview safe_policies(3) safe_CompletePolicyZeroing
    safe_UpdateSharedPool safe_UpdateMapping safe_PrepareReadyMappings)+

lemma db_steps_safe: "db_steps db db' \<Longrightarrow> safe_step db db'"
proof (induction rule: rtranclp_induct)
  case (step y z)
  show ?case by (rule safe_trans [OF step.IH db_step_safe [OF step.hyps(2)]])
qed (rule safe_refl)

end
