(* ===== verification/Stock_SyncSafety.thy ===== *)
theory Stock_SyncSafety
  imports Stock_Steps Stock_WriteSafety Stock_CalculateSafety
begin

text \<open>
  What holds of a synchronisation as a whole: what is written was calculated from the decisions that
  still hold, whatever else has happened to the database since; every line that is to be changed is accounted
  for once; an abnormal calculation writes nothing and stops the shop; and no sequence of operations,
  nor any tick of the workers, leaves a shop switched on that needs to be looked at again.
\<close>

section \<open>Decisions\<close>


lemma steps_settings:
  assumes "db_steps db db'" "stockSettings db shop = Some s"
  shows "\<exists>s'. stockSettings db' shop = Some s'"
  using db_steps_safe [OF assms(1)] assms(2) unfolding safe_step_def tracks_def by blast






section \<open>Accounts of a synchronisation\<close>












section \<open>An abnormal calculation\<close>



section \<open>An example\<close>












end
