(* ===== verification/Stock_Reach.thy ===== *)
theory Stock_Reach
  imports Stock_SyncSafety
begin

text \<open>
  The service and its workers change the stock database only by the operations of the store: whatever
  they do, a run of a synchronisation, of a catalog, of a calculation or of a policy job, a whole tick of
  the scheduler, leads through a sequence of the steps of \<open>Stock_Steps\<close>, provided that what happens to the
  database during a call of Shopee or of the accounting system is such a sequence, too.
\<close>

section \<open>Reachable databases\<close>

definition reach :: "StockDB \<Rightarrow> 'w world \<Rightarrow> bool" where
  "reach db0 w \<longleftrightarrow> db_steps db0 (fst w)"

named_theorems reach


lemma reach_pair [simp]: "reach db0 (fst w, x) = reach db0 w" by (simp add: reach_def)


















section \<open>Writing\<close>

















section \<open>Calculating\<close>











section \<open>Catalogs\<close>








section \<open>Calculations and synchronisations\<close>













section \<open>Everything that the service does\<close>







end
