(* ===== verification/Spec2Isabelle.thy ===== *)
theory Spec2Isabelle
  imports Conversion TikTok_SnapshotList TikTok_ReconcileCover Stock_Logic SML_AttemptDocs Stock_RecalcSafety
    Stock_RecalcRounds Stock_CalculateSafety Stock_MappingSafety Stock_Reach
begin

text \<open>
  A verification development for Nexflow, a Go service that brings marketplace orders (Shopee,
  TikTok Shop, Lazada, LINE) into an SML accounting system. It models the Go code under
  \<open>src/backend/internal\<close>.

  The parts that are modelled, each in its own theories:

  \<^item> Quantities (\<open>marketplace/conversion.go\<close>): \<open>Conversion\<close>, over \<open>Go_Rat\<close>, which models what the
    code uses of \<open>math/big.Rat\<close> (\<open>SetString\<close>, \<open>FloatString\<close>, \<open>Num\<close>, \<open>Denom\<close>).
  \<^item> TikTok Shop orders (\<open>services/tiktokshop\<close>): \<open>TikTok_Orders\<close> is the typed order and the client's
    validation (\<open>order_client.go\<close>); \<open>TikTok_Snapshot\<close> builds a snapshot of an order from its details
    and its price detail and stores a batch (\<open>order_snapshot.go\<close>), \<open>TikTok_SnapshotList\<close> lists them;
    \<open>TikTok_Reconcile\<close> walks the pages of a window of updated orders (\<open>order_reconcile.go\<close>),
    \<open>TikTok_ReconcileStore\<close> keeps runs, leases and watermarks (\<open>order_reconcile_store.go\<close> and the
    constraints of migration 098), and \<open>TikTok_ReconcileCover\<close> refines that store to an abstract
    machine for one shop and runs the reconciler on it.
  \<^item> Shopee stock (\<open>services/shopeestock\<close>): \<open>Stock_Logic\<close> computes stock targets, exactly and in
    \<open>float64\<close> (\<open>Go_Float\<close>: rounding to the nearest double, ties to even), and checks the balances
    that SML reports (\<open>logic.go\<close>).

  How the model corresponds to the code. A struct is a record whose fields carry a prefix, an
  enumeration of strings is a string with the Go constants as definitions, a Go error is a value
  of an error datatype and a function \<open>(value, error)\<close> returns \<open>Inl error\<close> or \<open>Inr value\<close>; a nil pointer
  is \<open>None\<close>. Strings are byte strings (\<open>Go_Strings\<close>: \<open>strings.TrimSpace\<close> with the Unicode spaces in
  UTF-8, decimal numerals, case folding). Instants are integers of microseconds (\<open>Go_Time\<close>, with the
  wrap-around of \<open>time.Unix\<close> and the saturation of \<open>Time.Sub\<close>). A database table is a list of rows, a
  transaction a function that returns the new state or an error with the state unchanged, and the
  constraints of the migrations are part of the write; concurrent transactions are serialised by the
  row locks the code takes, so a history is a sequence of them. HTTP, JSON encoding, SHA-256, the
  clock and generated identifiers are parameters.

  The lemma groups. \<open>Prelude\<close> holds the chaining of fallible calls, the loop that rejects repetitions
  and stable insertion; \<open>Stores\<close> the contract of a table written by upsert as the locale
  \<open>keyed_table\<close>. The component theories prove what each operation does on every branch, then the
  properties C1 and following. The locales \<open>watermark_store\<close> and \<open>run_invariant\<close> state what the
  reconciler may assume of its store and are interpreted on the modelled one.

  Bounds. Loops are structural recursions on the list they range over, or on the page limit of
  ten; \<open>strip_factor\<close> has its own termination proof; no other fuel is used.

  Not modelled. The HTTP handlers, the repositories and services of the other marketplaces, the AI
  and e-mail services, the frontends and the deployment; within the modelled files, the HTTP exchange
  of the order client, contexts and timeouts, and database errors that the code only passes on.
\<close>

end
